(* ===== verification/Prelude.thy ===== *)
theory Prelude
  imports Main "HOL-Library.Sublist" "HOL-Library.Char_ord" "HOL-Library.List_Lexorder"
begin

text \<open>
  Shared vocabulary of the development: Go's byte strings, results with an error value,
  64-bit integers with the wrap-around written out, maps updated in place, and the generic
  lemmas on lists, options and arithmetic that several components use.
\<close>

section \<open>Types\<close>

text \<open>
  A Go \<open>string\<close> and a Go \<open>[]byte\<close> are both sequences of bytes; a HOL \<open>char\<close> is one byte
  (0 to 255), so both are \<open>char list\<close>. No Unicode is implied: a multi-byte rune is several
  elements, as in Go.
\<close>

type_synonym bytes = string

type_synonym ('e, 'a) result = "'e + 'a"

abbreviation Err :: "'e \<Rightarrow> ('e, 'a) result" where "Err \<equiv> Inl"
abbreviation Ok :: "'a \<Rightarrow> ('e, 'a) result" where "Ok \<equiv> Inr"

abbreviation ord :: "char \<Rightarrow> nat" where "ord c \<equiv> of_char c"
abbreviation chr :: "nat \<Rightarrow> char" where "chr n \<equiv> char_of n"

abbreviation LF :: char where "LF \<equiv> CHR 0x0A"
abbreviation CR :: char where "CR \<equiv> CHR 0x0D"
abbreviation SP :: char where "SP \<equiv> CHR 0x20"
abbreviation DQ :: char where "DQ \<equiv> CHR 0x22"
abbreviation BSL :: char where "BSL \<equiv> CHR 0x5C"

named_theorems codec_simps \<open>round-trip and length facts of the byte codecs\<close>
named_theorems frame_simps \<open>fields that an operation leaves unchanged\<close>
named_theorems stream_simps \<open>what the stream operations emit\<close>

section \<open>Bytes\<close>

lemma ord_less [simp]: "ord c < 256"
  by simp

lemma chr_ord [simp]: "chr (ord c) = c"
  by simp

lemma ord_chr [simp]: "n < 256 \<Longrightarrow> ord (chr n) = n"
  by simp

lemma ord_inject: "ord a = ord b \<longleftrightarrow> a = b"
  by (metis chr_ord)

text \<open>Literal characters from their codes.\<close>

lemma bit_one_zero: "bit (Suc 0) 0"
  by (simp add: bit_0)

lemmas char_eval = char_of_def bit_one_zero

section \<open>64-bit integers\<close>

text \<open>
  Go's \<open>int\<close>, \<open>int64\<close> and \<open>time.Duration\<close> are 64-bit two's complement. Sums, differences
  and products are computed on \<open>int\<close> and brought back into range by \<open>wrap64\<close>; since
  \<open>wrap64\<close> is a ring homomorphism modulo \<open>2 ^ 64\<close>, one application at the end of an
  expression equals one at every step.
\<close>

definition wrap64 :: "int \<Rightarrow> int" where
  "wrap64 x = (x + 2 ^ 63) mod 2 ^ 64 - 2 ^ 63"

definition int64_range :: "int \<Rightarrow> bool" where
  "int64_range x \<longleftrightarrow> - (2 ^ 63) \<le> x \<and> x < 2 ^ 63"

lemma wrap64_id: "int64_range x \<Longrightarrow> wrap64 x = x"
  by (simp add: wrap64_def int64_range_def)

lemma wrap64_range: "int64_range (wrap64 x)"
proof -
  have "0 \<le> (x + 2 ^ 63) mod (2 ^ 64)" "(x + 2 ^ 63) mod (2 ^ 64) < (2::int) ^ 64"
    by simp_all
  then show ?thesis by (simp add: wrap64_def int64_range_def)
qed

lemma wrap64_idem [simp]: "wrap64 (wrap64 x) = wrap64 x"
  by (simp add: wrap64_id wrap64_range)

section \<open>Options and results\<close>

fun opt_list :: "'a option \<Rightarrow> 'a list" where
  "opt_list None = []"
| "opt_list (Some x) = [x]"

fun map_result :: "('a \<Rightarrow> ('e, 'b) result) \<Rightarrow> 'a list \<Rightarrow> ('e, 'b list) result" where
  "map_result f [] = Ok []"
| "map_result f (x # xs) =
     (case f x of Err e \<Rightarrow> Err e
      | Ok y \<Rightarrow> (case map_result f xs of Err e \<Rightarrow> Err e | Ok ys \<Rightarrow> Ok (y # ys)))"

lemma bind_Ok_iff:
  "(case r of Err e \<Rightarrow> Err (g e) | Ok x \<Rightarrow> f x) = Ok y \<longleftrightarrow> (\<exists>x. r = Ok x \<and> f x = Ok y)"
  by (cases r) simp_all

fun map_option_list :: "('a \<Rightarrow> 'b option) \<Rightarrow> 'a list \<Rightarrow> 'b list option" where
  "map_option_list f [] = Some []"
| "map_option_list f (x # xs) =
     (case f x of None \<Rightarrow> None
      | Some y \<Rightarrow> map_option (\<lambda>ys. y # ys) (map_option_list f xs))"

lemma map_option_list_Some_iff:
  "map_option_list f xs = Some ys \<longleftrightarrow> list_all2 (\<lambda>x y. f x = Some y) xs ys"
proof (induction xs arbitrary: ys)
  case Nil
  then show ?case by auto
next
  case (Cons x xs)
  show ?case
    by (cases "f x"; cases ys) (auto simp: Cons.IH)
qed

lemma map_option_list_length: "map_option_list f xs = Some ys \<Longrightarrow> length ys = length xs"
  by (simp add: map_option_list_Some_iff list_all2_lengthD)

section \<open>Go maps\<close>

text \<open>
  A \<open>map[string]T\<close> whose iteration order matters to nobody is a HOL map; a map the code
  builds to serialise is an association list in insertion order, updated in place as Go's
  assignment does. Marshalling sorts the keys.
\<close>

fun map_set :: "'k \<Rightarrow> 'v \<Rightarrow> ('k \<times> 'v) list \<Rightarrow> ('k \<times> 'v) list" where
  "map_set k v [] = [(k, v)]"
| "map_set k v ((k', v') # m) = (if k = k' then (k, v) # m else (k', v') # map_set k v m)"

lemma map_of_map_set: "map_of (map_set k v m) = (map_of m)(k \<mapsto> v)"
  by (induction m) auto

lemma keys_map_set: "set (map fst (map_set k v m)) = insert k (set (map fst m))"
proof (induction k v m rule: map_set.induct)
  case (2 k v k' v' m)
  then show ?case by (cases "k = k'") (simp_all add: insert_commute)
qed simp

lemma distinct_map_set: "distinct (map fst m) \<Longrightarrow> distinct (map fst (map_set k v m))"
proof (induction m)
  case Nil
  then show ?case by simp
next
  case (Cons p m)
  obtain a b where p: "p = (a, b)" by (cases p)
  have "a \<noteq> k \<Longrightarrow> a \<notin> set (map fst (map_set k v m))"
    using Cons.prems by (simp add: p keys_map_set del: set_map)
  with Cons show ?case by (simp add: p)
qed

section \<open>Lists\<close>

lemma concat_map_append: "concat (map f (xs @ ys)) = concat (map f xs) @ concat (map f ys)"
  by simp

lemma takeWhile_append_stop:
  "list_all P xs \<Longrightarrow> \<not> P y \<Longrightarrow> takeWhile P (xs @ y # ys) = xs"
  by (induction xs) auto

lemma dropWhile_append_stop:
  "list_all P xs \<Longrightarrow> \<not> P y \<Longrightarrow> dropWhile P (xs @ y # ys) = y # ys"
  by (induction xs) auto

end
