(* ===== verification/Go_Json.thy ===== *)
theory Go_Json
  imports Go_Strings
begin

text \<open>
  The part of \<open>encoding/json\<close> the gateway uses: the scanner and parser (\<open>json_parse\<close>, what
  \<open>json.Unmarshal\<close> accepts), struct decoding by field name with Go's rules for \<open>null\<close>,
  unknown keys, repeated keys and letter case, and \<open>json.Marshal\<close>.

  A parsed value keeps its source text, because the code forwards \<open>json.RawMessage\<close> fields as
  text (\<open>string(b.Input)\<close>). A number keeps its literal: no float is ever computed with, so a
  \<open>float64\<close> is the literal it was read from.
\<close>

section \<open>Parsed documents\<close>

datatype jdoc =
    DNull
  | DBool bool
  | DNum string                          \<comment> \<open>the literal\<close>
  | DStr string string                   \<comment> \<open>source text with quotes, decoded value\<close>
  | DArr string "jdoc list"              \<comment> \<open>source text, elements\<close>
  | DObj string "(string \<times> jdoc) list"   \<comment> \<open>source text, members in order\<close>

fun doc_text :: "jdoc \<Rightarrow> string" where
  "doc_text DNull = ''null''"
| "doc_text (DBool b) = (if b then ''true'' else ''false'')"
| "doc_text (DNum t) = t"
| "doc_text (DStr t v) = t"
| "doc_text (DArr t ds) = t"
| "doc_text (DObj t ms) = t"

text \<open>
  A \<open>json.RawMessage\<close> field: \<open>None\<close> is the empty slice of an absent key (\<open>len(raw) == 0\<close>);
  a JSON \<open>null\<close> is \<open>Some DNull\<close>, since RawMessage records the literal.
\<close>

type_synonym raw_message = "jdoc option"

section \<open>Scanner\<close>

datatype tok =
    TOpenObj | TCloseObj | TOpenArr | TCloseArr | TColon | TComma
  | TWs char
  | TStr string string
  | TNum string
  | TLit string

fun tok_text :: "tok \<Rightarrow> string" where
  "tok_text TOpenObj = ''{''"
| "tok_text TCloseObj = ''}''"
| "tok_text TOpenArr = ''[''"
| "tok_text TCloseArr = '']''"
| "tok_text TColon = '':''"
| "tok_text TComma = '',''"
| "tok_text (TWs c) = [c]"
| "tok_text (TStr t v) = t"
| "tok_text (TNum t) = t"
| "tok_text (TLit t) = t"

definition is_digit :: "char \<Rightarrow> bool" where
  "is_digit c \<longleftrightarrow> 48 \<le> ord c \<and> ord c \<le> 57"

definition hex_val :: "nat \<Rightarrow> nat option" where
  "hex_val n =
     (if 48 \<le> n \<and> n \<le> 57 then Some (n - 48)
      else if 97 \<le> n \<and> n \<le> 102 then Some (n - 87)
      else if 65 \<le> n \<and> n \<le> 70 then Some (n - 55) else None)"

fun hex4 :: "nat list \<Rightarrow> nat option" where
  "hex4 (a # b # c # d # s) =
     (case (hex_val a, hex_val b, hex_val c, hex_val d) of
        (Some w, Some x, Some y, Some z) \<Rightarrow> Some (((w * 16 + x) * 16 + y) * 16 + z)
      | _ \<Rightarrow> None)"
| "hex4 _ = None"

definition utf8_encode :: "nat \<Rightarrow> nat list" where
  "utf8_encode r =
     (if r < 0x80 then [r]
      else if r < 0x800 then [0xC0 + r div 0x40, 0x80 + r mod 0x40]
      else if r < 0x10000 then [0xE0 + r div 0x1000, 0x80 + r div 0x40 mod 0x40, 0x80 + r mod 0x40]
      else [0xF0 + r div 0x40000, 0x80 + r div 0x1000 mod 0x40, 0x80 + r div 0x40 mod 0x40,
            0x80 + r mod 0x40])"

definition rune_error :: "nat list" where "rune_error = [0xEF, 0xBF, 0xBD]"

definition simple_escape :: "nat \<Rightarrow> nat" where
  "simple_escape e =
     (if e = 98 then 8 else if e = 102 then 12 else if e = 110 then 10
      else if e = 114 then 13 else if e = 116 then 9 else e)"

text \<open>The code point a low surrogate escape at the head of \<open>s\<close> gives after high surrogate \<open>u\<close>.\<close>

definition low_surrogate :: "nat \<Rightarrow> nat list \<Rightarrow> nat option" where
  "low_surrogate u s =
     (case s of a # b # t \<Rightarrow>
        if a = 92 \<and> b = 117 then
          (case hex4 t of
             Some v \<Rightarrow> if 0xD800 \<le> u \<and> u < 0xDC00 \<and> 0xDC00 \<le> v \<and> v < 0xE000
                       then Some (0x10000 + (u - 0xD800) * 0x400 + (v - 0xDC00)) else None
           | None \<Rightarrow> None)
        else None
      | _ \<Rightarrow> None)"

text \<open>The value of a scanned string body (the bytes between the quotes).\<close>

function unquote :: "nat list \<Rightarrow> nat list" where
  "unquote s =
     (if s = [] then []
      else if hd s = 92 then
        (if tl s \<noteq> [] \<and> hd (tl s) = 117 then
           (case hex4 (drop 2 s) of
              None \<Rightarrow> []
            | Some u \<Rightarrow>
                if 0xD800 \<le> u \<and> u < 0xE000 then
                  (case low_surrogate u (drop 6 s) of
                     Some r \<Rightarrow> utf8_encode r @ unquote (drop 12 s)
                   | None \<Rightarrow> rune_error @ unquote (drop 6 s))
                else utf8_encode u @ unquote (drop 6 s))
         else simple_escape (hd (tl s)) # unquote (drop 2 s))
      else if utf8_len s = 0 then rune_error @ unquote (tl s)
      else take (utf8_len s) s @ unquote (drop (utf8_len s) s))"
  by pat_completeness auto
termination
  by (relation "measure length") (simp_all del: utf8_len.simps)

declare unquote.simps [simp del]

fun valid_number :: "string \<Rightarrow> bool" where
  "valid_number t =
     (let u = (if t \<noteq> [] \<and> hd t = CHR ''-'' then tl t else t);
          int_part = takeWhile is_digit u; r = dropWhile is_digit u;
          int_ok = (int_part \<noteq> [] \<and> (hd int_part = CHR ''0'' \<longrightarrow> length int_part = 1));
          frac = (r \<noteq> [] \<and> hd r = CHR ''.'');
          frac_ok = (frac \<longrightarrow> takeWhile is_digit (tl r) \<noteq> []);
          r2 = (if frac then dropWhile is_digit (tl r) else r);
          exp = (r2 \<noteq> [] \<and> (hd r2 = CHR ''e'' \<or> hd r2 = CHR ''E''));
          r3 = (if exp then (if tl r2 \<noteq> [] \<and> (hd (tl r2) = CHR ''+'' \<or> hd (tl r2) = CHR ''-'')
                             then tl (tl r2) else tl r2) else r2)
      in int_ok \<and> frac_ok \<and>
         (if exp then r3 \<noteq> [] \<and> list_all is_digit r3 else r2 = []))"

datatype lex_mode =
    LPlain
  | LStr string          \<comment> \<open>inside a string: the body so far, reversed\<close>
  | LEsc string          \<comment> \<open>after a backslash\<close>
  | LHex nat string      \<comment> \<open>that many hex digits of a unicode escape to go\<close>
  | LNum string
  | LLit string

definition str_tok :: "string \<Rightarrow> tok" where
  "str_tok body = TStr (DQ # body @ [DQ]) (map chr (unquote (map ord body)))"

definition num_char :: "char \<Rightarrow> bool" where
  "num_char c \<longleftrightarrow> is_digit c \<or> c \<in> set ''+-.eE''"

definition lower_char :: "char \<Rightarrow> bool" where
  "lower_char c \<longleftrightarrow> 97 \<le> ord c \<and> ord c \<le> 122"

definition plain_tok :: "char \<Rightarrow> tok option" where
  "plain_tok c =
     (if c = CHR ''{'' then Some TOpenObj else if c = CHR ''}'' then Some TCloseObj
      else if c = CHR ''['' then Some TOpenArr else if c = CHR '']'' then Some TCloseArr
      else if c = CHR '':'' then Some TColon else if c = CHR '','' then Some TComma
      else if c = SP \<or> c = LF \<or> c = CR \<or> c = CHR 0x09 then Some (TWs c) else None)"

definition flush_mode :: "lex_mode \<Rightarrow> tok list option" where
  "flush_mode m =
     (case m of LPlain \<Rightarrow> Some []
      | LNum r \<Rightarrow> if valid_number (rev r) then Some [TNum (rev r)] else None
      | LLit r \<Rightarrow> if rev r \<in> {''true'', ''false'', ''null''} then Some [TLit (rev r)] else None
      | _ \<Rightarrow> None)"

text \<open>Where a byte outside a string leads: the token it completes and the mode after it.\<close>

definition start_mode :: "char \<Rightarrow> (tok list \<times> lex_mode) option" where
  "start_mode c =
     (if c = DQ then Some ([], LStr [])
      else if is_digit c \<or> c = CHR ''-'' then Some ([], LNum [c])
      else if lower_char c then Some ([], LLit [c])
      else map_option (\<lambda>t. ([t], LPlain)) (plain_tok c))"

definition lex_step :: "lex_mode \<Rightarrow> char \<Rightarrow> (tok list \<times> lex_mode) option" where
  "lex_step m c =
     (case m of
        LPlain \<Rightarrow> start_mode c
      | LStr b \<Rightarrow> (if c = DQ then Some ([str_tok (rev b)], LPlain)
                  else if c = BSL then Some ([], LEsc (c # b))
                  else if ord c < 0x20 then None else Some ([], LStr (c # b)))
      | LEsc b \<Rightarrow> (if c = CHR ''u'' then Some ([], LHex 4 (c # b))
                  else if c \<in> set (DQ # BSL # ''/bfnrt'') then Some ([], LStr (c # b)) else None)
      | LHex k b \<Rightarrow> (if hex_val (ord c) = None then None
                    else Some ([], if k \<le> 1 then LStr (c # b) else LHex (k - 1) (c # b)))
      | LNum r \<Rightarrow> (if num_char c then Some ([], LNum (c # r))
                  else (case (flush_mode m, start_mode c) of
                          (Some ts, Some (us, m')) \<Rightarrow> Some (ts @ us, m') | _ \<Rightarrow> None))
      | LLit r \<Rightarrow> (if lower_char c then Some ([], LLit (c # r))
                  else (case (flush_mode m, start_mode c) of
                          (Some ts, Some (us, m')) \<Rightarrow> Some (ts @ us, m') | _ \<Rightarrow> None)))"

fun lex :: "lex_mode \<Rightarrow> string \<Rightarrow> tok list option" where
  "lex m [] = flush_mode m"
| "lex m (c # s) =
     (case lex_step m c of None \<Rightarrow> None
      | Some (ts, m') \<Rightarrow> map_option (\<lambda>us. ts @ us) (lex m' s))"

section \<open>Parser\<close>

text \<open>
  A stack of open containers, each with the source text consumed since it opened, as the
  scanner's \<open>parseState\<close> stack. More than 10000 open containers is an error in Go.
\<close>

datatype frame =
    FArr string "jdoc list"
  | FObj string "(string \<times> jdoc) list" "string option"

datatype expect = EValue | EValueOrClose | EKey | EKeyOrClose | EColon | EAfter

type_synonym pstate = "expect \<times> frame list \<times> jdoc option"

definition max_depth :: nat where "max_depth = 10000"

fun add_text :: "string \<Rightarrow> frame list \<Rightarrow> frame list" where
  "add_text t [] = []"
| "add_text t (FArr u ds # fs) = FArr (u @ t) ds # fs"
| "add_text t (FObj u ms k # fs) = FObj (u @ t) ms k # fs"

fun put_value :: "jdoc \<Rightarrow> frame list \<Rightarrow> pstate option" where
  "put_value d [] = Some (EAfter, [], Some d)"
| "put_value d (FArr u ds # fs) = Some (EAfter, FArr (u @ doc_text d) (ds @ [d]) # fs, None)"
| "put_value d (FObj u ms (Some k) # fs) =
     Some (EAfter, FObj (u @ doc_text d) (ms @ [(k, d)]) None # fs, None)"
| "put_value d (FObj u ms None # fs) = None"

definition open_frame :: "frame \<Rightarrow> expect \<Rightarrow> frame list \<Rightarrow> pstate option" where
  "open_frame f e fs = (if length fs < max_depth then Some (e, f # fs, None) else None)"

definition at_value :: "expect \<Rightarrow> bool" where
  "at_value e \<longleftrightarrow> e = EValue \<or> e = EValueOrClose"

fun parse_step :: "pstate \<Rightarrow> tok \<Rightarrow> pstate option" where
  "parse_step (e, fs, r) (TWs c) = Some (e, add_text [c] fs, r)"
| "parse_step (e, fs, r) (TNum t) = (if at_value e then put_value (DNum t) fs else None)"
| "parse_step (e, fs, r) (TLit t) =
     (if at_value e then
        put_value (if t = ''null'' then DNull else DBool (t = ''true'')) fs else None)"
| "parse_step (e, fs, r) (TStr t v) =
     (if at_value e then put_value (DStr t v) fs
      else if e = EKey \<or> e = EKeyOrClose then
        (case fs of FObj u ms None # fs' \<Rightarrow> Some (EColon, FObj (u @ t) ms (Some v) # fs', None)
         | _ \<Rightarrow> None)
      else None)"
| "parse_step (e, fs, r) TOpenArr =
     (if at_value e then open_frame (FArr ''['' []) EValueOrClose fs else None)"
| "parse_step (e, fs, r) TOpenObj =
     (if at_value e then open_frame (FObj ''{'' [] None) EKeyOrClose fs else None)"
| "parse_step (e, fs, r) TCloseArr =
     (if e = EAfter \<or> e = EValueOrClose then
        (case fs of FArr u ds # fs' \<Rightarrow> put_value (DArr (u @ '']'') ds) fs' | _ \<Rightarrow> None) else None)"
| "parse_step (e, fs, r) TCloseObj =
     (if e = EAfter \<or> e = EKeyOrClose then
        (case fs of FObj u ms None # fs' \<Rightarrow> put_value (DObj (u @ ''}'') ms) fs' | _ \<Rightarrow> None)
      else None)"
| "parse_step (e, fs, r) TColon =
     (if e = EColon then Some (EValue, add_text '':'' fs, None) else None)"
| "parse_step (e, fs, r) TComma =
     (if e = EAfter then
        (case fs of [] \<Rightarrow> None
         | FArr u ds # fs' \<Rightarrow> Some (EValue, add_text '','' fs, None)
         | FObj u ms k # fs' \<Rightarrow> Some (EKey, add_text '','' fs, None)) else None)"

fun parse_run :: "pstate \<Rightarrow> tok list \<Rightarrow> pstate option" where
  "parse_run s [] = Some s"
| "parse_run s (t # ts) = (case parse_step s t of None \<Rightarrow> None | Some s' \<Rightarrow> parse_run s' ts)"

definition json_parse :: "string \<Rightarrow> jdoc option" where
  "json_parse s =
     (case lex LPlain s of None \<Rightarrow> None
      | Some ts \<Rightarrow>
          (case parse_run (EValue, [], None) ts of
             Some (EAfter, [], Some d) \<Rightarrow> Some d | _ \<Rightarrow> None))"

section \<open>Decoding into Go values\<close>

text \<open>
  A decoder takes the field's old value and a document and gives the new value, or \<open>None\<close>
  where \<open>json.Unmarshal\<close> returns an error. \<open>null\<close> leaves a non-pointer value as it was.
\<close>

type_synonym 'a decoder = "'a \<Rightarrow> jdoc \<Rightarrow> 'a option"

fun dec_string :: "string decoder" where
  "dec_string old DNull = Some old"
| "dec_string old (DStr t v) = Some v"
| "dec_string old _ = None"

fun dec_bool :: "bool decoder" where
  "dec_bool old DNull = Some old"
| "dec_bool old (DBool b) = Some b"
| "dec_bool old _ = None"

fun digits_val :: "nat \<Rightarrow> string \<Rightarrow> nat" where
  "digits_val acc [] = acc"
| "digits_val acc (c # s) = digits_val (acc * 10 + (ord c - 48)) s"

text \<open>\<open>strconv.ParseInt(literal, 10, 64)\<close> on a valid JSON number literal.\<close>

definition parse_int64 :: "string \<Rightarrow> int option" where
  "parse_int64 t =
     (let neg = (t \<noteq> [] \<and> hd t = CHR ''-''); u = (if neg then tl t else t);
          n = int (digits_val 0 u); v = (if neg then - n else n)
      in if u \<noteq> [] \<and> list_all is_digit u \<and> int64_range v then Some v else None)"

fun dec_int :: "int decoder" where
  "dec_int old DNull = Some old"
| "dec_int old (DNum t) = parse_int64 t"
| "dec_int old _ = None"

text \<open>
  \<open>strconv.ParseFloat\<close> fails on a literal that rounds beyond the largest \<open>float64\<close>: one whose
  absolute value is at least \<open>2 ^ 1024 - 2 ^ 970\<close>. The literal is read as \<open>m * 10 ^ e\<close>.
\<close>

definition literal_parts :: "string \<Rightarrow> nat \<times> int" where
  "literal_parts t =
     (let u = (if t \<noteq> [] \<and> hd t = CHR ''-'' then tl t else t);
          mant = takeWhile (\<lambda>c. c \<noteq> CHR ''e'' \<and> c \<noteq> CHR ''E'') u;
          ex = tl (dropWhile (\<lambda>c. c \<noteq> CHR ''e'' \<and> c \<noteq> CHR ''E'') u);
          frac = tl (dropWhile (\<lambda>c. c \<noteq> CHR ''.'') mant);
          exv = (if ex \<noteq> [] \<and> hd ex = CHR ''-'' then - int (digits_val 0 (tl ex))
                 else if ex \<noteq> [] \<and> hd ex = CHR ''+'' then int (digits_val 0 (tl ex))
                 else int (digits_val 0 ex))
      in (digits_val 0 (filter is_digit mant), exv - int (length frac)))"

definition float_in_range :: "string \<Rightarrow> bool" where
  "float_in_range t =
     (case literal_parts t of (m, e) \<Rightarrow>
        if 0 \<le> e then m * 10 ^ nat e < 2 ^ 1024 - 2 ^ 970
        else m < (2 ^ 1024 - 2 ^ 970) * 10 ^ nat (- e))"

fun dec_float :: "string decoder" where
  "dec_float old DNull = Some old"
| "dec_float old (DNum t) = (if float_in_range t then Some t else None)"
| "dec_float old _ = None"

definition dec_raw :: "raw_message decoder" where
  "dec_raw old d = Some (Some d)"

text \<open>A pointer: \<open>null\<close> is nil, anything else is decoded into the value it points to.\<close>

definition dec_ptr :: "'a \<Rightarrow> 'a decoder \<Rightarrow> 'a option decoder" where
  "dec_ptr zero dec old d =
     (if d = DNull then Some None
      else map_option Some (dec (case old of None \<Rightarrow> zero | Some x \<Rightarrow> x) d))"

text \<open>A slice: a fresh element for each array entry (\<open>null\<close> is the nil slice).\<close>

fun dec_list :: "'a \<Rightarrow> 'a decoder \<Rightarrow> 'a list decoder" where
  "dec_list zero dec old DNull = Some []"
| "dec_list zero dec old (DArr t ds) = map_option_list (dec zero) ds"
| "dec_list zero dec old _ = None"

text \<open>A map: \<open>null\<close> is the nil map, an object adds its members, each decoded afresh.\<close>

fun dec_entries :: "'a \<Rightarrow> 'a decoder \<Rightarrow> (string \<times> 'a) list \<Rightarrow> (string \<times> jdoc) list \<Rightarrow> (string \<times> 'a) list option" where
  "dec_entries zero dec m [] = Some m"
| "dec_entries zero dec m ((k, d) # ms) =
     (case dec zero d of None \<Rightarrow> None | Some v \<Rightarrow> dec_entries zero dec (map_set k v m) ms)"

fun dec_map :: "'a \<Rightarrow> 'a decoder \<Rightarrow> (string \<times> 'a) list decoder" where
  "dec_map zero dec old DNull = Some []"
| "dec_map zero dec old (DObj t ms) = dec_entries zero dec old ms"
| "dec_map zero dec old _ = None"

text \<open>
  Field lookup: the exact name first, else the name with letter case folded. Besides ASCII
  letters, Go folds U+017F to \<open>S\<close> and U+212A to \<open>K\<close>.
\<close>

fun fold_name :: "string \<Rightarrow> string" where
  "fold_name [] = []"
| "fold_name (c # s) =
     (if ord c = 0xC5 \<and> s \<noteq> [] \<and> ord (hd s) = 0xBF then CHR ''S'' # fold_name (tl s)
      else if ord c = 0xE2 \<and> take 2 (map ord s) = [0x84, 0xAA] then CHR ''K'' # fold_name (drop 2 s)
      else if lower_char c then chr (ord c - 32) # fold_name s
      else c # fold_name s)"

definition find_field :: "(string \<times> 'f) list \<Rightarrow> string \<Rightarrow> 'f option" where
  "find_field fields key =
     (case map_of fields key of Some f \<Rightarrow> Some f
      | None \<Rightarrow> map_of (map (\<lambda>(n, f). (fold_name n, f)) fields) (fold_name key))"

fun dec_members :: "(string \<times> 'r decoder) list \<Rightarrow> 'r \<Rightarrow> (string \<times> jdoc) list \<Rightarrow> 'r option" where
  "dec_members fields r [] = Some r"
| "dec_members fields r ((k, d) # ms) =
     (case find_field fields k of
        None \<Rightarrow> dec_members fields r ms
      | Some dec \<Rightarrow> (case dec r d of None \<Rightarrow> None | Some r' \<Rightarrow> dec_members fields r' ms))"

fun dec_struct :: "(string \<times> 'r decoder) list \<Rightarrow> 'r decoder" where
  "dec_struct fields r DNull = Some r"
| "dec_struct fields r (DObj t ms) = dec_members fields r ms"
| "dec_struct fields r _ = None"

text \<open>
  A decode whose error the code ignores: \<open>json.Unmarshal\<close> notes the first type error, skips
  that member and goes on, so the others are still stored.
\<close>

fun dec_members_lenient :: "(string \<times> 'r decoder) list \<Rightarrow> 'r \<Rightarrow> (string \<times> jdoc) list \<Rightarrow> 'r" where
  "dec_members_lenient fields r [] = r"
| "dec_members_lenient fields r ((k, d) # ms) =
     (case find_field fields k of
        None \<Rightarrow> dec_members_lenient fields r ms
      | Some dec \<Rightarrow>
          dec_members_lenient fields (case dec r d of None \<Rightarrow> r | Some r' \<Rightarrow> r') ms)"

definition unmarshal_lenient :: "'r \<Rightarrow> (string \<times> 'r decoder) list \<Rightarrow> string \<Rightarrow> 'r" where
  "unmarshal_lenient zero fields s =
     (case json_parse s of
        Some (DObj t ms) \<Rightarrow> dec_members_lenient fields zero ms
      | _ \<Rightarrow> zero)"

text \<open>A field of a record: how to read it, how to write it back, and its decoder.\<close>

definition fld :: "('r \<Rightarrow> 'a) \<Rightarrow> (('a \<Rightarrow> 'a) \<Rightarrow> 'r \<Rightarrow> 'r) \<Rightarrow> 'a decoder \<Rightarrow> 'r decoder" where
  "fld get upd dec r d = map_option (\<lambda>v. upd (\<lambda>_. v) r) (dec (get r) d)"

definition unmarshal :: "'a \<Rightarrow> 'a decoder \<Rightarrow> string \<Rightarrow> 'a option" where
  "unmarshal zero dec s = (case json_parse s of None \<Rightarrow> None | Some d \<Rightarrow> dec zero d)"

section \<open>Marshalling\<close>

text \<open>
  Values the code builds: \<open>JObj\<close> is a struct (fields in declaration order), \<open>JMap\<close> a Go map
  (keys sorted when marshalled), \<open>JRaw\<close> a RawMessage (compacted when marshalled).
\<close>

datatype json =
    JNull
  | JBool bool
  | JInt int
  | JFloat string
  | JStr string
  | JArr "json list"
  | JObj "(string \<times> json) list"
  | JMap "(string \<times> json) list"
  | JRaw jdoc

definition hex_esc :: "nat \<Rightarrow> nat list" where
  "hex_esc n = map ord (BSL # ''u00'' @ [hex_digit (n div 16), hex_digit (n mod 16)])"

definition esc_byte :: "nat \<Rightarrow> nat list" where
  "esc_byte n =
     (if n = 34 \<or> n = 92 then [92, n]
      else if n = 8 then [92, 98] else if n = 12 then [92, 102] else if n = 10 then [92, 110]
      else if n = 13 then [92, 114] else if n = 9 then [92, 116]
      else if n < 0x20 \<or> n = 60 \<or> n = 62 \<or> n = 38 then hex_esc n
      else [n])"

definition esc_separator :: "nat list \<Rightarrow> nat list option" where
  "esc_separator s =
     (if take 3 s = [0xE2, 0x80, 0xA8] then Some (map ord (BSL # ''u2028''))
      else if take 3 s = [0xE2, 0x80, 0xA9] then Some (map ord (BSL # ''u2029'')) else None)"

function esc_body :: "nat list \<Rightarrow> nat list" where
  "esc_body s =
     (if s = [] then []
      else if hd s < 0x80 then esc_byte (hd s) @ esc_body (tl s)
      else if utf8_len s = 0 then map ord (BSL # ''ufffd'') @ esc_body (tl s)
      else (case esc_separator s of
              Some e \<Rightarrow> e @ esc_body (drop (utf8_len s) s)
            | None \<Rightarrow> take (utf8_len s) s @ esc_body (drop (utf8_len s) s)))"
  by pat_completeness auto
termination
  by (relation "measure length") (simp_all del: utf8_len.simps)

declare esc_body.simps [simp del]

definition quote_str :: "string \<Rightarrow> string" where
  "quote_str s = DQ # map chr (esc_body (map ord s)) @ [DQ]"

text \<open>
  \<open>compact\<close> of a RawMessage: white space outside strings goes, the HTML characters and the two
  separators are escaped. The mode is 0 outside a string, 1 inside, 2 after a backslash.
\<close>

definition compact_mode :: "nat \<Rightarrow> nat \<Rightarrow> nat" where
  "compact_mode m c =
     (if m = 0 then (if c = 34 then 1 else 0)
      else if m = 1 then (if c = 34 then 0 else if c = 92 then 2 else 1) else 1)"

function compact_text :: "nat \<Rightarrow> nat list \<Rightarrow> nat list" where
  "compact_text m s =
     (if s = [] then []
      else if hd s = 60 \<or> hd s = 62 \<or> hd s = 38 then
        hex_esc (hd s) @ compact_text (compact_mode m (hd s)) (tl s)
      else if m = 0 \<and> hd s \<in> {32, 9, 10, 13} then compact_text m (tl s)
      else (case esc_separator s of
              Some e \<Rightarrow> e @ compact_text m (drop 3 s)
            | None \<Rightarrow> hd s # compact_text (compact_mode m (hd s)) (tl s)))"
  by pat_completeness auto
termination
  by (relation "measure (\<lambda>(m, s). length s)") auto

declare compact_text.simps [simp del]

definition compact_doc :: "jdoc \<Rightarrow> string" where
  "compact_doc d = map chr (compact_text 0 (map ord (doc_text d)))"

fun marshal :: "json \<Rightarrow> string" where
  "marshal JNull = ''null''"
| "marshal (JBool b) = (if b then ''true'' else ''false'')"
| "marshal (JInt n) = itoa n"
| "marshal (JFloat t) = t"
| "marshal (JStr s) = quote_str s"
| "marshal (JArr js) = ''['' @ Join (map marshal js) '','' @ '']''"
| "marshal (JObj ms) =
     ''{'' @ Join (map (\<lambda>(k, v). quote_str k @ '':'' @ v) (map (\<lambda>(k, v). (k, marshal v)) ms)) '','' @ ''}''"
| "marshal (JMap ms) =
     ''{'' @ Join (map (\<lambda>(k, v). quote_str k @ '':'' @ v)
                     (sort_key fst (map (\<lambda>(k, v). (k, marshal v)) ms))) '','' @ ''}''"
| "marshal (JRaw d) = compact_doc d"

text \<open>Decoding into an \<open>any\<close>: objects become maps in which the last of equal keys wins.\<close>

fun any_of :: "jdoc \<Rightarrow> json" where
  "any_of DNull = JNull"
| "any_of (DBool b) = JBool b"
| "any_of (DNum t) = JFloat t"
| "any_of (DStr t v) = JStr v"
| "any_of (DArr t ds) = JArr (map any_of ds)"
| "any_of (DObj t ms) =
     JMap (fold (\<lambda>(k, v). map_set k v) (map (\<lambda>(k, d). (k, any_of d)) ms) [])"

fun floats_ok :: "jdoc \<Rightarrow> bool" where
  "floats_ok (DNum t) = float_in_range t"
| "floats_ok (DArr t ds) = list_all floats_ok ds"
| "floats_ok (DObj t ms) = list_all floats_ok (map snd ms)"
| "floats_ok _ = True"

definition dec_any :: "json decoder" where
  "dec_any old d = (if floats_ok d then Some (any_of d) else None)"

section \<open>Evaluation\<close>

text \<open>Rewrite rules under which the simplifier runs the scanner, the parser and the decoders.\<close>

lemmas json_eval = json_parse_def lex_step_def start_mode_def plain_tok_def flush_mode_def
  lower_char_def num_char_def is_digit_def str_tok_def unquote.simps simple_escape_def hex_val_def
  at_value_def open_frame_def max_depth_def low_surrogate_def char_eval

lemmas decode_eval = unmarshal_def find_field_def fld_def dec_ptr_def dec_raw_def

end
