(* ===== verification/Chat_Types.thy ===== *)
theory Chat_Types
  imports Go_Json
begin

text \<open>
  The data of \<open>convert.go\<close>: Anthropic requests and blocks with the decoders their struct tags
  give, the upstream message format, the model descriptor, and how the upstream types
  marshal (\<open>omitempty\<close> written out).
\<close>

section \<open>Upstream messages\<close>

text \<open>A \<open>*cacheControl\<close> is the marker's type, or nothing for a nil pointer.\<close>

type_synonym cacheControl = string

record upPart =
  up_Type :: string
  up_Text :: string
  up_ImageURL :: "string option"
  up_CacheControl :: "cacheControl option"

record upContentPart =
  cp_Type :: string
  cp_Text :: string
  cp_ImageURL :: "string option"

record upToolCall =
  tc_ID :: string
  tc_Type :: string
  tc_Name :: string
  tc_Arguments :: string

text \<open>
  The dynamic value of the \<open>Content any\<close> field. \<open>CShared\<close> is the slice that is also the
  message's \<open>Contents\<close>: \<open>userContentFromBlocks\<close> returns one slice twice for a message with an
  image, so a marker written into \<open>Contents\<close> shows in \<open>Content\<close> too.
\<close>

datatype content =
    CNil
  | CText string
  | CShared
  | COai "upContentPart list"
  | CAny json

record upMessage =
  um_Role :: string
  um_Content :: content
  um_Contents :: "upPart list"
  um_ToolCalls :: "upToolCall list"
  um_ToolCallID :: string
  um_Name :: string

definition empty_message :: upMessage where
  "empty_message = \<lparr>um_Role = [], um_Content = CNil, um_Contents = [], um_ToolCalls = [],
     um_ToolCallID = [], um_Name = []\<rparr>"

definition text_part :: "string \<Rightarrow> cacheControl option \<Rightarrow> upPart" where
  "text_part t cc = \<lparr>up_Type = ''text'', up_Text = t, up_ImageURL = None, up_CacheControl = cc\<rparr>"

definition image_part :: "string \<Rightarrow> cacheControl option \<Rightarrow> upPart" where
  "image_part url cc =
     \<lparr>up_Type = ''image_url'', up_Text = [], up_ImageURL = Some url, up_CacheControl = cc\<rparr>"

section \<open>Marshalling the upstream types\<close>

definition omit_str :: "string \<Rightarrow> string \<Rightarrow> (string \<times> json) list" where
  "omit_str k s = (if s = [] then [] else [(k, JStr s)])"

definition url_json :: "string \<Rightarrow> json" where
  "url_json u = JObj [(''url'', JStr u)]"

definition cache_json :: "cacheControl \<Rightarrow> json" where
  "cache_json t = JObj [(''type'', JStr t)]"

definition part_json :: "upPart \<Rightarrow> json" where
  "part_json p = JObj ([(''type'', JStr (up_Type p))] @ omit_str ''text'' (up_Text p)
     @ map (\<lambda>u. (''image_url'', url_json u)) (opt_list (up_ImageURL p))
     @ map (\<lambda>t. (''cache_control'', cache_json t)) (opt_list (up_CacheControl p)))"

definition content_part_json :: "upContentPart \<Rightarrow> json" where
  "content_part_json p = JObj ([(''type'', JStr (cp_Type p))] @ omit_str ''text'' (cp_Text p)
     @ map (\<lambda>u. (''image_url'', url_json u)) (opt_list (cp_ImageURL p)))"

definition tool_call_json :: "upToolCall \<Rightarrow> json" where
  "tool_call_json c = JObj [(''id'', JStr (tc_ID c)), (''type'', JStr (tc_Type c)),
     (''function'', JObj [(''name'', JStr (tc_Name c)), (''arguments'', JStr (tc_Arguments c))])]"

fun content_json :: "upPart list \<Rightarrow> content \<Rightarrow> json option" where
  "content_json ps CNil = None"
| "content_json ps (CText s) = Some (JStr s)"
| "content_json ps CShared = Some (JArr (map part_json ps))"
| "content_json ps (COai cs) = Some (JArr (map content_part_json cs))"
| "content_json ps (CAny j) = Some j"

definition message_json :: "upMessage \<Rightarrow> json" where
  "message_json m = JObj ([(''role'', JStr (um_Role m))]
     @ map (\<lambda>c. (''content'', c)) (opt_list (content_json (um_Contents m) (um_Content m)))
     @ (if um_Contents m = [] then [] else [(''contents'', JArr (map part_json (um_Contents m)))])
     @ (if um_ToolCalls m = [] then []
        else [(''tool_calls'', JArr (map tool_call_json (um_ToolCalls m)))])
     @ omit_str ''tool_call_id'' (um_ToolCallID m) @ omit_str ''name'' (um_Name m))"

section \<open>Model descriptors\<close>

record contextTier =
  ct_TokenCount :: int
  ct_IsDefault :: bool

record modelConfig =
  mc_Key :: string
  mc_Format :: string
  mc_Source :: string
  mc_Enable :: bool
  mc_DisplayName :: string
  mc_IsVL :: bool
  mc_IsReasoning :: bool
  mc_IsDefault :: bool
  mc_PriceFactor :: string
  mc_MaxInputTokens :: int
  mc_URL :: string
  mc_ContextConfig :: "(string \<times> contextTier) list"
  mc_EffectiveContextWindow :: int

definition zero_modelConfig :: modelConfig where
  "zero_modelConfig = \<lparr>mc_Key = [], mc_Format = [], mc_Source = [], mc_Enable = False,
     mc_DisplayName = [], mc_IsVL = False, mc_IsReasoning = False, mc_IsDefault = False,
     mc_PriceFactor = ''0'', mc_MaxInputTokens = 0, mc_URL = [], mc_ContextConfig = [],
     mc_EffectiveContextWindow = 0\<rparr>"

definition omit_true :: "string \<Rightarrow> bool \<Rightarrow> (string \<times> json) list" where
  "omit_true k b = (if b then [(k, JBool True)] else [])"

definition omit_int :: "string \<Rightarrow> int \<Rightarrow> (string \<times> json) list" where
  "omit_int k n = (if n = 0 then [] else [(k, JInt n)])"

definition tier_json :: "contextTier \<Rightarrow> json" where
  "tier_json t = JObj ([(''token_count'', JInt (ct_TokenCount t))]
     @ omit_true ''is_default'' (ct_IsDefault t))"

text \<open>
  A price factor of zero is left out, however its literal is written. The effective window has the tag \<open>json:"-"\<close>: it is never sent.\<close>

definition modelConfig_json :: "modelConfig \<Rightarrow> json" where
  "modelConfig_json m = JObj ([(''key'', JStr (mc_Key m)), (''format'', JStr (mc_Format m)),
       (''source'', JStr (mc_Source m)), (''enable'', JBool (mc_Enable m))]
     @ omit_str ''display_name'' (mc_DisplayName m)
     @ [(''is_vl'', JBool (mc_IsVL m)), (''is_reasoning'', JBool (mc_IsReasoning m))]
     @ omit_true ''is_default'' (mc_IsDefault m)
     @ (if fst (literal_parts (mc_PriceFactor m)) = 0 then [] else [(''price_factor'', JFloat (mc_PriceFactor m))])
     @ omit_int ''max_input_tokens'' (mc_MaxInputTokens m) @ omit_str ''url'' (mc_URL m)
     @ (if mc_ContextConfig m = [] then []
        else [(''context_config'', JMap (map (\<lambda>(k, t). (k, tier_json t)) (mc_ContextConfig m)))]))"

definition zero_tier :: contextTier where
  "zero_tier = \<lparr>ct_TokenCount = 0, ct_IsDefault = False\<rparr>"

definition tier_fields :: "(string \<times> contextTier decoder) list" where
  "tier_fields = [(''token_count'', fld ct_TokenCount ct_TokenCount_update dec_int),
                  (''is_default'', fld ct_IsDefault ct_IsDefault_update dec_bool)]"

definition modelConfig_fields :: "(string \<times> modelConfig decoder) list" where
  "modelConfig_fields =
     [(''key'', fld mc_Key mc_Key_update dec_string),
      (''format'', fld mc_Format mc_Format_update dec_string),
      (''source'', fld mc_Source mc_Source_update dec_string),
      (''enable'', fld mc_Enable mc_Enable_update dec_bool),
      (''display_name'', fld mc_DisplayName mc_DisplayName_update dec_string),
      (''is_vl'', fld mc_IsVL mc_IsVL_update dec_bool),
      (''is_reasoning'', fld mc_IsReasoning mc_IsReasoning_update dec_bool),
      (''is_default'', fld mc_IsDefault mc_IsDefault_update dec_bool),
      (''price_factor'', fld mc_PriceFactor mc_PriceFactor_update dec_float),
      (''max_input_tokens'', fld mc_MaxInputTokens mc_MaxInputTokens_update dec_int),
      (''url'', fld mc_URL mc_URL_update dec_string),
      (''context_config'', fld mc_ContextConfig mc_ContextConfig_update
         (dec_map zero_tier (dec_struct tier_fields)))]"

section \<open>Anthropic requests\<close>

record imageSource =
  src_Type :: string
  src_MediaType :: string
  src_Data :: string
  src_URL :: string

definition zero_source :: imageSource where
  "zero_source = \<lparr>src_Type = [], src_MediaType = [], src_Data = [], src_URL = []\<rparr>"

definition source_fields :: "(string \<times> imageSource decoder) list" where
  "source_fields =
     [(''type'', fld src_Type src_Type_update dec_string),
      (''media_type'', fld src_MediaType src_MediaType_update dec_string),
      (''data'', fld src_Data src_Data_update dec_string),
      (''url'', fld src_URL src_URL_update dec_string)]"

definition cache_fields :: "(string \<times> cacheControl decoder) list" where
  "cache_fields = [(''type'', dec_string)]"

record anthropicBlock =
  b_Type :: string
  b_Text :: string
  b_ID :: string
  b_Name :: string
  b_Input :: raw_message
  b_ToolUseID :: string
  b_Content :: raw_message
  b_Source :: "imageSource option"
  b_Thinking :: string
  b_CacheControl :: "cacheControl option"

definition zero_block :: anthropicBlock where
  "zero_block = \<lparr>b_Type = [], b_Text = [], b_ID = [], b_Name = [], b_Input = None,
     b_ToolUseID = [], b_Content = None, b_Source = None, b_Thinking = [], b_CacheControl = None\<rparr>"

definition block_fields :: "(string \<times> anthropicBlock decoder) list" where
  "block_fields =
     [(''type'', fld b_Type b_Type_update dec_string),
      (''text'', fld b_Text b_Text_update dec_string),
      (''id'', fld b_ID b_ID_update dec_string),
      (''name'', fld b_Name b_Name_update dec_string),
      (''input'', fld b_Input b_Input_update dec_raw),
      (''tool_use_id'', fld b_ToolUseID b_ToolUseID_update dec_string),
      (''content'', fld b_Content b_Content_update dec_raw),
      (''source'', fld b_Source b_Source_update (dec_ptr zero_source (dec_struct source_fields))),
      (''thinking'', fld b_Thinking b_Thinking_update dec_string),
      (''cache_control'',
         fld b_CacheControl b_CacheControl_update (dec_ptr [] (dec_struct cache_fields)))]"

definition dec_block :: "anthropicBlock decoder" where
  "dec_block = dec_struct block_fields"

record anthropicMsg =
  am_Role :: string
  am_Content :: raw_message

definition zero_msg :: anthropicMsg where
  "zero_msg = \<lparr>am_Role = [], am_Content = None\<rparr>"

definition msg_fields :: "(string \<times> anthropicMsg decoder) list" where
  "msg_fields = [(''role'', fld am_Role am_Role_update dec_string),
                 (''content'', fld am_Content am_Content_update dec_raw)]"

record anthropicTool =
  at_Name :: string
  at_Description :: string
  at_InputSchema :: raw_message

definition zero_tool :: anthropicTool where
  "zero_tool = \<lparr>at_Name = [], at_Description = [], at_InputSchema = None\<rparr>"

definition tool_fields :: "(string \<times> anthropicTool decoder) list" where
  "tool_fields = [(''name'', fld at_Name at_Name_update dec_string),
                  (''description'', fld at_Description at_Description_update dec_string),
                  (''input_schema'', fld at_InputSchema at_InputSchema_update dec_raw)]"

record anthropicThink =
  th_Type :: string
  th_BudgetTokens :: int

definition think_fields :: "(string \<times> anthropicThink decoder) list" where
  "think_fields = [(''type'', fld th_Type th_Type_update dec_string),
                   (''budget_tokens'', fld th_BudgetTokens th_BudgetTokens_update dec_int)]"

record anthropicRequest =
  ar_Model :: string
  ar_Messages :: "anthropicMsg list"
  ar_System :: raw_message
  ar_MaxTokens :: int
  ar_Stream :: bool
  ar_Tools :: "anthropicTool list"
  ar_ToolChoice :: raw_message
  ar_StopSequences :: "string list"
  ar_Temperature :: "string option"
  ar_TopP :: "string option"
  ar_Thinking :: "anthropicThink option"

definition zero_request :: anthropicRequest where
  "zero_request = \<lparr>ar_Model = [], ar_Messages = [], ar_System = None, ar_MaxTokens = 0,
     ar_Stream = False, ar_Tools = [], ar_ToolChoice = None, ar_StopSequences = [],
     ar_Temperature = None, ar_TopP = None, ar_Thinking = None\<rparr>"

definition request_fields :: "(string \<times> anthropicRequest decoder) list" where
  "request_fields =
     [(''model'', fld ar_Model ar_Model_update dec_string),
      (''messages'', fld ar_Messages ar_Messages_update (dec_list zero_msg (dec_struct msg_fields))),
      (''system'', fld ar_System ar_System_update dec_raw),
      (''max_tokens'', fld ar_MaxTokens ar_MaxTokens_update dec_int),
      (''stream'', fld ar_Stream ar_Stream_update dec_bool),
      (''tools'', fld ar_Tools ar_Tools_update (dec_list zero_tool (dec_struct tool_fields))),
      (''tool_choice'', fld ar_ToolChoice ar_ToolChoice_update dec_raw),
      (''stop_sequences'', fld ar_StopSequences ar_StopSequences_update (dec_list [] dec_string)),
      (''temperature'', fld ar_Temperature ar_Temperature_update (dec_ptr [] dec_float)),
      (''top_p'', fld ar_TopP ar_TopP_update (dec_ptr [] dec_float)),
      (''thinking'', fld ar_Thinking ar_Thinking_update
         (dec_ptr \<lparr>th_Type = [], th_BudgetTokens = 0\<rparr> (dec_struct think_fields)))]"

definition decode_anthropicRequest :: "string \<Rightarrow> anthropicRequest option" where
  "decode_anthropicRequest raw = unmarshal zero_request (dec_struct request_fields) raw"

end
