(* ===== verification/Go_Base64.thy ===== *)
theory Go_Base64
  imports Go_Strings
begin

text \<open>
  \<open>encoding/base64\<close> with a padding character, for any alphabet: what \<open>Encode\<close>,
  \<open>DecodeString\<close> and the strict variant compute. The locale states what an alphabet needs
  for the two directions to fit; it is interpreted on the standard alphabet here and on the
  gateway's own alphabet in \<open>Body_Codec\<close>.
\<close>

section \<open>Quanta\<close>

definition quantum_of_bytes :: "nat \<Rightarrow> nat \<Rightarrow> nat \<Rightarrow> nat" where
  "quantum_of_bytes a b c = (a * 256 + b) * 256 + c"

definition quantum_of_sextets :: "nat \<Rightarrow> nat \<Rightarrow> nat \<Rightarrow> nat \<Rightarrow> nat" where
  "quantum_of_sextets w x y z = ((w * 64 + x) * 64 + y) * 64 + z"

definition sextet :: "nat \<Rightarrow> nat \<Rightarrow> nat" where
  "sextet i n = n div 64 ^ i mod 64"

definition byte_at :: "nat \<Rightarrow> nat \<Rightarrow> nat" where
  "byte_at i n = n div 256 ^ i mod 256"

lemma sextet_less [simp]: "sextet i n < 64"
  by (simp add: sextet_def)

lemma byte_at_less [simp]: "byte_at i n < 256"
  by (simp add: byte_at_def)

lemma sextet_steps:
  "sextet 0 n = n mod 64" "sextet 1 n = n div 64 mod 64"
  "sextet 2 n = n div 64 div 64 mod 64" "sextet 3 n = n div 64 div 64 div 64 mod 64"
  by (simp_all add: sextet_def div_mult2_eq [symmetric])

lemma byte_steps:
  "byte_at 0 n = n mod 256" "byte_at 1 n = n div 256 mod 256"
  "byte_at 2 n = n div 256 div 256 mod 256"
  by (simp_all add: byte_at_def div_mult2_eq [symmetric])

lemma sextets_recombine:
  assumes "n < 16777216"
  shows "quantum_of_sextets (sextet 3 n) (sextet 2 n) (sextet 1 n) (sextet 0 n) = n"
proof -
  have top: "n div 64 div 64 div 64 mod 64 = n div 64 div 64 div 64"
    using assms by (simp add: div_mult2_eq [symmetric] less_mult_imp_div_less)
  show ?thesis
    unfolding quantum_of_sextets_def sextet_steps top by (simp only: div_mult_mod_eq)
qed

lemma bytes_recombine:
  assumes "n < 16777216"
  shows "quantum_of_bytes (byte_at 2 n) (byte_at 1 n) (byte_at 0 n) = n"
proof -
  have top: "n div 256 div 256 mod 256 = n div 256 div 256"
    using assms by (simp add: div_mult2_eq [symmetric] less_mult_imp_div_less)
  show ?thesis
    unfolding quantum_of_bytes_def byte_steps top by (simp only: div_mult_mod_eq)
qed

lemma digit_bound:
  fixes a r m k :: nat
  assumes "a < m" "r < k"
  shows "a * k + r < m * k"
proof -
  have "a * k + r < Suc a * k" using assms(2) by simp
  also have "\<dots> \<le> m * k" using assms(1) by (intro mult_le_mono1) simp
  finally show ?thesis .
qed

lemma quantum_of_bytes_less:
  assumes "a < 256" "b < 256" "c < 256"
  shows "quantum_of_bytes a b c < 16777216"
  using digit_bound [OF digit_bound [OF assms(1,2)] assms(3)] by (simp add: quantum_of_bytes_def)

lemma quantum_of_sextets_less:
  assumes "w < 64" "x < 64" "y < 64" "z < 64"
  shows "quantum_of_sextets w x y z < 16777216"
  using digit_bound [OF digit_bound [OF digit_bound [OF assms(1,2)] assms(3)] assms(4)]
  by (simp add: quantum_of_sextets_def)

lemma low_digit:
  fixes q r :: nat
  shows "r < 64 \<Longrightarrow> (q * 64 + r) div 64 = q" "r < 64 \<Longrightarrow> (q * 64 + r) mod 64 = r"
    "r < 256 \<Longrightarrow> (q * 256 + r) div 256 = q" "r < 256 \<Longrightarrow> (q * 256 + r) mod 256 = r"
  by simp_all

lemma byte_at_quantum:
  assumes "a < 256" "b < 256" "c < 256"
  shows "byte_at 2 (quantum_of_bytes a b c) = a" "byte_at 1 (quantum_of_bytes a b c) = b"
    "byte_at 0 (quantum_of_bytes a b c) = c"
  using assms by (simp_all only: byte_steps quantum_of_bytes_def low_digit mod_less)

lemma sextet_quantum:
  assumes "w < 64" "x < 64" "y < 64" "z < 64"
  shows "sextet 3 (quantum_of_sextets w x y z) = w" "sextet 2 (quantum_of_sextets w x y z) = x"
    "sextet 1 (quantum_of_sextets w x y z) = y" "sextet 0 (quantum_of_sextets w x y z) = z"
  using assms by (simp_all only: sextet_steps quantum_of_sextets_def low_digit mod_less)

text \<open>The sextets a shorter tail leaves at zero.\<close>

lemma one_byte_low: "sextet 1 (quantum_of_bytes a 0 0) = 0" "sextet 0 (quantum_of_bytes a 0 0) = 0"
proof -
  have "quantum_of_bytes a 0 0 = 64 * (64 * (16 * a))" by (simp add: quantum_of_bytes_def)
  then show "sextet 1 (quantum_of_bytes a 0 0) = 0" "sextet 0 (quantum_of_bytes a 0 0) = 0"
    by (simp_all add: sextet_steps [unfolded One_nat_def])
qed

lemma two_byte_low: "sextet 0 (quantum_of_bytes a b 0) = 0"
proof -
  have "quantum_of_bytes a b 0 = 64 * (4 * (256 * a + b))" by (simp add: quantum_of_bytes_def)
  then show ?thesis by (simp add: sextet_steps)
qed

section \<open>Encoding and decoding\<close>

record encoding =
  alphabet :: string
  padChar :: char
  strict :: bool

definition enc_char :: "encoding \<Rightarrow> nat \<Rightarrow> char" where
  "enc_char e i = alphabet e ! i"

fun index_from :: "nat \<Rightarrow> string \<Rightarrow> char \<Rightarrow> nat option" where
  "index_from i [] c = None"
| "index_from i (x # xs) c = (if x = c then Some i else index_from (Suc i) xs c)"

definition dec_char :: "encoding \<Rightarrow> char \<Rightarrow> nat option" where
  "dec_char e c = index_from 0 (alphabet e) c"

fun b64_encode :: "encoding \<Rightarrow> string \<Rightarrow> string" where
  "b64_encode e [] = []"
| "b64_encode e [a] =
     (let n = quantum_of_bytes (ord a) 0 0
      in [enc_char e (sextet 3 n), enc_char e (sextet 2 n), padChar e, padChar e])"
| "b64_encode e [a, b] =
     (let n = quantum_of_bytes (ord a) (ord b) 0
      in [enc_char e (sextet 3 n), enc_char e (sextet 2 n), enc_char e (sextet 1 n), padChar e])"
| "b64_encode e (a # b # c # s) =
     (let n = quantum_of_bytes (ord a) (ord b) (ord c)
      in enc_char e (sextet 3 n) # enc_char e (sextet 2 n) # enc_char e (sextet 1 n)
         # enc_char e (sextet 0 n) # b64_encode e s)"

definition byte_chr :: "nat \<Rightarrow> nat \<Rightarrow> char" where
  "byte_chr i n = chr (byte_at i n)"

text \<open>
  One quantum of four characters; a padding character is only looked at where the decode map
  has no entry, it must end the input, and in strict mode the unused bits must be zero.
\<close>

fun b64_quanta :: "encoding \<Rightarrow> string \<Rightarrow> string option" where
  "b64_quanta e [] = Some []"
| "b64_quanta e (p # q # r # t # s) =
     (case (dec_char e p, dec_char e q) of
        (Some w, Some x) \<Rightarrow>
          (case (dec_char e r, dec_char e t) of
             (Some y, Some z) \<Rightarrow>
               (let n = quantum_of_sextets w x y z
                in map_option (\<lambda>d. byte_chr 2 n # byte_chr 1 n # byte_chr 0 n # d)
                     (b64_quanta e s))
           | (Some y, None) \<Rightarrow>
               (let n = quantum_of_sextets w x y 0
                in if t = padChar e \<and> s = [] \<and> (strict e \<longrightarrow> byte_at 0 n = 0)
                   then Some [byte_chr 2 n, byte_chr 1 n] else None)
           | (None, _) \<Rightarrow>
               (let n = quantum_of_sextets w x 0 0
                in if r = padChar e \<and> t = padChar e \<and> s = [] \<and>
                      (strict e \<longrightarrow> byte_at 1 n = 0 \<and> byte_at 0 n = 0)
                   then Some [byte_chr 2 n] else None))
      | _ \<Rightarrow> None)"
| "b64_quanta e _ = None"

definition is_break :: "char \<Rightarrow> bool" where
  "is_break c \<longleftrightarrow> c = LF \<or> c = CR"

definition b64_decode :: "encoding \<Rightarrow> string \<Rightarrow> string option" where
  "b64_decode e s = b64_quanta e (filter (\<lambda>c. \<not> is_break c) s)"

lemma triple_induct [case_names none one two more]:
  assumes "P []" "\<And>a. P [a]" "\<And>a b. P [a, b]" "\<And>a b c s. P s \<Longrightarrow> P (a # b # c # s)"
  shows "P s"
proof (induction s rule: length_induct)
  case (1 s)
  show ?case
  proof (cases s)
    case (Cons a t)
    then show ?thesis using 1 assms by (cases t; cases "tl t") auto
  qed (simp add: assms)
qed

lemma quad_induct [case_names none one two three more]:
  assumes "P []" "\<And>a. P [a]" "\<And>a b. P [a, b]" "\<And>a b c. P [a, b, c]"
    "\<And>a b c d s. P s \<Longrightarrow> P (a # b # c # d # s)"
  shows "P s"
proof (induction s rule: length_induct)
  case (1 s)
  show ?case
  proof (cases s)
    case (Cons a t)
    then show ?thesis using 1 assms by (cases t; cases "tl t"; cases "tl (tl t)") auto
  qed (simp add: assms)
qed

section \<open>The contract of an alphabet\<close>

locale base64_alphabet =
  fixes enc :: encoding
  assumes alphabet_length: "length (alphabet enc) = 64"
    and alphabet_distinct: "distinct (alphabet enc)"
    and pad_outside: "padChar enc \<notin> set (alphabet enc)"
    and no_breaks: "\<forall>c \<in> insert (padChar enc) (set (alphabet enc)). \<not> is_break c"
begin

lemma index_from_nth:
  "distinct xs \<Longrightarrow> j < length xs \<Longrightarrow> index_from i xs (xs ! j) = Some (i + j)"
proof (induction xs arbitrary: i j)
  case (Cons x xs)
  then show ?case by (cases j) auto
qed simp

lemma index_from_Some:
  "index_from i xs c = Some k \<Longrightarrow> i \<le> k \<and> k - i < length xs \<and> xs ! (k - i) = c"
proof (induction xs arbitrary: i)
  case (Cons x xs)
  show ?case
  proof (cases "x = c")
    case True
    with Cons.prems show ?thesis by simp
  next
    case False
    with Cons.prems Cons.IH have "Suc i \<le> k \<and> k - Suc i < length xs \<and> xs ! (k - Suc i) = c"
      by simp
    then show ?thesis by (auto simp: nth_Cons' Suc_diff_le)
  qed
qed simp

lemma dec_enc_char: "i < 64 \<Longrightarrow> dec_char enc (enc_char enc i) = Some i"
  using index_from_nth [OF alphabet_distinct, of i 0] alphabet_length
  by (simp add: dec_char_def enc_char_def)

lemma enc_dec_char: "dec_char enc c = Some i \<Longrightarrow> enc_char enc i = c \<and> i < 64"
  using index_from_Some [of 0 "alphabet enc" c i] alphabet_length
  by (simp add: dec_char_def enc_char_def)

lemma index_from_None: "c \<notin> set xs \<Longrightarrow> index_from i xs c = None"
  by (induction xs arbitrary: i) auto

lemma dec_pad: "dec_char enc (padChar enc) = None"
  using pad_outside by (simp add: dec_char_def index_from_None)

lemma enc_char_in: "i < 64 \<Longrightarrow> enc_char enc i \<in> set (alphabet enc)"
  using alphabet_length by (simp add: enc_char_def)

lemma encode_chars: "set (b64_encode enc s) \<subseteq> insert (padChar enc) (set (alphabet enc))"
  by (induction s rule: triple_induct) (simp_all add: Let_def enc_char_in)

lemma encode_no_breaks: "filter (\<lambda>c. \<not> is_break c) (b64_encode enc s) = b64_encode enc s"
  using encode_chars no_breaks by (auto simp: filter_id_conv)

lemma tail_quanta:
  "a < 256 \<Longrightarrow> quantum_of_sextets (sextet 3 (quantum_of_bytes a 0 0))
     (sextet 2 (quantum_of_bytes a 0 0)) 0 0 = quantum_of_bytes a 0 0"
  "a < 256 \<Longrightarrow> b < 256 \<Longrightarrow> quantum_of_sextets (sextet 3 (quantum_of_bytes a b 0))
     (sextet 2 (quantum_of_bytes a b 0)) (sextet 1 (quantum_of_bytes a b 0)) 0 = quantum_of_bytes a b 0"
  using sextets_recombine [OF quantum_of_bytes_less, of a 0 0]
    sextets_recombine [OF quantum_of_bytes_less, of a b 0]
  by (simp_all add: one_byte_low two_byte_low del: One_nat_def)

lemma quanta_encode: "b64_quanta enc (b64_encode enc s) = Some s"
proof (induction s rule: triple_induct)
  case (one a)
  show ?case
    by (simp add: Let_def dec_enc_char dec_pad tail_quanta byte_chr_def byte_at_quantum
        del: One_nat_def)
next
  case (two a b)
  show ?case
    by (simp add: Let_def dec_enc_char dec_pad tail_quanta byte_chr_def byte_at_quantum
        del: One_nat_def)
next
  case (more a b c s)
  then show ?case
    by (simp add: Let_def dec_enc_char sextets_recombine quantum_of_bytes_less byte_chr_def
        byte_at_quantum del: One_nat_def)
qed simp

lemma decode_encode: "b64_decode enc (b64_encode enc s) = Some s"
  by (simp add: b64_decode_def encode_no_breaks quanta_encode)

text \<open>In strict mode a quantum is accepted only in the form the encoder writes.\<close>

lemma encode_tail_one:
  assumes "w < 64" "x < 64" "byte_at 1 n = 0" "byte_at 0 n = 0" "n = quantum_of_sextets w x 0 0"
  shows "b64_encode enc [byte_chr 2 n] = [enc_char enc w, enc_char enc x, padChar enc, padChar enc]"
proof -
  have "quantum_of_bytes (byte_at 2 n) 0 0 = n"
    using bytes_recombine [of n] quantum_of_sextets_less [of w x 0 0] assms by simp
  then show ?thesis
    using assms by (simp add: byte_chr_def Let_def sextet_quantum)
qed

lemma encode_tail_two:
  assumes "w < 64" "x < 64" "y < 64" "byte_at 0 n = 0" "n = quantum_of_sextets w x y 0"
  shows "b64_encode enc [byte_chr 2 n, byte_chr 1 n]
    = [enc_char enc w, enc_char enc x, enc_char enc y, padChar enc]"
proof -
  have "quantum_of_bytes (byte_at 2 n) (byte_at 1 n) 0 = n"
    using bytes_recombine [of n] quantum_of_sextets_less [of w x y 0] assms by simp
  then show ?thesis
    using assms by (simp add: byte_chr_def Let_def sextet_quantum [unfolded One_nat_def])
qed

lemma encode_full:
  assumes "w < 64" "x < 64" "y < 64" "z < 64" "n = quantum_of_sextets w x y z"
  shows "b64_encode enc (byte_chr 2 n # byte_chr 1 n # byte_chr 0 n # d)
    = enc_char enc w # enc_char enc x # enc_char enc y # enc_char enc z # b64_encode enc d"
proof -
  have "quantum_of_bytes (byte_at 2 n) (byte_at 1 n) (byte_at 0 n) = n"
    using bytes_recombine [of n] quantum_of_sextets_less [of w x y z] assms by simp
  then show ?thesis
    using assms by (simp add: byte_chr_def Let_def sextet_quantum [unfolded One_nat_def])
qed

lemma quanta_strict:
  assumes "strict enc"
  shows "b64_quanta enc s = Some d \<Longrightarrow> b64_encode enc d = s"
proof (induction s arbitrary: d rule: quad_induct)
  case (more a b c e s)
  from more.prems obtain w x where ab: "dec_char enc a = Some w" "dec_char enc b = Some x"
    by (auto split: option.splits)
  note ab' = enc_dec_char [OF ab(1)] enc_dec_char [OF ab(2)]
  show ?case
  proof (cases "dec_char enc c")
    case None
    let ?n = "quantum_of_sextets w x 0 0"
    from more.prems ab None assms have "c = padChar enc" "e = padChar enc" "s = []"
      "byte_at 1 ?n = 0" "byte_at 0 ?n = 0" "d = [byte_chr 2 ?n]"
      by (simp_all add: Let_def split: if_splits)
    with encode_tail_one [of w x ?n] ab' show ?thesis by (simp only: simp_thms)
  next
    case (Some y)
    note y' = enc_dec_char [OF Some]
    show ?thesis
    proof (cases "dec_char enc e")
      case None
      let ?n = "quantum_of_sextets w x y 0"
      from more.prems ab Some None assms have "e = padChar enc" "s = []"
        "byte_at 0 ?n = 0" "d = [byte_chr 2 ?n, byte_chr 1 ?n]"
        by (simp_all add: Let_def split: if_splits)
      with encode_tail_two [of w x y ?n] ab' y' show ?thesis by (simp only: simp_thms)
    next
      case z: (Some z)
      let ?n = "quantum_of_sextets w x y z"
      from more.prems ab Some z obtain d' where d': "b64_quanta enc s = Some d'"
        and d: "d = byte_chr 2 ?n # byte_chr 1 ?n # byte_chr 0 ?n # d'"
        by (auto simp: Let_def)
      show ?thesis
        using encode_full [of w x y z ?n d'] more.IH [OF d'] ab' y' enc_dec_char [OF z]
        by (simp only: d simp_thms)
    qed
  qed
qed auto

lemma decode_strict:
  assumes "strict enc" and "\<forall>c \<in> set s. \<not> is_break c" and "b64_decode enc s = Some d"
  shows "b64_encode enc d = s"
proof -
  have "filter (\<lambda>c. \<not> is_break c) s = s" using assms(2) by (simp add: filter_id_conv)
  then show ?thesis using quanta_strict assms(1,3) by (simp add: b64_decode_def)
qed

lemma encode_length: "length (b64_encode enc s) = 4 * ((length s + 2) div 3)"
proof (induction s rule: triple_induct)
  case (more a b c s)
  have "(5 + length s) div 3 = Suc ((length s + 2) div 3)" by presburger
  with more show ?case by (simp add: Let_def)
qed (simp_all add: Let_def)

end

section \<open>The standard alphabet\<close>

definition std_alphabet :: string where
  "std_alphabet = ''ABCDEFGHIJKLMNOPQRSTUVWXYZabcdefghijklmnopqrstuvwxyz0123456789+/''"

definition StdEncoding :: encoding where
  "StdEncoding = \<lparr>alphabet = std_alphabet, padChar = CHR ''='', strict = False\<rparr>"

definition StdStrict :: encoding where
  "StdStrict = StdEncoding\<lparr>strict := True\<rparr>"

interpretation std: base64_alphabet StdEncoding
  by unfold_locales (simp_all add: StdEncoding_def std_alphabet_def is_break_def)

interpretation std_strict: base64_alphabet StdStrict
  by unfold_locales (simp_all add: StdStrict_def StdEncoding_def std_alphabet_def is_break_def)

text \<open>Encoding does not look at the strict flag.\<close>

lemma b64_encode_strict_irrelevant: "b64_encode (e\<lparr>strict := b\<rparr>) s = b64_encode e s"
  by (induction s rule: triple_induct) (simp_all add: Let_def enc_char_def)

end
