(* ===== verification/Convert.thy ===== *)
theory Convert
  imports Chat_Types Go_Base64
begin

text \<open>
  The conversion half of \<open>convert.go\<close>: Anthropic messages, system prompts, tools and tool
  choices to the upstream format, and the placement of the prompt-cache marker.
\<close>

section \<open>Blocks\<close>

datatype convert_error = ParseContent string   \<comment> \<open>\<open>parse %s message content\<close>, with the role\<close>

definition blocksFromRaw :: "raw_message \<Rightarrow> anthropicBlock list option" where
  "blocksFromRaw raw =
     (case raw of
        None \<Rightarrow> Some []
      | Some d \<Rightarrow>
          (case dec_string [] d of
             Some s \<Rightarrow> Some [zero_block\<lparr>b_Type := ''text'', b_Text := s\<rparr>]
           | None \<Rightarrow> dec_list zero_block dec_block [] d))"

definition systemToString :: "raw_message \<Rightarrow> string" where
  "systemToString raw =
     (case raw of
        None \<Rightarrow> []
      | Some d \<Rightarrow>
          (case dec_string [] d of
             Some s \<Rightarrow> s
           | None \<Rightarrow>
               (case blocksFromRaw raw of
                  None \<Rightarrow> []
                | Some blocks \<Rightarrow>
                    Join (map b_Text (filter (\<lambda>b. b_Type b = ''text'' \<and> b_Text b \<noteq> []) blocks))
                      [LF, LF])))"

definition result_part :: "anthropicBlock \<Rightarrow> string list" where
  "result_part b =
     (if b_Type b = ''text'' then [b_Text b]
      else if b_Type b = ''image'' then
        (case b_Source b of
           Some src \<Rightarrow> if src_Type src = ''base64'' \<and> b64_decode StdEncoding (src_Data src) \<noteq> None
                      then [''[image omitted]''] else []
         | None \<Rightarrow> [])
      else [])"

definition toolResultText :: "raw_message \<Rightarrow> string" where
  "toolResultText raw =
     (case raw of
        None \<Rightarrow> []
      | Some d \<Rightarrow>
          (case dec_string [] d of
             Some s \<Rightarrow> s
           | None \<Rightarrow>
               (case blocksFromRaw raw of
                  None \<Rightarrow> doc_text d
                | Some blocks \<Rightarrow> Join (concat (map result_part blocks)) [LF])))"

section \<open>Messages\<close>

definition image_url :: "imageSource \<Rightarrow> string" where
  "image_url src =
     (if src_Type src = ''base64''
      then ''data:'' @ src_MediaType src @ '';base64,'' @ src_Data src else src_URL src)"

definition user_part :: "anthropicBlock \<Rightarrow> upPart list" where
  "user_part b =
     (if b_Type b = ''text'' then [text_part (b_Text b) (b_CacheControl b)]
      else if b_Type b = ''image'' then
        (case b_Source b of
           None \<Rightarrow> [] | Some src \<Rightarrow> [image_part (image_url src) (b_CacheControl b)])
      else [])"

definition user_texts :: "anthropicBlock list \<Rightarrow> string list" where
  "user_texts blocks = map b_Text (filter (\<lambda>b. b_Type b = ''text'') blocks)"

definition has_image :: "anthropicBlock list \<Rightarrow> bool" where
  "has_image blocks \<longleftrightarrow> (\<exists>b \<in> set blocks. b_Type b = ''image'' \<and> b_Source b \<noteq> None)"

definition userContentFromBlocks :: "anthropicBlock list \<Rightarrow> content \<times> upPart list" where
  "userContentFromBlocks blocks =
     (let parts = concat (map user_part blocks)
      in if has_image blocks then (CShared, parts)
         else (CText (Join (user_texts blocks) [LF]), parts))"

definition tool_message :: "anthropicBlock \<Rightarrow> upMessage" where
  "tool_message tr = empty_message\<lparr>um_Role := ''tool'', um_ToolCallID := b_ToolUseID tr,
     um_Content := CText (toolResultText (b_Content tr))\<rparr>"

definition user_messages :: "anthropicBlock list \<Rightarrow> upMessage list" where
  "user_messages blocks =
     (let toolResults = filter (\<lambda>b. b_Type b = ''tool_result'') blocks;
          normal = filter (\<lambda>b. b_Type b \<noteq> ''tool_result'') blocks
      in map tool_message toolResults @
         (if normal \<noteq> [] \<or> toolResults = [] then
            (case userContentFromBlocks normal of
               (content, parts) \<Rightarrow>
                 [empty_message\<lparr>um_Role := ''user'', um_Content := content, um_Contents := parts\<rparr>])
          else []))"

definition tool_call :: "anthropicBlock \<Rightarrow> upToolCall" where
  "tool_call b = \<lparr>tc_ID = b_ID b, tc_Type = ''function'', tc_Name = b_Name b,
     tc_Arguments = (case b_Input b of Some d \<Rightarrow> doc_text d | None \<Rightarrow> ''{}'')\<rparr>"

definition assistant_message :: "anthropicBlock list \<Rightarrow> upMessage" where
  "assistant_message blocks =
     (let texts = filter (\<lambda>b. b_Type b = ''text'') blocks;
          parts = map (\<lambda>b. text_part (b_Text b) (b_CacheControl b)) texts;
          calls = map tool_call (filter (\<lambda>b. b_Type b = ''tool_use'') blocks);
          joined = concat (map b_Text texts)
      in empty_message\<lparr>um_Role := ''assistant'', um_Contents := parts,
           um_Content := (if joined \<noteq> [] then CText joined
                          else if calls \<noteq> [] then CText [] else CNil),
           um_ToolCalls := calls\<rparr>)"

definition message_to_upstream :: "anthropicMsg \<Rightarrow> (convert_error, upMessage list) result" where
  "message_to_upstream m =
     (case blocksFromRaw (am_Content m) of
        None \<Rightarrow> Err (ParseContent (am_Role m))
      | Some blocks \<Rightarrow>
          Ok (if am_Role m = ''user'' then user_messages blocks else [assistant_message blocks]))"

fun messagesToUpstream :: "anthropicMsg list \<Rightarrow> (convert_error, upMessage list) result" where
  "messagesToUpstream [] = Ok []"
| "messagesToUpstream (m # ms) =
     (case message_to_upstream m of
        Err e \<Rightarrow> Err e
      | Ok out \<Rightarrow> (case messagesToUpstream ms of Err e \<Rightarrow> Err e | Ok rest \<Rightarrow> Ok (out @ rest)))"

section \<open>The cache marker\<close>

definition cacheablePart :: "string \<Rightarrow> bool" where
  "cacheablePart t \<longleftrightarrow> t = ''text'' \<or> t = ''image_url''"

definition mark_part :: "upPart \<Rightarrow> upPart" where
  "mark_part p = p\<lparr>up_CacheControl := Some ''ephemeral''\<rparr>"

text \<open>The inner loop, from the last part down; \<open>None\<close> when no part is cacheable.\<close>

fun mark_rev_parts :: "upPart list \<Rightarrow> upPart list option" where
  "mark_rev_parts [] = None"
| "mark_rev_parts (p # ps) =
     (if cacheablePart (up_Type p) then Some (mark_part p # ps)
      else map_option (\<lambda>qs. p # qs) (mark_rev_parts ps))"

fun mark_rev_messages :: "upMessage list \<Rightarrow> upMessage list" where
  "mark_rev_messages [] = []"
| "mark_rev_messages (m # ms) =
     (if um_Role m = ''tool'' then m # mark_rev_messages ms
      else (case mark_rev_parts (rev (um_Contents m)) of
              Some ps \<Rightarrow> m\<lparr>um_Contents := rev ps\<rparr> # ms
            | None \<Rightarrow> m # mark_rev_messages ms))"

definition has_marker :: "upMessage list \<Rightarrow> bool" where
  "has_marker msgs \<longleftrightarrow> (\<exists>m \<in> set msgs. \<exists>p \<in> set (um_Contents m). up_CacheControl p \<noteq> None)"

definition ensureCacheMarker :: "upMessage list \<Rightarrow> upMessage list" where
  "ensureCacheMarker msgs = (if has_marker msgs then msgs else rev (mark_rev_messages (rev msgs)))"

section \<open>Tools, tool choice, effort\<close>

definition empty_schema :: json where
  "empty_schema = JRaw (DObj ''{\"type\":\"object\"}'' [(''type'', DStr ''\"object\"'' ''object'')])"

definition function_tool :: "string \<Rightarrow> string \<Rightarrow> raw_message \<Rightarrow> json" where
  "function_tool name desc schema =
     JMap [(''type'', JStr ''function''),
           (''function'', JMap [(''name'', JStr name), (''description'', JStr desc),
              (''parameters'', case schema of Some d \<Rightarrow> JRaw d | None \<Rightarrow> empty_schema)])]"

text \<open>\<open>None\<close> is the nil slice; \<open>remoteChatAskBody\<close> replaces it by an empty one.\<close>

definition toolsToUpstream :: "anthropicTool list \<Rightarrow> json list option" where
  "toolsToUpstream tools =
     (if tools = [] then None
      else Some (map (\<lambda>t. function_tool (at_Name t) (at_Description t) (at_InputSchema t)) tools))"

definition budgetToEffort :: "int \<Rightarrow> string" where
  "budgetToEffort budget =
     (if budget \<le> 0 then ''none''
      else if budget \<le> 1024 then ''low''
      else if budget \<le> 8192 then ''medium''
      else if budget \<le> 24576 then ''high''
      else if budget \<le> 49152 then ''xhigh''
      else ''max'')"

record toolChoice =
  tch_Type :: string
  tch_Name :: string

definition toolChoice_fields :: "(string \<times> toolChoice decoder) list" where
  "toolChoice_fields = [(''type'', fld tch_Type tch_Type_update dec_string),
                    (''name'', fld tch_Name tch_Name_update dec_string)]"

definition toolChoiceToUpstream :: "raw_message \<Rightarrow> json option" where
  "toolChoiceToUpstream raw =
     (case raw of
        None \<Rightarrow> None
      | Some d \<Rightarrow>
          (case dec_struct toolChoice_fields \<lparr>tch_Type = [], tch_Name = []\<rparr> d of
             None \<Rightarrow> None
           | Some tc \<Rightarrow>
               (if tch_Type tc = ''auto'' then Some (JStr ''auto'')
                else if tch_Type tc = ''any'' then Some (JStr ''required'')
                else if tch_Type tc = ''none'' then Some (JStr ''none'')
                else if tch_Type tc = ''tool'' then
                  Some (JMap [(''type'', JStr ''function''),
                              (''function'', JMap [(''name'', JStr (tch_Name tc))])])
                else None)))"

end
