(* ===== verification/Convert_Props.thy ===== *)
theory Convert_Props
  imports Convert
begin

text \<open>
  What the conversion of \<open>Convert\<close> guarantees: every tool call and every tool result goes
  through once and in order, tool results stay next to the assistant turn they answer, and
  the cache marker lands on one part and changes nothing else.
\<close>

section \<open>Tool calls and results\<close>

definition call_ids :: "upMessage list \<Rightarrow> string list" where
  "call_ids out = concat (map (\<lambda>m. map tc_ID (um_ToolCalls m)) out)"

definition result_ids :: "upMessage list \<Rightarrow> string list" where
  "result_ids out = map um_ToolCallID (filter (\<lambda>m. um_Role m = ''tool'') out)"

text \<open>What the client sent: the ids of its tool_use blocks and of its tool_result blocks.\<close>

definition msg_blocks :: "anthropicMsg \<Rightarrow> anthropicBlock list" where
  "msg_blocks m = (case blocksFromRaw (am_Content m) of None \<Rightarrow> [] | Some bs \<Rightarrow> bs)"

definition sent_call_ids :: "anthropicMsg list \<Rightarrow> string list" where
  "sent_call_ids ms = concat (map (\<lambda>m. map b_ID (filter (\<lambda>b. b_Type b = ''tool_use'') (msg_blocks m)))
     (filter (\<lambda>m. am_Role m \<noteq> ''user'') ms))"

definition sent_result_ids :: "anthropicMsg list \<Rightarrow> string list" where
  "sent_result_ids ms =
     concat (map (\<lambda>m. map b_ToolUseID (filter (\<lambda>b. b_Type b = ''tool_result'') (msg_blocks m)))
       (filter (\<lambda>m. am_Role m = ''user'') ms))"

lemma call_ids_append [simp]: "call_ids (xs @ ys) = call_ids xs @ call_ids ys"
  by (simp add: call_ids_def)

lemma result_ids_append [simp]: "result_ids (xs @ ys) = result_ids xs @ result_ids ys"
  by (simp add: result_ids_def)

lemma tool_message_fields [simp]:
  "um_Role (tool_message b) = ''tool''" "um_ToolCalls (tool_message b) = []"
  "um_ToolCallID (tool_message b) = b_ToolUseID b" "um_Contents (tool_message b) = []"
  by (simp_all add: tool_message_def empty_message_def)

lemma assistant_message_fields [simp]:
  "um_Role (assistant_message bs) = ''assistant''"
  "um_ToolCalls (assistant_message bs) = map tool_call (filter (\<lambda>b. b_Type b = ''tool_use'') bs)"
  by (simp_all add: assistant_message_def empty_message_def Let_def)

lemma user_messages_eq:
  "user_messages bs = map tool_message (filter (\<lambda>b. b_Type b = ''tool_result'') bs) @
     (let normal = filter (\<lambda>b. b_Type b \<noteq> ''tool_result'') bs
      in if normal \<noteq> [] \<or> filter (\<lambda>b. b_Type b = ''tool_result'') bs = [] then
        [empty_message\<lparr>um_Role := ''user'', um_Content := fst (userContentFromBlocks normal),
           um_Contents := snd (userContentFromBlocks normal)\<rparr>] else [])"
  by (simp add: user_messages_def Let_def split_beta)

lemma user_messages_ids:
  "call_ids (user_messages bs) = []"
  "result_ids (user_messages bs) = map b_ToolUseID (filter (\<lambda>b. b_Type b = ''tool_result'') bs)"
  by (simp_all add: user_messages_eq call_ids_def result_ids_def Let_def empty_message_def
      comp_def)

lemma assistant_message_ids:
  "call_ids [assistant_message bs] = map b_ID (filter (\<lambda>b. b_Type b = ''tool_use'') bs)"
  "result_ids [assistant_message bs] = []"
  by (simp_all add: call_ids_def result_ids_def tool_call_def comp_def)

lemma message_to_upstream_ids:
  assumes "message_to_upstream m = Ok out"
  shows "call_ids out = sent_call_ids [m]" "result_ids out = sent_result_ids [m]"
  using assms
  by (auto simp: message_to_upstream_def sent_call_ids_def sent_result_ids_def msg_blocks_def
      user_messages_ids assistant_message_ids split: option.splits)

lemma sent_ids_Cons:
  "sent_call_ids (m # ms) = sent_call_ids [m] @ sent_call_ids ms"
  "sent_result_ids (m # ms) = sent_result_ids [m] @ sent_result_ids ms"
  by (simp_all add: sent_call_ids_def sent_result_ids_def)

lemma messagesToUpstream_ids:
  "messagesToUpstream ms = Ok out \<Longrightarrow>
     call_ids out = sent_call_ids ms \<and> result_ids out = sent_result_ids ms"
proof (induction ms arbitrary: out)
  case Nil
  then show ?case
    by (simp add: call_ids_def result_ids_def sent_call_ids_def sent_result_ids_def)
next
  case (Cons m ms)
  then obtain o1 o2 where "message_to_upstream m = Ok o1" "messagesToUpstream ms = Ok o2"
    "out = o1 @ o2"
    by (auto split: sum.splits)
  with Cons.IH show ?case
    by (simp add: message_to_upstream_ids sent_ids_Cons [of m ms])
qed

section \<open>Errors\<close>

definition malformed :: "anthropicMsg \<Rightarrow> bool" where
  "malformed m \<longleftrightarrow> blocksFromRaw (am_Content m) = None"

lemma message_error_iff:
  "message_to_upstream m = Err e \<longleftrightarrow> malformed m \<and> e = ParseContent (am_Role m)"
  by (auto simp: message_to_upstream_def malformed_def split: option.splits)

lemma messagesToUpstream_error_iff:
  "messagesToUpstream ms = Err e \<longleftrightarrow>
     (\<exists>pre m post. ms = pre @ m # post \<and> (\<forall>x \<in> set pre. \<not> malformed x) \<and> malformed m \<and>
        e = ParseContent (am_Role m))"
  (is "_ \<longleftrightarrow> ?first ms")
proof (induction ms)
  case (Cons m ms)
  show ?case
  proof (cases "malformed m")
    case True
    then have "messagesToUpstream (m # ms) = Err (ParseContent (am_Role m))"
      by (simp add: message_error_iff [THEN iffD2])
    moreover have "?first (m # ms) \<longleftrightarrow> e = ParseContent (am_Role m)"
    proof
      assume "?first (m # ms)"
      then show "e = ParseContent (am_Role m)" using True by (auto simp: Cons_eq_append_conv)
    next
      assume "e = ParseContent (am_Role m)"
      with True have "m # ms = [] @ m # ms \<and> (\<forall>x \<in> set []. \<not> malformed x) \<and> malformed m \<and>
        e = ParseContent (am_Role m)" by simp
      then show "?first (m # ms)" by blast
    qed
    ultimately show ?thesis by auto
  next
    case False
    then obtain o1 where "message_to_upstream m = Ok o1"
      by (cases "message_to_upstream m") (auto simp: message_error_iff)
    then have "messagesToUpstream (m # ms) = Err e \<longleftrightarrow> messagesToUpstream ms = Err e"
      by (simp split: sum.split)
    moreover have "?first (m # ms) \<longleftrightarrow> ?first ms"
    proof
      assume "?first (m # ms)"
      with False show "?first ms" by (auto simp: Cons_eq_append_conv) blast
    next
      assume "?first ms"
      then obtain pre x post where x: "ms = pre @ x # post" "\<forall>y \<in> set pre. \<not> malformed y"
        "malformed x" "e = ParseContent (am_Role x)" by blast
      then have "m # ms = (m # pre) @ x # post \<and> (\<forall>y \<in> set (m # pre). \<not> malformed y) \<and>
        malformed x \<and> e = ParseContent (am_Role x)" using False by simp
      then show "?first (m # ms)" by blast
    qed
    ultimately show ?thesis using Cons.IH by simp
  qed
qed simp

section \<open>Adjacency of tool results\<close>

text \<open>
  \<open>adjacent prev out\<close>: each tool message of \<open>out\<close> directly follows an assistant message or
  another tool message, where \<open>prev\<close> is the role before \<open>out\<close>.
\<close>

fun adjacent :: "string option \<Rightarrow> upMessage list \<Rightarrow> bool" where
  "adjacent prev [] = True"
| "adjacent prev (m # ms) =
     ((um_Role m = ''tool'' \<longrightarrow> prev = Some ''assistant'' \<or> prev = Some ''tool'') \<and>
      adjacent (Some (um_Role m)) ms)"

fun last_role :: "string option \<Rightarrow> upMessage list \<Rightarrow> string option" where
  "last_role prev [] = prev"
| "last_role prev (m # ms) = last_role (Some (um_Role m)) ms"

text \<open>The client's side: a user message with tool results follows an assistant message.\<close>

fun results_follow :: "bool \<Rightarrow> anthropicMsg list \<Rightarrow> bool" where
  "results_follow after [] = True"
| "results_follow after (m # ms) =
     ((am_Role m = ''user'' \<and> sent_result_ids [m] \<noteq> [] \<longrightarrow> after) \<and>
      results_follow (am_Role m \<noteq> ''user'') ms)"

lemma adjacent_append:
  "adjacent prev (xs @ ys) \<longleftrightarrow> adjacent prev xs \<and> adjacent (last_role prev xs) ys"
  by (induction xs arbitrary: prev) auto

lemma adjacent_tools:
  "prev = Some ''assistant'' \<or> prev = Some ''tool'' \<Longrightarrow> adjacent prev (map tool_message bs)"
  by (induction bs arbitrary: prev) auto

lemma adjacent_user_messages:
  assumes "filter (\<lambda>b. b_Type b = ''tool_result'') bs \<noteq> [] \<longrightarrow> prev = Some ''assistant''"
  shows "adjacent prev (user_messages bs)"
proof (cases "filter (\<lambda>b. b_Type b = ''tool_result'') bs = []")
  case True
  then show ?thesis
    by (simp add: user_messages_eq Let_def empty_message_def)
next
  case False
  with assms have "prev = Some ''assistant''" by simp
  then have "adjacent prev (map tool_message (filter (\<lambda>b. b_Type b = ''tool_result'') bs))"
    by (simp add: adjacent_tools)
  then show ?thesis
    by (simp add: user_messages_eq Let_def adjacent_append empty_message_def)
qed

lemma messagesToUpstream_adjacent:
  "messagesToUpstream ms = Ok out \<Longrightarrow> results_follow after ms \<Longrightarrow>
     (after \<longrightarrow> prev = Some ''assistant'') \<Longrightarrow> adjacent prev out"
proof (induction ms arbitrary: out after prev)
  case (Cons m ms)
  from Cons.prems(1) obtain o1 o2 where o1: "message_to_upstream m = Ok o1"
    and o2: "messagesToUpstream ms = Ok o2" and out: "out = o1 @ o2"
    by (auto split: sum.splits)
  from o1 obtain bs where bs: "blocksFromRaw (am_Content m) = Some bs"
    and o1': "o1 = (if am_Role m = ''user'' then user_messages bs else [assistant_message bs])"
    by (auto simp: message_to_upstream_def split: option.splits)
  show ?case
  proof (cases "am_Role m = ''user''")
    case True
    with bs Cons.prems(2,3) have "adjacent prev o1"
      by (auto simp: o1' sent_result_ids_def msg_blocks_def intro: adjacent_user_messages)
    moreover have "adjacent (last_role prev o1) o2"
      using Cons.IH [OF o2, of False] Cons.prems(2) True by simp
    ultimately show ?thesis by (simp add: out adjacent_append)
  next
    case False
    then have "adjacent (Some ''assistant'') o2"
      using Cons.IH [OF o2, of True] Cons.prems(2) by simp
    with False show ?thesis by (simp add: out o1')
  qed
qed simp

section \<open>The cache marker\<close>

definition uncacheable :: "upMessage \<Rightarrow> bool" where
  "uncacheable m \<longleftrightarrow> um_Role m = ''tool'' \<or> (\<forall>p \<in> set (um_Contents m). \<not> cacheablePart (up_Type p))"

definition marked_parts :: "upMessage list \<Rightarrow> upPart list" where
  "marked_parts msgs = filter (\<lambda>p. up_CacheControl p \<noteq> None) (concat (map um_Contents msgs))"

definition unmark :: "upMessage \<Rightarrow> upMessage" where
  "unmark m = m\<lparr>um_Contents := map (\<lambda>p. p\<lparr>up_CacheControl := None\<rparr>) (um_Contents m)\<rparr>"

lemma mark_rev_parts_None: "mark_rev_parts ps = None \<longleftrightarrow> (\<forall>p \<in> set ps. \<not> cacheablePart (up_Type p))"
  by (induction ps) auto

lemma mark_rev_parts_Some:
  "mark_rev_parts ps = Some qs \<Longrightarrow>
     \<exists>xs p ys. ps = xs @ p # ys \<and> (\<forall>x \<in> set xs. \<not> cacheablePart (up_Type x)) \<and>
       cacheablePart (up_Type p) \<and> qs = xs @ mark_part p # ys"
proof (induction ps arbitrary: qs)
  case (Cons a ps)
  show ?case
  proof (cases "cacheablePart (up_Type a)")
    case True
    with Cons.prems show ?thesis by (intro exI [of _ "[]"]) auto
  next
    case False
    with Cons.prems obtain rs where "mark_rev_parts ps = Some rs" "qs = a # rs" by auto
    with Cons.IH [of rs] obtain xs p ys where "ps = xs @ p # ys"
      "\<forall>x \<in> set xs. \<not> cacheablePart (up_Type x)" "cacheablePart (up_Type p)"
      "rs = xs @ mark_part p # ys" by blast
    with False \<open>qs = a # rs\<close> show ?thesis by (intro exI [of _ "a # xs"]) auto
  qed
qed simp

lemma mark_rev_messages_none:
  "\<forall>m \<in> set ms. uncacheable m \<Longrightarrow> mark_rev_messages ms = ms"
  by (induction ms) (auto simp: uncacheable_def mark_rev_parts_None [THEN iffD2])

lemma mark_rev_messages_some:
  "\<exists>m \<in> set ms. \<not> uncacheable m \<Longrightarrow>
     \<exists>xs m ys ps p qs. ms = xs @ m # ys \<and> (\<forall>x \<in> set xs. uncacheable x) \<and>
       um_Role m \<noteq> ''tool'' \<and> um_Contents m = ps @ p # qs \<and> cacheablePart (up_Type p) \<and>
       (\<forall>q \<in> set qs. \<not> cacheablePart (up_Type q)) \<and>
       mark_rev_messages ms = xs @ m\<lparr>um_Contents := ps @ mark_part p # qs\<rparr> # ys"
proof (induction ms)
  case (Cons a ms)
  show ?case
  proof (cases "uncacheable a")
    case True
    with Cons.prems have "\<exists>m \<in> set ms. \<not> uncacheable m" by auto
    then obtain xs m ys ps p qs where ih: "ms = xs @ m # ys" "\<forall>x \<in> set xs. uncacheable x"
      "um_Role m \<noteq> ''tool''" "um_Contents m = ps @ p # qs" "cacheablePart (up_Type p)"
      "\<forall>q \<in> set qs. \<not> cacheablePart (up_Type q)"
      "mark_rev_messages ms = xs @ m\<lparr>um_Contents := ps @ mark_part p # qs\<rparr> # ys"
      using Cons.IH by blast
    moreover have "mark_rev_messages (a # ms) = a # mark_rev_messages ms"
      using True by (auto simp: uncacheable_def mark_rev_parts_None [THEN iffD2])
    ultimately show ?thesis using True
      by (intro exI [of _ "a # xs"] exI [of _ m] exI [of _ ys] exI [of _ ps]
          exI [of _ p] exI [of _ qs]) auto
  next
    case False
    then have tool: "um_Role a \<noteq> ''tool''" by (simp add: uncacheable_def)
    from False obtain rs where rs: "mark_rev_parts (rev (um_Contents a)) = Some rs"
      using mark_rev_parts_None [of "rev (um_Contents a)"] by (auto simp: uncacheable_def)
    from mark_rev_parts_Some [OF rs] obtain xs p ys where
      d: "rev (um_Contents a) = xs @ p # ys" "\<forall>x \<in> set xs. \<not> cacheablePart (up_Type x)"
      "cacheablePart (up_Type p)" "rs = xs @ mark_part p # ys" by blast
    then have "um_Contents a = rev ys @ p # rev xs" by (simp add: rev_swap)
    moreover have "mark_rev_messages (a # ms) = a\<lparr>um_Contents := rev ys @ mark_part p # rev xs\<rparr> # ms"
      using tool rs d by simp
    ultimately show ?thesis using tool d
      by (intro exI [of _ "[]"] exI [of _ a] exI [of _ ms] exI [of _ "rev ys"]
          exI [of _ p] exI [of _ "rev xs"]) auto
  qed
qed simp

lemma ensureCacheMarker_split:
  assumes "\<not> has_marker msgs" and "\<exists>m \<in> set msgs. \<not> uncacheable m"
  obtains pre m post ps p qs where "msgs = pre @ m # post" "\<forall>x \<in> set post. uncacheable x"
    "um_Role m \<noteq> ''tool''" "um_Contents m = ps @ p # qs" "cacheablePart (up_Type p)"
    "\<forall>q \<in> set qs. \<not> cacheablePart (up_Type q)"
    "ensureCacheMarker msgs = pre @ m\<lparr>um_Contents := ps @ mark_part p # qs\<rparr> # post"
proof -
  from assms(2) have "\<exists>m \<in> set (rev msgs). \<not> uncacheable m" by simp
  from mark_rev_messages_some [OF this] obtain xs m ys ps p qs where
    d: "rev msgs = xs @ m # ys" "\<forall>x \<in> set xs. uncacheable x"
    "um_Role m \<noteq> ''tool''" "um_Contents m = ps @ p # qs" "cacheablePart (up_Type p)"
    "\<forall>q \<in> set qs. \<not> cacheablePart (up_Type q)"
    "mark_rev_messages (rev msgs) = xs @ m\<lparr>um_Contents := ps @ mark_part p # qs\<rparr> # ys" by blast
  from d(1) have "msgs = rev ys @ m # rev xs" by (simp add: rev_swap)
  moreover have "ensureCacheMarker msgs = rev ys @ m\<lparr>um_Contents := ps @ mark_part p # qs\<rparr> # rev xs"
    using assms(1) d(7) by (simp add: ensureCacheMarker_def)
  ultimately show ?thesis using that d(2-6) by simp
qed

lemma has_marker_iff: "has_marker msgs \<longleftrightarrow> marked_parts msgs \<noteq> []"
  by (auto simp: has_marker_def marked_parts_def filter_empty_conv)

lemma no_marker_parts: "\<not> has_marker msgs \<Longrightarrow> m \<in> set msgs \<Longrightarrow> p \<in> set (um_Contents m) \<Longrightarrow>
    up_CacheControl p = None"
  by (auto simp: has_marker_def)

lemma marked_parts_append: "marked_parts (xs @ ys) = marked_parts xs @ marked_parts ys"
  by (simp add: marked_parts_def)

lemma marked_parts_Cons:
  "marked_parts (m # ms) = filter (\<lambda>p. up_CacheControl p \<noteq> None) (um_Contents m) @ marked_parts ms"
  by (simp add: marked_parts_def)

lemma ensureCacheMarker_one:
  assumes "\<not> has_marker msgs" and "\<exists>m \<in> set msgs. \<not> uncacheable m"
  shows "\<exists>p. marked_parts (ensureCacheMarker msgs) = [p] \<and> up_CacheControl p = Some ''ephemeral''"
proof -
  obtain pre m post ps p qs where d: "msgs = pre @ m # post" "um_Contents m = ps @ p # qs"
    "ensureCacheMarker msgs = pre @ m\<lparr>um_Contents := ps @ mark_part p # qs\<rparr> # post"
    using ensureCacheMarker_split [OF assms] by metis
  from assms(1) have "marked_parts msgs = []" by (simp add: has_marker_iff)
  then have "marked_parts pre = []" "marked_parts post = []"
    "filter (\<lambda>p. up_CacheControl p \<noteq> None) (ps @ p # qs) = []"
    by (simp_all add: d(1,2) marked_parts_append marked_parts_Cons)
  then have "marked_parts (ensureCacheMarker msgs) = [mark_part p]"
    by (simp add: d(3) marked_parts_append marked_parts_Cons mark_part_def split: if_splits)
  then show ?thesis by (simp add: mark_part_def)
qed

lemma ensureCacheMarker_unmark: "map unmark (ensureCacheMarker msgs) = map unmark msgs"
proof (cases "has_marker msgs")
  case False
  show ?thesis
  proof (cases "\<exists>m \<in> set msgs. \<not> uncacheable m")
    case True
    obtain pre m post ps p qs where "msgs = pre @ m # post" "um_Contents m = ps @ p # qs"
      "ensureCacheMarker msgs = pre @ m\<lparr>um_Contents := ps @ mark_part p # qs\<rparr> # post"
      using ensureCacheMarker_split [OF False True] by metis
    then show ?thesis by (simp add: unmark_def mark_part_def)
  next
    case none: False
    then show ?thesis
      using mark_rev_messages_none [of "rev msgs"] by (simp add: ensureCacheMarker_def)
  qed
qed (simp add: ensureCacheMarker_def)

lemma ensureCacheMarker_idem: "ensureCacheMarker (ensureCacheMarker msgs) = ensureCacheMarker msgs"
proof (cases "has_marker msgs \<or> (\<forall>m \<in> set msgs. uncacheable m)")
  case True
  then have "ensureCacheMarker msgs = msgs"
    using mark_rev_messages_none [of "rev msgs"] by (auto simp: ensureCacheMarker_def)
  then show ?thesis by simp
next
  case False
  then have "has_marker (ensureCacheMarker msgs)"
    using ensureCacheMarker_one [of msgs] by (auto simp: has_marker_iff)
  then show ?thesis by (simp add: ensureCacheMarker_def [of "ensureCacheMarker msgs"])
qed

section \<open>Effort levels\<close>

datatype effort = NoEffort | Low | Medium | High | XHigh | MaxEffort

fun effort_rank :: "effort \<Rightarrow> nat" where
  "effort_rank NoEffort = 0"
| "effort_rank Low = 1"
| "effort_rank Medium = 2"
| "effort_rank High = 3"
| "effort_rank XHigh = 4"
| "effort_rank MaxEffort = 5"

lemma effort_rank_inj: "effort_rank a = effort_rank b \<Longrightarrow> a = b"
  by (cases a; cases b) simp_all

instantiation effort :: linorder
begin

definition less_eq_effort :: "effort \<Rightarrow> effort \<Rightarrow> bool" where
  "a \<le> b \<longleftrightarrow> effort_rank a \<le> effort_rank b"

definition less_effort :: "effort \<Rightarrow> effort \<Rightarrow> bool" where
  "a < b \<longleftrightarrow> effort_rank a < effort_rank b"

instance
  by standard (auto simp: less_eq_effort_def less_effort_def effort_rank_inj)

end

definition effort_levels :: "(string \<times> effort) list" where
  "effort_levels = [(''none'', NoEffort), (''low'', Low), (''medium'', Medium), (''high'', High),
     (''xhigh'', XHigh), (''max'', MaxEffort)]"

lemma budgetToEffort_level:
  "map_of effort_levels (budgetToEffort b) =
     Some (if b \<le> 0 then NoEffort else if b \<le> 1024 then Low else if b \<le> 8192 then Medium
           else if b \<le> 24576 then High else if b \<le> 49152 then XHigh else MaxEffort)"
  by (simp add: budgetToEffort_def effort_levels_def)

lemma budgetToEffort_strict:
  assumes "map_of effort_levels (budgetToEffort b) = Some e" "map_of effort_levels (budgetToEffort c) = Some f"
    "b \<le> c"
  shows "e \<le> f"
  using assms by (auto simp: budgetToEffort_level less_eq_effort_def split: if_splits)

section \<open>Properties\<close>

text \<open>A conversation: a call of the assistant, its result from the user.\<close>

definition sample_call :: anthropicMsg where
  "sample_call = \<lparr>am_Role = ''assistant'', am_Content = Some (DArr ''['' [DObj ''{''
     [(''type'', DStr ''t'' ''tool_use''), (''id'', DStr ''i'' ''c1''), (''name'', DStr ''n'' ''f'')]])\<rparr>"

definition sample_result :: anthropicMsg where
  "sample_result = \<lparr>am_Role = ''user'', am_Content = Some (DArr ''['' [DObj ''{''
     [(''type'', DStr ''t'' ''tool_result''), (''tool_use_id'', DStr ''i'' ''c1'')]])\<rparr>"

lemmas convert_eval = message_to_upstream_def blocksFromRaw_def dec_block_def block_fields_def
  zero_block_def fld_def find_field_def lower_char_def char_eval

lemma sample_call_blocks:
  "blocksFromRaw (am_Content sample_call) =
     Some [zero_block\<lparr>b_Type := ''tool_use'', b_ID := ''c1'', b_Name := ''f''\<rparr>]"
  by (simp add: sample_call_def convert_eval)

lemma sample_result_blocks:
  "blocksFromRaw (am_Content sample_result) =
     Some [zero_block\<lparr>b_Type := ''tool_result'', b_ToolUseID := ''c1''\<rparr>]"
  by (simp add: sample_result_def convert_eval)

lemma sample_conversation:
  "\<exists>out. messagesToUpstream [sample_call, sample_result] = Ok out"
  "sent_call_ids [sample_call, sample_result] = [''c1'']"
  "sent_result_ids [sample_call, sample_result] = [''c1'']"
  "results_follow False [sample_call, sample_result]"
  using sample_call_blocks sample_result_blocks
  by (simp_all add: message_to_upstream_def sent_call_ids_def sent_result_ids_def msg_blocks_def
      sample_call_def sample_result_def zero_block_def)

text \<open>
  C31: in a conversion that succeeds, the tool calls of the upstream messages carry exactly the
  ids of the \<open>tool_use\<close> blocks the client sent outside user messages, and the tool messages
  exactly the ids of its \<open>tool_result\<close> blocks in user messages, each once and in order.
\<close>

theorem tool_ids_preserved:
  assumes "messagesToUpstream ms = Ok out"
  shows "call_ids out = sent_call_ids ms \<and> result_ids out = sent_result_ids ms"
  using assms by (rule messagesToUpstream_ids)

lemma tool_ids_preserved_witness:
  "\<exists>out. messagesToUpstream [sample_call, sample_result] = Ok out \<and>
     call_ids out = [''c1''] \<and> result_ids out = [''c1'']"
  using tool_ids_preserved [of "[sample_call, sample_result]"] sample_conversation by metis

text \<open>
  C32: when the client sends tool results only right after an assistant turn, every tool message
  sent upstream directly follows an assistant message or another tool message: no user text
  ever comes between a call and its results.
\<close>

theorem tool_results_adjacent:
  assumes "messagesToUpstream ms = Ok out" and "results_follow False ms"
  shows "adjacent None out"
  using messagesToUpstream_adjacent [OF assms] by simp

lemma tool_results_adjacent_witness:
  "\<exists>out. messagesToUpstream [sample_call, sample_result] = Ok out \<and> adjacent None out"
  using tool_results_adjacent [of "[sample_call, sample_result]"] sample_conversation by metis

text \<open>
  C33: the conversion fails exactly when some message's content is not a block list, and the
  error names the role of the first such message.
\<close>

theorem conversion_fails_iff:
  "messagesToUpstream ms = Err e \<longleftrightarrow>
     (\<exists>pre m post. ms = pre @ m # post \<and> list_all (\<lambda>x. \<not> malformed x) pre \<and> malformed m \<and>
        e = ParseContent (am_Role m))"
  by (simp add: messagesToUpstream_error_iff list_all_iff)

text \<open>
  C30: the cache marker: when no part carries one and some message outside the tool role has a
  cacheable part, exactly one part is marked, as ephemeral: the last cacheable part of the last
  such message. Everything else stays as it was, and a second pass changes nothing.
\<close>

theorem cache_marker_placed:
  assumes "\<not> has_marker msgs" and "list_ex (\<lambda>m. \<not> uncacheable m) msgs"
  shows "\<exists>pre m post ps p qs. msgs = pre @ m # post \<and> list_all uncacheable post \<and>
    um_Role m \<noteq> ''tool'' \<and> um_Contents m = ps @ p # qs \<and> cacheablePart (up_Type p) \<and>
    list_all (\<lambda>q. \<not> cacheablePart (up_Type q)) qs \<and>
    ensureCacheMarker msgs =
      pre @ m\<lparr>um_Contents := ps @ p\<lparr>up_CacheControl := Some ''ephemeral''\<rparr> # qs\<rparr> # post \<and>
    ensureCacheMarker (ensureCacheMarker msgs) = ensureCacheMarker msgs"
proof -
  from assms(2) have "\<exists>m \<in> set msgs. \<not> uncacheable m" by (simp add: list_ex_iff)
  from ensureCacheMarker_split [OF assms(1) this] show ?thesis
    unfolding mark_part_def list_all_iff by (metis ensureCacheMarker_idem)
qed

lemma cache_marker_placed_witness:
  "ensureCacheMarker [empty_message\<lparr>um_Role := ''user'', um_Contents := [text_part ''a'' None]\<rparr>] =
     [empty_message\<lparr>um_Role := ''user'', um_Contents := [text_part ''a'' (Some ''ephemeral'')]\<rparr>]"
  using cache_marker_placed
    [of "[empty_message\<lparr>um_Role := ''user'', um_Contents := [text_part ''a'' None]\<rparr>]"]
  by (simp add: has_marker_def uncacheable_def text_part_def empty_message_def cacheablePart_def
      Cons_eq_append_conv)

text \<open>
  The effort sent upstream is one of the six levels and grows with the client's thinking
  budget.
\<close>

lemma effort_monotone:
  assumes "b \<le> c"
  shows "\<exists>e f. map_of effort_levels (budgetToEffort b) = Some e \<and>
    map_of effort_levels (budgetToEffort c) = Some f \<and> e \<le> f"
  using budgetToEffort_strict [OF _ _ assms] by (simp add: budgetToEffort_level)

lemma effort_monotone_witness:
  "\<exists>e f. map_of effort_levels (budgetToEffort 1024) = Some e \<and>
     map_of effort_levels (budgetToEffort 1025) = Some f \<and> e \<le> f"
  by (rule effort_monotone) simp

end
