(* ===== verification/Sse.thy ===== *)
theory Sse
  imports Go_Strings
begin

text \<open>
  \<open>readSSE\<close> of \<open>proxy.go\<close>: lines of an upstream body are collected into frames, and each frame
  goes to a callback that may stop the reader. The body is its bytes together with how
  reading them ends; the callback is a state transformer that returns whether to go on.
\<close>

section \<open>The reader\<close>

record sseFrame =
  f_event :: string
  f_data :: string

datatype body_end = AtEOF | ReadError string

text \<open>\<open>bufio.Reader.ReadString\<close>: each piece ends with its line feed, the last one may not.\<close>

fun split_lines :: "string \<Rightarrow> string \<Rightarrow> string list" where
  "split_lines cur [] = (if cur = [] then [] else [cur])"
| "split_lines cur (c # s) =
     (if c = LF then (cur @ [c]) # split_lines [] s else split_lines (cur @ [c]) s)"

definition trim_line :: "string \<Rightarrow> string" where
  "trim_line l = TrimRight l [CR, LF]"

text \<open>A non-empty line: what it adds to the pending event name and data.\<close>

definition feed_line :: "string \<Rightarrow> string \<times> string \<Rightarrow> string \<times> string" where
  "feed_line t = (\<lambda>(event, data).
     if HasPrefix t ''event:'' then
       ((if event \<noteq> [] then event @ [SP] else event) @ TrimSpace (TrimPrefix t ''event:''), data)
     else if HasPrefix t ''data:'' then
       (event, (if data \<noteq> [] then data @ [LF] else data)
               @ TrimPrefix (TrimPrefix t ''data:'') [SP])
     else (event, data))"

type_synonym 's callback = "'s \<Rightarrow> sseFrame \<Rightarrow> 's \<times> bool"

fun read_lines ::
  "'s callback \<Rightarrow> 's \<Rightarrow> string \<times> string \<Rightarrow> string list \<Rightarrow> body_end \<Rightarrow> 's \<times> string option" where
  "read_lines fn s (event, data) [] e =
     (case e of
        AtEOF \<Rightarrow> (if data = [] \<and> event = [] then s
                  else fst (fn s \<lparr>f_event = event, f_data = data\<rparr>), None)
      | ReadError msg \<Rightarrow> (s, Some msg))"
| "read_lines fn s (event, data) (l # ls) e =
     (let t = trim_line l in
      if t = [] then
        (if data = [] \<and> event = [] then read_lines fn s ([], []) ls e
         else (case fn s \<lparr>f_event = event, f_data = data\<rparr> of
                 (s', True) \<Rightarrow> read_lines fn s' ([], []) ls e
               | (s', False) \<Rightarrow> (s', None)))
      else read_lines fn s (feed_line t (event, data)) ls e)"

definition readSSE :: "'s callback \<Rightarrow> 's \<Rightarrow> string \<Rightarrow> body_end \<Rightarrow> 's \<times> string option" where
  "readSSE fn s body e = read_lines fn s ([], []) (split_lines [] body) e"

section \<open>The frames of a body\<close>

text \<open>The frames a callback that never stops would see, and the run of a callback over frames.\<close>

fun frames_of :: "string \<times> string \<Rightarrow> string list \<Rightarrow> body_end \<Rightarrow> sseFrame list" where
  "frames_of (event, data) [] e =
     (if e \<noteq> AtEOF \<or> (data = [] \<and> event = []) then [] else [\<lparr>f_event = event, f_data = data\<rparr>])"
| "frames_of (event, data) (l # ls) e =
     (let t = trim_line l in
      if t = [] then
        (if data = [] \<and> event = [] then [] else [\<lparr>f_event = event, f_data = data\<rparr>])
        @ frames_of ([], []) ls e
      else frames_of (feed_line t (event, data)) ls e)"

definition body_frames :: "string \<Rightarrow> body_end \<Rightarrow> sseFrame list" where
  "body_frames body e = frames_of ([], []) (split_lines [] body) e"

fun run_frames :: "'s callback \<Rightarrow> 's \<Rightarrow> sseFrame list \<Rightarrow> 's \<times> bool" where
  "run_frames fn s [] = (s, True)"
| "run_frames fn s (f # fs) =
     (case fn s f of (s', True) \<Rightarrow> run_frames fn s' fs | (s', False) \<Rightarrow> (s', False))"

lemma run_frames_append:
  "run_frames fn s (fs @ gs) =
     (case run_frames fn s fs of (s', True) \<Rightarrow> run_frames fn s' gs | (s', False) \<Rightarrow> (s', False))"
  by (induction fs arbitrary: s) (auto split: prod.splits bool.splits)

lemma read_lines_frames:
  "fst (read_lines fn s p ls e) = fst (run_frames fn s (frames_of p ls e))"
proof (induction fn s p ls e rule: read_lines.induct)
  case (1 fn s event data e)
  then show ?case by (auto split: body_end.split prod.split bool.split)
next
  case (2 fn s event data l ls e)
  show ?case
  proof (cases "trim_line l = []")
    case True
    with 2 show ?thesis
      by (auto simp: Let_def split: prod.splits bool.splits)
  next
    case False
    with 2 show ?thesis by (simp add: Let_def)
  qed
qed

text \<open>The reader's final state is the callback's run over the frames of the body.\<close>

lemma readSSE_frames: "fst (readSSE fn s body e) = fst (run_frames fn s (body_frames body e))"
  by (simp add: readSSE_def body_frames_def read_lines_frames)

section \<open>The contract of a callback\<close>

text \<open>
  A consumer keeps an invariant of its state frame by frame; then it holds after reading any
  body, however it ends. The stream handlers are interpretations.
\<close>

locale frame_consumer =
  fixes fn :: "'s callback" and inv :: "'s \<Rightarrow> bool"
  assumes frame_inv: "inv s \<Longrightarrow> inv (fst (fn s f))"
begin

lemma run_inv: "inv s \<Longrightarrow> inv (fst (run_frames fn s fs))"
proof (induction fs arbitrary: s)
  case (Cons f fs)
  then show ?case using frame_inv [of s f] by (auto split: prod.split bool.split)
qed simp

lemma read_inv: "inv s \<Longrightarrow> inv (fst (readSSE fn s body e))"
  by (simp add: readSSE_frames run_inv)

end

section \<open>Writing frames and reading them back\<close>

text \<open>The format the gateway writes: \<open>event: %s\ndata: %s\n\n\<close>.\<close>

definition render_frame :: "sseFrame \<Rightarrow> string" where
  "render_frame f = ''event: '' @ f_event f @ [LF] @ ''data: '' @ f_data f @ [LF, LF]"

definition no_break :: "string \<Rightarrow> bool" where
  "no_break s \<longleftrightarrow> (\<forall>c \<in> set s. c \<noteq> CR \<and> c \<noteq> LF)"

text \<open>A frame the format can carry: one line each, and an event name without outer space.\<close>

definition clean_frame :: "sseFrame \<Rightarrow> bool" where
  "clean_frame f \<longleftrightarrow> no_break (f_event f) \<and> no_break (f_data f) \<and> f_event f \<noteq> [] \<and>
     TrimSpace (SP # f_event f) = f_event f"

lemma split_lines_line:
  "no_break l \<Longrightarrow> split_lines cur (l @ LF # s) = (cur @ l @ [LF]) # split_lines [] s"
  by (induction l arbitrary: cur) (auto simp: no_break_def)

lemma split_lines_crlf:
  "no_break l \<Longrightarrow> split_lines cur (l @ CR # LF # s) = (cur @ l @ [CR, LF]) # split_lines [] s"
  by (induction l arbitrary: cur) (auto simp: no_break_def)

lemma dropWhile_no_break:
  "no_break l \<Longrightarrow> dropWhile (\<lambda>c. c = CR \<or> c = LF) (rev l) = rev l"
  by (cases l rule: rev_cases) (auto simp: no_break_def)

lemma trim_line_break [simp]:
  assumes "no_break l"
  shows "trim_line (l @ [LF]) = l" "trim_line (l @ [CR, LF]) = l" "trim_line l = l"
  using dropWhile_no_break [OF assms] by (simp_all add: trim_line_def TrimRight_def)

lemma no_break_Cons [simp]: "no_break (c # s) \<longleftrightarrow> c \<noteq> CR \<and> c \<noteq> LF \<and> no_break s"
  by (auto simp: no_break_def)

lemma no_break_simps [simp]: "no_break []" "no_break (s @ t) \<longleftrightarrow> no_break s \<and> no_break t"
  by (auto simp: no_break_def)

lemma frames_of_rendered:
  assumes "clean_frame f"
  shows "frames_of ([], []) (split_lines [] (render_frame f @ rest)) e =
    f # frames_of ([], []) (split_lines [] rest) e"
proof -
  let ?ev = "''event: '' @ f_event f" and ?da = "''data: '' @ f_data f"
  from assms have nb: "no_break ?ev" "no_break ?da" by (simp_all add: clean_frame_def)
  have "split_lines [] (render_frame f @ rest)
      = (?ev @ [LF]) # (?da @ [LF]) # [LF] # split_lines [] rest"
    using split_lines_line [OF nb(1), of "[]" "?da @ LF # LF # rest"]
      split_lines_line [OF nb(2), of "[]" "LF # rest"]
    by (simp add: render_frame_def)
  moreover have "trim_line [LF] = []" by (simp add: trim_line_def TrimRight_def)
  moreover have "feed_line ?ev ([], []) = (f_event f, [])"
    using assms by (simp add: feed_line_def HasPrefix_def TrimPrefix_def clean_frame_def)
  moreover have "feed_line ?da (f_event f, []) = (f_event f, f_data f)"
    by (simp add: feed_line_def HasPrefix_def TrimPrefix_def)
  ultimately show ?thesis
    using assms nb trim_line_break(1) [OF nb(1)] trim_line_break(1) [OF nb(2)]
    by (simp add: Let_def clean_frame_def)
qed

lemma body_frames_rendered:
  "\<forall>f \<in> set fs. clean_frame f \<Longrightarrow> body_frames (concat (map render_frame fs)) e = fs"
proof (induction fs)
  case (Cons f fs)
  then show ?case
    using frames_of_rendered [of f "concat (map render_frame fs)" e] by (simp add: body_frames_def)
qed (simp add: body_frames_def)

text \<open>Carriage returns before line feeds change nothing.\<close>

lemma split_lines_unix:
  "\<forall>l \<in> set ls. no_break l \<Longrightarrow>
     split_lines [] (concat (map (\<lambda>l. l @ [LF]) ls)) = map (\<lambda>l. l @ [LF]) ls"
  by (induction ls) (simp_all add: split_lines_line)

lemma split_lines_dos:
  "\<forall>l \<in> set ls. no_break l \<Longrightarrow>
     split_lines [] (concat (map (\<lambda>l. l @ [CR, LF]) ls)) = map (\<lambda>l. l @ [CR, LF]) ls"
  by (induction ls) (simp_all add: split_lines_crlf)

lemma frames_of_crlf:
  "\<forall>l \<in> set ls. no_break l \<Longrightarrow>
     frames_of p (map (\<lambda>l. l @ [CR, LF]) ls) e = frames_of p (map (\<lambda>l. l @ [LF]) ls) e"
proof (induction ls arbitrary: p)
  case (Cons l ls)
  obtain a b where p: "p = (a, b)" by (cases p)
  from Cons show ?case unfolding p by (simp add: Let_def)
qed simp

lemma body_frames_crlf:
  "\<forall>l \<in> set ls. no_break l \<Longrightarrow>
     body_frames (concat (map (\<lambda>l. l @ [CR, LF]) ls)) e = body_frames (concat (map (\<lambda>l. l @ [LF]) ls)) e"
  by (simp add: body_frames_def split_lines_unix split_lines_dos frames_of_crlf)

section \<open>Properties\<close>



text \<open>
  The reader does not care whether lines end with a line feed or with carriage return and
  line feed: any callback ends in the same state.
\<close>

theorem line_endings_equal:
  assumes "list_all no_break ls"
  shows "fst (readSSE fn s (concat (map (\<lambda>l. l @ [CR, LF]) ls)) e) =
    fst (readSSE fn s (concat (map (\<lambda>l. l @ [LF]) ls)) e)"
  using assms by (simp add: readSSE_frames list_all_iff body_frames_crlf)

lemma line_endings_equal_witness:
  "fst (readSSE (\<lambda>n f. (Suc n, True)) 0 (concat (map (\<lambda>l. l @ [CR, LF]) [''data:a'', []])) AtEOF) =
   fst (readSSE (\<lambda>n f. (Suc n, True)) 0 (concat (map (\<lambda>l. l @ [LF]) [''data:a'', []])) AtEOF)"
  by (rule line_endings_equal) simp

end
