(* ===== verification/Upstream_Chunk.thy ===== *)
theory Upstream_Chunk
  imports Go_Json Sse
begin

text \<open>
  What an upstream stream carries (\<open>convert.go\<close>): the envelope of a frame, the chat chunk in
  its body with usage and billing, and the reading of one frame that the four response
  writers share (\<open>proxy.go\<close>, \<open>openai.go\<close>, \<open>responses.go\<close>).
\<close>

section \<open>Types\<close>

record sseEnvelope =
  env_Headers :: "(string \<times> string list) list"
  env_Body :: string
  env_StatusCodeValue :: int
  env_StatusCode :: string

definition zero_envelope :: sseEnvelope where
  "zero_envelope = \<lparr>env_Headers = [], env_Body = [], env_StatusCodeValue = 0, env_StatusCode = []\<rparr>"

definition envelope_fields :: "(string \<times> sseEnvelope decoder) list" where
  "envelope_fields =
     [(''headers'', fld env_Headers env_Headers_update (dec_map [] (dec_list [] dec_string))),
      (''body'', fld env_Body env_Body_update dec_string),
      (''statusCodeValue'', fld env_StatusCodeValue env_StatusCodeValue_update dec_int),
      (''statusCode'', fld env_StatusCode env_StatusCode_update dec_string)]"

text \<open>The two counts of \<open>prompt_tokens_details\<close>, and a credit amount as its literal.\<close>

record promptDetails =
  pd_CachedTokens :: int
  pd_CacheableTokens :: int

record upUsage =
  us_PromptTokens :: int
  us_CompletionTokens :: int
  us_TotalTokens :: int
  us_PromptTokensDetails :: "promptDetails option"
  us_Credits :: "string option"
  us_OriginalCredits :: "string option"
  us_Billable :: "bool option"

definition zero_usage :: upUsage where
  "zero_usage = \<lparr>us_PromptTokens = 0, us_CompletionTokens = 0, us_TotalTokens = 0,
     us_PromptTokensDetails = None, us_Credits = None, us_OriginalCredits = None,
     us_Billable = None\<rparr>"

definition details_fields :: "(string \<times> promptDetails decoder) list" where
  "details_fields =
     [(''cached_tokens'', fld pd_CachedTokens pd_CachedTokens_update dec_int),
      (''cacheable_tokens'', fld pd_CacheableTokens pd_CacheableTokens_update dec_int)]"

definition usage_fields :: "(string \<times> upUsage decoder) list" where
  "usage_fields =
     [(''prompt_tokens'', fld us_PromptTokens us_PromptTokens_update dec_int),
      (''completion_tokens'', fld us_CompletionTokens us_CompletionTokens_update dec_int),
      (''total_tokens'', fld us_TotalTokens us_TotalTokens_update dec_int),
      (''prompt_tokens_details'', fld us_PromptTokensDetails us_PromptTokensDetails_update
         (dec_ptr \<lparr>pd_CachedTokens = 0, pd_CacheableTokens = 0\<rparr> (dec_struct details_fields))),
      (''credits'', fld us_Credits us_Credits_update (dec_ptr [] dec_float)),
      (''original_credits'', fld us_OriginalCredits us_OriginalCredits_update (dec_ptr [] dec_float)),
      (''billable'', fld us_Billable us_Billable_update (dec_ptr False dec_bool))]"

text \<open>A tool call of a delta, a delta, a choice.\<close>

record toolDelta =
  td_ID :: string
  td_Index :: int
  td_Type :: string
  td_Name :: string
  td_Arguments :: string

definition zero_toolDelta :: toolDelta where
  "zero_toolDelta = \<lparr>td_ID = [], td_Index = 0, td_Type = [], td_Name = [], td_Arguments = []\<rparr>"

text \<open>The nested struct \<open>function\<close> is decoded in place, into the two fields it holds.\<close>

definition function_fields :: "(string \<times> toolDelta decoder) list" where
  "function_fields =
     [(''name'', fld td_Name td_Name_update dec_string),
      (''arguments'', fld td_Arguments td_Arguments_update dec_string)]"

definition toolDelta_fields :: "(string \<times> toolDelta decoder) list" where
  "toolDelta_fields =
     [(''id'', fld td_ID td_ID_update dec_string),
      (''index'', fld td_Index td_Index_update dec_int),
      (''type'', fld td_Type td_Type_update dec_string),
      (''function'', dec_struct function_fields)]"

record delta =
  d_Role :: string
  d_Content :: string
  d_ReasoningContent :: string
  d_ToolCalls :: "toolDelta list"

definition zero_delta :: delta where
  "zero_delta = \<lparr>d_Role = [], d_Content = [], d_ReasoningContent = [], d_ToolCalls = []\<rparr>"

definition delta_fields :: "(string \<times> delta decoder) list" where
  "delta_fields =
     [(''role'', fld d_Role d_Role_update dec_string),
      (''content'', fld d_Content d_Content_update dec_string),
      (''reasoning_content'', fld d_ReasoningContent d_ReasoningContent_update dec_string),
      (''tool_calls'', fld d_ToolCalls d_ToolCalls_update
         (dec_list zero_toolDelta (dec_struct toolDelta_fields)))]"

record choice =
  ch_Index :: int
  ch_Delta :: delta
  ch_FinishReason :: "string option"

definition zero_choice :: choice where
  "zero_choice = \<lparr>ch_Index = 0, ch_Delta = zero_delta, ch_FinishReason = None\<rparr>"

definition choice_fields :: "(string \<times> choice decoder) list" where
  "choice_fields =
     [(''index'', fld ch_Index ch_Index_update dec_int),
      (''delta'', fld ch_Delta ch_Delta_update (dec_struct delta_fields)),
      (''finish_reason'', fld ch_FinishReason ch_FinishReason_update (dec_ptr [] dec_string))]"

record upError =
  er_Code :: string
  er_Message :: string

definition error_fields :: "(string \<times> upError decoder) list" where
  "error_fields =
     [(''code'', fld er_Code er_Code_update dec_string),
      (''message'', fld er_Message er_Message_update dec_string)]"

record upChunk =
  ck_ID :: string
  ck_Object :: string
  ck_Created :: int
  ck_Model :: string
  ck_Choices :: "choice list"
  ck_Usage :: "upUsage option"
  ck_Error :: "upError option"

definition zero_chunk :: upChunk where
  "zero_chunk = \<lparr>ck_ID = [], ck_Object = [], ck_Created = 0, ck_Model = [], ck_Choices = [],
     ck_Usage = None, ck_Error = None\<rparr>"

definition chunk_fields :: "(string \<times> upChunk decoder) list" where
  "chunk_fields =
     [(''id'', fld ck_ID ck_ID_update dec_string),
      (''object'', fld ck_Object ck_Object_update dec_string),
      (''created'', fld ck_Created ck_Created_update dec_int),
      (''model'', fld ck_Model ck_Model_update dec_string),
      (''choices'', fld ck_Choices ck_Choices_update
         (dec_list zero_choice (dec_struct choice_fields))),
      (''usage'', fld ck_Usage ck_Usage_update (dec_ptr zero_usage (dec_struct usage_fields))),
      (''error'', fld ck_Error ck_Error_update
         (dec_ptr \<lparr>er_Code = [], er_Message = []\<rparr> (dec_struct error_fields)))]"

section \<open>Usage and billing\<close>

definition cachedTokens :: "upUsage option \<Rightarrow> int" where
  "cachedTokens u =
     (case u of None \<Rightarrow> 0
      | Some v \<Rightarrow> (case us_PromptTokensDetails v of None \<Rightarrow> 0 | Some d \<Rightarrow> pd_CachedTokens d))"

definition cacheWriteTokens :: "upUsage option \<Rightarrow> int" where
  "cacheWriteTokens u =
     (case u of None \<Rightarrow> 0
      | Some v \<Rightarrow> (case us_PromptTokensDetails v of None \<Rightarrow> 0 | Some d \<Rightarrow> pd_CacheableTokens d))"

text \<open>\<open>billingFields\<close>: the members to add to a usage object; the nil map has none.\<close>

definition billingFields :: "upUsage option \<Rightarrow> (string \<times> json) list" where
  "billingFields u =
     (case u of None \<Rightarrow> []
      | Some v \<Rightarrow>
          (case us_Credits v of None \<Rightarrow> [] | Some c \<Rightarrow> [(''credits'', JFloat c)]) @
          (case us_OriginalCredits v of None \<Rightarrow> [] | Some c \<Rightarrow> [(''original_credits'', JFloat c)]) @
          (case us_Billable v of None \<Rightarrow> [] | Some b \<Rightarrow> [(''billable'', JBool b)]))"

text \<open>\<open>billingLog\<close>; the \<open>%g\<close> rendering of a float is a parameter.\<close>

definition billingLog :: "(string \<Rightarrow> string) \<Rightarrow> upUsage option \<Rightarrow> string" where
  "billingLog fmt_g u =
     (case u of None \<Rightarrow> []
      | Some v \<Rightarrow>
          (case us_Credits v of None \<Rightarrow> [] | Some c \<Rightarrow> '' credits='' @ fmt_g c) @
          (case us_OriginalCredits v of None \<Rightarrow> [] | Some c \<Rightarrow> '' original_credits='' @ fmt_g c) @
          (case us_Billable v of None \<Rightarrow> []
           | Some b \<Rightarrow> '' billable='' @ (if b then ''true'' else ''false'')))"

text \<open>
  The four counters that the writers of Anthropic and Responses messages keep, and the bill.
  \<open>setUsage\<close> of both stream states and the inline code of both collectors are this function.
\<close>

record usageCounters =
  uc_Input :: int
  uc_Output :: int
  uc_CacheRead :: int
  uc_CacheWrite :: int
  uc_Bill :: "upUsage option"

definition no_usage :: usageCounters where
  "no_usage = \<lparr>uc_Input = 0, uc_Output = 0, uc_CacheRead = 0, uc_CacheWrite = 0, uc_Bill = None\<rparr>"

definition setUsage :: "upUsage \<Rightarrow> usageCounters" where
  "setUsage u =
     (let cr = cachedTokens (Some u); cw = cacheWriteTokens (Some u) in
      \<lparr>uc_Input = max (wrap64 (us_PromptTokens u - cr - cw)) 0,
       uc_Output = us_CompletionTokens u,
       uc_CacheRead = cr, uc_CacheWrite = cw, uc_Bill = Some u\<rparr>)"

definition usagePayload :: "usageCounters \<Rightarrow> json" where
  "usagePayload c =
     JMap (fold (\<lambda>(k, v). map_set k v) (billingFields (uc_Bill c))
       [(''input_tokens'', JInt (uc_Input c)),
        (''output_tokens'', JInt (uc_Output c)),
        (''cache_read_input_tokens'', JInt (uc_CacheRead c)),
        (''cache_creation_input_tokens'', JInt (uc_CacheWrite c))])"

lemma setUsage_input_nonneg [simp]: "0 \<le> uc_Input (setUsage u)"
  by (simp add: setUsage_def Let_def)

lemma setUsage_bill [simp]: "uc_Bill (setUsage u) = Some u"
  by (simp add: setUsage_def Let_def)

section \<open>Finish reasons\<close>

definition mapStopReason :: "string \<Rightarrow> string" where
  "mapStopReason fr =
     (if fr = ''stop'' then ''end_turn''
      else if fr = ''tool_calls'' then ''tool_use''
      else if fr = ''length'' then ''max_tokens''
      else if fr = ''content_filter'' then ''refusal''
      else if fr = [] then ''end_turn''
      else fr)"

text \<open>The condition \<open>ch.FinishReason != nil && *ch.FinishReason != "" && ... != "null"\<close>.\<close>

definition finish_reason :: "choice \<Rightarrow> string option" where
  "finish_reason ch =
     (case ch_FinishReason ch of None \<Rightarrow> None
      | Some r \<Rightarrow> if r = [] \<or> r = ''null'' then None else Some r)"

lemma finish_reason_nonempty: "finish_reason ch = Some r \<Longrightarrow> r \<noteq> []"
  by (auto simp: finish_reason_def split: option.splits if_splits)

lemma mapStopReason_nonempty [simp]: "mapStopReason r \<noteq> []"
  by (simp add: mapStopReason_def)

section \<open>Reading one frame\<close>

text \<open>
  What the trimmed data of a frame is to its reader: nothing (not JSON, or no body), an error
  status with the message to report, a chunk that carries an error, or a chunk.
\<close>

datatype payload = Skip | StatusError string | BodyError string | Chunk upChunk

definition status_message :: "sseEnvelope \<Rightarrow> string" where
  "status_message env =
     (let m = er_Message (unmarshal_lenient \<lparr>er_Code = [], er_Message = []\<rparr> error_fields (env_Body env))
      in if m = [] then ''upstream error status '' @ itoa (env_StatusCodeValue env) else m)"

definition read_body :: "string \<Rightarrow> payload" where
  "read_body body =
     (if body = [] then Skip
      else (case unmarshal zero_chunk (dec_struct chunk_fields) body of
              None \<Rightarrow> Skip
            | Some c \<Rightarrow>
                (case ck_Error c of
                   None \<Rightarrow> Chunk c
                 | Some e \<Rightarrow> if er_Message e \<noteq> [] then BodyError (er_Message e) else Chunk c)))"

definition read_payload :: "string \<Rightarrow> payload" where
  "read_payload p =
     (if p = [] then Skip
      else (case unmarshal zero_envelope (dec_struct envelope_fields) p of
              None \<Rightarrow> Skip
            | Some env \<Rightarrow>
                if env_StatusCodeValue env \<noteq> 0 \<and> env_StatusCodeValue env \<noteq> 200
                then StatusError (status_message env)
                else read_body (env_Body env)))"

definition read_frame :: "sseFrame \<Rightarrow> payload" where
  "read_frame f = read_payload (TrimSpace (f_data f))"

lemma status_message_nonempty [simp]: "status_message env \<noteq> []"
  by (simp add: status_message_def Let_def)

lemma read_frame_error_nonempty:
  "read_frame f = StatusError m \<or> read_frame f = BodyError m \<Longrightarrow> m \<noteq> []"
  by (auto simp: read_frame_def read_payload_def read_body_def split: option.splits if_splits)

lemmas chunk_eval = chunk_fields_def zero_chunk_def choice_fields_def delta_fields_def
  zero_choice_def zero_delta_def zero_toolDelta_def toolDelta_fields_def function_fields_def
  usage_fields_def zero_usage_def details_fields_def error_fields_def

lemmas envelope_eval = envelope_fields_def zero_envelope_def

section \<open>The chunks of a body\<close>

text \<open>
  What any reader of an upstream body sees: the chunks up to the finish frame, the first error
  or the end. \<open>fin\<close> tells which frames finish (the readers do not agree on that).
\<close>

datatype stream_end = EndOfBody | Finished | Failed string

fun take_chunks :: "(sseFrame \<Rightarrow> bool) \<Rightarrow> sseFrame list \<Rightarrow> upChunk list \<times> stream_end" where
  "take_chunks fin [] = ([], EndOfBody)"
| "take_chunks fin (f # fs) =
     (if fin f then ([], Finished)
      else (case read_frame f of
              Skip \<Rightarrow> take_chunks fin fs
            | StatusError m \<Rightarrow> ([], Failed m)
            | BodyError m \<Rightarrow> ([], Failed m)
            | Chunk c \<Rightarrow> (case take_chunks fin fs of (cs, e) \<Rightarrow> (c # cs, e))))"

definition finish_event :: "sseFrame \<Rightarrow> bool" where
  "finish_event f \<longleftrightarrow> f_event f = ''finish''"

definition finish_with_data :: "sseFrame \<Rightarrow> bool" where
  "finish_with_data f \<longleftrightarrow> f_event f = ''finish'' \<and> TrimSpace (f_data f) \<noteq> []"

lemma take_chunks_failed_nonempty: "snd (take_chunks fin fs) = Failed m \<Longrightarrow> m \<noteq> []"
proof (induction fs)
  case (Cons f fs)
  then show ?case
    using read_frame_error_nonempty [of f m]
    by (auto split: if_splits payload.splits prod.splits)
qed simp

definition close_run :: "('s \<Rightarrow> 's) \<Rightarrow> (string \<Rightarrow> 's \<Rightarrow> 's) \<Rightarrow> stream_end \<Rightarrow> 's \<Rightarrow> 's" where
  "close_run on_finish on_error e s =
     (case e of EndOfBody \<Rightarrow> s | Finished \<Rightarrow> on_finish s | Failed m \<Rightarrow> on_error m s)"

text \<open>
  The contract of a frame callback that treats frames as above, with what it does on a chunk,
  at the finish and on an error; while it is live it goes on after a chunk. Reading a body with
  it is folding over the chunks.
\<close>

locale chunk_reader =
  fixes fn :: "'s callback" and fin :: "sseFrame \<Rightarrow> bool"
    and on_chunk :: "upChunk \<Rightarrow> 's \<Rightarrow> 's" and on_finish :: "'s \<Rightarrow> 's"
    and on_error :: "string \<Rightarrow> 's \<Rightarrow> 's" and live :: "'s \<Rightarrow> bool"
  assumes at_finish: "live s \<Longrightarrow> fin f \<Longrightarrow> fn s f = (on_finish s, False)"
    and at_skip: "live s \<Longrightarrow> \<not> fin f \<Longrightarrow> read_frame f = Skip \<Longrightarrow> fn s f = (s, True)"
    and at_chunk: "live s \<Longrightarrow> \<not> fin f \<Longrightarrow> read_frame f = Chunk c \<Longrightarrow> fn s f = (on_chunk c s, True)"
    and at_status: "live s \<Longrightarrow> \<not> fin f \<Longrightarrow> read_frame f = StatusError m \<Longrightarrow> fn s f = (on_error m s, False)"
    and at_error: "live s \<Longrightarrow> \<not> fin f \<Longrightarrow> read_frame f = BodyError m \<Longrightarrow> fn s f = (on_error m s, False)"
    and stays_live: "live s \<Longrightarrow> live (on_chunk c s)"
begin

lemma fold_live: "live s \<Longrightarrow> live (fold on_chunk cs s)"
  by (induction cs arbitrary: s) (simp_all add: stays_live)

lemma run_chunks:
  "live s \<Longrightarrow> fst (run_frames fn s fs) =
     close_run on_finish on_error (snd (take_chunks fin fs)) (fold on_chunk (fst (take_chunks fin fs)) s)"
proof (induction fs arbitrary: s)
  case Nil
  then show ?case by (simp add: close_run_def)
next
  case (Cons f fs)
  show ?case
  proof (cases "fin f")
    case True
    with Cons.prems show ?thesis by (simp add: at_finish close_run_def)
  next
    case False
    obtain cs e where "take_chunks fin fs = (cs, e)" by fastforce
    with False Cons show ?thesis
      by (cases "read_frame f")
        (simp_all add: at_skip at_chunk at_status at_error stays_live close_run_def)
  qed
qed

lemma read_chunks:
  "live s \<Longrightarrow> fst (readSSE fn s body e) =
     close_run on_finish on_error (snd (take_chunks fin (body_frames body e)))
       (fold on_chunk (fst (take_chunks fin (body_frames body e))) s)"
  by (simp add: readSSE_frames run_chunks)

end

end
