(* ===== verification/Native_Local.thy ===== *)
theory Native_Local
  imports Go_Strings
begin

text \<open>
  \<open>native_local.go\<close>: what the native local mode checks before it serves, and the error text
  it shows. Whether the mode is on (\<open>nativeLockedDown\<close>, an environment variable) is an
  argument \<open>locked\<close> of every definition that asks.
\<close>

section \<open>Errors shown to clients\<close>

definition nativePublicError :: "bool \<Rightarrow> string \<Rightarrow> string" where
  "nativePublicError locked message =
     (if locked then ''Qoder model inference failed. Check the original Qoder CLI login and account model availability.''
      else message)"

lemma nativePublicError_nonempty: "m \<noteq> [] \<Longrightarrow> nativePublicError locked m \<noteq> []"
  by (simp add: nativePublicError_def)

end
