(* ===== verification/Anthropic_Stream.thy ===== *)
theory Anthropic_Stream
  imports Upstream_Chunk Native_Local
begin

text \<open>
  The streaming answer to \<open>/v1/messages\<close> (\<open>proxy.go\<close>): \<open>streamState\<close> with its operations, the
  frame callback of \<open>streamAnthropic\<close>, and what the events it writes look like. An event is a
  value; \<open>event_name\<close> and \<open>event_json\<close> give what is written on the wire.
\<close>

section \<open>Events\<close>

datatype block_start = StartThinking | StartText | StartTool string string

datatype block_delta = ThinkingDelta string | TextDelta string | InputJsonDelta string

datatype event =
    MessageStart string string
  | BlockStart int block_start
  | BlockDelta int block_delta
  | BlockStop int
  | MessageDelta string usageCounters
  | MessageStop
  | ErrorEvent string

fun event_name :: "event \<Rightarrow> string" where
  "event_name (MessageStart i m) = ''message_start''"
| "event_name (BlockStart i b) = ''content_block_start''"
| "event_name (BlockDelta i d) = ''content_block_delta''"
| "event_name (BlockStop i) = ''content_block_stop''"
| "event_name (MessageDelta r u) = ''message_delta''"
| "event_name MessageStop = ''message_stop''"
| "event_name (ErrorEvent m) = ''error''"

fun start_json :: "block_start \<Rightarrow> json" where
  "start_json StartThinking = JMap [(''type'', JStr ''thinking''), (''thinking'', JStr [])]"
| "start_json StartText = JMap [(''type'', JStr ''text''), (''text'', JStr [])]"
| "start_json (StartTool i n) =
     JMap [(''type'', JStr ''tool_use''), (''id'', JStr i), (''name'', JStr n), (''input'', JMap [])]"

fun delta_json :: "block_delta \<Rightarrow> json" where
  "delta_json (ThinkingDelta t) = JMap [(''type'', JStr ''thinking_delta''), (''thinking'', JStr t)]"
| "delta_json (TextDelta t) = JMap [(''type'', JStr ''text_delta''), (''text'', JStr t)]"
| "delta_json (InputJsonDelta t) =
     JMap [(''type'', JStr ''input_json_delta''), (''partial_json'', JStr t)]"

fun event_json :: "event \<Rightarrow> json" where
  "event_json (MessageStart i m) = JMap
     [(''type'', JStr ''message_start''),
      (''message'', JMap
         [(''id'', JStr i), (''type'', JStr ''message''), (''role'', JStr ''assistant''),
          (''content'', JArr []), (''model'', JStr m), (''stop_reason'', JNull),
          (''stop_sequence'', JNull),
          (''usage'', JMap [(''input_tokens'', JInt 0), (''output_tokens'', JInt 0)])])]"
| "event_json (BlockStart i b) = JMap
     [(''type'', JStr ''content_block_start''), (''index'', JInt i), (''content_block'', start_json b)]"
| "event_json (BlockDelta i d) = JMap
     [(''type'', JStr ''content_block_delta''), (''index'', JInt i), (''delta'', delta_json d)]"
| "event_json (BlockStop i) = JMap [(''type'', JStr ''content_block_stop''), (''index'', JInt i)]"
| "event_json (MessageDelta r u) = JMap
     [(''type'', JStr ''message_delta''),
      (''delta'', JMap [(''stop_reason'', JStr r), (''stop_sequence'', JNull)]),
      (''usage'', usagePayload u)]"
| "event_json MessageStop = JMap [(''type'', JStr ''message_stop'')]"
| "event_json (ErrorEvent m) = JMap
     [(''type'', JStr ''error''),
      (''error'', JMap [(''type'', JStr ''api_error''), (''message'', JStr m)])]"

definition event_frame :: "event \<Rightarrow> sseFrame" where
  "event_frame ev = \<lparr>f_event = event_name ev, f_data = marshal (event_json ev)\<rparr>"

section \<open>The stream state\<close>

text \<open>\<open>ss_out\<close> is what has been written, oldest first.\<close>

record streamState =
  ss_msgID :: string
  ss_model :: string
  ss_blockType :: string
  ss_blockIndex :: int
  ss_toolID :: string
  ss_toolName :: string
  ss_started :: bool
  ss_stopped :: bool
  ss_usage :: usageCounters
  ss_stopReason :: string
  ss_out :: "event list"

definition new_stream :: "string \<Rightarrow> string \<Rightarrow> streamState" where
  "new_stream msgID model =
     \<lparr>ss_msgID = msgID, ss_model = model, ss_blockType = [], ss_blockIndex = 0, ss_toolID = [],
      ss_toolName = [], ss_started = False, ss_stopped = False, ss_usage = no_usage,
      ss_stopReason = [], ss_out = []\<rparr>"

definition emit :: "event \<Rightarrow> streamState \<Rightarrow> streamState" where
  "emit ev s = (if ss_stopped s then s else s\<lparr>ss_out := ss_out s @ [ev]\<rparr>)"

definition messageStart :: "streamState \<Rightarrow> streamState" where
  "messageStart s =
     (if ss_started s then s
      else emit (MessageStart (ss_msgID s) (ss_model s)) (s\<lparr>ss_started := True\<rparr>))"

definition closeBlock :: "streamState \<Rightarrow> streamState" where
  "closeBlock s =
     (if ss_blockType s = [] then s
      else (emit (BlockStop (ss_blockIndex s)) s)
             \<lparr>ss_blockType := [], ss_blockIndex := ss_blockIndex s + 1\<rparr>)"

definition startBlock :: "string \<Rightarrow> block_start \<Rightarrow> streamState \<Rightarrow> streamState" where
  "startBlock kind b s =
     (let s1 = (closeBlock (messageStart s))\<lparr>ss_blockType := kind\<rparr>
      in emit (BlockStart (ss_blockIndex s1) b) s1)"

definition openBlock :: "string \<Rightarrow> block_start \<Rightarrow> streamState \<Rightarrow> streamState" where
  "openBlock kind b s =
     (let s1 = messageStart s in if ss_blockType s1 = kind then s1 else startBlock kind b s1)"

definition emit_delta :: "block_delta \<Rightarrow> streamState \<Rightarrow> streamState" where
  "emit_delta d s = emit (BlockDelta (ss_blockIndex s) d) s"

definition toolBlockPayload :: "streamState \<Rightarrow> block_start" where
  "toolBlockPayload s = StartTool (ss_toolID s) (ss_toolName s)"

definition finish :: "streamState \<Rightarrow> streamState" where
  "finish s =
     (if ss_stopped s then s
      else
        let s1 = closeBlock s;
            s2 = (if ss_stopReason s1 = [] then s1\<lparr>ss_stopReason := ''end_turn''\<rparr> else s1);
            s3 = emit (MessageDelta (ss_stopReason s2) (ss_usage s2)) s2;
            s4 = emit MessageStop s3
        in s4\<lparr>ss_stopped := True\<rparr>)"

section \<open>One chunk\<close>

text \<open>
  One entry of \<open>tool_calls\<close>: it may begin a new block, and its argument text goes to the open
  tool block, or to a new one when none is open.
\<close>

definition note_tool :: "toolDelta \<Rightarrow> streamState \<Rightarrow> streamState" where
  "note_tool tc s =
     (let a = (if td_ID tc \<noteq> [] then s\<lparr>ss_toolID := td_ID tc\<rparr> else s)
      in if td_Name tc \<noteq> [] then a\<lparr>ss_toolName := td_Name tc\<rparr> else a)"

definition start_tool :: "streamState \<Rightarrow> streamState" where
  "start_tool s = startBlock ''tool_use'' (toolBlockPayload s) s"

definition begin_tool :: "toolDelta \<Rightarrow> streamState \<Rightarrow> streamState" where
  "begin_tool tc s =
     (if td_ID tc \<noteq> [] \<or> (td_Name tc \<noteq> [] \<and> ss_blockType s \<noteq> ''tool_use'')
      then start_tool (note_tool tc s) else s)"

definition tool_arguments :: "string \<Rightarrow> streamState \<Rightarrow> streamState" where
  "tool_arguments a s =
     (if a = [] then s
      else emit_delta (InputJsonDelta a) (if ss_blockType s \<noteq> ''tool_use'' then start_tool s else s))"

definition stream_tool :: "toolDelta \<Rightarrow> streamState \<Rightarrow> streamState" where
  "stream_tool tc s = tool_arguments (td_Arguments tc) (begin_tool tc s)"

definition stream_reasoning :: "string \<Rightarrow> streamState \<Rightarrow> streamState" where
  "stream_reasoning t s =
     (if t = [] then s else emit_delta (ThinkingDelta t) (openBlock ''thinking'' StartThinking s))"

definition stream_content :: "string \<Rightarrow> streamState \<Rightarrow> streamState" where
  "stream_content t s =
     (if t = [] then s else emit_delta (TextDelta t) (openBlock ''text'' StartText s))"

definition stream_delta :: "delta \<Rightarrow> streamState \<Rightarrow> streamState" where
  "stream_delta d s =
     fold stream_tool (d_ToolCalls d) (stream_content (d_Content d) (stream_reasoning (d_ReasoningContent d) s))"

definition stream_usage :: "upUsage option \<Rightarrow> streamState \<Rightarrow> streamState" where
  "stream_usage u s = (case u of None \<Rightarrow> s | Some v \<Rightarrow> s\<lparr>ss_usage := setUsage v\<rparr>)"

definition stream_finish :: "choice \<Rightarrow> upUsage option \<Rightarrow> streamState \<Rightarrow> streamState" where
  "stream_finish ch u s =
     (case finish_reason ch of None \<Rightarrow> s
      | Some r \<Rightarrow> closeBlock (stream_usage u (s\<lparr>ss_stopReason := mapStopReason r\<rparr>)))"

definition stream_chunk :: "upChunk \<Rightarrow> streamState \<Rightarrow> streamState" where
  "stream_chunk c s =
     (case ck_Choices c of
        [] \<Rightarrow> stream_usage (ck_Usage c) s
      | ch # _ \<Rightarrow> stream_finish ch (ck_Usage c) (stream_delta (ch_Delta ch) s))"

section \<open>The handler\<close>

text \<open>The callback's state: the stream and \<open>protoErr\<close>.\<close>

definition stream_error :: "bool \<Rightarrow> string \<Rightarrow> streamState \<times> string option \<Rightarrow> streamState \<times> string option" where
  "stream_error locked m = (\<lambda>(s, err).
     (emit (ErrorEvent (nativePublicError locked m)) s, Some (nativePublicError locked m)))"

definition stream_frame :: "bool \<Rightarrow> (streamState \<times> string option) callback" where
  "stream_frame locked = (\<lambda>(s, err) f.
     if f_event f = ''finish'' then ((finish s, err), False)
     else (case read_frame f of
             Skip \<Rightarrow> ((s, err), True)
           | StatusError m \<Rightarrow> (stream_error locked m (s, err), False)
           | BodyError m \<Rightarrow> (stream_error locked m (s, err), False)
           | Chunk c \<Rightarrow> ((stream_chunk c s, err), \<not> ss_stopped (stream_chunk c s))))"

text \<open>
  \<open>streamAnthropic\<close>: \<open>flushes\<close> says whether the response writer is a flusher; without one the
  answer is an error response. The log lines and the failure dump are left out.
\<close>

datatype stream_reply = StreamingUnsupported | Streamed "event list"

definition end_stream :: "streamState \<times> string option \<Rightarrow> streamState" where
  "end_stream = (\<lambda>(s, err).
     if \<not> ss_stopped s \<and> err = None \<and> ss_started s then finish s else s)"

definition streamAnthropic ::
  "bool \<Rightarrow> bool \<Rightarrow> string \<Rightarrow> body_end \<Rightarrow> string \<Rightarrow> string \<Rightarrow> stream_reply" where
  "streamAnthropic flushes locked body e model requestID =
     (if \<not> flushes then StreamingUnsupported
      else
        let s0 = new_stream (''msg_'' @ remove_dashes requestID) model
        in Streamed (ss_out (end_stream (fst (readSSE (stream_frame locked) (s0, None) body e)))))"

end
