(* ===== verification/Anthropic_Stream_Props.thy ===== *)
theory Anthropic_Stream_Props
  imports Anthropic_Stream
begin

text \<open>
  The grammar of an Anthropic event stream, and that every stream the gateway writes follows
  it; what the deltas of a stream say together; and reading the handler as a fold over chunks.
\<close>

section \<open>The grammar\<close>

text \<open>
  \<open>Between i\<close>: the message is open and block \<open>i\<close> comes next; \<open>Inside i k\<close>: block \<open>i\<close> of kind
  \<open>k\<close> is open.
\<close>

datatype phase = Fresh | Between int | Inside int string | Closing | Ended | Broken

fun start_kind :: "block_start \<Rightarrow> string" where
  "start_kind StartThinking = ''thinking''"
| "start_kind StartText = ''text''"
| "start_kind (StartTool i n) = ''tool_use''"

fun delta_kind :: "block_delta \<Rightarrow> string" where
  "delta_kind (ThinkingDelta t) = ''thinking''"
| "delta_kind (TextDelta t) = ''text''"
| "delta_kind (InputJsonDelta t) = ''tool_use''"

fun grammar_step :: "phase \<Rightarrow> event \<Rightarrow> phase option" where
  "grammar_step Fresh (MessageStart m n) = Some (Between 0)"
| "grammar_step (Between i) (BlockStart j b) = (if j = i then Some (Inside i (start_kind b)) else None)"
| "grammar_step (Inside i k) (BlockDelta j d) =
     (if j = i \<and> delta_kind d = k then Some (Inside i k) else None)"
| "grammar_step (Inside i k) (BlockStop j) = (if j = i then Some (Between (i + 1)) else None)"
| "grammar_step (Between i) (MessageDelta r u) = (if r \<noteq> [] then Some Closing else None)"
| "grammar_step Closing MessageStop = Some Ended"
| "grammar_step Fresh (ErrorEvent m) = Some Broken"
| "grammar_step (Between i) (ErrorEvent m) = Some Broken"
| "grammar_step (Inside i k) (ErrorEvent m) = Some Broken"
| "grammar_step _ _ = None"

fun grammar :: "phase \<Rightarrow> event list \<Rightarrow> phase option" where
  "grammar p [] = Some p"
| "grammar p (e # es) = (case grammar_step p e of None \<Rightarrow> None | Some q \<Rightarrow> grammar q es)"

lemma grammar_append:
  "grammar p (xs @ ys) = (case grammar p xs of None \<Rightarrow> None | Some q \<Rightarrow> grammar q ys)"
  by (induction xs arbitrary: p) (auto split: option.split)

definition phase_of :: "streamState \<Rightarrow> phase" where
  "phase_of s =
     (if \<not> ss_started s then Fresh
      else if ss_blockType s = [] then Between (ss_blockIndex s)
      else Inside (ss_blockIndex s) (ss_blockType s))"

text \<open>
  The invariant of a stream that is going on: the events written so far are a run of the grammar
  that ended in the phase the state says.
\<close>

definition stream_inv :: "streamState \<Rightarrow> bool" where
  "stream_inv s \<longleftrightarrow> \<not> ss_stopped s \<and> grammar Fresh (ss_out s) = Some (phase_of s) \<and>
     (\<not> ss_started s \<longrightarrow> ss_blockType s = [] \<and> ss_blockIndex s = 0 \<and> ss_out s = [])"

lemma emit_live: "\<not> ss_stopped s \<Longrightarrow> emit e s = s\<lparr>ss_out := ss_out s @ [e]\<rparr>"
  by (simp add: emit_def)

lemmas inv_defs = stream_inv_def phase_of_def grammar_append emit_live

lemma stream_inv_new [simp]: "stream_inv (new_stream i m)"
  by (simp add: new_stream_def stream_inv_def phase_of_def)

lemma messageStart_inv:
  "stream_inv s \<Longrightarrow> stream_inv (messageStart s) \<and> ss_started (messageStart s)
     \<and> ss_blockType (messageStart s) = ss_blockType s"
  by (auto simp: messageStart_def inv_defs)

lemma closeBlock_inv:
  "stream_inv s \<Longrightarrow> stream_inv (closeBlock s) \<and> ss_started (closeBlock s) = ss_started s
     \<and> ss_blockType (closeBlock s) = []"
  by (auto simp: closeBlock_def inv_defs)

lemma startBlock_inv:
  assumes "stream_inv s" "start_kind b = kind" "kind \<noteq> []"
  shows "stream_inv (startBlock kind b s) \<and> ss_started (startBlock kind b s)
     \<and> ss_blockType (startBlock kind b s) = kind"
proof -
  define s1 where "s1 = closeBlock (messageStart s)"
  have "stream_inv s1" "ss_started s1" "ss_blockType s1 = []"
    using messageStart_inv [OF assms(1)] closeBlock_inv [of "messageStart s"]
    by (simp_all add: s1_def)
  then show ?thesis
    using assms(2,3) by (auto simp: startBlock_def Let_def inv_defs s1_def [symmetric])
qed

lemma openBlock_inv:
  assumes "stream_inv s" "start_kind b = kind" "kind \<noteq> []"
  shows "stream_inv (openBlock kind b s) \<and> ss_started (openBlock kind b s)
     \<and> ss_blockType (openBlock kind b s) = kind"
proof -
  have m: "stream_inv (messageStart s)" "ss_started (messageStart s)"
    using messageStart_inv [OF assms(1)] by simp_all
  with startBlock_inv [OF m(1) assms(2,3)] show ?thesis
    by (simp add: openBlock_def Let_def)
qed

lemma emit_delta_inv:
  "stream_inv s \<Longrightarrow> ss_started s \<Longrightarrow> ss_blockType s = delta_kind d \<Longrightarrow> delta_kind d \<noteq> [] \<Longrightarrow>
     stream_inv (emit_delta d s) \<and> ss_started (emit_delta d s)"
  by (auto simp: emit_delta_def inv_defs)

lemma stream_inv_tool_fields [simp]:
  "stream_inv (s\<lparr>ss_toolID := x\<rparr>) = stream_inv s"
  "stream_inv (s\<lparr>ss_toolName := x\<rparr>) = stream_inv s"
  "stream_inv (s\<lparr>ss_stopReason := x\<rparr>) = stream_inv s"
  "stream_inv (s\<lparr>ss_usage := w\<rparr>) = stream_inv s"
  by (simp_all add: stream_inv_def phase_of_def)

lemma start_tool_inv:
  "stream_inv s \<Longrightarrow> stream_inv (start_tool s) \<and> ss_started (start_tool s)
     \<and> ss_blockType (start_tool s) = ''tool_use''"
  unfolding start_tool_def by (rule startBlock_inv) (simp_all add: toolBlockPayload_def)

lemma block_started: "stream_inv s \<Longrightarrow> ss_blockType s \<noteq> [] \<Longrightarrow> ss_started s"
  by (auto simp: stream_inv_def)

lemma begin_tool_inv: "stream_inv s \<Longrightarrow> stream_inv (begin_tool tc s)"
  by (simp add: begin_tool_def note_tool_def Let_def start_tool_inv)

lemma tool_arguments_inv:
  assumes "stream_inv s"
  shows "stream_inv (tool_arguments a s)"
proof -
  define s2 where "s2 = (if ss_blockType s \<noteq> ''tool_use'' then start_tool s else s)"
  have "stream_inv s2 \<and> ss_blockType s2 = ''tool_use''"
    using assms start_tool_inv [OF assms] by (simp add: s2_def)
  then have "stream_inv (emit_delta (InputJsonDelta a) s2)"
    using emit_delta_inv [of s2 "InputJsonDelta a"] block_started [of s2] by simp
  with assms show ?thesis by (simp add: tool_arguments_def s2_def [symmetric])
qed

lemma stream_tool_inv: "stream_inv s \<Longrightarrow> stream_inv (stream_tool tc s)"
  by (simp add: stream_tool_def begin_tool_inv tool_arguments_inv)

lemma fold_tool_inv: "stream_inv s \<Longrightarrow> stream_inv (fold stream_tool tcs s)"
  by (induction tcs arbitrary: s) (simp_all add: stream_tool_inv)

lemma stream_reasoning_inv: "stream_inv s \<Longrightarrow> stream_inv (stream_reasoning t s)"
  using openBlock_inv [of s StartThinking "''thinking''"]
    emit_delta_inv [of "openBlock ''thinking'' StartThinking s" "ThinkingDelta t"]
  by (simp add: stream_reasoning_def)

lemma stream_content_inv: "stream_inv s \<Longrightarrow> stream_inv (stream_content t s)"
  using openBlock_inv [of s StartText "''text''"]
    emit_delta_inv [of "openBlock ''text'' StartText s" "TextDelta t"]
  by (simp add: stream_content_def)

lemma stream_delta_inv: "stream_inv s \<Longrightarrow> stream_inv (stream_delta d s)"
  by (simp add: stream_delta_def fold_tool_inv stream_content_inv stream_reasoning_inv)

lemma stream_chunk_inv: "stream_inv s \<Longrightarrow> stream_inv (stream_chunk c s)"
  using stream_delta_inv [of s] closeBlock_inv
  by (auto simp: stream_chunk_def stream_usage_def stream_finish_def split: list.split option.split)

lemma fold_chunk_inv: "stream_inv s \<Longrightarrow> stream_inv (fold stream_chunk cs s)"
  by (induction cs arbitrary: s) (simp_all add: stream_chunk_inv)

section \<open>The end of a stream\<close>

lemma finish_started:
  assumes "stream_inv s" "ss_started s"
  shows "grammar Fresh (ss_out (finish s)) = Some Ended"
proof -
  have c: "stream_inv (closeBlock s)" "ss_started (closeBlock s)" "ss_blockType (closeBlock s) = []"
    using closeBlock_inv [OF assms(1)] assms(2) by simp_all
  then have "grammar Fresh (ss_out (closeBlock s)) = Some (Between (ss_blockIndex (closeBlock s)))"
    "\<not> ss_stopped (closeBlock s)"
    by (simp_all add: stream_inv_def phase_of_def)
  moreover have "\<not> ss_stopped s" using assms(1) by (simp add: stream_inv_def)
  ultimately show ?thesis
    by (simp add: finish_def Let_def emit_live grammar_append)
qed

lemma finish_fresh:
  assumes "stream_inv s" "\<not> ss_started s"
  shows "\<exists>r. r \<noteq> [] \<and> ss_out (finish s) = [MessageDelta r (ss_usage s), MessageStop]"
  using assms by (simp add: stream_inv_def finish_def closeBlock_def Let_def emit_live)

lemma error_out:
  assumes "stream_inv s"
  shows "grammar Fresh (ss_out (emit (ErrorEvent m) s)) = Some Broken"
  using assms by (auto simp: stream_inv_def phase_of_def emit_live grammar_append)

section \<open>The handler is a fold over the chunks\<close>

lemma stream_frame_eqs:
  "f_event f = ''finish'' \<Longrightarrow> stream_frame locked p f = ((finish (fst p), snd p), False)"
  "f_event f \<noteq> ''finish'' \<Longrightarrow> read_frame f = Skip \<Longrightarrow> stream_frame locked p f = (p, True)"
  "f_event f \<noteq> ''finish'' \<Longrightarrow> read_frame f = StatusError m \<or> read_frame f = BodyError m \<Longrightarrow>
     stream_frame locked p f = (stream_error locked m p, False)"
  "f_event f \<noteq> ''finish'' \<Longrightarrow> read_frame f = Chunk c \<Longrightarrow>
     stream_frame locked p f =
       ((stream_chunk c (fst p), snd p), \<not> ss_stopped (stream_chunk c (fst p)))"
  by (cases p; auto simp: stream_frame_def)+

interpretation stream: chunk_reader "stream_frame locked" finish_event
  "\<lambda>c p. (stream_chunk c (fst p), snd p)" "\<lambda>p. (finish (fst p), snd p)"
  "stream_error locked" "\<lambda>p. stream_inv (fst p)" for locked
  using stream_chunk_inv
  by unfold_locales
    (auto simp: finish_event_def stream_frame_eqs stream_inv_def)

lemma fold_stream_pair:
  "fold (\<lambda>c p. (stream_chunk c (fst p), snd p)) cs (s, err) = (fold stream_chunk cs s, err)"
  by (induction cs arbitrary: s) simp_all

text \<open>The state after the chunks of a body, and how the handler ends from there.\<close>

definition stream_close :: "bool \<Rightarrow> stream_end \<Rightarrow> streamState \<Rightarrow> streamState" where
  "stream_close locked e s =
     (case e of
        Failed m \<Rightarrow> emit (ErrorEvent (nativePublicError locked m)) s
      | Finished \<Rightarrow> finish s
      | EndOfBody \<Rightarrow> if ss_started s then finish s else s)"

lemma finish_stopped [simp]: "ss_stopped (finish s)"
  by (simp add: finish_def Let_def)

lemma streamAnthropic_fold:
  "streamAnthropic True locked body e model rid = Streamed (ss_out
     (stream_close locked (snd (take_chunks finish_event (body_frames body e)))
       (fold stream_chunk (fst (take_chunks finish_event (body_frames body e)))
          (new_stream (''msg_'' @ remove_dashes rid) model))))"
proof -
  define cs where "cs = fst (take_chunks finish_event (body_frames body e))"
  let ?s0 = "new_stream (''msg_'' @ remove_dashes rid) model"
  have inv: "stream_inv (fold stream_chunk cs ?s0)" by (simp add: fold_chunk_inv)
  have "end_stream (close_run (\<lambda>p. (finish (fst p), snd p)) (stream_error locked) en
          (fold stream_chunk cs ?s0, None)) = stream_close locked en (fold stream_chunk cs ?s0)" for en
    using inv
    by (cases en) (auto simp: end_stream_def close_run_def stream_close_def stream_error_def
        stream_inv_def)
  then show ?thesis
    using stream.read_chunks [of "(?s0, None)" locked body e]
    by (simp add: streamAnthropic_def Let_def fold_stream_pair cs_def)
qed

section \<open>What the deltas say\<close>

fun deltas :: "event list \<Rightarrow> block_delta list" where
  "deltas [] = []"
| "deltas (BlockDelta i d # es) = d # deltas es"
| "deltas (_ # es) = deltas es"

text \<open>The deltas a chunk asks for: those of its first choice, in the order of the handler.\<close>

definition tool_deltas :: "toolDelta \<Rightarrow> block_delta list" where
  "tool_deltas tc = (if td_Arguments tc = [] then [] else [InputJsonDelta (td_Arguments tc)])"

definition delta_deltas :: "delta \<Rightarrow> block_delta list" where
  "delta_deltas d =
     (if d_ReasoningContent d = [] then [] else [ThinkingDelta (d_ReasoningContent d)]) @
     (if d_Content d = [] then [] else [TextDelta (d_Content d)]) @
     concat (map tool_deltas (d_ToolCalls d))"

definition chunk_deltas :: "upChunk \<Rightarrow> block_delta list" where
  "chunk_deltas c =
     (case ck_Choices c of [] \<Rightarrow> [] | ch # _ \<Rightarrow> delta_deltas (ch_Delta ch))"

lemma deltas_append [simp]: "deltas (xs @ ys) = deltas xs @ deltas ys"
  by (induction xs rule: deltas.induct) auto

definition is_delta :: "event \<Rightarrow> bool" where
  "is_delta e = (case e of BlockDelta i d \<Rightarrow> True | _ \<Rightarrow> False)"

lemma deltas_emit: "\<not> is_delta e \<Longrightarrow> deltas (ss_out (emit e s)) = deltas (ss_out s)"
  by (cases e) (simp_all add: emit_def is_delta_def)

lemma deltas_quiet [simp]:
  "deltas (ss_out (messageStart s)) = deltas (ss_out s)"
  "deltas (ss_out (closeBlock s)) = deltas (ss_out s)"
  "deltas (ss_out (startBlock k b s)) = deltas (ss_out s)"
  "deltas (ss_out (openBlock k b s)) = deltas (ss_out s)"
  "deltas (ss_out (finish s)) = deltas (ss_out s)"
proof -
  show m: "deltas (ss_out (messageStart s)) = deltas (ss_out s)" for s
    by (simp add: messageStart_def deltas_emit is_delta_def)
  show c: "deltas (ss_out (closeBlock s)) = deltas (ss_out s)" for s
    by (simp add: closeBlock_def deltas_emit is_delta_def)
  show st: "deltas (ss_out (startBlock k b s)) = deltas (ss_out s)" for s
    by (simp add: startBlock_def Let_def deltas_emit is_delta_def m c)
  show "deltas (ss_out (openBlock k b s)) = deltas (ss_out s)"
    by (simp add: openBlock_def Let_def m st)
  show "deltas (ss_out (finish s)) = deltas (ss_out s)"
    by (simp add: finish_def Let_def deltas_emit is_delta_def c)
qed

lemma deltas_emit_delta:
  "stream_inv s \<Longrightarrow> deltas (ss_out (emit_delta d s)) = deltas (ss_out s) @ [d]"
  by (simp add: emit_delta_def emit_def stream_inv_def)

lemma deltas_start_tool [simp]: "deltas (ss_out (start_tool s)) = deltas (ss_out s)"
  by (simp add: start_tool_def)

lemma deltas_begin_tool [simp]: "deltas (ss_out (begin_tool tc s)) = deltas (ss_out s)"
  by (simp add: begin_tool_def note_tool_def Let_def)

lemma deltas_stream_tool:
  "stream_inv s \<Longrightarrow> deltas (ss_out (stream_tool tc s)) = deltas (ss_out s) @ tool_deltas tc"
  using begin_tool_inv [of s tc] start_tool_inv [of "begin_tool tc s"]
  by (simp add: stream_tool_def tool_arguments_def tool_deltas_def deltas_emit_delta)

lemma deltas_fold_tool:
  "stream_inv s \<Longrightarrow>
     deltas (ss_out (fold stream_tool tcs s)) = deltas (ss_out s) @ concat (map tool_deltas tcs)"
  by (induction tcs arbitrary: s) (simp_all add: deltas_stream_tool stream_tool_inv)

lemma deltas_stream_reasoning:
  "stream_inv s \<Longrightarrow> deltas (ss_out (stream_reasoning t s)) =
     deltas (ss_out s) @ (if t = [] then [] else [ThinkingDelta t])"
  using openBlock_inv [of s StartThinking "''thinking''"]
  by (simp add: stream_reasoning_def deltas_emit_delta)

lemma deltas_stream_content:
  "stream_inv s \<Longrightarrow> deltas (ss_out (stream_content t s)) =
     deltas (ss_out s) @ (if t = [] then [] else [TextDelta t])"
  using openBlock_inv [of s StartText "''text''"]
  by (simp add: stream_content_def deltas_emit_delta)

lemma deltas_stream_delta:
  "stream_inv s \<Longrightarrow>
     deltas (ss_out (stream_delta d s)) = deltas (ss_out s) @ delta_deltas d"
  by (simp add: stream_delta_def delta_deltas_def deltas_fold_tool stream_content_inv
      stream_reasoning_inv deltas_stream_content deltas_stream_reasoning)

lemma deltas_stream_chunk:
  "stream_inv s \<Longrightarrow> deltas (ss_out (stream_chunk c s)) = deltas (ss_out s) @ chunk_deltas c"
  by (auto simp: stream_chunk_def chunk_deltas_def stream_finish_def stream_usage_def
      deltas_stream_delta split: list.split option.split)

lemma deltas_fold_chunk:
  "stream_inv s \<Longrightarrow>
     deltas (ss_out (fold stream_chunk cs s)) = deltas (ss_out s) @ concat (map chunk_deltas cs)"
  by (induction cs arbitrary: s) (simp_all add: deltas_stream_chunk stream_chunk_inv)

lemma deltas_stream_close [simp]: "deltas (ss_out (stream_close l e s)) = deltas (ss_out s)"
  by (simp add: stream_close_def deltas_emit is_delta_def split: stream_end.split)

section \<open>Properties of the handler\<close>

text \<open>
  A complete answer is a run of the grammar from \<open>Fresh\<close> to \<open>Ended\<close>; an upstream error ends it
  with one error event; and a body with nothing to say gives no event at all, or, when it has a
  finish frame, the closing pair without a start.
\<close>

definition well_formed_stream :: "stream_end \<Rightarrow> event list \<Rightarrow> bool" where
  "well_formed_stream e evs \<longleftrightarrow>
     (case e of
        Failed m \<Rightarrow> grammar Fresh evs = Some Broken
      | Finished \<Rightarrow> grammar Fresh evs = Some Ended \<or>
          (\<exists>r u. r \<noteq> [] \<and> evs = [MessageDelta r u, MessageStop])
      | EndOfBody \<Rightarrow> evs = [] \<or> grammar Fresh evs = Some Ended)"

lemma stream_close_well_formed:
  assumes "stream_inv s"
  shows "well_formed_stream e (ss_out (stream_close locked e s))"
proof (cases e)
  case EndOfBody
  with assms finish_started [of s] show ?thesis
    by (auto simp: stream_close_def well_formed_stream_def stream_inv_def)
next
  case Finished
  with assms finish_started [of s] finish_fresh [of s] show ?thesis
    by (cases "ss_started s") (auto simp: stream_close_def well_formed_stream_def)
next
  case (Failed m)
  with assms show ?thesis by (simp add: stream_close_def well_formed_stream_def error_out)
qed

lemma streamAnthropic_well_formed:
  "\<exists>evs. streamAnthropic True locked body e model rid = Streamed evs \<and>
     well_formed_stream (snd (take_chunks finish_event (body_frames body e))) evs"
  unfolding streamAnthropic_fold
  by (simp add: stream_close_well_formed fold_chunk_inv)

lemma streamAnthropic_deltas:
  "\<exists>evs. streamAnthropic True locked body e model rid = Streamed evs \<and>
     deltas evs = concat (map chunk_deltas (fst (take_chunks finish_event (body_frames body e))))"
  unfolding streamAnthropic_fold
  by (simp add: deltas_fold_chunk) (simp add: new_stream_def)


text \<open>
  C3: the deltas of the stream are exactly those the upstream chunks ask for (reasoning, then
  content, then tool arguments of the first choice), each once and in order, up to the finish
  frame, the first error or the end of the body: nothing is lost, duplicated or reordered.
\<close>

theorem stream_delta_order:
  "\<exists>evs. streamAnthropic True locked body e model rid = Streamed evs \<and>
     deltas evs = concat (map chunk_deltas (fst (take_chunks finish_event (body_frames body e))))"
  by (rule streamAnthropic_deltas)

definition finish_only :: string where
  "finish_only = ''event:finish'' @ [LF, LF]"

text \<open>
  A finish frame that comes first is answered with the closing pair only: the client gets
  \<open>message_delta\<close> and \<open>message_stop\<close> for a message that no \<open>message_start\<close> opened.
\<close>

lemma finish_without_start:
  "streamAnthropic True locked finish_only AtEOF model rid =
     Streamed [MessageDelta ''end_turn'' no_usage, MessageStop]"
proof -
  have "body_frames finish_only AtEOF = [\<lparr>f_event = ''finish'', f_data = []\<rparr>]"
    by (simp add: body_frames_def finish_only_def trim_line_def TrimRight_def feed_line_def
        HasPrefix_def TrimPrefix_def trim_eval)
  then show ?thesis
    by (simp add: streamAnthropic_fold finish_event_def stream_close_def new_stream_def
        finish_def closeBlock_def emit_def)
qed

end
