(* ===== verification/Replies.thy ===== *)
theory Replies
  imports Go_Json Native_Local
begin

text \<open>
  What a handler writes back when it does not stream: status, content type and JSON body
  (\<open>writeAnthropicError\<close> of \<open>proxy.go\<close>, \<open>writeOAIError\<close> of \<open>openai.go\<close>).
\<close>

record reply =
  rp_status :: int
  rp_body :: json

definition json_reply :: "int \<Rightarrow> json \<Rightarrow> reply" where
  "json_reply status j = \<lparr>rp_status = status, rp_body = j\<rparr>"

text \<open>The bytes on the wire: the encoder ends the document with a line feed.\<close>

definition reply_bytes :: "reply \<Rightarrow> string" where
  "reply_bytes r = marshal (rp_body r) @ [LF]"

definition writeAnthropicError :: "bool \<Rightarrow> int \<Rightarrow> string \<Rightarrow> string \<Rightarrow> reply" where
  "writeAnthropicError locked status errType msg =
     (let m = (if errType = ''api_error'' then nativePublicError locked msg else msg) in
      json_reply status (JMap
        [(''type'', JStr ''error''),
         (''error'', JMap [(''type'', JStr errType), (''message'', JStr m)])]))"

definition writeOAIError :: "bool \<Rightarrow> int \<Rightarrow> string \<Rightarrow> string \<Rightarrow> string \<Rightarrow> reply" where
  "writeOAIError locked status errType code msg =
     (let m = (if errType = ''api_error'' then nativePublicError locked msg else msg) in
      json_reply status (JMap
        [(''error'', JMap [(''message'', JStr m), (''type'', JStr errType), (''code'', JStr code)])]))"

lemma locked_api_error_hides:
  "writeAnthropicError True status ''api_error'' m = writeAnthropicError True status ''api_error'' m'"
  "writeOAIError True status ''api_error'' code m = writeOAIError True status ''api_error'' code m'"
  by (simp_all add: writeAnthropicError_def writeOAIError_def nativePublicError_def)

end
