(* ===== verification/Anthropic_Collect.thy ===== *)
theory Anthropic_Collect
  imports Upstream_Chunk Replies
begin

text \<open>
  The answer to a \<open>/v1/messages\<close> request that does not stream: \<open>collectAnthropic\<close> of
  \<open>proxy.go\<close> with its accumulators as a record.
\<close>

section \<open>Accumulators\<close>

record toolAcc =
  ta_id :: string
  ta_name :: string
  ta_args :: string

record collectState =
  co_text :: string
  co_think :: string
  co_tools :: "toolAcc list"
  co_cur :: "toolAcc option"
  co_stop :: string
  co_usage :: usageCounters
  co_err :: string

definition new_collect :: collectState where
  "new_collect = \<lparr>co_text = [], co_think = [], co_tools = [], co_cur = None,
     co_stop = ''end_turn'', co_usage = no_usage, co_err = []\<rparr>"

definition flushTool :: "collectState \<Rightarrow> collectState" where
  "flushTool s = s\<lparr>co_tools := co_tools s @ opt_list (co_cur s), co_cur := None\<rparr>"

definition collect_begin :: "toolDelta \<Rightarrow> collectState \<Rightarrow> collectState" where
  "collect_begin tc s =
     (if td_ID tc \<noteq> [] \<or> td_Name tc \<noteq> []
      then (flushTool s)\<lparr>co_cur := Some \<lparr>ta_id = td_ID tc, ta_name = td_Name tc, ta_args = []\<rparr>\<rparr>
      else s)"

definition collect_args :: "string \<Rightarrow> collectState \<Rightarrow> collectState" where
  "collect_args a s =
     (case co_cur s of
        None \<Rightarrow> s
      | Some t \<Rightarrow> if a \<noteq> [] then s\<lparr>co_cur := Some (t\<lparr>ta_args := ta_args t @ a\<rparr>)\<rparr> else s)"

definition collect_tool :: "toolDelta \<Rightarrow> collectState \<Rightarrow> collectState" where
  "collect_tool tc s = collect_args (td_Arguments tc) (collect_begin tc s)"

definition collect_delta :: "delta \<Rightarrow> collectState \<Rightarrow> collectState" where
  "collect_delta d s =
     fold collect_tool (d_ToolCalls d)
       (s\<lparr>co_think := co_think s @ d_ReasoningContent d, co_text := co_text s @ d_Content d\<rparr>)"

definition collect_usage :: "upUsage option \<Rightarrow> collectState \<Rightarrow> collectState" where
  "collect_usage u s = (case u of None \<Rightarrow> s | Some v \<Rightarrow> s\<lparr>co_usage := setUsage v\<rparr>)"

definition collect_finish :: "choice \<Rightarrow> upUsage option \<Rightarrow> collectState \<Rightarrow> collectState" where
  "collect_finish ch u s =
     (case finish_reason ch of None \<Rightarrow> s
      | Some r \<Rightarrow> collect_usage u (s\<lparr>co_stop := mapStopReason r\<rparr>))"

definition collect_chunk :: "upChunk \<Rightarrow> collectState \<Rightarrow> collectState" where
  "collect_chunk c s =
     (case ck_Choices c of
        [] \<Rightarrow> collect_usage (ck_Usage c) s
      | ch # _ \<Rightarrow> collect_finish ch (ck_Usage c) (collect_delta (ch_Delta ch) s))"

text \<open>The frame callback: here empty data is skipped before the event name is looked at.\<close>

definition collect_frame :: "collectState callback" where
  "collect_frame s f =
     (if TrimSpace (f_data f) = [] then (s, True)
      else if f_event f = ''finish'' then (s, False)
      else (case read_frame f of
              Skip \<Rightarrow> (s, True)
            | StatusError m \<Rightarrow> (s\<lparr>co_err := m\<rparr>, False)
            | BodyError m \<Rightarrow> (s\<lparr>co_err := m\<rparr>, False)
            | Chunk c \<Rightarrow> (collect_chunk c s, True)))"

section \<open>The response\<close>

definition tool_input :: "string \<Rightarrow> json" where
  "tool_input args =
     (if args = [] then JMap []
      else (case json_parse args of None \<Rightarrow> JMap [] | Some d \<Rightarrow> JRaw d))"

definition tool_use_json :: "toolAcc \<Rightarrow> json" where
  "tool_use_json t = JMap
     [(''type'', JStr ''tool_use''), (''id'', JStr (ta_id t)), (''name'', JStr (ta_name t)),
      (''input'', tool_input (ta_args t))]"

definition collect_content :: "collectState \<Rightarrow> json list" where
  "collect_content s =
     (if co_think s = [] then []
      else [JMap [(''type'', JStr ''thinking''), (''thinking'', JStr (co_think s))]]) @
     (if co_text s = [] then []
      else [JMap [(''type'', JStr ''text''), (''text'', JStr (co_text s))]]) @
     map tool_use_json (co_tools s)"

definition collect_response :: "string \<Rightarrow> string \<Rightarrow> collectState \<Rightarrow> json" where
  "collect_response model requestID s = JObj
     [(''id'', JStr (''msg_'' @ remove_dashes requestID)), (''type'', JStr ''message''),
      (''role'', JStr ''assistant''), (''content'', JArr (collect_content s)),
      (''model'', JStr model), (''stop_reason'', JStr (co_stop s)),
      (''usage'', usagePayload (co_usage s))]"

definition collect_run :: "string \<Rightarrow> body_end \<Rightarrow> collectState" where
  "collect_run body e = flushTool (fst (readSSE collect_frame new_collect body e))"

definition collectAnthropic :: "bool \<Rightarrow> string \<Rightarrow> body_end \<Rightarrow> string \<Rightarrow> string \<Rightarrow> reply" where
  "collectAnthropic locked body e model requestID =
     (let s = collect_run body e in
      if co_err s \<noteq> [] then writeAnthropicError locked 502 ''api_error'' (co_err s)
      else json_reply 200 (collect_response model requestID s))"

section \<open>The handler is a fold over the chunks\<close>

lemma collect_frame_eqs:
  "finish_with_data f \<Longrightarrow> collect_frame s f = (s, False)"
  "\<not> finish_with_data f \<Longrightarrow> read_frame f = Skip \<Longrightarrow> collect_frame s f = (s, True)"
  "\<not> finish_with_data f \<Longrightarrow> read_frame f = Chunk c \<Longrightarrow> collect_frame s f = (collect_chunk c s, True)"
  "\<not> finish_with_data f \<Longrightarrow> read_frame f = StatusError m \<or> read_frame f = BodyError m \<Longrightarrow>
     collect_frame s f = (s\<lparr>co_err := m\<rparr>, False)"
  by (auto simp: collect_frame_def finish_with_data_def read_frame_def read_payload_def)

interpretation collect: chunk_reader collect_frame finish_with_data collect_chunk
  "\<lambda>s. s" "\<lambda>m s. s\<lparr>co_err := m\<rparr>" "\<lambda>s. True"
  by unfold_locales (simp_all add: collect_frame_eqs)

lemma collect_run_fold:
  "collect_run body e = flushTool (close_run (\<lambda>s. s) (\<lambda>m s. s\<lparr>co_err := m\<rparr>)
     (snd (take_chunks finish_with_data (body_frames body e)))
     (fold collect_chunk (fst (take_chunks finish_with_data (body_frames body e))) new_collect))"
  by (simp add: collect_run_def collect.read_chunks)

end
