(* ===== verification/Anthropic_Agree.thy ===== *)
theory Anthropic_Agree
  imports Anthropic_Stream_Props Anthropic_Collect
begin

text \<open>
  The streamed and the collected answer to the same upstream body say the same: text, thinking,
  stop reason and usage always, tool calls when the upstream names every call as it starts it.
\<close>

section \<open>Reading the chunks\<close>

definition finish_has_data :: "sseFrame list \<Rightarrow> bool" where
  "finish_has_data fs \<longleftrightarrow> list_all (\<lambda>f. finish_event f \<longrightarrow> TrimSpace (f_data f) \<noteq> []) fs"

lemma take_chunks_agree:
  "finish_has_data fs \<Longrightarrow> take_chunks finish_with_data fs = take_chunks finish_event fs"
  by (induction fs)
    (auto simp: finish_has_data_def finish_event_def finish_with_data_def split: payload.split)

section \<open>Text and thinking\<close>

fun delta_text :: "block_delta \<Rightarrow> string" where
  "delta_text (TextDelta t) = t"
| "delta_text _ = []"

fun delta_thinking :: "block_delta \<Rightarrow> string" where
  "delta_thinking (ThinkingDelta t) = t"
| "delta_thinking _ = []"

definition stream_text :: "event list \<Rightarrow> string" where
  "stream_text evs = concat (map delta_text (deltas evs))"

definition stream_thinking :: "event list \<Rightarrow> string" where
  "stream_thinking evs = concat (map delta_thinking (deltas evs))"

lemma tool_deltas_no_text [simp]:
  "concat (map delta_text (concat (map tool_deltas tcs))) = []"
  "concat (map delta_thinking (concat (map tool_deltas tcs))) = []"
  by (induction tcs) (simp_all add: tool_deltas_def)

lemma chunk_text:
  "concat (map delta_text (chunk_deltas c)) =
     (case ck_Choices c of [] \<Rightarrow> [] | ch # _ \<Rightarrow> d_Content (ch_Delta ch))"
  "concat (map delta_thinking (chunk_deltas c)) =
     (case ck_Choices c of [] \<Rightarrow> [] | ch # _ \<Rightarrow> d_ReasoningContent (ch_Delta ch))"
  by (auto simp: chunk_deltas_def delta_deltas_def split: list.split)

lemma collect_tool_frame [simp]:
  "co_text (collect_tool tc s) = co_text s"
  "co_think (collect_tool tc s) = co_think s"
  "co_stop (collect_tool tc s) = co_stop s"
  "co_usage (collect_tool tc s) = co_usage s"
  "co_err (collect_tool tc s) = co_err s"
  by (simp_all add: collect_tool_def collect_args_def collect_begin_def flushTool_def
      split: option.split)

lemma fold_collect_tool_frame [simp]:
  "co_text (fold collect_tool tcs s) = co_text s"
  "co_think (fold collect_tool tcs s) = co_think s"
  "co_stop (fold collect_tool tcs s) = co_stop s"
  "co_usage (fold collect_tool tcs s) = co_usage s"
  "co_err (fold collect_tool tcs s) = co_err s"
  by (induction tcs arbitrary: s) simp_all

lemma flushTool_frame [simp]:
  "co_text (flushTool s) = co_text s" "co_think (flushTool s) = co_think s"
  "co_stop (flushTool s) = co_stop s" "co_usage (flushTool s) = co_usage s"
  "co_err (flushTool s) = co_err s"
  by (simp_all add: flushTool_def)

lemmas collect_defs = collect_chunk_def collect_finish_def collect_usage_def collect_delta_def

lemma collect_chunk_text:
  "co_text (collect_chunk c s) = co_text s @ concat (map delta_text (chunk_deltas c))"
  "co_think (collect_chunk c s) = co_think s @ concat (map delta_thinking (chunk_deltas c))"
  by (auto simp: chunk_text collect_defs split: list.split option.split)

lemma collect_fold_text:
  "co_text (fold collect_chunk cs s) = co_text s @ concat (map delta_text (concat (map chunk_deltas cs)))"
  "co_think (fold collect_chunk cs s) =
     co_think s @ concat (map delta_thinking (concat (map chunk_deltas cs)))"
  by (induction cs arbitrary: s) (simp_all add: collect_chunk_text)

section \<open>Stop reason and usage\<close>

definition same_end :: "streamState \<Rightarrow> collectState \<Rightarrow> bool" where
  "same_end s c \<longleftrightarrow> ss_usage s = co_usage c \<and>
     (if ss_stopReason s = [] then ''end_turn'' else ss_stopReason s) = co_stop c"

lemma emit_frame [simp]:
  "ss_usage (emit e s) = ss_usage s" "ss_stopReason (emit e s) = ss_stopReason s"
  "ss_blockType (emit e s) = ss_blockType s"
  by (simp_all add: emit_def)

lemma block_frame [simp]:
  "ss_usage (messageStart s) = ss_usage s" "ss_stopReason (messageStart s) = ss_stopReason s"
  "ss_usage (closeBlock s) = ss_usage s" "ss_stopReason (closeBlock s) = ss_stopReason s"
  "ss_usage (startBlock k b s) = ss_usage s" "ss_stopReason (startBlock k b s) = ss_stopReason s"
  "ss_usage (openBlock k b s) = ss_usage s" "ss_stopReason (openBlock k b s) = ss_stopReason s"
  "ss_usage (start_tool s) = ss_usage s" "ss_stopReason (start_tool s) = ss_stopReason s"
  by (simp_all add: messageStart_def closeBlock_def startBlock_def openBlock_def start_tool_def Let_def)

lemma delta_frame [simp]:
  "ss_usage (stream_tool tc s) = ss_usage s" "ss_stopReason (stream_tool tc s) = ss_stopReason s"
  "ss_usage (stream_reasoning t s) = ss_usage s" "ss_stopReason (stream_reasoning t s) = ss_stopReason s"
  "ss_usage (stream_content t s) = ss_usage s" "ss_stopReason (stream_content t s) = ss_stopReason s"
  by (simp_all add: stream_tool_def tool_arguments_def begin_tool_def note_tool_def emit_delta_def
      stream_reasoning_def stream_content_def Let_def)

lemma fold_tool_frame [simp]:
  "ss_usage (fold stream_tool tcs s) = ss_usage s"
  "ss_stopReason (fold stream_tool tcs s) = ss_stopReason s"
  by (induction tcs arbitrary: s) simp_all

lemma stream_delta_frame [simp]:
  "ss_usage (stream_delta d s) = ss_usage s" "ss_stopReason (stream_delta d s) = ss_stopReason s"
  by (simp_all add: stream_delta_def)

lemma same_end_chunk: "same_end s c \<Longrightarrow> same_end (stream_chunk k s) (collect_chunk k c)"
  by (auto simp: same_end_def stream_chunk_def stream_finish_def stream_usage_def collect_defs
      split: list.split option.split)

lemma same_end_fold:
  "same_end s c \<Longrightarrow> same_end (fold stream_chunk cs s) (fold collect_chunk cs c)"
  by (induction cs arbitrary: s c) (simp_all add: same_end_chunk)

lemma same_end_new [simp]: "same_end (new_stream i m) new_collect"
  by (simp add: same_end_def new_stream_def new_collect_def)

section \<open>Tool calls\<close>

text \<open>What a client assembles: one call per tool block, its arguments the deltas of that block.\<close>

definition add_args :: "string \<Rightarrow> toolAcc list \<Rightarrow> toolAcc list" where
  "add_args a ts =
     (if ts = [] then [] else butlast ts @ [(last ts)\<lparr>ta_args := ta_args (last ts) @ a\<rparr>])"

fun tool_event :: "event \<Rightarrow> toolAcc list \<Rightarrow> toolAcc list" where
  "tool_event (BlockStart i (StartTool t n)) ts = ts @ [\<lparr>ta_id = t, ta_name = n, ta_args = []\<rparr>]"
| "tool_event (BlockDelta i (InputJsonDelta a)) ts = add_args a ts"
| "tool_event _ ts = ts"

definition tool_calls :: "event list \<Rightarrow> toolAcc list" where
  "tool_calls evs = fold tool_event evs []"

text \<open>
  An orderly upstream names a call exactly when it gives its id, and sends arguments only while
  the call they belong to is the open block. \<open>tools_ok\<close> and \<open>orderly\<close> carry whether it is.
\<close>

definition tool_ok :: "bool \<Rightarrow> toolDelta \<Rightarrow> bool" where
  "tool_ok opened tc \<longleftrightarrow> (td_ID tc \<noteq> [] \<longleftrightarrow> td_Name tc \<noteq> []) \<and>
     (td_Arguments tc \<noteq> [] \<longrightarrow> td_ID tc \<noteq> [] \<or> opened)"

fun tools_ok :: "bool \<Rightarrow> toolDelta list \<Rightarrow> bool" where
  "tools_ok opened [] = True"
| "tools_ok opened (tc # tcs) = (tool_ok opened tc \<and> tools_ok (opened \<or> td_ID tc \<noteq> []) tcs)"

definition still_open :: "bool \<Rightarrow> delta \<Rightarrow> bool" where
  "still_open opened d \<longleftrightarrow> opened \<and> d_ReasoningContent d = [] \<and> d_Content d = []"

fun orderly :: "bool \<Rightarrow> upChunk list \<Rightarrow> bool" where
  "orderly opened [] = True"
| "orderly opened (c # cs) =
     (case ck_Choices c of
        [] \<Rightarrow> orderly opened cs
      | ch # _ \<Rightarrow>
          (let d = ch_Delta ch; op = still_open opened d in
           tools_ok op (d_ToolCalls d) \<and>
           orderly ((op \<or> list_ex (\<lambda>tc. td_ID tc \<noteq> []) (d_ToolCalls d)) \<and> finish_reason ch = None) cs))"

definition calls :: "streamState \<Rightarrow> toolAcc list" where
  "calls s = tool_calls (ss_out s)"

definition collected :: "collectState \<Rightarrow> toolAcc list" where
  "collected c = co_tools c @ opt_list (co_cur c)"

text \<open>The simulation: the same calls so far, and an open tool block means a current call.\<close>

definition same_tools :: "bool \<Rightarrow> streamState \<Rightarrow> collectState \<Rightarrow> bool" where
  "same_tools opened s c \<longleftrightarrow> stream_inv s \<and> calls s = collected c \<and>
     (opened \<longleftrightarrow> ss_blockType s = ''tool_use'') \<and> (opened \<longrightarrow> co_cur c \<noteq> None)"

definition tool_silent :: "event \<Rightarrow> bool" where
  "tool_silent e \<longleftrightarrow> (\<forall>ts. tool_event e ts = ts)"

lemma tool_silent_simps [simp]:
  "tool_silent (MessageStart x m)" "tool_silent (BlockStop i)" "tool_silent (MessageDelta r u)"
  "tool_silent MessageStop" "tool_silent (ErrorEvent m)" "tool_silent (BlockStart i StartThinking)"
  "tool_silent (BlockStart i StartText)" "tool_silent (BlockDelta i (ThinkingDelta t))"
  "tool_silent (BlockDelta i (TextDelta t))"
  by (simp_all add: tool_silent_def)

lemma calls_emit: "tool_silent e \<Longrightarrow> calls (emit e s) = calls s"
  by (simp add: calls_def tool_calls_def emit_def tool_silent_def)

lemma calls_update [simp]:
  "calls (s\<lparr>ss_blockType := x\<rparr>) = calls s" "calls (s\<lparr>ss_blockIndex := i\<rparr>) = calls s"
  "calls (s\<lparr>ss_started := b\<rparr>) = calls s" "calls (s\<lparr>ss_stopped := b\<rparr>) = calls s"
  "calls (s\<lparr>ss_toolID := x\<rparr>) = calls s" "calls (s\<lparr>ss_toolName := x\<rparr>) = calls s"
  "calls (s\<lparr>ss_usage := u\<rparr>) = calls s" "calls (s\<lparr>ss_stopReason := x\<rparr>) = calls s"
  by (simp_all add: calls_def)

lemma calls_quiet [simp]:
  "calls (messageStart s) = calls s" "calls (closeBlock s) = calls s" "calls (finish s) = calls s"
  by (simp_all add: messageStart_def closeBlock_def finish_def Let_def calls_emit)

lemma calls_startBlock: "tool_silent (BlockStart (ss_blockIndex (closeBlock (messageStart s))) b) \<Longrightarrow>
   calls (startBlock k b s) = calls s"
  by (simp add: startBlock_def Let_def calls_emit)

lemma calls_reasoning [simp]: "calls (stream_reasoning t s) = calls s"
  by (simp add: stream_reasoning_def emit_delta_def calls_emit openBlock_def Let_def calls_startBlock)

lemma calls_content [simp]: "calls (stream_content t s) = calls s"
  by (simp add: stream_content_def emit_delta_def calls_emit openBlock_def Let_def calls_startBlock)

lemma calls_stream_close [simp]: "calls (stream_close l e s) = calls s"
  by (simp add: stream_close_def calls_emit split: stream_end.split)

lemma calls_start_tool:
  assumes "stream_inv s"
  shows "calls (start_tool s) = calls s @ [\<lparr>ta_id = ss_toolID s, ta_name = ss_toolName s, ta_args = []\<rparr>]"
proof -
  have "\<not> ss_stopped (closeBlock (messageStart s))"
    using assms messageStart_inv closeBlock_inv by (simp add: stream_inv_def)
  then have "calls (start_tool s) = calls (closeBlock (messageStart s)) @
      [\<lparr>ta_id = ss_toolID s, ta_name = ss_toolName s, ta_args = []\<rparr>]"
    by (simp add: start_tool_def startBlock_def Let_def emit_live calls_def tool_calls_def
        toolBlockPayload_def)
  then show ?thesis by simp
qed

lemma calls_arguments:
  "stream_inv s \<Longrightarrow> calls (emit_delta (InputJsonDelta a) s) = add_args a (calls s)"
  by (simp add: emit_delta_def emit_def stream_inv_def calls_def tool_calls_def)

lemma collected_begin:
  "td_ID tc \<noteq> [] \<or> td_Name tc \<noteq> [] \<Longrightarrow> collected (collect_begin tc c) =
     collected c @ [\<lparr>ta_id = td_ID tc, ta_name = td_Name tc, ta_args = []\<rparr>]"
  by (cases "co_cur c") (simp_all add: collect_begin_def collected_def flushTool_def)

lemma collected_args:
  "co_cur c \<noteq> None \<Longrightarrow> a \<noteq> [] \<Longrightarrow> collected (collect_args a c) = add_args a (collected c)"
  by (auto simp: collect_args_def collected_def add_args_def butlast_append)

lemma collect_args_cur [simp]: "co_cur (collect_args a c) = None \<longleftrightarrow> co_cur c = None"
  by (simp add: collect_args_def split: option.split)

lemma same_tools_begin:
  assumes "same_tools opened s c" "tool_ok opened tc"
  shows "same_tools (opened \<or> td_ID tc \<noteq> []) (begin_tool tc s) (collect_begin tc c)"
proof (cases "td_ID tc = []")
  case True
  with assms show ?thesis
    by (simp add: same_tools_def tool_ok_def begin_tool_def collect_begin_def)
next
  case False
  with assms have n: "td_Name tc \<noteq> []" by (simp add: tool_ok_def)
  define s1 where "s1 = note_tool tc s"
  have s1: "stream_inv s1" "ss_toolID s1 = td_ID tc" "ss_toolName s1 = td_Name tc" "calls s1 = calls s"
    using assms(1) False n by (simp_all add: s1_def note_tool_def same_tools_def)
  then have "calls (start_tool s1) = collected (collect_begin tc c)"
    using assms(1) False by (simp add: calls_start_tool collected_begin same_tools_def)
  moreover have "co_cur (collect_begin tc c) \<noteq> None"
    using False by (simp add: collect_begin_def)
  moreover have "begin_tool tc s = start_tool s1"
    using False by (simp add: begin_tool_def s1_def)
  ultimately show ?thesis
    using False start_tool_inv [OF s1(1)] by (simp add: same_tools_def)
qed

lemma same_tools_arguments:
  assumes "same_tools opened s c" "a \<noteq> [] \<longrightarrow> opened"
  shows "same_tools opened (tool_arguments a s) (collect_args a c)"
proof (cases "a = []")
  case True
  then show ?thesis
    using assms(1) by (simp add: tool_arguments_def collect_args_def split: option.split)
next
  case False
  with assms have b: "opened" "stream_inv s" "ss_blockType s = ''tool_use''" "co_cur c \<noteq> None"
    "calls s = collected c"
    by (auto simp: same_tools_def)
  moreover have "stream_inv (tool_arguments a s)" using b(2) by (rule tool_arguments_inv)
  moreover have "tool_arguments a s = emit_delta (InputJsonDelta a) s"
    using False b(3) by (simp add: tool_arguments_def)
  moreover have "ss_blockType (emit_delta (InputJsonDelta a) s) = ''tool_use''"
    using b(3) by (simp add: emit_delta_def)
  ultimately show ?thesis
    using False by (simp add: same_tools_def calls_arguments collected_args)
qed

lemma same_tools_tool:
  assumes "same_tools opened s c" "tool_ok opened tc"
  shows "same_tools (opened \<or> td_ID tc \<noteq> []) (stream_tool tc s) (collect_tool tc c)"
  unfolding stream_tool_def collect_tool_def
  using assms(2) by (intro same_tools_arguments same_tools_begin assms) (auto simp: tool_ok_def)

lemma same_tools_fold:
  "same_tools opened s c \<Longrightarrow> tools_ok opened tcs \<Longrightarrow>
     same_tools (opened \<or> list_ex (\<lambda>tc. td_ID tc \<noteq> []) tcs) (fold stream_tool tcs s) (fold collect_tool tcs c)"
proof (induction tcs arbitrary: opened s c)
  case (Cons tc tcs)
  then have "same_tools (opened \<or> td_ID tc \<noteq> []) (stream_tool tc s) (collect_tool tc c)"
    by (simp add: same_tools_tool)
  from Cons.IH [OF this] Cons.prems(2) show ?case by (simp add: disj_assoc)
qed simp

lemma same_tools_collect [simp]:
  "same_tools opened s (c\<lparr>co_text := x\<rparr>) = same_tools opened s c"
  "same_tools opened s (c\<lparr>co_think := x\<rparr>) = same_tools opened s c"
  "same_tools opened s (c\<lparr>co_stop := x\<rparr>) = same_tools opened s c"
  "same_tools opened s (c\<lparr>co_usage := u\<rparr>) = same_tools opened s c"
  by (simp_all add: same_tools_def collected_def)

lemma same_tools_text:
  assumes "same_tools opened s c"
  shows "same_tools (still_open opened d) (stream_content (d_Content d) (stream_reasoning (d_ReasoningContent d) s)) c"
proof -
  have o: "ss_blockType (openBlock ''thinking'' StartThinking u) = ''thinking''"
    "ss_blockType (openBlock ''text'' StartText u) = ''text''" if "stream_inv u" for u
    using that openBlock_inv [of u StartThinking "''thinking''"] openBlock_inv [of u StartText "''text''"]
    by simp_all
  have "stream_inv s" using assms by (simp add: same_tools_def)
  then show ?thesis
    using assms o stream_reasoning_inv [of s "d_ReasoningContent d"]
      stream_content_inv [of "stream_reasoning (d_ReasoningContent d) s" "d_Content d"]
    by (auto simp: same_tools_def still_open_def)
      (auto simp: stream_reasoning_def stream_content_def emit_delta_def split: if_splits)
qed

lemma same_tools_delta:
  assumes "same_tools opened s c" "tools_ok (still_open opened d) (d_ToolCalls d)"
  shows "same_tools (still_open opened d \<or> list_ex (\<lambda>tc. td_ID tc \<noteq> []) (d_ToolCalls d))
    (stream_delta d s) (collect_delta d c)"
  unfolding stream_delta_def collect_delta_def
  using same_tools_text [OF assms(1)] assms(2) by (intro same_tools_fold) simp_all

lemma same_tools_usage [simp]:
  "same_tools opened (stream_usage u s) (collect_usage u c) = same_tools opened s c"
  by (simp add: same_tools_def stream_usage_def collect_usage_def collected_def split: option.split)

lemma same_tools_finish:
  assumes "same_tools opened s c"
  shows "same_tools (opened \<and> finish_reason ch = None) (stream_finish ch u s) (collect_finish ch u c)"
proof (cases "finish_reason ch")
  case None
  with assms show ?thesis by (simp add: stream_finish_def collect_finish_def)
next
  case (Some r)
  have "same_tools opened (stream_usage u (s\<lparr>ss_stopReason := mapStopReason r\<rparr>))
      (collect_usage u (c\<lparr>co_stop := mapStopReason r\<rparr>))"
    unfolding same_tools_usage using assms by (simp add: same_tools_def collected_def)
  with Some show ?thesis
    using closeBlock_inv [of "stream_usage u (s\<lparr>ss_stopReason := mapStopReason r\<rparr>)"]
    by (simp add: stream_finish_def collect_finish_def same_tools_def)
qed

lemma same_tools_chunks:
  "same_tools opened s c \<Longrightarrow> orderly opened cs \<Longrightarrow>
     calls (fold stream_chunk cs s) = collected (fold collect_chunk cs c)"
proof (induction cs arbitrary: opened s c)
  case Nil
  then show ?case by (simp add: same_tools_def)
next
  case (Cons k cs)
  show ?case
  proof (cases "ck_Choices k")
    case Nil
    with Cons.prems have "same_tools opened (stream_chunk k s) (collect_chunk k c)"
      by (simp add: stream_chunk_def collect_chunk_def)
    from Cons.IH [OF this] Cons.prems(2) Nil show ?thesis by simp
  next
    case (Cons ch chs)
    with Cons.prems have "tools_ok (still_open opened (ch_Delta ch)) (d_ToolCalls (ch_Delta ch))"
      by (simp add: Let_def)
    from same_tools_finish [OF same_tools_delta [OF Cons.prems(1) this], of ch "ck_Usage k"]
    have "same_tools ((still_open opened (ch_Delta ch)
        \<or> list_ex (\<lambda>tc. td_ID tc \<noteq> []) (d_ToolCalls (ch_Delta ch))) \<and> finish_reason ch = None)
        (stream_chunk k s) (collect_chunk k c)"
      using Cons by (simp add: stream_chunk_def collect_chunk_def)
    from Cons.IH [OF this] Cons.prems(2) Cons show ?thesis by (simp add: Let_def)
  qed
qed

section \<open>The two answers\<close>

lemma same_tools_new: "same_tools False (new_stream i m) new_collect"
proof -
  have "stream_inv (new_stream i m)" by simp
  then show ?thesis
    by (simp add: same_tools_def)
      (simp add: new_stream_def new_collect_def calls_def tool_calls_def collected_def)
qed

definition read_by_stream :: "string \<Rightarrow> body_end \<Rightarrow> upChunk list \<times> stream_end" where
  "read_by_stream body e = take_chunks finish_event (body_frames body e)"

text \<open>What the two answers hold, for a body both read alike.\<close>

lemma collect_run_agree:
  assumes "finish_has_data (body_frames body e)"
  shows "collect_run body e = flushTool (close_run (\<lambda>s. s) (\<lambda>m s. s\<lparr>co_err := m\<rparr>)
    (snd (read_by_stream body e)) (fold collect_chunk (fst (read_by_stream body e)) new_collect))"
  using take_chunks_agree [OF assms] by (simp add: collect_run_fold read_by_stream_def)

lemma close_run_frame [simp]:
  "co_text (close_run (\<lambda>s. s) (\<lambda>m s. s\<lparr>co_err := m\<rparr>) e s) = co_text s"
  "co_think (close_run (\<lambda>s. s) (\<lambda>m s. s\<lparr>co_err := m\<rparr>) e s) = co_think s"
  "co_stop (close_run (\<lambda>s. s) (\<lambda>m s. s\<lparr>co_err := m\<rparr>) e s) = co_stop s"
  "co_usage (close_run (\<lambda>s. s) (\<lambda>m s. s\<lparr>co_err := m\<rparr>) e s) = co_usage s"
  "collected (close_run (\<lambda>s. s) (\<lambda>m s. s\<lparr>co_err := m\<rparr>) e s) = collected s"
  by (simp_all add: close_run_def collected_def split: stream_end.split)

lemma flush_collected: "co_tools (flushTool s) = collected s"
  by (simp add: flushTool_def collected_def)

lemma agree_text:
  assumes "finish_has_data (body_frames body e)"
    "streamAnthropic True locked body e model rid = Streamed evs"
  shows "stream_text evs = co_text (collect_run body e)"
    "stream_thinking evs = co_think (collect_run body e)"
proof -
  have d: "deltas evs = concat (map chunk_deltas (fst (read_by_stream body e)))"
    using streamAnthropic_deltas [of locked body e model rid] assms(2)
    by (simp add: read_by_stream_def)
  have "co_text new_collect = []" "co_think new_collect = []" by (simp_all add: new_collect_def)
  with d show "stream_text evs = co_text (collect_run body e)"
    "stream_thinking evs = co_think (collect_run body e)"
    by (simp_all add: collect_run_agree [OF assms(1)] stream_text_def stream_thinking_def
        collect_fold_text)
qed

lemma finish_delta:
  "\<not> ss_stopped s \<Longrightarrow> ss_out (finish s) = ss_out (closeBlock s) @
     [MessageDelta (if ss_stopReason s = [] then ''end_turn'' else ss_stopReason s) (ss_usage s), MessageStop]"
  by (simp add: finish_def Let_def emit_def closeBlock_def)

definition open_phase :: "phase \<Rightarrow> bool" where
  "open_phase p = (case p of Fresh \<Rightarrow> True | Between i \<Rightarrow> True | Inside i k \<Rightarrow> True | _ \<Rightarrow> False)"

definition is_message_delta :: "event \<Rightarrow> bool" where
  "is_message_delta e = (case e of MessageDelta r u \<Rightarrow> True | _ \<Rightarrow> False)"

lemma open_phase_step:
  "grammar_step p e = Some q \<Longrightarrow> open_phase q \<Longrightarrow> open_phase p \<and> \<not> is_message_delta e"
  by (induction p e rule: grammar_step.induct)
    (auto simp: open_phase_def is_message_delta_def split: if_splits)

lemma open_phase_run:
  "grammar p es = Some q \<Longrightarrow> open_phase q \<Longrightarrow> open_phase p \<and> list_all (\<lambda>e. \<not> is_message_delta e) es"
proof (induction es arbitrary: p)
  case (Cons e es)
  then obtain p' where p': "grammar_step p e = Some p'" "grammar p' es = Some q"
    by (auto split: option.splits)
  from Cons.IH [OF p'(2) Cons.prems(2)] open_phase_step [OF p'(1)] show ?case by simp
qed simp

lemma no_message_delta:
  assumes "stream_inv s" "MessageDelta r u \<in> set (ss_out s)"
  shows False
proof -
  have "open_phase (phase_of s)" by (simp add: phase_of_def open_phase_def)
  with assms(1) open_phase_run [of Fresh "ss_out s" "phase_of s"]
  have "list_all (\<lambda>e. \<not> is_message_delta e) (ss_out s)" by (simp add: stream_inv_def)
  with assms(2) show False by (auto simp: list_all_iff is_message_delta_def)
qed

lemma close_message_delta:
  assumes "stream_inv s" "MessageDelta r u \<in> set (ss_out (stream_close l e s))"
  shows "u = ss_usage s \<and> r = (if ss_stopReason s = [] then ''end_turn'' else ss_stopReason s)"
proof -
  have "\<not> ss_stopped s" using assms(1) by (simp add: stream_inv_def)
  moreover have "stream_inv (closeBlock s)" using closeBlock_inv [OF assms(1)] by simp
  ultimately show ?thesis
    using assms(2) no_message_delta [OF assms(1)] no_message_delta [of "closeBlock s"]
    by (cases e) (auto simp: stream_close_def finish_delta emit_def split: if_splits)
qed

lemma agree_end:
  assumes "finish_has_data (body_frames body e)"
    "streamAnthropic True locked body e model rid = Streamed evs" "MessageDelta r u \<in> set evs"
  shows "r = co_stop (collect_run body e) \<and> u = co_usage (collect_run body e)"
proof -
  define s0 where "s0 = new_stream (''msg_'' @ remove_dashes rid) model"
  define s where "s = fold stream_chunk (fst (read_by_stream body e)) s0"
  have evs: "evs = ss_out (stream_close locked (snd (read_by_stream body e)) s)"
    using assms(2) by (simp add: streamAnthropic_fold read_by_stream_def s_def s0_def)
  have "same_end s (fold collect_chunk (fst (read_by_stream body e)) new_collect)"
    unfolding s_def s0_def by (rule same_end_fold) simp
  moreover have "stream_inv s" by (simp add: s_def s0_def fold_chunk_inv)
  ultimately show ?thesis
    using close_message_delta [of s r u locked] assms(3)
    by (simp add: evs collect_run_agree [OF assms(1)] same_end_def)
qed

lemma agree_tools:
  assumes "finish_has_data (body_frames body e)" "orderly False (fst (read_by_stream body e))"
    "streamAnthropic True locked body e model rid = Streamed evs"
  shows "tool_calls evs = co_tools (collect_run body e)"
proof -
  define s where "s = fold stream_chunk (fst (read_by_stream body e))
    (new_stream (''msg_'' @ remove_dashes rid) model)"
  have "evs = ss_out (stream_close locked (snd (read_by_stream body e)) s)"
    using assms(3) by (simp add: streamAnthropic_fold read_by_stream_def s_def)
  then have "tool_calls evs = calls s" by (simp flip: calls_def)
  also have "calls s = collected (fold collect_chunk (fst (read_by_stream body e)) new_collect)"
    unfolding s_def by (rule same_tools_chunks [OF same_tools_new assms(2)])
  finally show ?thesis by (simp add: collect_run_agree [OF assms(1)] flush_collected)
qed

section \<open>A concrete body\<close>

text \<open>One chunk with a text and a named tool call, then the finish frame.\<close>

definition sample_data :: string where
  "sample_data = ''{'' @ DQ # ''body'' @ DQ # '':'' @ DQ # ''{'' @
     BSL # DQ # ''choices'' @ BSL # DQ # '':[{'' @ BSL # DQ # ''delta'' @ BSL # DQ # '':{'' @
     BSL # DQ # ''content'' @ BSL # DQ # '':'' @ BSL # DQ # ''Hi'' @ BSL # DQ # '','' @
     BSL # DQ # ''tool_calls'' @ BSL # DQ # '':[{'' @
     BSL # DQ # ''id'' @ BSL # DQ # '':'' @ BSL # DQ # ''t'' @ BSL # DQ # '','' @
     BSL # DQ # ''function'' @ BSL # DQ # '':{'' @
     BSL # DQ # ''name'' @ BSL # DQ # '':'' @ BSL # DQ # ''f'' @ BSL # DQ # ''}}]}}]}'' @ DQ # ''}''"

definition sample_body :: string where
  "sample_body = ''data:'' @ sample_data @ [LF, LF] @ ''event:finish'' @ [LF] @ ''data:x'' @ [LF, LF]"

definition sample_upChunk :: upChunk where
  "sample_upChunk = zero_chunk\<lparr>ck_Choices := [zero_choice\<lparr>ch_Delta := zero_delta
     \<lparr>d_Content := ''Hi'', d_ToolCalls := [zero_toolDelta\<lparr>td_ID := ''t'', td_Name := ''f''\<rparr>]\<rparr>\<rparr>]\<rparr>"

lemma sample_frames:
  "body_frames sample_body AtEOF =
     [\<lparr>f_event = [], f_data = sample_data\<rparr>, \<lparr>f_event = ''finish'', f_data = ''x''\<rparr>]"
  by (simp add: body_frames_def sample_body_def sample_data_def trim_line_def TrimRight_def
      feed_line_def HasPrefix_def TrimPrefix_def trim_eval)

lemma sample_read: "read_frame \<lparr>f_event = [], f_data = sample_data\<rparr> = Chunk sample_upChunk"
  by (simp add: read_frame_def read_payload_def read_body_def sample_data_def trim_eval char_eval)
    (simp add: json_eval decode_eval chunk_eval envelope_eval sample_upChunk_def read_body_def)

lemma sample_stream: "read_by_stream sample_body AtEOF = ([sample_upChunk], Finished)"
  using sample_read by (simp add: read_by_stream_def sample_frames finish_event_def)

lemma sample_orderly: "orderly False [sample_upChunk]"
  by (simp add: sample_upChunk_def chunk_eval tool_ok_def still_open_def)

lemma sample_finish: "finish_has_data (body_frames sample_body AtEOF)"
  by (simp add: sample_frames finish_has_data_def finish_event_def) (simp add: trim_eval)

section \<open>Properties\<close>



text \<open>
  C5: when, besides, the upstream is orderly (a call is named exactly when its id arrives, and
  argument text arrives only while its call is the open block), the tool calls a client
  assembles from the events of the stream are the collected ones: same ids, names, argument
  texts, in the same order.
\<close>

theorem tool_calls_agree:
  assumes "finish_has_data (body_frames body e)"
    and "orderly False (fst (read_by_stream body e))"
    and "streamAnthropic True locked body e model rid = Streamed evs"
  shows "tool_calls evs = co_tools (collect_run body e)"
  using assms by (rule agree_tools)

lemma tool_calls_agree_witness:
  "\<exists>evs. streamAnthropic True False sample_body AtEOF ''m'' ''r'' = Streamed evs \<and>
     tool_calls evs = co_tools (collect_run sample_body AtEOF)"
  using tool_calls_agree [OF sample_finish _ streamAnthropic_fold, of False "''r''" "''m''"]
    sample_orderly streamAnthropic_fold
  by (auto simp: sample_stream)

definition unnamed_chunk :: upChunk where
  "unnamed_chunk = zero_chunk\<lparr>ck_Choices := [zero_choice\<lparr>ch_Delta := zero_delta
     \<lparr>d_ToolCalls := [zero_toolDelta\<lparr>td_ID := ''t'', td_Name := ''f''\<rparr>,
        zero_toolDelta\<lparr>td_Name := ''g'', td_Arguments := ''x''\<rparr>]\<rparr>\<rparr>]\<rparr>"

text \<open>
  Without that the two differ: on a call that a name alone starts while a tool block is
  open, and its arguments, the stream appends the arguments to the open block, where the
  collector begins a second call.
\<close>

lemma unnamed_call_differs:
  "calls (stream_chunk unnamed_chunk (new_stream ''msg'' ''m'')) =
     [\<lparr>ta_id = ''t'', ta_name = ''f'', ta_args = ''x''\<rparr>] \<and>
   collected (collect_chunk unnamed_chunk new_collect) =
     [\<lparr>ta_id = ''t'', ta_name = ''f'', ta_args = []\<rparr>, \<lparr>ta_id = [], ta_name = ''g'', ta_args = ''x''\<rparr>]"
  by code_simp

end
