(* ===== verification/Model_Context.thy ===== *)
theory Model_Context
  imports Chat_Types
begin

text \<open>
  Context windows (\<open>model_context.go\<close>): which windows a model supports, its maximum and default,
  and the effective window that preferences select. A nil \<open>*modelConfig\<close> is \<open>None\<close>.
\<close>

section \<open>Windows of a model\<close>

text \<open>The keys of \<open>seen\<close> are a set; \<open>sort.Ints\<close> makes the result independent of its order.\<close>

definition supportedContextWindows :: "modelConfig option \<Rightarrow> int list" where
  "supportedContextWindows mo =
     (case mo of None \<Rightarrow> []
      | Some mc \<Rightarrow>
          sort (remdups (filter (\<lambda>n. 0 < n) (map ct_TokenCount (map snd (mc_ContextConfig mc))))))"

definition maximumContextWindow :: "modelConfig option \<Rightarrow> int" where
  "maximumContextWindow mo =
     (let m = fold (\<lambda>v m. if v > m then v else m) (supportedContextWindows mo) 0 in
      case mo of None \<Rightarrow> m
      | Some mc \<Rightarrow> if mc_MaxInputTokens mc > m then mc_MaxInputTokens mc else m)"

text \<open>\<open>sort.SearchInts\<close>: the binary search for the first index whose value is not smaller.\<close>

function search_ints :: "int list \<Rightarrow> int \<Rightarrow> nat \<Rightarrow> nat \<Rightarrow> nat" where
  "search_ints xs x i j =
     (if i < j then
        let h = (i + j) div 2 in
        if xs ! h < x then search_ints xs x (h + 1) j else search_ints xs x i h
      else i)"
  by pat_completeness auto
termination
  by (relation "measure (\<lambda>(xs, x, i, j). j - i)") auto

declare search_ints.simps [simp del]

definition supportsContextWindow :: "modelConfig option \<Rightarrow> int \<Rightarrow> bool" where
  "supportsContextWindow mo window =
     (case mo of None \<Rightarrow> False
      | Some mc \<Rightarrow>
          if window \<le> 0 then False
          else
            let vs = supportedContextWindows mo in
            if vs = [] then mc_MaxInputTokens mc > 0 \<and> window \<le> mc_MaxInputTokens mc
            else
              let index = search_ints vs window 0 (length vs)
              in index < length vs \<and> vs ! index = window)"

definition default_tier :: "contextTier \<Rightarrow> int \<Rightarrow> int" where
  "default_tier t d =
     (if ct_IsDefault t \<and> ct_TokenCount t > 0 \<and> (d = 0 \<or> ct_TokenCount t < d)
      then ct_TokenCount t else d)"

definition catalogDefaultContextWindow :: "modelConfig option \<Rightarrow> int" where
  "catalogDefaultContextWindow mo =
     (case mo of None \<Rightarrow> 0
      | Some mc \<Rightarrow>
          let d = fold default_tier (map snd (mc_ContextConfig mc)) 0 in
          if d > 0 then d
          else if mc_MaxInputTokens mc > 0 then mc_MaxInputTokens mc
          else (case supportedContextWindows mo of v # _ \<Rightarrow> v | [] \<Rightarrow> 0))"

definition contextWindow :: "modelConfig option \<Rightarrow> int" where
  "contextWindow mo =
     (case mo of
        Some mc \<Rightarrow> if mc_EffectiveContextWindow mc > 0 then mc_EffectiveContextWindow mc
                  else catalogDefaultContextWindow mo
      | None \<Rightarrow> catalogDefaultContextWindow mo)"

section \<open>Preferences\<close>

datatype preference_error = InvalidPreferencesJSON | InvalidPreference

definition valid_preference :: "string \<times> int \<Rightarrow> bool" where
  "valid_preference p \<longleftrightarrow> \<not> (TrimSpace (fst p) = [] \<or> snd p \<le> 0 \<or> snd p > 2000000)"

definition parseContextPreferences :: "string \<Rightarrow> (preference_error, (string \<times> int) list) result" where
  "parseContextPreferences raw =
     (if TrimSpace raw = [] then Ok []
      else (case unmarshal [] (dec_map 0 dec_int) raw of
              None \<Rightarrow> Err InvalidPreferencesJSON
            | Some values \<Rightarrow>
                if list_all valid_preference values then Ok values else Err InvalidPreference))"

definition preferred :: "(string \<times> int) list \<Rightarrow> string \<Rightarrow> int" where
  "preferred prefs key = (case map_of prefs key of Some v \<Rightarrow> v | None \<Rightarrow> 0)"

definition applyPreference :: "(string \<times> int) list \<Rightarrow> modelConfig \<Rightarrow> modelConfig" where
  "applyPreference prefs mc =
     (let p = preferred prefs (mc_Key mc);
          selected = (if supportsContextWindow (Some mc) p then p else 0)
      in mc\<lparr>mc_EffectiveContextWindow :=
               (if selected = 0 then catalogDefaultContextWindow (Some mc) else selected)\<rparr>)"

definition applyContextPreferences ::
  "(string \<times> int) list \<Rightarrow> modelConfig option list \<Rightarrow> modelConfig option list" where
  "applyContextPreferences prefs catalog = map (map_option (applyPreference prefs)) catalog"

section \<open>The binary search\<close>

lemma search_ints_split:
  assumes "sorted xs" "i \<le> j" "j \<le> length xs"
    "\<forall>k < i. xs ! k < x" "\<forall>k. j \<le> k \<longrightarrow> k < length xs \<longrightarrow> x \<le> xs ! k"
  shows "search_ints xs x i j \<le> length xs \<and> (\<forall>k < search_ints xs x i j. xs ! k < x) \<and>
    (\<forall>k. search_ints xs x i j \<le> k \<longrightarrow> k < length xs \<longrightarrow> x \<le> xs ! k)"
  using assms
proof (induction xs x i j rule: search_ints.induct)
  case (1 xs x i j)
  let ?split = "\<lambda>i j. search_ints xs x i j \<le> length xs \<and> (\<forall>k < search_ints xs x i j. xs ! k < x) \<and>
    (\<forall>k. search_ints xs x i j \<le> k \<longrightarrow> k < length xs \<longrightarrow> x \<le> xs ! k)"
  show ?case
  proof (cases "i < j")
    case False
    then have "search_ints xs x i j = i" by (simp add: search_ints.simps [of xs x i j])
    moreover from False 1(4) have "i = j" by simp
    ultimately show ?thesis using 1(5-7) by simp
  next
    case True
    define h where "h = (i + j) div 2"
    have h: "i \<le> h" "h < j" using True by (auto simp: h_def)
    show ?thesis
    proof (cases "xs ! h < x")
      case less: True
      have "\<forall>k < h + 1. xs ! k < x"
      proof (intro allI impI)
        fix k assume "k < h + 1"
        then have "xs ! k \<le> xs ! h"
          using 1(3) 1(5) h by (intro sorted_nth_mono) auto
        then show "xs ! k < x" using less by simp
      qed
      moreover have "h + 1 \<le> j" using h by simp
      ultimately have "?split (h + 1) j"
        using 1(1) [OF True h_def less 1(3)] 1(5,7) by blast
      moreover have "search_ints xs x i j = search_ints xs x (h + 1) j"
        using True less by (simp add: search_ints.simps [of xs x i j] h_def)
      ultimately show ?thesis by simp
    next
      case ge: False
      have "\<forall>k. h \<le> k \<longrightarrow> k < length xs \<longrightarrow> x \<le> xs ! k"
      proof (intro allI impI)
        fix k assume k: "h \<le> k" "k < length xs"
        then have "xs ! h \<le> xs ! k" using 1(3) by (intro sorted_nth_mono) auto
        then show "x \<le> xs ! k" using ge by simp
      qed
      moreover have "h \<le> length xs" using h 1(5) by simp
      ultimately have "?split i h"
        using 1(2) [OF True h_def ge 1(3) h(1)] 1(6) by blast
      moreover have "search_ints xs x i j = search_ints xs x i h"
        using True ge by (simp add: search_ints.simps [of xs x i j] h_def)
      ultimately show ?thesis by simp
    qed
  qed
qed

lemma search_ints_member:
  assumes "sorted xs"
  shows "(search_ints xs x 0 (length xs) < length xs \<and> xs ! search_ints xs x 0 (length xs) = x)
    \<longleftrightarrow> x \<in> set xs"
proof -
  define n where "n = search_ints xs x 0 (length xs)"
  have n: "n \<le> length xs" "\<forall>k < n. xs ! k < x" "\<forall>k. n \<le> k \<longrightarrow> k < length xs \<longrightarrow> x \<le> xs ! k"
    using search_ints_split [OF assms, of 0 "length xs" x] by (simp_all add: n_def)
  show ?thesis unfolding n_def [symmetric]
  proof
    assume "x \<in> set xs"
    then obtain k where k: "k < length xs" "xs ! k = x" by (auto simp: in_set_conv_nth)
    with n(2) have "n \<le> k" by (meson not_le less_irrefl)
    with k n(3) have "n < length xs" "x \<le> xs ! n" by auto
    moreover have "xs ! n \<le> xs ! k" using \<open>n \<le> k\<close> k(1) assms by (simp add: sorted_nth_mono)
    ultimately show "n < length xs \<and> xs ! n = x" using k by simp
  qed auto
qed

section \<open>What the operations mean\<close>

definition tier_counts :: "modelConfig \<Rightarrow> int set" where
  "tier_counts mc = set (filter (\<lambda>n. 0 < n) (map (\<lambda>t. ct_TokenCount t) (map snd (mc_ContextConfig mc))))"

lemma windows_set: "set (supportedContextWindows (Some mc)) = tier_counts mc"
  by (auto simp: supportedContextWindows_def tier_counts_def)

lemma windows_sorted: "sorted (supportedContextWindows mo)" "distinct (supportedContextWindows mo)"
  by (auto simp: supportedContextWindows_def split: option.split)

lemma supports_iff:
  "supportsContextWindow (Some mc) w \<longleftrightarrow> 0 < w \<and>
     (if tier_counts mc = {} then w \<le> mc_MaxInputTokens mc else w \<in> tier_counts mc)"
proof -
  let ?vs = "supportedContextWindows (Some mc)"
  have "?vs = [] \<longleftrightarrow> tier_counts mc = {}" using windows_set [of mc] by auto
  moreover have "search_ints ?vs w 0 (length ?vs) < length ?vs \<and> ?vs ! search_ints ?vs w 0 (length ?vs) = w
      \<longleftrightarrow> w \<in> tier_counts mc"
    using search_ints_member [OF windows_sorted(1)] windows_set [of mc] by simp
  ultimately show ?thesis by (simp add: supportsContextWindow_def Let_def) linarith
qed

lemma fold_max_ge:
  "m \<le> fold (\<lambda>v m. if v > m then v else m) vs (m::int) \<and>
     (\<forall>v \<in> set vs. v \<le> fold (\<lambda>v m. if v > m then v else m) vs m) \<and>
     (fold (\<lambda>v m. if v > m then v else m) vs m \<in> insert m (set vs))"
proof (induction vs arbitrary: m)
  case (Cons v vs)
  show ?case
    using Cons.IH [of "if v > m then v else m"] by (auto split: if_splits)
qed simp

lemma maximum_bounds:
  "w \<in> tier_counts mc \<Longrightarrow> w \<le> maximumContextWindow (Some mc)"
  "mc_MaxInputTokens mc \<le> maximumContextWindow (Some mc)"
  "0 \<le> maximumContextWindow (Some mc)"
  using fold_max_ge [where m = 0 and vs = "supportedContextWindows (Some mc)"] windows_set [of mc]
  by (auto simp: maximumContextWindow_def Let_def)

lemma maximum_attained:
  "maximumContextWindow (Some mc) \<in> {0, mc_MaxInputTokens mc} \<union> tier_counts mc"
  using fold_max_ge [where m = 0 and vs = "supportedContextWindows (Some mc)"] windows_set [of mc]
  by (auto simp: maximumContextWindow_def Let_def)

lemma default_tier_fold:
  assumes "0 \<le> d"
  shows "(\<forall>t \<in> set ts. ct_IsDefault t \<and> 0 < ct_TokenCount t \<longrightarrow>
      0 < fold default_tier ts d \<and> fold default_tier ts d \<le> ct_TokenCount t) \<and>
    (0 < d \<longrightarrow> 0 < fold default_tier ts d \<and> fold default_tier ts d \<le> d) \<and> 0 \<le> fold default_tier ts d \<and>
    (fold default_tier ts d = d \<or>
      (\<exists>t \<in> set ts. ct_IsDefault t \<and> 0 < ct_TokenCount t \<and> fold default_tier ts d = ct_TokenCount t))"
  using assms
proof (induction ts arbitrary: d)
  case (Cons t ts)
  have "0 \<le> default_tier t d" using Cons.prems by (simp add: default_tier_def)
  from Cons.IH [OF this] Cons.prems show ?case
    by (auto simp: default_tier_def split: if_splits)
qed simp

text \<open>The window in effect after preferences: supported, or the default of the catalogue.\<close>

lemma applyPreference_window:
  "mc_EffectiveContextWindow (applyPreference prefs mc) =
     (let p = preferred prefs (mc_Key mc) in
      if supportsContextWindow (Some mc) p then p else catalogDefaultContextWindow (Some mc))"
  by (auto simp: applyPreference_def Let_def supportsContextWindow_def)

lemma default_in_catalog:
  "catalogDefaultContextWindow (Some mc) \<in> {0, mc_MaxInputTokens mc} \<union> tier_counts mc"
proof -
  have "fold default_tier (map snd (mc_ContextConfig mc)) 0 > 0 \<Longrightarrow>
      fold default_tier (map snd (mc_ContextConfig mc)) 0 \<in> tier_counts mc"
    using default_tier_fold [of 0 "map snd (mc_ContextConfig mc)"]
    by (auto simp: tier_counts_def)
  moreover have "supportedContextWindows (Some mc) = v # vs \<Longrightarrow> v \<in> tier_counts mc" for v vs
    using windows_set [of mc] by auto
  ultimately show ?thesis
    by (auto simp: catalogDefaultContextWindow_def Let_def split: list.split)
qed

lemma default_le_maximum: "catalogDefaultContextWindow (Some mc) \<le> maximumContextWindow (Some mc)"
  using default_in_catalog [of mc] maximum_bounds(1) [where mc = mc] maximum_bounds(2,3) [of mc] by auto

lemma supported_le_maximum:
  "supportsContextWindow (Some mc) w \<Longrightarrow> w \<le> maximumContextWindow (Some mc)"
  using maximum_bounds(1) [of w mc] maximum_bounds(2) [of mc]
  by (auto simp: supports_iff split: if_splits)

section \<open>Properties\<close>

text \<open>
  The binary search decides membership: a positive window is supported exactly when some
  tier of the model has that count, or, for a model without tiers, when it is at most the input
  limit.
\<close>

theorem supports_window_iff:
  "supportsContextWindow (Some mc) w \<longleftrightarrow> 0 < w \<and>
     (if tier_counts mc = {} then w \<le> mc_MaxInputTokens mc else w \<in> tier_counts mc)"
  by (rule supports_iff)

text \<open>
  Whatever the preferences say, the effective window is the preferred one if the model
  supports it, else the catalogue's default, and it never exceeds the model's maximum.
\<close>

theorem effective_window_sound:
  "mc_EffectiveContextWindow (applyPreference prefs mc) =
     (if supportsContextWindow (Some mc) (preferred prefs (mc_Key mc)) then preferred prefs (mc_Key mc)
      else catalogDefaultContextWindow (Some mc)) \<and>
   mc_EffectiveContextWindow (applyPreference prefs mc) \<le> maximumContextWindow (Some mc)"
  using applyPreference_window [of prefs mc] default_le_maximum [of mc]
    supported_le_maximum [of mc "preferred prefs (mc_Key mc)"]
  by (simp add: Let_def)

end
