(* ===== verification/Model_Resolver.thy ===== *)
theory Model_Resolver
  imports Model_Context "HOL-Library.Multiset"
begin

text \<open>
  The model catalogue (\<open>loadCatalog\<close>, \<open>builtinCatalog\<close> of \<open>main.go\<close>) and the resolver from client
  model names to upstream models (\<open>proxy.go\<close>), with the model list of \<open>handleModels\<close>.

  A Go map from keys to models is an association list: its order stands for the order in which
  Go happens to iterate, and the properties say that nothing depends on it.
\<close>

section \<open>The catalogue\<close>

definition builtin_specs :: "(string \<times> string \<times> bool \<times> int) list" where
  "builtin_specs =
     [(''auto'', ''Auto'', False, 180000),
      (''ultimate'', ''Ultimate'', True, 1000000),
      (''performance'', ''Performance'', False, 1000000),
      (''efficient'', ''Efficient'', False, 180000),
      (''lite'', ''Lite'', False, 180000),
      (''cmodel'', ''Cantus'', True, 1000000),
      (''qmodel_38max'', ''Qwen3.8-Max'', True, 1000000),
      (''qmodel_latest'', ''Qwen3.7-Max'', False, 1000000),
      (''qmodel'', ''Qwen3.7-Plus'', False, 1000000),
      (''kmodel_latest'', ''Kimi-K3'', False, 1000000),
      (''kmodel'', ''Kimi-K2.7-Code'', False, 256000),
      (''gmodel'', ''GLM-5.3'', True, 1000000),
      (''gm51model'', ''GLM-5.2'', True, 1000000),
      (''dmodel'', ''DeepSeek-V4-Pro'', True, 1000000),
      (''dfmodel'', ''DeepSeek-V4-Flash'', True, 1000000),
      (''mmodel'', ''MiniMax-M3'', False, 1000000)]"

definition builtin_model :: "string \<times> string \<times> bool \<times> int \<Rightarrow> modelConfig" where
  "builtin_model sp = (case sp of (key, name, reasoning, maxIn) \<Rightarrow>
     zero_modelConfig\<lparr>mc_Key := key, mc_Format := ''openai'', mc_Source := ''system'',
       mc_Enable := True, mc_DisplayName := name, mc_IsVL := True, mc_IsReasoning := reasoning,
       mc_PriceFactor := ''1'', mc_MaxInputTokens := maxIn\<rparr>)"

definition builtinCatalog :: "modelConfig list" where
  "builtinCatalog = map builtin_model builtin_specs"

type_synonym catalogGroups = "raw_message \<times> raw_message \<times> raw_message"

definition catalog_fields :: "(string \<times> catalogGroups decoder) list" where
  "catalog_fields =
     [(''chat'', \<lambda>(a, b, c) d. Some (Some d, b, c)),
      (''byok_enterprise'', \<lambda>(a, b, c) d. Some (a, Some d, c)),
      (''byok_teams'', \<lambda>(a, b, c) d. Some (a, b, Some d))]"

definition group_entries :: "raw_message \<Rightarrow> modelConfig option list" where
  "group_entries g =
     (case g of None \<Rightarrow> []
      | Some d \<Rightarrow>
          (case dec_list None (dec_ptr zero_modelConfig (dec_struct modelConfig_fields)) [] d of
             None \<Rightarrow> [] | Some es \<Rightarrow> es))"

text \<open>One entry merged over the catalogue so far.\<close>

definition merge_entry ::
  "bool \<Rightarrow> modelConfig option \<Rightarrow> (string \<times> modelConfig) list \<Rightarrow> (string \<times> modelConfig) list" where
  "merge_entry locked entry merged =
     (case entry of None \<Rightarrow> merged
      | Some mc \<Rightarrow>
          if TrimSpace (mc_Key mc) = [] then merged
          else if locked \<and> \<not> mc_Enable mc then merged
          else
            let f = (if mc_Format mc = [] then mc\<lparr>mc_Format := ''openai''\<rparr> else mc);
                s = (if mc_Source f = [] then f\<lparr>mc_Source := ''system''\<rparr> else f)
            in map_set (mc_Key s) (s\<lparr>mc_Enable := True\<rparr>) merged)"

definition by_key :: "modelConfig list \<Rightarrow> (string \<times> modelConfig) list" where
  "by_key catalog = fold (\<lambda>mc m. map_set (mc_Key mc) mc m) catalog []"

text \<open>
  \<open>loadCatalog\<close> after the file reads: \<open>raw\<close> is the catalogue text, empty when there is none or
  when it could not be read or decrypted (each such case only logs).
\<close>

definition loadCatalog :: "bool \<Rightarrow> string \<Rightarrow> modelConfig list" where
  "loadCatalog locked raw =
     (let base = (if locked then [] else builtinCatalog) in
      case (if raw = [] then None else unmarshal (None, None, None) (dec_struct catalog_fields) raw) of
        None \<Rightarrow> map (applyPreference []) base
      | Some (chat, ent, teams) \<Rightarrow>
          let models = group_entries chat @ group_entries ent @ group_entries teams in
          if models = [] then base
          else map (applyPreference []) (map snd (fold (merge_entry locked) models (by_key base))))"

section \<open>The resolver\<close>

record modelResolver =
  mr_byKey :: "(string \<times> modelConfig) list"
  mr_byName :: "(string \<times> modelConfig) list"
  mr_mapping :: "(string \<times> string) list option"
  mr_def :: string
  mr_oneM :: string

definition display_name :: "modelConfig \<Rightarrow> string" where
  "display_name mc = TrimSpace (mc_DisplayName mc)"

fun count_names :: "modelConfig list \<Rightarrow> (string \<times> nat) list \<Rightarrow> (string \<times> nat) list" where
  "count_names [] counts = counts"
| "count_names (mc # mcs) counts =
     (let name = display_name mc;
          old = (case map_of counts name of Some n \<Rightarrow> n | None \<Rightarrow> 0)
      in count_names mcs (if name \<noteq> [] then map_set name (old + 1) counts else counts))"

definition names_model :: "(string \<times> nat) list \<Rightarrow> (string \<times> modelConfig) list \<Rightarrow> modelConfig \<Rightarrow> bool" where
  "names_model counts byKey mc =
     (let name = display_name mc in
      \<not> (name = [] \<or> (case map_of counts name of Some n \<Rightarrow> n | None \<Rightarrow> 0) \<noteq> 1) \<and>
      (case map_of byKey name of Some keyed \<Rightarrow> mc_Key keyed = mc_Key mc | None \<Rightarrow> True))"

definition by_name :: "(string \<times> modelConfig) list \<Rightarrow> (string \<times> modelConfig) list" where
  "by_name byKey =
     fold (\<lambda>mc m. if names_model (count_names (map snd byKey) []) byKey mc
                  then map_set (display_name mc) mc m else m) (map snd byKey) []"

definition newModelResolver ::
  "modelConfig list \<Rightarrow> (string \<times> string) list option \<Rightarrow> string \<Rightarrow> string \<Rightarrow> modelResolver" where
  "newModelResolver catalog mapping def oneM =
     \<lparr>mr_byKey = by_key catalog, mr_byName = by_name (by_key catalog), mr_mapping = mapping,
      mr_def = (if def = [] then ''auto'' else def),
      mr_oneM = (if oneM = [] then ''ultimate'' else oneM)\<rparr>"

definition modelByIdentifier :: "modelResolver \<Rightarrow> string \<Rightarrow> modelConfig option" where
  "modelByIdentifier r identifier =
     (case map_of (mr_byKey r) identifier of Some mc \<Rightarrow> Some mc
      | None \<Rightarrow> map_of (mr_byName r) identifier)"

definition publicID :: "modelResolver \<Rightarrow> modelConfig option \<Rightarrow> string" where
  "publicID r mo =
     (case mo of None \<Rightarrow> []
      | Some mc \<Rightarrow>
          let name = display_name mc in
          if HasSuffix name ''[1m]'' then mc_Key mc
          else (case map_of (mr_byName r) name of
                  Some named \<Rightarrow> if mc_Key named = mc_Key mc then name else mc_Key mc
                | None \<Rightarrow> mc_Key mc))"

definition byKeyOrSynthetic :: "modelResolver \<Rightarrow> string \<Rightarrow> modelConfig" where
  "byKeyOrSynthetic r key =
     (case modelByIdentifier r key of Some mc \<Rightarrow> mc
      | None \<Rightarrow> zero_modelConfig\<lparr>mc_Key := key, mc_Format := ''openai'', mc_Source := ''system'',
                  mc_Enable := True, mc_IsVL := True\<rparr>)"

definition mapped_key :: "modelResolver \<Rightarrow> string \<Rightarrow> string" where
  "mapped_key r name =
     (case mr_mapping r of None \<Rightarrow> []
      | Some m \<Rightarrow> (case map_of m name of Some v \<Rightarrow> v
                   | None \<Rightarrow> (case map_of m ''*'' of Some v \<Rightarrow> v | None \<Rightarrow> [])))"

definition resolve_key :: "modelResolver \<Rightarrow> string \<Rightarrow> string" where
  "resolve_key r name =
     (let key = mapped_key r name in
      if key \<noteq> [] then key
      else (case modelByIdentifier r name of Some mc \<Rightarrow> mc_Key mc | None \<Rightarrow> mr_def r))"

definition client_name :: "string \<Rightarrow> string \<times> bool" where
  "client_name clientModel =
     (let name = TrimPrefix clientModel ''qoder-anthropic/'' in
      if HasSuffix name ''[1m]'' then (TrimSuffix name ''[1m]'', True) else (name, False))"

definition resolve :: "bool \<Rightarrow> modelResolver \<Rightarrow> string \<Rightarrow> modelConfig option" where
  "resolve locked r clientModel =
     (case client_name clientModel of (name, want1M) \<Rightarrow>
        if locked then
          (case modelByIdentifier r name of None \<Rightarrow> None
           | Some mc \<Rightarrow>
               if \<not> mc_Enable mc \<or> (want1M \<and> maximumContextWindow (Some mc) < 900000) then None
               else Some (if want1M
                          then mc\<lparr>mc_EffectiveContextWindow := maximumContextWindow (Some mc)\<rparr>
                          else mc))
        else
          let mc = byKeyOrSynthetic r (resolve_key r name) in
          if want1M \<and> maximumContextWindow (Some mc) < 900000 then
            let big = byKeyOrSynthetic r (mr_oneM r) in
            Some (if maximumContextWindow (Some big) \<ge> 900000 then big else mc)
          else Some mc)"

section \<open>The model list\<close>

record modelListItem =
  li_ID :: string
  li_Name :: string
  li_DisplayName :: string
  li_QoderKey :: string
  li_MaxTokens :: int
  li_ContextWindow :: int
  li_MaxContextTokens :: int
  li_AvailableContextWindows :: "int list"

text \<open>The separator is the byte sequence of \<open>" \<cdot> "\<close> (U+00B7) in UTF-8.\<close>

definition list_item :: "bool \<Rightarrow> modelResolver \<Rightarrow> modelConfig \<Rightarrow> modelListItem" where
  "list_item locked r mc =
     (let trimmed = display_name mc; name = (if trimmed = [] then mc_Key mc else trimmed) in
      \<lparr>li_ID = (if locked then ''qoder-anthropic/'' @ name else publicID r (Some mc)),
       li_Name = name,
       li_DisplayName = (if locked then ''Qoder CN '' @ [CHR 0xC2, CHR 0xB7, SP] @ name else name),
       li_QoderKey = mc_Key mc,
       li_MaxTokens = contextWindow (Some mc), li_ContextWindow = contextWindow (Some mc),
       li_MaxContextTokens = maximumContextWindow (Some mc),
       li_AvailableContextWindows = supportedContextWindows (Some mc)\<rparr>)"

definition handleModels :: "bool \<Rightarrow> modelResolver \<Rightarrow> modelListItem list" where
  "handleModels locked r = sort_key li_ID (map (list_item locked r) (map snd (mr_byKey r)))"

end
