(* ===== verification/Model_Resolver_Props.thy ===== *)
theory Model_Resolver_Props
  imports Model_Resolver
begin

text \<open>
  The resolver does not depend on the order in which Go iterates over its maps; the public id
  of a model resolves back to it; the locked resolver only returns models of the catalogue that
  are enabled and asked for by their exact key or unambiguous name.
\<close>

section \<open>Key and name tables\<close>

text \<open>A table of models under their own keys.\<close>

definition keyed :: "(string \<times> modelConfig) list \<Rightarrow> bool" where
  "keyed bk \<longleftrightarrow> distinct (map fst bk) \<and> (\<forall>p \<in> set bk. fst p = mc_Key (snd p))"

definition same_name :: "string \<Rightarrow> modelConfig list \<Rightarrow> modelConfig list" where
  "same_name n mcs = filter (\<lambda>mc. display_name mc = n) mcs"

lemma keyed_map_set: "keyed m \<Longrightarrow> keyed (map_set (mc_Key mc) mc m)"
proof -
  assume k: "keyed m"
  have "set (map_set (mc_Key mc) mc m) \<subseteq> insert (mc_Key mc, mc) (set m)"
    by (induction m) (auto split: if_splits)
  with k distinct_map_set [of m "mc_Key mc" mc] show ?thesis
    by (auto simp: keyed_def)
qed

lemma keyed_fold: "keyed m \<Longrightarrow> keyed (fold (\<lambda>mc m. map_set (mc_Key mc) mc m) cat m)"
  by (induction cat arbitrary: m) (simp_all add: keyed_map_set)

lemma keyed_by_key [simp]: "keyed (by_key catalog)"
  unfolding by_key_def by (rule keyed_fold) (simp add: keyed_def)

lemma keyed_lookup: "keyed bk \<Longrightarrow> map_of bk k = Some mc \<longleftrightarrow> mc \<in> set (map snd bk) \<and> mc_Key mc = k"
proof -
  assume k: "keyed bk"
  then have "map_of bk k = Some mc \<longleftrightarrow> (k, mc) \<in> set bk"
    by (simp add: keyed_def map_of_eq_Some_iff)
  also have "\<dots> \<longleftrightarrow> mc \<in> set (map snd bk) \<and> mc_Key mc = k"
    using k by (force simp: keyed_def)
  finally show ?thesis .
qed

lemma count_names_lookup:
  "(case map_of (count_names mcs counts) n of Some c \<Rightarrow> c | None \<Rightarrow> 0) =
     (case map_of counts n of Some c \<Rightarrow> c | None \<Rightarrow> 0) +
     (if n = [] then 0 else length (same_name n mcs))"
proof (induction mcs counts rule: count_names.induct)
  case (2 mc mcs counts)
  then show ?case
    by (auto simp: same_name_def Let_def map_of_map_set split: option.split)
qed (simp add: same_name_def)

lemma names_model_iff:
  "names_model (count_names (map snd bk) []) bk mc \<longleftrightarrow>
     display_name mc \<noteq> [] \<and> length (same_name (display_name mc) (map snd bk)) = 1 \<and>
     (\<forall>k. map_of bk (display_name mc) = Some k \<longrightarrow> mc_Key k = mc_Key mc)"
  using count_names_lookup [of "map snd bk" "[]" "display_name mc"]
  by (auto simp: names_model_def Let_def split: option.split)

lemma same_name_unique:
  assumes "length (same_name n mcs) = 1" "a \<in> set mcs" "b \<in> set mcs"
    "display_name a = n" "display_name b = n"
  shows "a = b"
proof -
  have "a \<in> set (same_name n mcs)" "b \<in> set (same_name n mcs)"
    using assms(2-5) by (simp_all add: same_name_def)
  with assms(1) show ?thesis by (auto simp: length_Suc_conv)
qed

lemma fold_index:
  assumes "\<forall>a \<in> set mcs. \<forall>b \<in> set mcs. P a \<and> P b \<and> f a = f b \<longrightarrow> a = b"
  shows "map_of (fold (\<lambda>mc m. if P mc then map_set (f mc) mc m else m) mcs m0) n = Some mc \<longleftrightarrow>
    (mc \<in> set mcs \<and> P mc \<and> f mc = n) \<or>
    (map_of m0 n = Some mc \<and> \<not> (\<exists>x \<in> set mcs. P x \<and> f x = n))"
  using assms
proof (induction mcs arbitrary: m0)
  case (Cons a mcs)
  show ?case
  proof (cases "P a")
    case False
    with Cons show ?thesis by auto
  next
    case True
    let ?m = "map_set (f a) a m0"
    have "map_of (fold (\<lambda>mc m. if P mc then map_set (f mc) mc m else m) mcs ?m) n = Some mc \<longleftrightarrow>
        (mc \<in> set mcs \<and> P mc \<and> f mc = n) \<or>
        (map_of ?m n = Some mc \<and> \<not> (\<exists>x \<in> set mcs. P x \<and> f x = n))"
      using Cons by simp
    then show ?thesis using True Cons.prems by (auto simp: map_of_map_set)
  qed
qed simp

lemma by_name_iff:
  assumes "keyed bk"
  shows "map_of (by_name bk) n = Some mc \<longleftrightarrow> mc \<in> set (map snd bk) \<and> display_name mc = n \<and> n \<noteq> [] \<and>
    length (same_name n (map snd bk)) = 1 \<and> (\<forall>k. map_of bk n = Some k \<longrightarrow> mc_Key k = mc_Key mc)"
proof -
  have "\<forall>a \<in> set (map snd bk). \<forall>b \<in> set (map snd bk).
      names_model (count_names (map snd bk) []) bk a \<and> names_model (count_names (map snd bk) []) bk b \<and>
      display_name a = display_name b \<longrightarrow> a = b"
    using same_name_unique by (metis names_model_iff)
  from fold_index [OF this] show ?thesis
    by (auto simp: by_name_def names_model_iff)
qed

section \<open>Iteration order\<close>

lemma same_name_perm: "mset xs = mset ys \<Longrightarrow> length (same_name n xs) = length (same_name n ys)"
  unfolding same_name_def by (metis mset_filter size_mset)

lemma keyed_perm:
  assumes "keyed bk" "mset bk = mset bk'"
  shows "keyed bk'" "map_of bk = map_of bk'"
proof -
  have s: "set bk = set bk'" using assms(2) by (metis set_mset_mset)
  have "mset (map fst bk) = mset (map fst bk')" using assms(2) by simp
  then have d: "distinct (map fst bk')" using assms(1) by (metis keyed_def distinct_count_atmost_1 set_mset_mset)
  then show "keyed bk'" using assms(1) s by (simp add: keyed_def)
  show "map_of bk = map_of bk'"
    using assms(1) d s by (simp add: keyed_def map_of_inject_set)
qed

lemma by_name_perm:
  assumes "keyed bk" "mset bk = mset bk'"
  shows "map_of (by_name bk) = map_of (by_name bk')"
proof
  fix n
  have s: "set bk = set bk'" using assms(2) by (metis set_mset_mset)
  have "length (same_name n (map snd bk)) = length (same_name n (map snd bk'))"
    using assms(2) by (intro same_name_perm) simp
  then have "map_of (by_name bk) n = Some mc \<longleftrightarrow> map_of (by_name bk') n = Some mc" for mc
    using by_name_iff [OF assms(1)] by_name_iff [OF keyed_perm(1) [OF assms]]
      keyed_perm(2) [OF assms] s by simp
  then show "map_of (by_name bk) n = map_of (by_name bk') n"
    by (metis not_Some_eq)
qed

section \<open>Resolving\<close>

text \<open>What a resolver is built from its catalogue has these two facts.\<close>

definition consistent :: "modelResolver \<Rightarrow> bool" where
  "consistent r \<longleftrightarrow> keyed (mr_byKey r) \<and> mr_byName r = by_name (mr_byKey r)"

lemma consistent_new [simp]: "consistent (newModelResolver catalog mapping def oneM)"
  by (simp add: consistent_def newModelResolver_def)

lemma identifier_sound:
  assumes "consistent r" "modelByIdentifier r i = Some mc"
  shows "mc \<in> set (map snd (mr_byKey r)) \<and> (mc_Key mc = i \<or> display_name mc = i)"
  using assms
  by (auto simp: modelByIdentifier_def consistent_def keyed_lookup by_name_iff split: option.splits)

lemma identifier_key:
  assumes "consistent r" "mc \<in> set (map snd (mr_byKey r))"
  shows "modelByIdentifier r (mc_Key mc) = Some mc"
  using assms by (simp add: modelByIdentifier_def consistent_def keyed_lookup [THEN iffD2])

lemma same_key:
  assumes "consistent r" "a \<in> set (map snd (mr_byKey r))" "b \<in> set (map snd (mr_byKey r))"
    "mc_Key a = mc_Key b"
  shows "a = b"
  using identifier_key [OF assms(1,2)] identifier_key [OF assms(1,3)] assms(4)
  by (metis option.inject)

lemma identifier_public:
  assumes "consistent r" "mc \<in> set (map snd (mr_byKey r))"
  shows "modelByIdentifier r (publicID r (Some mc)) = Some mc"
proof (cases "publicID r (Some mc) = mc_Key mc")
  case True
  with identifier_key [OF assms] show ?thesis by simp
next
  case False
  then obtain named where n: "map_of (mr_byName r) (display_name mc) = Some named"
    "mc_Key named = mc_Key mc" "publicID r (Some mc) = display_name mc"
    by (auto simp: publicID_def Let_def split: option.splits if_splits)
  have "keyed (mr_byKey r)" "map_of (by_name (mr_byKey r)) (display_name mc) = Some named"
    using n(1) assms(1) by (simp_all add: consistent_def)
  from by_name_iff [OF this(1), THEN iffD1, OF this(2)] have i: "named \<in> set (map snd (mr_byKey r))"
    "\<forall>k. map_of (mr_byKey r) (display_name mc) = Some k \<longrightarrow> mc_Key k = mc_Key named"
    by blast+
  have "named = mc" using same_key [OF assms(1) i(1) assms(2) n(2)] .
  moreover have "map_of (mr_byKey r) (display_name mc) = Some k \<Longrightarrow> k = mc" for k
  proof -
    assume "map_of (mr_byKey r) (display_name mc) = Some k"
    then have "k \<in> set (map snd (mr_byKey r))" "mc_Key k = mc_Key mc"
      using i(2) n(2) assms(1) by (auto simp: consistent_def keyed_lookup)
    then show "k = mc" using same_key [OF assms(1)] assms(2) by blast
  qed
  ultimately show ?thesis
    using n by (auto simp: modelByIdentifier_def split: option.split)
qed

lemma ambiguous_unknown:
  assumes "consistent r" "n \<notin> set (map fst (mr_byKey r))" "length (same_name n (map snd (mr_byKey r))) \<noteq> 1"
  shows "modelByIdentifier r n = None"
proof -
  have "map_of (mr_byKey r) n = None" using assms(2) by (simp add: map_of_eq_None_iff)
  moreover have "map_of (mr_byName r) n = None"
    using assms(1,3) by_name_iff [of "mr_byKey r" n] by (cases "map_of (mr_byName r) n") (auto simp: consistent_def)
  ultimately show ?thesis by (simp add: modelByIdentifier_def)
qed

section \<open>The loaded catalogue\<close>

definition usable :: "modelConfig \<Rightarrow> bool" where
  "usable mc \<longleftrightarrow> TrimSpace (mc_Key mc) \<noteq> [] \<and> mc_Format mc \<noteq> [] \<and> mc_Source mc \<noteq> [] \<and> mc_Enable mc"

definition usable_table :: "(string \<times> modelConfig) list \<Rightarrow> bool" where
  "usable_table m \<longleftrightarrow> keyed m \<and> list_all usable (map snd m)"

lemma usable_map_set:
  "usable_table m \<Longrightarrow> usable mc \<Longrightarrow> mc_Key mc = k \<Longrightarrow> usable_table (map_set k mc m)"
proof -
  assume a: "usable_table m" "usable mc" "mc_Key mc = k"
  have "list_all usable (map snd (map_set k mc m))"
    using a(1,2) unfolding usable_table_def by (induction m) (auto simp: keyed_def)
  with a keyed_map_set [of m mc] show ?thesis by (auto simp: usable_table_def)
qed

lemma usable_merge: "usable_table m \<Longrightarrow> usable_table (merge_entry locked e m)"
  by (auto simp: merge_entry_def Let_def usable_def intro!: usable_map_set split: option.split)

lemma usable_merges: "usable_table m \<Longrightarrow> usable_table (fold (merge_entry locked) es m)"
  by (induction es arbitrary: m) (simp_all add: usable_merge)

lemma builtin_usable:
  "list_all usable builtinCatalog" "distinct (map mc_Key builtinCatalog)"
  by (simp_all add: builtinCatalog_def builtin_specs_def builtin_model_def usable_def trim_eval)

lemma usable_by_key:
  "list_all usable cat \<Longrightarrow> usable_table m \<Longrightarrow>
     usable_table (fold (\<lambda>mc m. map_set (mc_Key mc) mc m) cat m)"
  by (induction cat arbitrary: m) (simp_all add: usable_map_set)

definition usable_catalog :: "modelConfig list \<Rightarrow> bool" where
  "usable_catalog cat \<longleftrightarrow> list_all usable cat \<and> distinct (map mc_Key cat)"

lemma usable_applied:
  "usable_catalog cat \<Longrightarrow> usable_catalog (map (applyPreference p) cat)"
  by (simp add: usable_catalog_def list_all_iff usable_def applyPreference_def Let_def comp_def)

lemma usable_values: "usable_table m \<Longrightarrow> usable_catalog (map snd m)"
proof -
  assume u: "usable_table m"
  then have "map mc_Key (map snd m) = map fst m"
    by (auto simp: usable_table_def keyed_def)
  then have "distinct (map mc_Key (map snd m))"
    using u unfolding usable_table_def keyed_def by metis
  with u show ?thesis unfolding usable_catalog_def usable_table_def by blast
qed

lemma loadCatalog_usable: "usable_catalog (loadCatalog locked raw)"
proof -
  define base where "base = (if locked then [] else builtinCatalog)"
  have b: "usable_catalog base"
    using builtin_usable by (simp add: base_def usable_catalog_def)
  have e: "usable_table []" by (simp add: usable_table_def keyed_def)
  have m: "usable_catalog (map snd (fold (merge_entry locked) es (by_key base)))" for es
    using b unfolding by_key_def usable_catalog_def [of base]
    by (intro usable_values usable_merges usable_by_key e) simp
  show ?thesis
    using b usable_applied [OF b] usable_applied [OF m]
    by (auto simp: loadCatalog_def Let_def base_def [symmetric] simp del: fold_append map_map
        split: option.split)
qed

section \<open>Properties\<close>


text \<open>A catalogue of one model, and one of two models with the same name.\<close>

definition sample_auto :: modelConfig where
  "sample_auto = builtin_model (''auto'', ''Auto'', False, 1000000)"

definition sample_twin :: modelConfig where
  "sample_twin = builtin_model (''twin'', ''Auto'', False, 1000000)"

lemma sample_fields [simp]:
  "mc_Key sample_auto = ''auto''" "mc_Key sample_twin = ''twin''"
  "display_name sample_auto = ''Auto''" "display_name sample_twin = ''Auto''"
  "mc_Enable sample_auto"
  by (simp_all add: sample_auto_def sample_twin_def builtin_model_def display_name_def trim_eval)

lemma sample_keys [simp]:
  "by_key [sample_auto] = [(''auto'', sample_auto)]"
  "by_key [sample_auto, sample_twin] = [(''auto'', sample_auto), (''twin'', sample_twin)]"
  by (simp_all add: by_key_def)

lemma sample_public:
  "publicID (newModelResolver [sample_auto] None def oneM) (Some sample_auto) = ''Auto''"
  by (simp add: publicID_def newModelResolver_def by_name_def names_model_def Let_def HasSuffix_def)

lemmas client_eval = client_name_def TrimPrefix_def HasPrefix_def HasSuffix_def TrimSuffix_def

text \<open>
  The tables of the resolver, and so what every identifier means, do not depend on the order
  in which Go's map iteration visits the models.
\<close>

theorem name_table_order:
  assumes "mset bk = mset (by_key catalog)"
  shows "map_of bk = map_of (by_key catalog) \<and> map_of (by_name bk) = map_of (by_name (by_key catalog))"
  using keyed_perm(2) [OF keyed_by_key] by_name_perm [OF keyed_by_key] assms by metis

lemma name_table_order_witness:
  "map_of (by_name (rev (by_key builtinCatalog))) = map_of (by_name (by_key builtinCatalog))"
  using name_table_order [of "rev (by_key builtinCatalog)"] by simp

text \<open>
  Without a mapping, the public id listed for a model resolves back to that model, when the
  id has neither the namespace prefix nor the 1M suffix.
\<close>

theorem public_id_resolves:
  assumes "mc \<in> set (map snd (by_key catalog))"
    and "client_name (publicID (newModelResolver catalog None def oneM) (Some mc)) =
      (publicID (newModelResolver catalog None def oneM) (Some mc), False)"
  shows "resolve False (newModelResolver catalog None def oneM)
      (publicID (newModelResolver catalog None def oneM) (Some mc)) = Some mc"
proof -
  let ?r = "newModelResolver catalog None def oneM"
  have m: "mc \<in> set (map snd (mr_byKey ?r))" using assms(1) by (simp add: newModelResolver_def)
  have "mapped_key ?r n = []" for n by (simp add: mapped_key_def newModelResolver_def)
  then have "resolve_key ?r (publicID ?r (Some mc)) = mc_Key mc"
    using identifier_public [OF consistent_new m] by (simp add: resolve_key_def)
  then show ?thesis
    using assms(2) identifier_key [OF consistent_new m]
    by (simp add: resolve_def byKeyOrSynthetic_def)
qed

lemma public_id_resolves_witness:
  "resolve False (newModelResolver [sample_auto] None [] []) ''Auto'' = Some sample_auto"
  using public_id_resolves [of sample_auto "[sample_auto]" "[]" "[]"]
  by (simp add: sample_public client_eval)

text \<open>
  C35: the locked resolver answers only with a model of the catalogue that is enabled and whose
  key or trimmed display name is exactly the requested name; a 1M request is answered only by a
  model with a window of at least 900000, set to its maximum; nothing else about the model
  changes.
\<close>

theorem locked_resolve_strict:
  assumes "resolve True (newModelResolver catalog mapping def oneM) clientModel = Some mc"
  shows "\<exists>src name want1M. client_name clientModel = (name, want1M) \<and>
    src \<in> set (map snd (by_key catalog)) \<and> mc_Enable src \<and>
    (mc_Key src = name \<or> display_name src = name) \<and>
    mc = (if want1M then src\<lparr>mc_EffectiveContextWindow := maximumContextWindow (Some src)\<rparr> else src) \<and>
    (want1M \<longrightarrow> 900000 \<le> maximumContextWindow (Some src))"
proof -
  obtain name want1M where c: "client_name clientModel = (name, want1M)" by fastforce
  with assms obtain src where s: "modelByIdentifier (newModelResolver catalog mapping def oneM) name = Some src"
    "mc_Enable src" "\<not> (want1M \<and> maximumContextWindow (Some src) < 900000)"
    "mc = (if want1M then src\<lparr>mc_EffectiveContextWindow := maximumContextWindow (Some src)\<rparr> else src)"
    by (auto simp: resolve_def split: option.splits if_splits)
  from identifier_sound [OF consistent_new s(1)] c s(2-4) show ?thesis
    by (auto simp: newModelResolver_def)
qed

lemma sample_resolve:
  "resolve True (newModelResolver [sample_auto] None [] []) ''qoder-anthropic/auto'' = Some sample_auto"
  by (simp add: resolve_def client_eval newModelResolver_def modelByIdentifier_def)

lemma locked_resolve_strict_witness:
  "\<exists>src \<in> {sample_auto}. mc_Enable src \<and> mc_Key src = ''auto''"
  using locked_resolve_strict [OF sample_resolve] by (auto simp: client_eval)

text \<open>
  Outside the locked mode every request resolves to some model.
\<close>

lemma unlocked_resolve_total: "\<exists>mc. resolve False r clientModel = Some mc"
  by (auto simp: resolve_def Let_def split: prod.split)

text \<open>
  The locked model list offers a model under its display name even when another model has
  the same one, and then the offered id resolves to nothing.
\<close>

theorem ambiguous_listed_unresolvable:
  assumes "mc \<in> set (map snd (by_key catalog))" and "other \<in> set (map snd (by_key catalog))"
    and "mc_Key other \<noteq> mc_Key mc" and "display_name mc = n" and "display_name other = n"
    and "n \<noteq> []" and "\<not> HasSuffix n ''[1m]''" and "n \<notin> set (map fst (by_key catalog))"
  shows "''qoder-anthropic/'' @ n \<in> set (map li_ID (handleModels True (newModelResolver catalog mapping def oneM))) \<and>
    resolve True (newModelResolver catalog mapping def oneM) (''qoder-anthropic/'' @ n) = None"
proof -
  let ?r = "newModelResolver catalog mapping def oneM"
  have k: "mr_byKey ?r = by_key catalog" by (simp add: newModelResolver_def)
  have "li_ID (list_item True ?r mc) = ''qoder-anthropic/'' @ n"
    using assms(4,6) by (simp add: list_item_def Let_def)
  then have listed: "''qoder-anthropic/'' @ n \<in> set (map li_ID (handleModels True ?r))"
    using assms(1) by (force simp: handleModels_def k)
  have "length (same_name n (map snd (mr_byKey ?r))) \<noteq> 1"
    using same_name_unique assms(1-5) k by metis
  then have "modelByIdentifier ?r n = None"
    using ambiguous_unknown [OF consistent_new] assms(8) k by metis
  moreover have "client_name (''qoder-anthropic/'' @ n) = (n, False)"
    using assms(7) by (simp add: client_name_def TrimPrefix_def HasPrefix_def)
  ultimately show ?thesis using listed by (simp add: resolve_def)
qed

lemma ambiguous_listed_unresolvable_witness:
  "resolve True (newModelResolver [sample_auto, sample_twin] None [] []) ''qoder-anthropic/Auto'' = None"
  using ambiguous_listed_unresolvable [of sample_auto "[sample_auto, sample_twin]" sample_twin "''Auto''"]
  by (simp add: HasSuffix_def)

end
