(* ===== verification/Openai.thy ===== *)
theory Openai
  imports Convert Model_Context Upstream_Chunk Replies
begin

text \<open>
  \<open>openai.go\<close>: the body sent upstream (with \<open>buildUpstreamBody\<close> of \<open>convert.go\<close>), chat
  completion requests, and the channel of upstream chunks the OpenAI-shaped writers read.
  Identifiers and the clock are arguments.
\<close>

section \<open>The upstream body\<close>

definition qoderProtocolVersion :: string where
  "qoderProtocolVersion = ''1.1.34''"

text \<open>
  \<open>lastUserText\<close>: of the dynamic types \<open>Content\<close> can have, the switch knows \<open>string\<close> and
  \<open>[]upContentPart\<close>; the slice of \<open>upPart\<close> that a message with an image carries is neither.
\<close>

fun content_user_text :: "content \<Rightarrow> string option" where
  "content_user_text (CText s) = (if s \<noteq> [] then Some s else None)"
| "content_user_text (COai ps) =
     map_option cp_Text (find (\<lambda>p. cp_Type p = ''text'' \<and> cp_Text p \<noteq> []) ps)"
| "content_user_text (CAny (JStr s)) = (if s \<noteq> [] then Some s else None)"
| "content_user_text _ = None"

fun last_text :: "upMessage list \<Rightarrow> string" where
  "last_text [] = []"
| "last_text (m # ms) =
     (if um_Role m \<noteq> ''user'' then last_text ms
      else (case content_user_text (um_Content m) of Some t \<Rightarrow> t | None \<Rightarrow> last_text ms))"

definition lastUserText :: "upMessage list \<Rightarrow> string" where
  "lastUserText msgs = last_text (rev msgs)"

definition businessInfo :: "upMessage list \<Rightarrow> string \<Rightarrow> int \<Rightarrow> json" where
  "businessInfo msgs newID nowMillis =
     (let full = lastUserText msgs; name = (if length full > 10 then take 10 full else full) in JMap
       [(''product'', JStr ''cli''), (''version'', JStr qoderProtocolVersion),
        (''type'', JStr ''agent''), (''id'', JStr newID), (''name'', JStr name),
        (''begin_at'', JInt nowMillis), (''stage'', JStr ''start'')])"

definition with_system :: "string \<Rightarrow> upMessage list \<Rightarrow> upMessage list" where
  "with_system system msgs =
     (if system \<noteq> []
      then empty_message\<lparr>um_Role := ''system'', um_Content := CText system\<rparr> # msgs else msgs)"

text \<open>\<open>None\<close> for the tools is the nil slice; a nil message slice marshals as \<open>null\<close>.\<close>

definition remoteChatAskBody ::
  "string \<Rightarrow> upMessage list \<Rightarrow> json list option \<Rightarrow> (string \<times> json) list \<Rightarrow> modelConfig \<Rightarrow>
   string \<Rightarrow> string \<Rightarrow> string \<Rightarrow> int \<Rightarrow> json" where
  "remoteChatAskBody system msgs tools params mc sessionID requestID newID nowMillis =
     (let ts = (case tools of None \<Rightarrow> [] | Some ts \<Rightarrow> ts);
          ms = with_system system msgs
      in JMap
       [(''business'', businessInfo ms newID nowMillis),
        (''request_id'', JStr requestID), (''request_set_id'', JStr requestID),
        (''chat_record_id'', JStr requestID), (''session_id'', JStr sessionID),
        (''stream'', JBool True), (''chat_task'', JStr ''FREE_INPUT''), (''chat_context'', JMap []),
        (''is_reply'', JBool True), (''is_retry'', JBool False), (''source'', JInt 1),
        (''version'', JStr ''3''), (''agent_id'', JStr ''agent_common''),
        (''task_id'', JStr ''common''), (''session_type'', JStr ''qodercli''),
        (''aliyun_user_type'', JStr []), (''model_config'', modelConfig_json mc),
        (''custom_model'', JNull), (''system'', JStr system),
        (''messages'', if ms = [] then JNull else JArr (map message_json ms)),
        (''tools'', JArr ts), (''parameters'', JMap params)])"

definition context_param :: "modelConfig \<Rightarrow> (string \<times> json) list" where
  "context_param mc =
     (let w = contextWindow (Some mc) in if w > 0 then [(''context_length'', JInt w)] else [])"

definition thinking_param :: "anthropicThink option \<Rightarrow> (string \<times> json) list" where
  "thinking_param th =
     (case th of None \<Rightarrow> []
      | Some t \<Rightarrow>
          if th_Type t = ''enabled''
          then [(''reasoning_effort'', JStr (budgetToEffort (th_BudgetTokens t)))]
          else if th_Type t = ''disabled'' then [(''reasoning_effort'', JStr ''none'')] else [])"

definition float_param :: "string \<Rightarrow> string option \<Rightarrow> (string \<times> json) list" where
  "float_param k v = (case v of None \<Rightarrow> [] | Some t \<Rightarrow> [(k, JFloat t)])"

definition anthropic_params :: "anthropicRequest \<Rightarrow> modelConfig \<Rightarrow> (string \<times> json) list" where
  "anthropic_params req mc =
     [(''max_tokens'', JInt (ar_MaxTokens req))] @ context_param mc @ thinking_param (ar_Thinking req)
     @ (case toolChoiceToUpstream (ar_ToolChoice req) of None \<Rightarrow> [] | Some tc \<Rightarrow> [(''tool_choice'', tc)])
     @ float_param ''temperature'' (ar_Temperature req) @ float_param ''top_p'' (ar_TopP req)
     @ (if ar_StopSequences req = [] then []
        else [(''stop'', JArr (map JStr (ar_StopSequences req)))])"

definition buildUpstreamBody ::
  "anthropicRequest \<Rightarrow> modelConfig \<Rightarrow> string \<Rightarrow> string \<Rightarrow> string \<Rightarrow> int \<Rightarrow> (convert_error, json) result" where
  "buildUpstreamBody req mc sessionID requestID newID nowMillis =
     (case messagesToUpstream (ar_Messages req) of
        Err e \<Rightarrow> Err e
      | Ok msgs \<Rightarrow>
          Ok (remoteChatAskBody (systemToString (ar_System req)) (ensureCacheMarker msgs)
                (toolsToUpstream (ar_Tools req)) (anthropic_params req mc) mc sessionID requestID
                newID nowMillis))"

section \<open>The channel of chunks\<close>

text \<open>
  \<open>upstreamChunks\<close>: the goroutine's state is what it has sent to the channel and what it has put
  into the buffered error channel; the consumer reads the channel to its end before it looks for
  an error. The body is read to its end without cancellation.
\<close>

definition chunk_frame :: "(upChunk list \<times> string option) callback" where
  "chunk_frame = (\<lambda>(out, errc) f.
     if f_event f = ''finish'' then ((out, errc), False)
     else (case read_frame f of
             Skip \<Rightarrow> ((out, errc), True)
           | StatusError m \<Rightarrow> ((out, Some m), False)
           | BodyError m \<Rightarrow> ((out, Some m), False)
           | Chunk c \<Rightarrow> ((out @ [c], errc), True)))"

definition upstreamChunks :: "string \<Rightarrow> body_end \<Rightarrow> upChunk list \<times> string option" where
  "upstreamChunks body e =
     (case readSSE chunk_frame ([], None) body e of
        ((out, Some m), err) \<Rightarrow> (out, Some m)
      | ((out, None), err) \<Rightarrow> (out, err))"

section \<open>Tool call indices\<close>

record toolIndexer =
  ti_cur :: int
  ti_seen :: bool

definition new_indexer :: toolIndexer where
  "new_indexer = \<lparr>ti_cur = 0, ti_seen = False\<rparr>"

definition remap_tool :: "toolDelta \<Rightarrow> toolIndexer \<Rightarrow> toolDelta \<times> toolIndexer" where
  "remap_tool tc t =
     (let t' = (if td_ID tc \<noteq> [] then
                  (if ti_seen t then t\<lparr>ti_cur := ti_cur t + 1\<rparr> else t\<lparr>ti_seen := True\<rparr>) else t)
      in (tc\<lparr>td_Index := ti_cur t'\<rparr>, t'))"

fun remap_tools :: "toolDelta list \<Rightarrow> toolIndexer \<Rightarrow> toolDelta list \<times> toolIndexer" where
  "remap_tools [] t = ([], t)"
| "remap_tools (tc # tcs) t =
     (case remap_tool tc t of (tc', t1) \<Rightarrow>
        (case remap_tools tcs t1 of (tcs', t2) \<Rightarrow> (tc' # tcs', t2)))"

definition remap_choice :: "choice \<Rightarrow> toolIndexer \<Rightarrow> choice \<times> toolIndexer" where
  "remap_choice ch t =
     (case remap_tools (d_ToolCalls (ch_Delta ch)) t of
        (tcs, t') \<Rightarrow> (ch\<lparr>ch_Delta := (ch_Delta ch)\<lparr>d_ToolCalls := tcs\<rparr>\<rparr>, t'))"

fun remap_choices :: "choice list \<Rightarrow> toolIndexer \<Rightarrow> choice list \<times> toolIndexer" where
  "remap_choices [] t = ([], t)"
| "remap_choices (ch # chs) t =
     (case remap_choice ch t of (ch', t1) \<Rightarrow>
        (case remap_choices chs t1 of (chs', t2) \<Rightarrow> (ch' # chs', t2)))"

definition remap :: "upChunk \<Rightarrow> toolIndexer \<Rightarrow> upChunk \<times> toolIndexer" where
  "remap c t =
     (case remap_choices (ck_Choices c) t of (chs, t') \<Rightarrow> (c\<lparr>ck_Choices := chs\<rparr>, t'))"

section \<open>Chat completion requests\<close>

record oaiMessage =
  om_Role :: string
  om_Content :: json
  om_Name :: string
  om_ToolCalls :: "upToolCall list"
  om_ToolCallID :: string

definition zero_call :: upToolCall where
  "zero_call = \<lparr>tc_ID = [], tc_Type = [], tc_Name = [], tc_Arguments = []\<rparr>"

definition call_function_fields :: "(string \<times> upToolCall decoder) list" where
  "call_function_fields =
     [(''name'', fld tc_Name tc_Name_update dec_string),
      (''arguments'', fld tc_Arguments tc_Arguments_update dec_string)]"

definition call_fields :: "(string \<times> upToolCall decoder) list" where
  "call_fields =
     [(''id'', fld tc_ID tc_ID_update dec_string),
      (''type'', fld tc_Type tc_Type_update dec_string),
      (''function'', dec_struct call_function_fields)]"

definition zero_oaiMessage :: oaiMessage where
  "zero_oaiMessage = \<lparr>om_Role = [], om_Content = JNull, om_Name = [], om_ToolCalls = [], om_ToolCallID = []\<rparr>"

definition oaiMessage_fields :: "(string \<times> oaiMessage decoder) list" where
  "oaiMessage_fields =
     [(''role'', fld om_Role om_Role_update dec_string),
      (''content'', fld om_Content om_Content_update dec_any),
      (''name'', fld om_Name om_Name_update dec_string),
      (''tool_calls'', fld om_ToolCalls om_ToolCalls_update (dec_list zero_call (dec_struct call_fields))),
      (''tool_call_id'', fld om_ToolCallID om_ToolCallID_update dec_string)]"

record oaiRequest =
  or_Model :: string
  or_Messages :: "oaiMessage list"
  or_Tools :: "json list"
  or_ToolChoice :: raw_message
  or_MaxTokens :: int
  or_MaxCompletionTokens :: int
  or_Stream :: bool
  or_IncludeUsage :: "bool option"
  or_Temperature :: "string option"
  or_TopP :: "string option"
  or_Stop :: raw_message
  or_ReasoningEffort :: string

definition zero_oaiRequest :: oaiRequest where
  "zero_oaiRequest = \<lparr>or_Model = [], or_Messages = [], or_Tools = [], or_ToolChoice = None,
     or_MaxTokens = 0, or_MaxCompletionTokens = 0, or_Stream = False, or_IncludeUsage = None,
     or_Temperature = None, or_TopP = None, or_Stop = None, or_ReasoningEffort = []\<rparr>"

text \<open>An element of \<open>[]map[string]any\<close>: an object, or \<open>null\<close> for the nil map.\<close>

fun dec_any_map :: "json decoder" where
  "dec_any_map old DNull = Some JNull"
| "dec_any_map old (DObj t ms) = dec_any old (DObj t ms)"
| "dec_any_map old _ = None"

definition oaiRequest_fields :: "(string \<times> oaiRequest decoder) list" where
  "oaiRequest_fields =
     [(''model'', fld or_Model or_Model_update dec_string),
      (''messages'', fld or_Messages or_Messages_update
         (dec_list zero_oaiMessage (dec_struct oaiMessage_fields))),
      (''tools'', fld or_Tools or_Tools_update (dec_list JNull dec_any_map)),
      (''tool_choice'', fld or_ToolChoice or_ToolChoice_update dec_raw),
      (''max_tokens'', fld or_MaxTokens or_MaxTokens_update dec_int),
      (''max_completion_tokens'', fld or_MaxCompletionTokens or_MaxCompletionTokens_update dec_int),
      (''stream'', fld or_Stream or_Stream_update dec_bool),
      (''stream_options'', fld or_IncludeUsage or_IncludeUsage_update
         (dec_ptr False (dec_struct [(''include_usage'', dec_bool)]))),
      (''temperature'', fld or_Temperature or_Temperature_update (dec_ptr [] dec_float)),
      (''top_p'', fld or_TopP or_TopP_update (dec_ptr [] dec_float)),
      (''stop'', fld or_Stop or_Stop_update dec_raw),
      (''reasoning_effort'', fld or_ReasoningEffort or_ReasoningEffort_update dec_string)]"

definition decode_oaiRequest :: "string \<Rightarrow> oaiRequest option" where
  "decode_oaiRequest raw = unmarshal zero_oaiRequest (dec_struct oaiRequest_fields) raw"

definition normalizeEffort :: "string \<Rightarrow> string" where
  "normalizeEffort e =
     (if e = ''minimal'' then ''low''
      else if e \<in> {''none'', ''low'', ''medium'', ''high'', ''xhigh'', ''max''} then e
      else [])"

definition stopFromRaw :: "raw_message \<Rightarrow> string list option" where
  "stopFromRaw raw =
     (case raw of None \<Rightarrow> None
      | Some d \<Rightarrow>
          (case dec_string [] d of
             Some s \<Rightarrow> Some [s]
           | None \<Rightarrow> dec_list [] dec_string [] d))"

text \<open>The content of a message as the upstream message holds it: a string, nil, or another value.\<close>

fun oai_content :: "json \<Rightarrow> content" where
  "oai_content JNull = CNil"
| "oai_content (JStr s) = CText s"
| "oai_content j = CAny j"

fun json_string :: "json \<Rightarrow> string option" where
  "json_string (JStr s) = Some s"
| "json_string _ = None"

definition oai_message :: "oaiMessage \<Rightarrow> upMessage" where
  "oai_message m =
     empty_message\<lparr>um_Role := om_Role m, um_Name := om_Name m, um_ToolCallID := om_ToolCallID m,
       um_Contents := (case json_string (om_Content m) of
          Some txt \<Rightarrow> if txt \<noteq> [] \<and> om_Role m \<noteq> ''tool'' then [text_part txt None] else []
        | None \<Rightarrow> []),
       um_ToolCalls := om_ToolCalls m,
       um_Content := (if om_ToolCalls m \<noteq> [] \<and> om_Content m = JNull then CText []
                      else oai_content (om_Content m))\<rparr>"

definition system_role :: "oaiMessage \<Rightarrow> bool" where
  "system_role m \<longleftrightarrow> om_Role m = ''system'' \<or> om_Role m = ''developer''"

definition oaiToUpstream :: "oaiMessage list \<Rightarrow> string \<times> upMessage list" where
  "oaiToUpstream msgs =
     (let sysParts = List.map_filter (\<lambda>m. json_string (om_Content m)) (filter system_role msgs);
          out = map oai_message (filter (\<lambda>m. \<not> system_role m) msgs)
      in (Join sysParts [LF, LF], ensureCacheMarker out))"

definition oai_max_tokens :: "oaiRequest \<Rightarrow> int" where
  "oai_max_tokens req =
     (let m = (if or_MaxCompletionTokens req > 0 then or_MaxCompletionTokens req else or_MaxTokens req)
      in if m = 0 then 32000 else m)"

definition effort_param :: "string \<Rightarrow> (string \<times> json) list" where
  "effort_param e = (if normalizeEffort e = [] then [] else [(''reasoning_effort'', JStr (normalizeEffort e))])"

definition tool_choice_param :: "raw_message \<Rightarrow> (string \<times> json) list" where
  "tool_choice_param raw =
     (case raw of None \<Rightarrow> []
      | Some d \<Rightarrow> (case dec_any JNull d of None \<Rightarrow> [] | Some tc \<Rightarrow> [(''tool_choice'', tc)]))"

definition oai_params :: "oaiRequest \<Rightarrow> modelConfig \<Rightarrow> (string \<times> json) list" where
  "oai_params req mc =
     [(''max_tokens'', JInt (oai_max_tokens req))] @ context_param mc
     @ effort_param (or_ReasoningEffort req)
     @ float_param ''temperature'' (or_Temperature req) @ float_param ''top_p'' (or_TopP req)
     @ (case stopFromRaw (or_Stop req) of None \<Rightarrow> [] | Some st \<Rightarrow> [(''stop'', JArr (map JStr st))])
     @ tool_choice_param (or_ToolChoice req)"

definition oai_body ::
  "oaiRequest \<Rightarrow> modelConfig \<Rightarrow> string \<Rightarrow> string \<Rightarrow> string \<Rightarrow> int \<Rightarrow> json" where
  "oai_body req mc sessionID requestID newID nowMillis =
     (case oaiToUpstream (or_Messages req) of
        (system, upMsgs) \<Rightarrow>
          remoteChatAskBody system upMsgs (Some (or_Tools req)) (oai_params req mc) mc sessionID
            requestID newID nowMillis)"

section \<open>Writers\<close>

datatype oaiLine = ChunkLine upChunk | ErrorLine string | DoneLine

definition rewriteModel :: "string \<Rightarrow> upChunk \<Rightarrow> upChunk" where
  "rewriteModel model c = c\<lparr>ck_Model := model\<rparr>"

fun stream_lines :: "string \<Rightarrow> toolIndexer \<Rightarrow> upChunk list \<Rightarrow> oaiLine list" where
  "stream_lines model t [] = []"
| "stream_lines model t (c # cs) =
     (case remap c t of (c', t') \<Rightarrow> ChunkLine (rewriteModel model c') # stream_lines model t' cs)"

definition streamOAI :: "string \<Rightarrow> upChunk list \<times> string option \<Rightarrow> oaiLine list" where
  "streamOAI model = (\<lambda>(chunks, errc).
     stream_lines model new_indexer chunks @
     (case errc of None \<Rightarrow> [] | Some m \<Rightarrow> [ErrorLine m]) @ [DoneLine])"

record oaiAcc =
  oa_content :: string
  oa_reasoning :: string
  oa_tools :: "(int \<times> upToolCall) list"
  oa_finish :: string
  oa_usage :: "upUsage option"

definition new_oaiAcc :: oaiAcc where
  "new_oaiAcc = \<lparr>oa_content = [], oa_reasoning = [], oa_tools = [], oa_finish = ''stop'', oa_usage = None\<rparr>"

definition merge_call :: "toolDelta \<Rightarrow> upToolCall \<Rightarrow> upToolCall" where
  "merge_call tc acc =
     \<lparr>tc_ID = (if td_ID tc \<noteq> [] then td_ID tc else tc_ID acc),
      tc_Type = (if td_Type tc \<noteq> [] then td_Type tc else tc_Type acc),
      tc_Name = (if td_Name tc \<noteq> [] then td_Name tc else tc_Name acc),
      tc_Arguments = tc_Arguments acc @ td_Arguments tc\<rparr>"

definition fresh_call :: upToolCall where
  "fresh_call = zero_call\<lparr>tc_Type := ''function''\<rparr>"

definition acc_tool :: "toolDelta \<Rightarrow> (int \<times> upToolCall) list \<Rightarrow> (int \<times> upToolCall) list" where
  "acc_tool tc tools =
     (let acc = (case map_of tools (td_Index tc) of Some a \<Rightarrow> a | None \<Rightarrow> fresh_call)
      in map_set (td_Index tc) (merge_call tc acc) tools)"

definition acc_usage :: "upChunk \<Rightarrow> oaiAcc \<Rightarrow> oaiAcc" where
  "acc_usage c a = (case ck_Usage c of None \<Rightarrow> a | Some u \<Rightarrow> a\<lparr>oa_usage := Some u\<rparr>)"

definition acc_choice :: "choice \<Rightarrow> oaiAcc \<Rightarrow> oaiAcc" where
  "acc_choice ch a =
     (let d = ch_Delta ch in
      a\<lparr>oa_content := oa_content a @ d_Content d,
        oa_reasoning := oa_reasoning a @ d_ReasoningContent d,
        oa_tools := fold acc_tool (d_ToolCalls d) (oa_tools a),
        oa_finish := (case finish_reason ch of Some r \<Rightarrow> r | None \<Rightarrow> oa_finish a)\<rparr>)"

fun collect_lines :: "toolIndexer \<Rightarrow> upChunk list \<Rightarrow> oaiAcc \<Rightarrow> oaiAcc" where
  "collect_lines t [] a = a"
| "collect_lines t (c # cs) a =
     (let a1 = acc_usage c a in
      if ck_Choices c = [] then collect_lines t cs a1
      else (case remap c t of
              (c', t') \<Rightarrow> collect_lines t' cs (acc_choice (hd (ck_Choices c')) a1)))"

definition oai_usage_json :: "upUsage \<Rightarrow> json" where
  "oai_usage_json u =
     JMap (fold (\<lambda>(k, v). map_set k v) (billingFields (Some u))
       ([(''prompt_tokens'', JInt (us_PromptTokens u)),
         (''completion_tokens'', JInt (us_CompletionTokens u)),
         (''total_tokens'', JInt (us_TotalTokens u))] @
        (if cachedTokens (Some u) > 0
         then [(''prompt_tokens_details'', JMap [(''cached_tokens'', JInt (cachedTokens (Some u)))])]
         else [])))"

definition oai_response :: "string \<Rightarrow> string \<Rightarrow> int \<Rightarrow> oaiAcc \<Rightarrow> json" where
  "oai_response model requestID now a =
     (let msg = JMap ([(''role'', JStr ''assistant''),
                (''content'', if oa_content a = [] then JNull else JStr (oa_content a))]
                @ omit_str ''reasoning_content'' (oa_reasoning a)
                @ (if oa_tools a = [] then []
                   else [(''tool_calls'', JArr (map (\<lambda>(i, c). tool_call_json c) (oa_tools a)))]))
      in JMap ([(''id'', JStr (''chatcmpl-'' @ remove_dashes requestID)),
         (''object'', JStr ''chat.completion''), (''created'', JInt now), (''model'', JStr model),
         (''choices'', JArr [JMap [(''index'', JInt 0), (''message'', msg),
            (''finish_reason'', JStr (oa_finish a))]])]
         @ (case oa_usage a of None \<Rightarrow> [] | Some u \<Rightarrow> [(''usage'', oai_usage_json u)])))"

definition collectOAI :: "bool \<Rightarrow> string \<Rightarrow> string \<Rightarrow> int \<Rightarrow> upChunk list \<times> string option \<Rightarrow> reply" where
  "collectOAI locked model requestID now = (\<lambda>(chunks, errc).
     (case errc of
        Some (m # ms) \<Rightarrow> writeOAIError locked 502 ''api_error'' [] (m # ms)
      | _ \<Rightarrow> json_reply 200 (oai_response model requestID now
               (collect_lines new_indexer chunks new_oaiAcc))))"

end
