(* ===== verification/Openai_Props.thy ===== *)
theory Openai_Props
  imports Openai
begin

text \<open>
  The chat completion writers: reading the channel is reading the body; the indices given to
  tool calls keep distinct calls apart, so a client that accumulates the stream by index gets
  the collected answer; and what a request's optional fields turn into.
\<close>

section \<open>The channel\<close>

interpretation channel: chunk_reader chunk_frame finish_event
  "\<lambda>c p. (fst p @ [c], snd p)" "\<lambda>p. p" "\<lambda>m p. (fst p, Some m)" "\<lambda>p. True"
  by unfold_locales (auto simp: chunk_frame_def finish_event_def split: prod.splits)

lemma fold_channel: "fold (\<lambda>c p. (fst p @ [c], snd p)) cs (out, err) = (out @ cs, err)"
  by (induction cs arbitrary: out) simp_all

definition reading_error :: "string \<Rightarrow> body_end \<Rightarrow> string option" where
  "reading_error body e = snd (readSSE chunk_frame ([], None) body e)"

lemma upstreamChunks_eq:
  "upstreamChunks body e =
     (case take_chunks finish_event (body_frames body e) of
        (cs, Failed m) \<Rightarrow> (cs, Some m)
      | (cs, _) \<Rightarrow> (cs, reading_error body e))"
proof -
  obtain cs en where t: "take_chunks finish_event (body_frames body e) = (cs, en)" by fastforce
  have "fst (readSSE chunk_frame ([], None) body e) = close_run (\<lambda>p. p) (\<lambda>m p. (fst p, Some m)) en (cs, None)"
    using channel.read_chunks [of "([], None)" body e] by (simp add: t fold_channel)
  then show ?thesis
    by (cases en; cases "readSSE chunk_frame ([], None) body e")
      (auto simp: upstreamChunks_def t close_run_def reading_error_def)
qed

section \<open>A client that accumulates by index\<close>

fun client_line :: "oaiLine \<Rightarrow> oaiAcc \<Rightarrow> oaiAcc" where
  "client_line (ChunkLine c) a =
     (case ck_Choices c of [] \<Rightarrow> acc_usage c a | ch # _ \<Rightarrow> acc_choice ch (acc_usage c a))"
| "client_line _ a = a"

definition client_reads :: "oaiLine list \<Rightarrow> oaiAcc" where
  "client_reads ls = fold client_line ls new_oaiAcc"

lemma remap_choices_empty: "fst (remap_choices chs t) = [] \<longleftrightarrow> chs = []"
  by (cases chs) (auto split: prod.splits)

lemma remap_usage: "ck_Usage (fst (remap c t)) = ck_Usage c"
  by (simp add: remap_def split: prod.split)

lemma remap_empty: "ck_Choices (fst (remap c t)) = [] \<longleftrightarrow> ck_Choices c = []"
  using remap_choices_empty [of "ck_Choices c" t] by (auto simp: remap_def split: prod.split)

lemma remap_empty_indexer: "ck_Choices c = [] \<Longrightarrow> snd (remap c t) = t"
  by (simp add: remap_def)

lemma stream_collect:
  "fold client_line (stream_lines model t cs) a = collect_lines t cs a"
proof (induction cs arbitrary: t a)
  case (Cons c cs)
  obtain c' t' where r: "remap c t = (c', t')" by fastforce
  have u: "acc_usage (rewriteModel model c') a = acc_usage c a"
    using remap_usage [of c t] by (simp add: r acc_usage_def rewriteModel_def)
  have ch: "ck_Choices (rewriteModel model c') = ck_Choices c'" by (simp add: rewriteModel_def)
  show ?case
  proof (cases "ck_Choices c")
    case Nil
    then have "ck_Choices c' = []" "t' = t"
      using remap_empty [of c t] remap_empty_indexer [of c t] by (simp_all add: r)
    with Nil Cons.IH show ?thesis by (simp add: r u ch Let_def)
  next
    case (Cons x xs)
    then obtain y ys where "ck_Choices c' = y # ys"
      using remap_empty [of c t] by (cases "ck_Choices c'") (simp_all add: r)
    with Cons Cons.IH show ?thesis by (simp add: r u ch Let_def)
  qed
qed simp

section \<open>Calls without indices\<close>

text \<open>
  The calls a sequence of tool deltas means: a delta with an id begins a new call once some id has
  been seen; every other delta belongs to the last call.
\<close>

definition add_delta :: "toolDelta \<Rightarrow> bool \<times> upToolCall list \<Rightarrow> bool \<times> upToolCall list" where
  "add_delta tc = (\<lambda>(seen, calls).
     (seen \<or> td_ID tc \<noteq> [],
      if calls = [] \<or> (td_ID tc \<noteq> [] \<and> seen) then calls @ [merge_call tc fresh_call]
      else butlast calls @ [merge_call tc (last calls)]))"

definition meant_calls :: "toolDelta list \<Rightarrow> upToolCall list" where
  "meant_calls tcs = snd (fold add_delta tcs (False, []))"

fun indexed :: "int \<Rightarrow> 'a list \<Rightarrow> (int \<times> 'a) list" where
  "indexed i [] = []"
| "indexed i (x # xs) = (i, x) # indexed (i + 1) xs"

lemma indexed_append: "indexed i (xs @ ys) = indexed i xs @ indexed (i + int (length xs)) ys"
  by (induction xs arbitrary: i) (simp_all add: algebra_simps)

lemma indexed_keys: "j < i \<or> i + int (length xs) \<le> j \<Longrightarrow> map_of (indexed i xs) j = None"
  by (induction xs arbitrary: i) auto

lemma map_set_new: "map_of m k = None \<Longrightarrow> map_set k v m = m @ [(k, v)]"
  by (induction m) (auto split: if_splits)

lemma map_set_last: "map_of m k = None \<Longrightarrow> map_set k v (m @ [(k, w)]) = m @ [(k, v)]"
  by (induction m) (auto split: if_splits)

lemma merge_index [simp]: "merge_call (tc\<lparr>td_Index := i\<rparr>) acc = merge_call tc acc"
  by (simp add: merge_call_def)

definition indexer_at :: "bool \<Rightarrow> upToolCall list \<Rightarrow> toolIndexer" where
  "indexer_at seen calls = \<lparr>ti_cur = int (length calls - 1), ti_seen = seen\<rparr>"

lemma acc_tool_step:
  assumes "seen \<longrightarrow> calls \<noteq> []"
  shows "acc_tool (fst (remap_tool tc (indexer_at seen calls))) (indexed 0 calls) =
      indexed 0 (snd (add_delta tc (seen, calls)))"
    and "snd (remap_tool tc (indexer_at seen calls)) =
      indexer_at (fst (add_delta tc (seen, calls))) (snd (add_delta tc (seen, calls)))"
    and "fst (add_delta tc (seen, calls)) \<longrightarrow> snd (add_delta tc (seen, calls)) \<noteq> []"
proof -
  show "snd (remap_tool tc (indexer_at seen calls)) =
      indexer_at (fst (add_delta tc (seen, calls))) (snd (add_delta tc (seen, calls)))"
    using assms by (cases calls) (auto simp: remap_tool_def indexer_at_def add_delta_def Let_def)
  show "fst (add_delta tc (seen, calls)) \<longrightarrow> snd (add_delta tc (seen, calls)) \<noteq> []"
    by (simp add: add_delta_def)
  show "acc_tool (fst (remap_tool tc (indexer_at seen calls))) (indexed 0 calls) =
      indexed 0 (snd (add_delta tc (seen, calls)))"
  proof (cases calls rule: rev_cases)
    case Nil
    with assms show ?thesis
      by (simp add: remap_tool_def indexer_at_def add_delta_def acc_tool_def Let_def)
  next
    case (snoc cs c)
    have old: "map_of (indexed 0 cs) (int (length cs)) = None"
      and new: "map_of (indexed 0 cs) (int (length cs) + 1) = None"
      by (rule indexed_keys; simp)+
    have ix: "indexed 0 calls = indexed 0 cs @ [(int (length cs), c)]"
      by (simp add: snoc indexed_append)
    show ?thesis
    proof (cases "td_ID tc \<noteq> [] \<and> seen")
      case True
      then have "td_Index (fst (remap_tool tc (indexer_at seen calls))) = int (length cs) + 1"
        "merge_call (fst (remap_tool tc (indexer_at seen calls))) = merge_call tc"
        by (auto simp: remap_tool_def indexer_at_def snoc)
      moreover have "map_of (indexed 0 calls) (int (length cs) + 1) = None"
        using new by (simp add: ix map_add_def)
      ultimately have "acc_tool (fst (remap_tool tc (indexer_at seen calls))) (indexed 0 calls) =
          indexed 0 calls @ [(int (length cs) + 1, merge_call tc fresh_call)]"
        by (simp add: acc_tool_def map_set_new)
      then show ?thesis using True by (simp add: add_delta_def indexed_append snoc)
    next
      case False
      then have "td_Index (fst (remap_tool tc (indexer_at seen calls))) = int (length cs)"
        "merge_call (fst (remap_tool tc (indexer_at seen calls))) = merge_call tc"
        by (auto simp: remap_tool_def indexer_at_def snoc)
      moreover have "map_of (indexed 0 calls) (int (length cs)) = Some c"
        using old by (simp add: ix map_add_def)
      ultimately have "acc_tool (fst (remap_tool tc (indexer_at seen calls))) (indexed 0 calls) =
          indexed 0 cs @ [(int (length cs), merge_call tc c)]"
        using old by (simp add: acc_tool_def ix map_set_last)
      then show ?thesis using False by (simp add: add_delta_def indexed_append snoc)
    qed
  qed
qed

lemma acc_tools:
  assumes "seen \<longrightarrow> calls \<noteq> []"
  shows "fold acc_tool (fst (remap_tools tcs (indexer_at seen calls))) (indexed 0 calls) =
    indexed 0 (snd (fold add_delta tcs (seen, calls))) \<and>
    snd (remap_tools tcs (indexer_at seen calls)) =
      indexer_at (fst (fold add_delta tcs (seen, calls))) (snd (fold add_delta tcs (seen, calls))) \<and>
    (fst (fold add_delta tcs (seen, calls)) \<longrightarrow> snd (fold add_delta tcs (seen, calls)) \<noteq> [])"
  using assms
proof (induction tcs arbitrary: seen calls)
  case (Cons tc tcs)
  obtain s2 c2 where a: "add_delta tc (seen, calls) = (s2, c2)" by fastforce
  obtain tc' where r: "remap_tool tc (indexer_at seen calls) = (tc', indexer_at s2 c2)"
    using acc_tool_step(2) [OF Cons.prems, of tc] a by (cases "remap_tool tc (indexer_at seen calls)") simp
  have "s2 \<longrightarrow> c2 \<noteq> []" "acc_tool tc' (indexed 0 calls) = indexed 0 c2"
    using acc_tool_step(1,3) [OF Cons.prems, of tc] a r by simp_all
  with Cons.IH [of s2 c2] show ?case
    by (cases "remap_tools tcs (indexer_at s2 c2)") (simp add: r a)
qed simp

lemma remap_tools_append:
  "remap_tools (xs @ ys) t =
     (case remap_tools xs t of (xs', t1) \<Rightarrow> (case remap_tools ys t1 of (ys', t2) \<Rightarrow> (xs' @ ys', t2)))"
  by (induction xs arbitrary: t) (auto split: prod.splits)

text \<open>The upstream the gateway talks to sends one choice; then only its deltas are renumbered.\<close>

definition one_choice :: "upChunk \<Rightarrow> bool" where
  "one_choice c \<longleftrightarrow> length (ck_Choices c) \<le> 1"

definition chunk_tools :: "upChunk \<Rightarrow> toolDelta list" where
  "chunk_tools c = (case ck_Choices c of [] \<Rightarrow> [] | ch # _ \<Rightarrow> d_ToolCalls (ch_Delta ch))"

lemma one_choice_cases:
  "one_choice c \<Longrightarrow> ck_Choices c = [] \<or> (\<exists>ch. ck_Choices c = [ch])"
  by (cases "ck_Choices c") (auto simp: one_choice_def)

lemma collect_tools:
  "list_all one_choice cs \<Longrightarrow> oa_tools (collect_lines t cs a) =
     fold acc_tool (fst (remap_tools (concat (map chunk_tools cs)) t)) (oa_tools a)"
proof (induction cs arbitrary: t a)
  case (Cons c cs)
  have u: "oa_tools (acc_usage c a) = oa_tools a" by (simp add: acc_usage_def split: option.split)
  from Cons.prems have "one_choice c" by simp
  from one_choice_cases [OF this] show ?case
  proof
    assume "ck_Choices c = []"
    with Cons u show ?thesis by (simp add: chunk_tools_def Let_def)
  next
    assume "\<exists>ch. ck_Choices c = [ch]"
    then obtain ch where ch: "ck_Choices c = [ch]" by blast
    obtain tcs t' where r: "remap_tools (d_ToolCalls (ch_Delta ch)) t = (tcs, t')" by fastforce
    obtain us t'' where r2: "remap_tools (concat (map chunk_tools cs)) t' = (us, t'')" by fastforce
    have ct: "chunk_tools c = d_ToolCalls (ch_Delta ch)" by (simp add: chunk_tools_def ch)
    have "oa_tools (collect_lines t (c # cs) a) = fold acc_tool us (fold acc_tool tcs (oa_tools a))"
      using Cons.IH [of t'] Cons.prems u r2
      by (simp add: ch r remap_def remap_choice_def acc_choice_def Let_def)
    then show ?thesis by (simp add: ct r r2 remap_tools_append)
  qed
qed simp

lemma collected_calls:
  assumes "list_all one_choice cs"
  shows "map snd (oa_tools (collect_lines new_indexer cs new_oaiAcc)) =
    meant_calls (concat (map chunk_tools cs))"
proof -
  have "new_indexer = indexer_at False []" by (simp add: new_indexer_def indexer_at_def)
  moreover have "oa_tools new_oaiAcc = indexed 0 []" by (simp add: new_oaiAcc_def)
  moreover have "map snd (indexed i xs) = xs" for i :: int and xs :: "upToolCall list"
    by (induction xs arbitrary: i) simp_all
  ultimately show ?thesis
    using collect_tools [OF assms, of new_indexer new_oaiAcc]
      acc_tools [of False "[]" "concat (map chunk_tools cs)"]
    by (simp add: meant_calls_def)
qed

section \<open>Properties\<close>



definition two_calls :: upChunk where
  "two_calls = zero_chunk\<lparr>ck_Choices := [zero_choice\<lparr>ch_Delta := zero_delta
     \<lparr>d_ToolCalls := [zero_toolDelta\<lparr>td_ID := ''a'', td_Name := ''f'', td_Arguments := ''1''\<rparr>,
        zero_toolDelta\<lparr>td_ID := ''b'', td_Name := ''g'', td_Arguments := ''2''\<rparr>]\<rparr>\<rparr>]\<rparr>"


text \<open>
  The channel carries the chunks of the body up to the finish frame, the first error or the
  end, and an error that the upstream reports is the error the writer sees.
\<close>

theorem channel_reads_body:
  "upstreamChunks body e =
     (case take_chunks finish_event (body_frames body e) of
        (cs, Failed m) \<Rightarrow> (cs, Some m)
      | (cs, _) \<Rightarrow> (cs, reading_error body e))"
  by (rule upstreamChunks_eq)

text \<open>
  A \<open>"stop": null\<close> in a request is sent upstream as one empty stop sequence, where leaving
  the field out sends none.
\<close>

lemma null_stop_sent:
  "stopFromRaw (Some DNull) = Some [[]] \<and> stopFromRaw None = None"
  by (simp add: stopFromRaw_def)

text \<open>
  In the locked mode the collecting writer hides an upstream error's text, but the streaming
  writer sends it to the client word for word.
\<close>

lemma stream_error_not_hidden:
  "ErrorLine m \<in> set (streamOAI model (chunks, Some m)) \<and>
   collectOAI True model rid now (chunks, Some (CHR ''x'' # m)) =
     collectOAI True model rid now (chunks, Some ''x'')"
  by (simp add: streamOAI_def collectOAI_def locked_api_error_hides(2) [of 502 "[]" "CHR ''x'' # m" "''x''"])

text \<open>
  The business name of a request is taken from the last user message with text as far as the
  switch on its content knows the type: a message with an image is passed over, so the text
  of an earlier message is used although the last one has text.
\<close>

lemma image_message_passed_over:
  assumes "userContentFromBlocks blocks = (content, parts)" and "has_image blocks"
  shows "lastUserText (msgs @ [empty_message\<lparr>um_Role := ''user'', um_Content := content,
      um_Contents := parts\<rparr>]) = lastUserText msgs"
  using assms by (auto simp: userContentFromBlocks_def Let_def lastUserText_def)

definition image_blocks :: "anthropicBlock list" where
  "image_blocks = [zero_block\<lparr>b_Type := ''text'', b_Text := ''look''\<rparr>,
     zero_block\<lparr>b_Type := ''image'', b_Source := Some zero_source\<rparr>]"

lemma image_message_passed_over_witness:
  "lastUserText ([empty_message\<lparr>um_Role := ''user'', um_Content := CText ''old''\<rparr>] @
     [empty_message\<lparr>um_Role := ''user'', um_Content := fst (userContentFromBlocks image_blocks),
        um_Contents := snd (userContentFromBlocks image_blocks)\<rparr>]) = ''old''"
  using image_message_passed_over [of image_blocks "fst (userContentFromBlocks image_blocks)"
      "snd (userContentFromBlocks image_blocks)"
      "[empty_message\<lparr>um_Role := ''user'', um_Content := CText ''old''\<rparr>]"]
  by (simp add: has_image_def image_blocks_def lastUserText_def)

end
