(* ===== verification/Responses.thy ===== *)
theory Responses
  imports Openai
begin

text \<open>
  \<open>responses.go\<close>: the conversion of Responses API input, the streaming state machine with its
  sequence numbers and output items, and the collecting writer. New identifiers come from a
  supply \<open>ids\<close>: the \<open>n\<close>-th call of \<open>newUUIDShort\<close> returns \<open>ids n\<close>.
\<close>

section \<open>Input\<close>

record respInputItem =
  ri_Type :: string
  ri_Role :: string
  ri_Content :: raw_message
  ri_CallID :: string
  ri_Name :: string
  ri_Arguments :: string
  ri_Output :: string
  ri_ID :: string
  ri_Status :: string

definition zero_item :: respInputItem where
  "zero_item = \<lparr>ri_Type = [], ri_Role = [], ri_Content = None, ri_CallID = [], ri_Name = [],
     ri_Arguments = [], ri_Output = [], ri_ID = [], ri_Status = []\<rparr>"

definition item_fields :: "(string \<times> respInputItem decoder) list" where
  "item_fields =
     [(''type'', fld ri_Type ri_Type_update dec_string),
      (''role'', fld ri_Role ri_Role_update dec_string),
      (''content'', fld ri_Content ri_Content_update dec_raw),
      (''call_id'', fld ri_CallID ri_CallID_update dec_string),
      (''name'', fld ri_Name ri_Name_update dec_string),
      (''arguments'', fld ri_Arguments ri_Arguments_update dec_string),
      (''output'', fld ri_Output ri_Output_update dec_string),
      (''id'', fld ri_ID ri_ID_update dec_string),
      (''status'', fld ri_Status ri_Status_update dec_string)]"

record respContentPart =
  rp_Type :: string
  rp_Text :: string
  rp_ImageURL :: string

definition part_fields :: "(string \<times> respContentPart decoder) list" where
  "part_fields =
     [(''type'', fld rp_Type rp_Type_update dec_string),
      (''text'', fld rp_Text rp_Text_update dec_string),
      (''image_url'', fld rp_ImageURL rp_ImageURL_update dec_string)]"

record respTool =
  rt_Type :: string
  rt_Name :: string
  rt_Description :: string
  rt_Parameters :: raw_message

definition respTool_fields :: "(string \<times> respTool decoder) list" where
  "respTool_fields =
     [(''type'', fld rt_Type rt_Type_update dec_string),
      (''name'', fld rt_Name rt_Name_update dec_string),
      (''description'', fld rt_Description rt_Description_update dec_string),
      (''parameters'', fld rt_Parameters rt_Parameters_update dec_raw)]"

record respRequest =
  rr_Model :: string
  rr_Instructions :: string
  rr_Input :: raw_message
  rr_Tools :: "respTool list"
  rr_ToolChoice :: raw_message
  rr_MaxOutputTokens :: int
  rr_Stream :: bool
  rr_Effort :: "string option"
  rr_Temperature :: "string option"
  rr_TopP :: "string option"

definition zero_respRequest :: respRequest where
  "zero_respRequest = \<lparr>rr_Model = [], rr_Instructions = [], rr_Input = None, rr_Tools = [],
     rr_ToolChoice = None, rr_MaxOutputTokens = 0, rr_Stream = False, rr_Effort = None,
     rr_Temperature = None, rr_TopP = None\<rparr>"

definition respRequest_fields :: "(string \<times> respRequest decoder) list" where
  "respRequest_fields =
     [(''model'', fld rr_Model rr_Model_update dec_string),
      (''instructions'', fld rr_Instructions rr_Instructions_update dec_string),
      (''input'', fld rr_Input rr_Input_update dec_raw),
      (''tools'', fld rr_Tools rr_Tools_update
         (dec_list \<lparr>rt_Type = [], rt_Name = [], rt_Description = [], rt_Parameters = None\<rparr>
            (dec_struct respTool_fields))),
      (''tool_choice'', fld rr_ToolChoice rr_ToolChoice_update dec_raw),
      (''max_output_tokens'', fld rr_MaxOutputTokens rr_MaxOutputTokens_update dec_int),
      (''stream'', fld rr_Stream rr_Stream_update dec_bool),
      (''reasoning'', fld rr_Effort rr_Effort_update (dec_ptr [] (dec_struct [(''effort'', dec_string)]))),
      (''temperature'', fld rr_Temperature rr_Temperature_update (dec_ptr [] dec_float)),
      (''top_p'', fld rr_TopP rr_TopP_update (dec_ptr [] dec_float))]"

definition decode_respRequest :: "string \<Rightarrow> respRequest option" where
  "decode_respRequest raw = unmarshal zero_respRequest (dec_struct respRequest_fields) raw"

text \<open>The parts that \<open>isCompactRespMessage\<close> looks at: type, text and image URL, absent or not.\<close>

type_synonym compactPart = "string \<times> string option \<times> string option"

definition compact_fields :: "(string \<times> compactPart decoder) list" where
  "compact_fields =
     [(''type'', \<lambda>(t, x, u) d. map_option (\<lambda>v. (v, x, u)) (dec_string t d)),
      (''text'', \<lambda>(t, x, u) d. map_option (\<lambda>v. (t, v, u)) (dec_ptr [] dec_string x d)),
      (''image_url'', \<lambda>(t, x, u) d. map_option (\<lambda>v. (t, x, v)) (dec_ptr [] dec_string u d))]"

definition text_type :: "string \<Rightarrow> bool" where
  "text_type t \<longleftrightarrow> t = ''input_text'' \<or> t = ''output_text'' \<or> t = ''text''"

definition compact_part :: "compactPart \<Rightarrow> bool" where
  "compact_part = (\<lambda>(t, text, url).
     if text_type t then text \<noteq> None
     else if t = ''input_image'' then (case url of None \<Rightarrow> False | Some u \<Rightarrow> TrimSpace u \<noteq> [])
     else False)"

definition isCompactRespMessage :: "respInputItem \<Rightarrow> bool" where
  "isCompactRespMessage it =
     (if ri_Role it \<notin> {''user'', ''assistant'', ''system'', ''developer''} then False
      else (case ri_Content it of
              None \<Rightarrow> False
            | Some d \<Rightarrow>
                if d = DNull then False
                else if dec_string [] d \<noteq> None then True
                else (case dec_list ([], None, None) (dec_struct compact_fields) [] d of
                        None \<Rightarrow> False
                      | Some parts \<Rightarrow> parts \<noteq> [] \<and> list_all compact_part parts)))"

definition parseRespParts :: "raw_message \<Rightarrow> respContentPart list" where
  "parseRespParts raw =
     (case raw of None \<Rightarrow> []
      | Some d \<Rightarrow>
          (case dec_string [] d of
             Some s \<Rightarrow> [\<lparr>rp_Type = ''text'', rp_Text = s, rp_ImageURL = []\<rparr>]
           | None \<Rightarrow>
               (case dec_list \<lparr>rp_Type = [], rp_Text = [], rp_ImageURL = []\<rparr> (dec_struct part_fields) [] d of
                  None \<Rightarrow> [] | Some parts \<Rightarrow> parts)))"

definition respPartsText :: "raw_message \<Rightarrow> string" where
  "respPartsText raw = concat (map rp_Text (filter (\<lambda>p. text_type (rp_Type p)) (parseRespParts raw)))"

definition oai_part :: "respContentPart \<Rightarrow> upContentPart list" where
  "oai_part p =
     (if text_type (rp_Type p)
      then [\<lparr>cp_Type = ''text'', cp_Text = rp_Text p, cp_ImageURL = None\<rparr>]
      else if rp_Type p = ''input_image''
      then [\<lparr>cp_Type = ''image_url'', cp_Text = [], cp_ImageURL = Some (rp_ImageURL p)\<rparr>] else [])"

definition respPartsToOAI :: "raw_message \<Rightarrow> content" where
  "respPartsToOAI raw =
     (let parts = parseRespParts raw in
      if parts = [] then CText []
      else if \<not> list_ex (\<lambda>p. rp_Type p = ''input_image'') parts
      then CText (concat (map rp_Text (filter (\<lambda>p. text_type (rp_Type p)) parts)))
      else COai (concat (map oai_part parts)))"

definition up_part :: "respContentPart \<Rightarrow> upPart list" where
  "up_part p =
     (if text_type (rp_Type p) then [text_part (rp_Text p) None]
      else if rp_Type p = ''input_image'' then [image_part (rp_ImageURL p) None] else [])"

definition respPartsToUpstream :: "raw_message \<Rightarrow> upPart list" where
  "respPartsToUpstream raw = concat (map up_part (parseRespParts raw))"

text \<open>The loop's state: system parts, messages, and the assistant message that collects calls.\<close>

record respState =
  rs_sys :: "string list"
  rs_msgs :: "upMessage list"
  rs_pending :: "upMessage option"

definition flushAssistant :: "respState \<Rightarrow> respState" where
  "flushAssistant s = s\<lparr>rs_msgs := rs_msgs s @ opt_list (rs_pending s), rs_pending := None\<rparr>"

definition message_item :: "respInputItem \<Rightarrow> upMessage" where
  "message_item it =
     empty_message\<lparr>um_Role := ri_Role it,
       um_Content := (if ri_Role it = ''assistant'' then CText (respPartsText (ri_Content it))
                      else respPartsToOAI (ri_Content it)),
       um_Contents := (if ri_Role it = ''user'' then respPartsToUpstream (ri_Content it)
                       else if respPartsText (ri_Content it) \<noteq> []
                       then [text_part (respPartsText (ri_Content it)) None] else [])\<rparr>"

definition add_message :: "respInputItem \<Rightarrow> respState \<Rightarrow> respState" where
  "add_message it s =
     (let s1 = flushAssistant s in
      if ri_Role it = ''system'' \<or> ri_Role it = ''developer''
      then s1\<lparr>rs_sys := rs_sys s1 @ [respPartsText (ri_Content it)]\<rparr>
      else s1\<lparr>rs_msgs := rs_msgs s1 @ [message_item it]\<rparr>)"

definition item_call :: "respInputItem \<Rightarrow> upToolCall" where
  "item_call it = \<lparr>tc_ID = ri_CallID it, tc_Type = ''function'', tc_Name = ri_Name it,
     tc_Arguments = ri_Arguments it\<rparr>"

definition add_call :: "respInputItem \<Rightarrow> respState \<Rightarrow> respState" where
  "add_call it s =
     (let p = (case rs_pending s of Some p \<Rightarrow> p
               | None \<Rightarrow> empty_message\<lparr>um_Role := ''assistant'', um_Content := CText []\<rparr>)
      in s\<lparr>rs_pending := Some (p\<lparr>um_ToolCalls := um_ToolCalls p @ [item_call it]\<rparr>)\<rparr>)"

definition add_output :: "respInputItem \<Rightarrow> respState \<Rightarrow> respState" where
  "add_output it s =
     (let s1 = flushAssistant s in
      s1\<lparr>rs_msgs := rs_msgs s1 @ [empty_message\<lparr>um_Role := ''tool'',
        um_ToolCallID := ri_CallID it, um_Content := CText (ri_Output it)\<rparr>]\<rparr>)"

definition resp_item :: "respInputItem \<Rightarrow> respState \<Rightarrow> respState" where
  "resp_item it s =
     (if ri_Type it = [] then (if isCompactRespMessage it then add_message it s else flushAssistant s)
      else if ri_Type it = ''message'' then add_message it s
      else if ri_Type it = ''function_call'' then add_call it s
      else if ri_Type it = ''function_call_output'' then add_output it s
      else if ri_Type it = ''reasoning'' \<or> ri_Type it = ''item_reference'' then s
      else flushAssistant s)"

datatype input_error = InvalidInput

definition respToUpstream ::
  "string \<Rightarrow> raw_message \<Rightarrow> (input_error, string \<times> upMessage list) result" where
  "respToUpstream instructions input =
     (let sys = (if instructions \<noteq> [] then [instructions] else []) in
      case input of
        None \<Rightarrow> Ok (Join sys [LF, LF], [])
      | Some d \<Rightarrow>
          (case dec_string [] d of
             Some s \<Rightarrow> Ok (Join sys [LF, LF], ensureCacheMarker
               [empty_message\<lparr>um_Role := ''user'', um_Content := CText s, um_Contents := [text_part s None]\<rparr>])
           | None \<Rightarrow>
               (case dec_list zero_item (dec_struct item_fields) [] d of
                  None \<Rightarrow> Err InvalidInput
                | Some items \<Rightarrow>
                    let s = flushAssistant (fold resp_item items \<lparr>rs_sys = sys, rs_msgs = [], rs_pending = None\<rparr>)
                    in Ok (Join (rs_sys s) [LF, LF], ensureCacheMarker (rs_msgs s)))))"

definition respToolsToOAI :: "respTool list \<Rightarrow> json list" where
  "respToolsToOAI tools =
     map (\<lambda>t. function_tool (rt_Name t) (rt_Description t) (rt_Parameters t))
       (filter (\<lambda>t. rt_Type t = ''function'') tools)"

definition resp_params :: "respRequest \<Rightarrow> modelConfig \<Rightarrow> (string \<times> json) list" where
  "resp_params req mc =
     [(''max_tokens'', JInt (if rr_MaxOutputTokens req = 0 then 32000 else rr_MaxOutputTokens req))]
     @ context_param mc
     @ (case rr_Effort req of None \<Rightarrow> [] | Some e \<Rightarrow> effort_param e)
     @ float_param ''temperature'' (rr_Temperature req) @ float_param ''top_p'' (rr_TopP req)
     @ tool_choice_param (rr_ToolChoice req)"

definition resp_body ::
  "respRequest \<Rightarrow> modelConfig \<Rightarrow> string \<Rightarrow> string \<Rightarrow> string \<Rightarrow> int \<Rightarrow> (input_error, json) result" where
  "resp_body req mc sessionID requestID newID nowMillis =
     (case respToUpstream (rr_Instructions req) (rr_Input req) of
        Err e \<Rightarrow> Err e
      | Ok (system, upMsgs) \<Rightarrow>
          Ok (remoteChatAskBody system upMsgs (Some (respToolsToOAI (rr_Tools req)))
                (resp_params req mc) mc sessionID requestID newID nowMillis))"

end
