(* ===== verification/Responses_Stream.thy ===== *)
theory Responses_Stream
  imports Responses
begin

text \<open>
  \<open>respStreamState\<close> of \<open>responses.go\<close>: the events of a streamed response with their sequence
  numbers, the items collected for the final response, and the collecting writer.
\<close>

section \<open>Items and events\<close>

text \<open>An output item: \<open>None\<close> for the text is the item as it is added, \<open>Some\<close> as it is done.\<close>

datatype outItem =
    ReasoningItem string "string option"
  | MessageItem string "string option"
  | CallItem string string string "string option"

text \<open>The identifier, then (for deltas and done events) output index and text.\<close>

datatype respEvent =
    Created
  | InProgress
  | ItemAdded int outItem
  | SummaryPartAdded string int
  | ContentPartAdded string int
  | ReasoningDelta string int string
  | OutputTextDelta string int string
  | ArgumentsDelta string int string
  | ReasoningDone string int string
  | SummaryPartDone string int string
  | OutputTextDone string int string
  | ContentPartDone string int string
  | ArgumentsDone string int string
  | ItemDone int outItem
  | Completed string "outItem list" usageCounters
  | ResponseFailed string

definition summary_part :: "string \<Rightarrow> json" where
  "summary_part t = JMap [(''type'', JStr ''summary_text''), (''text'', JStr t)]"

definition text_out :: "string \<Rightarrow> json" where
  "text_out t = JMap [(''type'', JStr ''output_text''), (''text'', JStr t), (''annotations'', JArr [])]"

fun item_json :: "outItem \<Rightarrow> json" where
  "item_json (ReasoningItem i t) = JMap [(''id'', JStr i), (''type'', JStr ''reasoning''),
     (''summary'', JArr (map summary_part (opt_list t)))]"
| "item_json (MessageItem i t) = JMap [(''id'', JStr i), (''type'', JStr ''message''),
     (''status'', JStr (if t = None then ''in_progress'' else ''completed'')),
     (''role'', JStr ''assistant''), (''content'', JArr (map text_out (opt_list t)))]"
| "item_json (CallItem i c n a) = JMap [(''id'', JStr i), (''type'', JStr ''function_call''),
     (''call_id'', JStr c), (''name'', JStr n),
     (''arguments'', JStr (case a of None \<Rightarrow> [] | Some t \<Rightarrow> t)),
     (''status'', JStr (if a = None then ''in_progress'' else ''completed''))]"

fun resp_event_name :: "respEvent \<Rightarrow> string" where
  "resp_event_name Created = ''response.created''"
| "resp_event_name InProgress = ''response.in_progress''"
| "resp_event_name (ItemAdded n it) = ''response.output_item.added''"
| "resp_event_name (SummaryPartAdded i n) = ''response.reasoning_summary_part.added''"
| "resp_event_name (ContentPartAdded i n) = ''response.content_part.added''"
| "resp_event_name (ReasoningDelta i n t) = ''response.reasoning_summary_text.delta''"
| "resp_event_name (OutputTextDelta i n t) = ''response.output_text.delta''"
| "resp_event_name (ArgumentsDelta i n t) = ''response.function_call_arguments.delta''"
| "resp_event_name (ReasoningDone i n t) = ''response.reasoning_summary_text.done''"
| "resp_event_name (SummaryPartDone i n t) = ''response.reasoning_summary_part.done''"
| "resp_event_name (OutputTextDone i n t) = ''response.output_text.done''"
| "resp_event_name (ContentPartDone i n t) = ''response.content_part.done''"
| "resp_event_name (ArgumentsDone i n t) = ''response.function_call_arguments.done''"
| "resp_event_name (ItemDone n it) = ''response.output_item.done''"
| "resp_event_name (Completed r its u) = ''response.completed''"
| "resp_event_name (ResponseFailed m) = ''response.failed''"

section \<open>The state\<close>

record respStreamState =
  st_respID :: string
  st_model :: string
  st_seq :: int
  st_outIndex :: int
  st_curKind :: string
  st_curItemID :: string
  st_fcCallID :: string
  st_fcName :: string
  st_textBuf :: string
  st_reasonBuf :: string
  st_argsBuf :: string
  st_items :: "outItem list"
  st_usage :: usageCounters
  st_stopReason :: string
  st_ids :: nat
  st_out :: "(int \<times> respEvent) list"

definition new_respStream :: "string \<Rightarrow> string \<Rightarrow> nat \<Rightarrow> respStreamState" where
  "new_respStream respID model k =
     \<lparr>st_respID = respID, st_model = model, st_seq = 0, st_outIndex = 0, st_curKind = [],
      st_curItemID = [], st_fcCallID = [], st_fcName = [], st_textBuf = [], st_reasonBuf = [],
      st_argsBuf = [], st_items = [], st_usage = no_usage, st_stopReason = [], st_ids = k, st_out = []\<rparr>"

definition resp_emit :: "respEvent \<Rightarrow> respStreamState \<Rightarrow> respStreamState" where
  "resp_emit ev st = st\<lparr>st_seq := st_seq st + 1, st_out := st_out st @ [(st_seq st + 1, ev)]\<rparr>"

definition baseResponse :: "string \<Rightarrow> int \<Rightarrow> respStreamState \<Rightarrow> (string \<times> json) list" where
  "baseResponse status now st =
     [(''id'', JStr (st_respID st)), (''object'', JStr ''response''), (''created_at'', JInt now),
      (''status'', JStr status), (''model'', JStr (st_model st)), (''output'', JArr []),
      (''error'', JNull), (''incomplete_details'', JNull), (''instructions'', JNull),
      (''metadata'', JMap []), (''parallel_tool_calls'', JBool True), (''tools'', JArr []),
      (''tool_choice'', JStr ''auto''), (''store'', JBool False)]"

text \<open>Closing an item of each kind, and any open item.\<close>

definition finish_item :: "outItem \<Rightarrow> respStreamState \<Rightarrow> respStreamState" where
  "finish_item it st = (let s = resp_emit (ItemDone (st_outIndex st) it) st in s\<lparr>st_items := st_items s @ [it]\<rparr>)"

definition close_reasoning :: "respStreamState \<Rightarrow> respStreamState" where
  "close_reasoning st =
     (let full = st_reasonBuf st; i = st_curItemID st; n = st_outIndex st in
      finish_item (ReasoningItem i (Some full))
        (resp_emit (SummaryPartDone i n full) (resp_emit (ReasoningDone i n full) st)))"

definition close_message :: "respStreamState \<Rightarrow> respStreamState" where
  "close_message st =
     (let full = st_textBuf st; i = st_curItemID st; n = st_outIndex st in
      finish_item (MessageItem i (Some full))
        (resp_emit (ContentPartDone i n full) (resp_emit (OutputTextDone i n full) st)))"

definition close_call :: "respStreamState \<Rightarrow> respStreamState" where
  "close_call st =
     (let full = st_argsBuf st; i = st_curItemID st in
      finish_item (CallItem i (st_fcCallID st) (st_fcName st) (Some full))
        (resp_emit (ArgumentsDone i (st_outIndex st) full) st))"

definition closeItem :: "respStreamState \<Rightarrow> respStreamState" where
  "closeItem st =
     (let s = (if st_curKind st = ''reasoning'' then close_reasoning st
               else if st_curKind st = ''message'' then close_message st
               else if st_curKind st = ''function_call'' then close_call st else st)
      in (if st_curKind s \<noteq> [] then s\<lparr>st_outIndex := st_outIndex s + 1\<rparr> else s)\<lparr>st_curKind := []\<rparr>)"

definition new_item :: "(nat \<Rightarrow> string) \<Rightarrow> string \<Rightarrow> string \<Rightarrow> respStreamState \<Rightarrow> respStreamState" where
  "new_item ids kind pfx st =
     (let s = closeItem st in s\<lparr>st_curKind := kind, st_curItemID := pfx @ ids (st_ids s), st_ids := st_ids s + 1\<rparr>)"

definition openReasoning :: "(nat \<Rightarrow> string) \<Rightarrow> respStreamState \<Rightarrow> respStreamState" where
  "openReasoning ids st =
     (if st_curKind st = ''reasoning'' then st
      else
        let s = (new_item ids ''reasoning'' ''rs_'' st)\<lparr>st_reasonBuf := []\<rparr> in
        resp_emit (SummaryPartAdded (st_curItemID s) (st_outIndex s))
          (resp_emit (ItemAdded (st_outIndex s) (ReasoningItem (st_curItemID s) None)) s))"

definition openMessage :: "(nat \<Rightarrow> string) \<Rightarrow> respStreamState \<Rightarrow> respStreamState" where
  "openMessage ids st =
     (if st_curKind st = ''message'' then st
      else
        let s = (new_item ids ''message'' ''msg_'' st)\<lparr>st_textBuf := []\<rparr> in
        resp_emit (ContentPartAdded (st_curItemID s) (st_outIndex s))
          (resp_emit (ItemAdded (st_outIndex s) (MessageItem (st_curItemID s) None)) s))"

definition openFunctionCall ::
  "(nat \<Rightarrow> string) \<Rightarrow> string \<Rightarrow> string \<Rightarrow> respStreamState \<Rightarrow> respStreamState" where
  "openFunctionCall ids callID name st =
     (let s = (new_item ids ''function_call'' ''fc_'' st)\<lparr>st_fcCallID := callID, st_fcName := name, st_argsBuf := []\<rparr>
      in resp_emit (ItemAdded (st_outIndex s) (CallItem (st_curItemID s) callID name None)) s)"

section \<open>One chunk\<close>

definition resp_reasoning :: "(nat \<Rightarrow> string) \<Rightarrow> string \<Rightarrow> respStreamState \<Rightarrow> respStreamState" where
  "resp_reasoning ids t st =
     (if t = [] then st
      else
        let s = openReasoning ids st; s1 = s\<lparr>st_reasonBuf := st_reasonBuf s @ t\<rparr> in
        resp_emit (ReasoningDelta (st_curItemID s1) (st_outIndex s1) t) s1)"

definition resp_content :: "(nat \<Rightarrow> string) \<Rightarrow> string \<Rightarrow> respStreamState \<Rightarrow> respStreamState" where
  "resp_content ids t st =
     (if t = [] then st
      else
        let s = openMessage ids st; s1 = s\<lparr>st_textBuf := st_textBuf s @ t\<rparr> in
        resp_emit (OutputTextDelta (st_curItemID s1) (st_outIndex s1) t) s1)"

definition resp_begin_call :: "(nat \<Rightarrow> string) \<Rightarrow> toolDelta \<Rightarrow> respStreamState \<Rightarrow> respStreamState" where
  "resp_begin_call ids tc st =
     (if td_ID tc \<noteq> [] \<or> td_Name tc \<noteq> [] then
        openFunctionCall ids (if td_ID tc = [] then st_fcCallID st else td_ID tc)
          (if td_Name tc = [] then st_fcName st else td_Name tc) st
      else st)"

definition resp_arguments :: "(nat \<Rightarrow> string) \<Rightarrow> string \<Rightarrow> respStreamState \<Rightarrow> respStreamState" where
  "resp_arguments ids a st =
     (if a = [] then st
      else
        let s = (if st_curKind st \<noteq> ''function_call''
                 then openFunctionCall ids (st_fcCallID st) (st_fcName st) st else st);
            s1 = s\<lparr>st_argsBuf := st_argsBuf s @ a\<rparr>
        in resp_emit (ArgumentsDelta (st_curItemID s1) (st_outIndex s1) a) s1)"

definition resp_tool :: "(nat \<Rightarrow> string) \<Rightarrow> toolDelta \<Rightarrow> respStreamState \<Rightarrow> respStreamState" where
  "resp_tool ids tc st = resp_arguments ids (td_Arguments tc) (resp_begin_call ids tc st)"

definition resp_usage :: "upUsage option \<Rightarrow> respStreamState \<Rightarrow> respStreamState" where
  "resp_usage u st = (case u of None \<Rightarrow> st | Some v \<Rightarrow> st\<lparr>st_usage := setUsage v\<rparr>)"

definition resp_finish :: "choice \<Rightarrow> upUsage option \<Rightarrow> respStreamState \<Rightarrow> respStreamState" where
  "resp_finish ch u st =
     (case finish_reason ch of None \<Rightarrow> st
      | Some r \<Rightarrow> resp_usage u (st\<lparr>st_stopReason := r\<rparr>))"

definition resp_chunk :: "(nat \<Rightarrow> string) \<Rightarrow> upChunk \<Rightarrow> respStreamState \<Rightarrow> respStreamState" where
  "resp_chunk ids c st =
     (case ck_Choices c of
        [] \<Rightarrow> resp_usage (ck_Usage c) st
      | ch # _ \<Rightarrow>
          let d = ch_Delta ch in
          resp_finish ch (ck_Usage c)
            (fold (resp_tool ids) (d_ToolCalls d)
              (resp_content ids (d_Content d) (resp_reasoning ids (d_ReasoningContent d) st))))"

section \<open>The writers\<close>

definition resp_status :: "string \<Rightarrow> string" where
  "resp_status stop = (if stop = ''length'' then ''incomplete'' else ''completed'')"

definition complete :: "respStreamState \<Rightarrow> respStreamState" where
  "complete st =
     (let s = closeItem st in
      resp_emit (Completed (resp_status (st_stopReason s)) (st_items s) (st_usage s)) s)"

definition fail :: "string \<Rightarrow> respStreamState \<Rightarrow> respStreamState" where
  "fail msg st = resp_emit (ResponseFailed msg) st"

definition streamResponses ::
  "(nat \<Rightarrow> string) \<Rightarrow> nat \<Rightarrow> string \<Rightarrow> upChunk list \<times> string option \<Rightarrow> (int \<times> respEvent) list" where
  "streamResponses ids k model = (\<lambda>(chunks, errc).
     (let s0 = new_respStream (''resp_'' @ ids k) model (k + 1);
          s1 = resp_emit InProgress (resp_emit Created s0);
          s2 = fold (resp_chunk ids) chunks s1
      in st_out (case errc of Some (m # ms) \<Rightarrow> fail (m # ms) s2 | _ \<Rightarrow> complete s2)))"

definition resp_usage_json :: "usageCounters \<Rightarrow> json" where
  "resp_usage_json u =
     JMap (fold (\<lambda>(k, v). map_set k v) (billingFields (uc_Bill u))
       [(''input_tokens'', JInt (uc_Input u)),
        (''input_tokens_details'', JMap [(''cached_tokens'', JInt (uc_CacheRead u))]),
        (''output_tokens'', JInt (uc_Output u)),
        (''total_tokens'', JInt (wrap64 (uc_Input u + uc_CacheWrite u + uc_CacheRead u + uc_Output u)))])"

definition incomplete_json :: "string \<Rightarrow> json" where
  "incomplete_json status =
     (if status = ''incomplete'' then JMap [(''reason'', JStr ''max_output_tokens'')] else JNull)"

text \<open>
  The payload's own members; \<open>emit\<close> adds \<open>type\<close> and \<open>sequence_number\<close>. A nil item slice (no item
  was ever closed) marshals as \<open>null\<close>.
\<close>

definition completed_json :: "string \<Rightarrow> outItem list \<Rightarrow> usageCounters \<Rightarrow> int \<Rightarrow> respStreamState \<Rightarrow> json" where
  "completed_json status items u now st =
     JMap (map_set ''usage'' (resp_usage_json u)
       (map_set ''incomplete_details'' (incomplete_json status)
         (map_set ''output'' (if items = [] then JNull else JArr (map item_json items))
           (baseResponse status now st))))"

definition failed_json :: "string \<Rightarrow> int \<Rightarrow> respStreamState \<Rightarrow> json" where
  "failed_json msg now st =
     JMap (map_set ''error'' (JMap [(''code'', JStr ''server_error''), (''message'', JStr msg)])
       (baseResponse ''failed'' now st))"

definition item_at :: "string \<Rightarrow> int \<Rightarrow> (string \<times> json) list" where
  "item_at i n = [(''item_id'', JStr i), (''output_index'', JInt n)]"

fun resp_payload :: "int \<Rightarrow> respStreamState \<Rightarrow> respEvent \<Rightarrow> (string \<times> json) list" where
  "resp_payload now st Created = [(''response'', JMap (baseResponse ''in_progress'' now st))]"
| "resp_payload now st InProgress = [(''response'', JMap (baseResponse ''in_progress'' now st))]"
| "resp_payload now st (ItemAdded n it) = [(''output_index'', JInt n), (''item'', item_json it)]"
| "resp_payload now st (SummaryPartAdded i n) =
     item_at i n @ [(''summary_index'', JInt 0), (''part'', summary_part [])]"
| "resp_payload now st (ContentPartAdded i n) =
     item_at i n @ [(''content_index'', JInt 0), (''part'', text_out [])]"
| "resp_payload now st (ReasoningDelta i n t) =
     item_at i n @ [(''summary_index'', JInt 0), (''delta'', JStr t)]"
| "resp_payload now st (OutputTextDelta i n t) =
     item_at i n @ [(''content_index'', JInt 0), (''delta'', JStr t)]"
| "resp_payload now st (ArgumentsDelta i n t) = item_at i n @ [(''delta'', JStr t)]"
| "resp_payload now st (ReasoningDone i n t) =
     item_at i n @ [(''summary_index'', JInt 0), (''text'', JStr t)]"
| "resp_payload now st (SummaryPartDone i n t) =
     item_at i n @ [(''summary_index'', JInt 0), (''part'', summary_part t)]"
| "resp_payload now st (OutputTextDone i n t) =
     item_at i n @ [(''content_index'', JInt 0), (''text'', JStr t)]"
| "resp_payload now st (ContentPartDone i n t) =
     item_at i n @ [(''content_index'', JInt 0), (''part'', text_out t)]"
| "resp_payload now st (ArgumentsDone i n t) = item_at i n @ [(''arguments'', JStr t)]"
| "resp_payload now st (ItemDone n it) = [(''output_index'', JInt n), (''item'', item_json it)]"
| "resp_payload now st (Completed r its u) = [(''response'', completed_json r its u now st)]"
| "resp_payload now st (ResponseFailed m) = [(''response'', failed_json m now st)]"

definition resp_event_json :: "int \<Rightarrow> respStreamState \<Rightarrow> int \<times> respEvent \<Rightarrow> json" where
  "resp_event_json now st = (\<lambda>(seq, ev).
     JMap (resp_payload now st ev @ [(''type'', JStr (resp_event_name ev)), (''sequence_number'', JInt seq)]))"

section \<open>The collecting writer\<close>

record callAcc =
  fc_callID :: string
  fc_name :: string
  fc_args :: string

record respCollect =
  rc_text :: string
  rc_reason :: string
  rc_calls :: "callAcc list"
  rc_stop :: string
  rc_usage :: usageCounters

definition new_respCollect :: respCollect where
  "new_respCollect = \<lparr>rc_text = [], rc_reason = [], rc_calls = [], rc_stop = ''stop'', rc_usage = no_usage\<rparr>"

definition rc_tool :: "toolDelta \<Rightarrow> callAcc list \<Rightarrow> callAcc list" where
  "rc_tool tc fcs =
     (let fs = (if td_ID tc \<noteq> [] \<or> td_Name tc \<noteq> []
                then fcs @ [\<lparr>fc_callID = td_ID tc, fc_name = td_Name tc, fc_args = []\<rparr>] else fcs)
      in if fs = [] then fs
         else butlast fs @ [(last fs)\<lparr>fc_args := fc_args (last fs) @ td_Arguments tc\<rparr>])"

definition rc_chunk :: "upChunk \<Rightarrow> respCollect \<Rightarrow> respCollect" where
  "rc_chunk c a =
     (let a1 = (case ck_Usage c of None \<Rightarrow> a | Some u \<Rightarrow> a\<lparr>rc_usage := setUsage u\<rparr>) in
      case ck_Choices c of [] \<Rightarrow> a1
      | ch # _ \<Rightarrow>
          let d = ch_Delta ch in
          a1\<lparr>rc_reason := rc_reason a1 @ d_ReasoningContent d, rc_text := rc_text a1 @ d_Content d,
             rc_calls := fold rc_tool (d_ToolCalls d) (rc_calls a1),
             rc_stop := (case finish_reason ch of Some r \<Rightarrow> r | None \<Rightarrow> rc_stop a1)\<rparr>)"

fun call_items :: "(nat \<Rightarrow> string) \<Rightarrow> nat \<Rightarrow> callAcc list \<Rightarrow> outItem list" where
  "call_items ids k [] = []"
| "call_items ids k (f # fs) =
     CallItem (''fc_'' @ ids k) (fc_callID f) (fc_name f) (Some (fc_args f)) # call_items ids (k + 1) fs"

definition rc_items :: "(nat \<Rightarrow> string) \<Rightarrow> nat \<Rightarrow> respCollect \<Rightarrow> outItem list" where
  "rc_items ids k a =
     (let rs = (if rc_reason a = [] then [] else [ReasoningItem (''rs_'' @ ids k) (Some (rc_reason a))]);
          k1 = k + length rs;
          ms = (if rc_text a = [] then [] else [MessageItem (''msg_'' @ ids k1) (Some (rc_text a))]);
          k2 = k1 + length ms
      in rs @ ms @ call_items ids k2 (rc_calls a))"

text \<open>A collected reasoning item has no status; a collected message and call are completed.\<close>

definition collectResponses ::
  "bool \<Rightarrow> (nat \<Rightarrow> string) \<Rightarrow> nat \<Rightarrow> string \<Rightarrow> int \<Rightarrow> upChunk list \<times> string option \<Rightarrow> reply" where
  "collectResponses locked ids k model now = (\<lambda>(chunks, errc).
     (case errc of
        Some (m # ms) \<Rightarrow> writeOAIError locked 502 ''api_error'' [] (m # ms)
      | _ \<Rightarrow>
          let a = fold rc_chunk chunks new_respCollect;
              items = rc_items ids k a;
              k' = k + length items
          in json_reply 200 (JMap
               [(''id'', JStr (''resp_'' @ ids k')), (''object'', JStr ''response''),
                (''created_at'', JInt now), (''status'', JStr (resp_status (rc_stop a))),
                (''model'', JStr model), (''output'', JArr (map item_json items)),
                (''error'', JNull), (''incomplete_details'', incomplete_json (resp_status (rc_stop a))),
                (''metadata'', JMap []), (''parallel_tool_calls'', JBool True),
                (''usage'', resp_usage_json (rc_usage a))])))"

end
