(* ===== verification/Responses_Props.thy ===== *)
theory Responses_Props
  imports Responses_Stream Convert_Props
begin

text \<open>
  The protocol of a streamed response as a checking automaton, and that every stream passes it:
  consecutive sequence numbers, output items added, filled and done one after the other with
  their own index and identifier, done texts equal to the joined deltas, and a final response
  that lists exactly the items done.
\<close>

section \<open>The protocol\<close>

fun item_text :: "outItem \<Rightarrow> string option" where
  "item_text (ReasoningItem i t) = t"
| "item_text (MessageItem i t) = t"
| "item_text (CallItem i c n a) = a"

text \<open>An item with its final text, and the events its life consists of.\<close>

fun done_item :: "outItem \<Rightarrow> string \<Rightarrow> outItem" where
  "done_item (ReasoningItem i t) s = ReasoningItem i (Some s)"
| "done_item (MessageItem i t) s = MessageItem i (Some s)"
| "done_item (CallItem i c n a) s = CallItem i c n (Some s)"

fun part_added :: "outItem \<Rightarrow> int \<Rightarrow> respEvent option" where
  "part_added (ReasoningItem i t) k = Some (SummaryPartAdded i k)"
| "part_added (MessageItem i t) k = Some (ContentPartAdded i k)"
| "part_added (CallItem i c n a) k = None"

fun delta_event :: "outItem \<Rightarrow> int \<Rightarrow> string \<Rightarrow> respEvent" where
  "delta_event (ReasoningItem i t) k s = ReasoningDelta i k s"
| "delta_event (MessageItem i t) k s = OutputTextDelta i k s"
| "delta_event (CallItem i c n a) k s = ArgumentsDelta i k s"

fun text_done :: "outItem \<Rightarrow> int \<Rightarrow> string \<Rightarrow> respEvent" where
  "text_done (ReasoningItem i t) k s = ReasoningDone i k s"
| "text_done (MessageItem i t) k s = OutputTextDone i k s"
| "text_done (CallItem i c n a) k s = ArgumentsDone i k s"

fun part_done :: "outItem \<Rightarrow> int \<Rightarrow> string \<Rightarrow> respEvent option" where
  "part_done (ReasoningItem i t) k s = Some (SummaryPartDone i k s)"
| "part_done (MessageItem i t) k s = Some (ContentPartDone i k s)"
| "part_done (CallItem i c n a) k s = None"

fun event_delta :: "respEvent \<Rightarrow> string option" where
  "event_delta (ReasoningDelta i k s) = Some s"
| "event_delta (OutputTextDelta i k s) = Some s"
| "event_delta (ArgumentsDelta i k s) = Some s"
| "event_delta _ = None"

text \<open>
  The automaton: the items done so far, and for the open item what it is and the text received.
\<close>

datatype rphase =
    RStart | RCreated
  | RIdle "outItem list"
  | RAdded "outItem list" outItem
  | ROpen "outItem list" outItem string
  | RTextDone "outItem list" outItem string
  | RPartDone "outItem list" outItem string
  | REnd | RFailed

definition after_added :: "outItem list \<Rightarrow> outItem \<Rightarrow> rphase" where
  "after_added its it = (if part_added it 0 = None then ROpen its it [] else RAdded its it)"

definition after_text :: "outItem list \<Rightarrow> outItem \<Rightarrow> string \<Rightarrow> rphase" where
  "after_text its it buf = (if part_done it 0 [] = None then RPartDone its it buf else RTextDone its it buf)"

fun rstep :: "rphase \<Rightarrow> respEvent \<Rightarrow> rphase option" where
  "rstep RStart ev = (if ev = Created then Some RCreated else None)"
| "rstep RCreated ev = (if ev = InProgress then Some (RIdle []) else None)"
| "rstep (RIdle its) ev =
     (case ev of
        ItemAdded k it \<Rightarrow>
          if k = int (length its) \<and> item_text it = None then Some (after_added its it) else None
      | Completed r os u \<Rightarrow> if os = its then Some REnd else None
      | ResponseFailed m \<Rightarrow> Some RFailed
      | _ \<Rightarrow> None)"
| "rstep (RAdded its it) ev =
     (if part_added it (int (length its)) = Some ev then Some (ROpen its it []) else None)"
| "rstep (ROpen its it buf) ev =
     (case event_delta ev of
        Some s \<Rightarrow>
          if ev = delta_event it (int (length its)) s then Some (ROpen its it (buf @ s)) else None
      | None \<Rightarrow>
          if ev = text_done it (int (length its)) buf then Some (after_text its it buf)
          else (case ev of ResponseFailed m \<Rightarrow> Some RFailed | _ \<Rightarrow> None))"
| "rstep (RTextDone its it buf) ev =
     (if part_done it (int (length its)) buf = Some ev then Some (RPartDone its it buf) else None)"
| "rstep (RPartDone its it buf) ev =
     (if ev = ItemDone (int (length its)) (done_item it buf)
      then Some (RIdle (its @ [done_item it buf])) else None)"
| "rstep REnd ev = None"
| "rstep RFailed ev = None"

fun rrun :: "rphase \<Rightarrow> respEvent list \<Rightarrow> rphase option" where
  "rrun p [] = Some p"
| "rrun p (e # es) = (case rstep p e of None \<Rightarrow> None | Some q \<Rightarrow> rrun q es)"

lemma rrun_append:
  "rrun p (xs @ ys) = (case rrun p xs of None \<Rightarrow> None | Some q \<Rightarrow> rrun q ys)"
  by (induction xs arbitrary: p) (auto split: option.split)

section \<open>The invariant\<close>

definition cur_item :: "respStreamState \<Rightarrow> outItem" where
  "cur_item st =
     (if st_curKind st = ''reasoning'' then ReasoningItem (st_curItemID st) None
      else if st_curKind st = ''message'' then MessageItem (st_curItemID st) None
      else CallItem (st_curItemID st) (st_fcCallID st) (st_fcName st) None)"

definition cur_buf :: "respStreamState \<Rightarrow> string" where
  "cur_buf st =
     (if st_curKind st = ''reasoning'' then st_reasonBuf st
      else if st_curKind st = ''message'' then st_textBuf st else st_argsBuf st)"

definition rphase_of :: "respStreamState \<Rightarrow> rphase" where
  "rphase_of st =
     (if st_curKind st = [] then RIdle (st_items st) else ROpen (st_items st) (cur_item st) (cur_buf st))"

definition numbered :: "int \<Rightarrow> (int \<times> respEvent) list \<Rightarrow> bool" where
  "numbered n out \<longleftrightarrow> n = int (length out) \<and> map fst out = map (\<lambda>k. int k + 1) [0..<length out]"

text \<open>The state is in phase \<open>p\<close>: what was written is numbered and the automaton is in \<open>p\<close>.\<close>

definition in_phase :: "rphase \<Rightarrow> respStreamState \<Rightarrow> bool" where
  "in_phase p st \<longleftrightarrow> rrun RStart (map snd (st_out st)) = Some p \<and> numbered (st_seq st) (st_out st)"

definition resp_inv :: "respStreamState \<Rightarrow> bool" where
  "resp_inv st \<longleftrightarrow> in_phase (rphase_of st) st \<and> st_outIndex st = int (length (st_items st)) \<and>
     st_curKind st \<in> {[], ''reasoning'', ''message'', ''function_call''}"

lemma in_phase_emit:
  "in_phase p st \<Longrightarrow> rstep p ev = Some q \<Longrightarrow> in_phase q (resp_emit ev st)"
  by (simp add: in_phase_def resp_emit_def rrun_append numbered_def)

lemma resp_emit_frame [simp]:
  "st_outIndex (resp_emit ev st) = st_outIndex st" "st_curKind (resp_emit ev st) = st_curKind st"
  "st_curItemID (resp_emit ev st) = st_curItemID st" "st_fcCallID (resp_emit ev st) = st_fcCallID st"
  "st_fcName (resp_emit ev st) = st_fcName st" "st_textBuf (resp_emit ev st) = st_textBuf st"
  "st_reasonBuf (resp_emit ev st) = st_reasonBuf st" "st_argsBuf (resp_emit ev st) = st_argsBuf st"
  "st_items (resp_emit ev st) = st_items st" "st_stopReason (resp_emit ev st) = st_stopReason st"
  "st_usage (resp_emit ev st) = st_usage st" "st_ids (resp_emit ev st) = st_ids st"
  by (simp_all add: resp_emit_def)

lemma in_phase_frame [simp]:
  "in_phase p (st\<lparr>st_outIndex := n\<rparr>) = in_phase p st" "in_phase p (st\<lparr>st_curKind := x\<rparr>) = in_phase p st"
  "in_phase p (st\<lparr>st_curItemID := x\<rparr>) = in_phase p st" "in_phase p (st\<lparr>st_fcCallID := x\<rparr>) = in_phase p st"
  "in_phase p (st\<lparr>st_fcName := x\<rparr>) = in_phase p st" "in_phase p (st\<lparr>st_textBuf := x\<rparr>) = in_phase p st"
  "in_phase p (st\<lparr>st_reasonBuf := x\<rparr>) = in_phase p st" "in_phase p (st\<lparr>st_argsBuf := x\<rparr>) = in_phase p st"
  "in_phase p (st\<lparr>st_items := its\<rparr>) = in_phase p st" "in_phase p (st\<lparr>st_stopReason := x\<rparr>) = in_phase p st"
  "in_phase p (st\<lparr>st_usage := u\<rparr>) = in_phase p st" "in_phase p (st\<lparr>st_ids := k\<rparr>) = in_phase p st"
  by (simp_all add: in_phase_def)

text \<open>Closing: from the open item to the idle phase with the item done.\<close>

lemma closeItem_inv:
  assumes "resp_inv st"
  shows "resp_inv (closeItem st) \<and> st_curKind (closeItem st) = []"
proof -
  have p: "in_phase (rphase_of st) st" and n: "st_outIndex st = int (length (st_items st))"
    and k: "st_curKind st \<in> {[], ''reasoning'', ''message'', ''function_call''}"
    using assms by (simp_all add: resp_inv_def)
  from k consider "st_curKind st = []" | "st_curKind st = ''reasoning''"
    | "st_curKind st = ''message''" | "st_curKind st = ''function_call''" by auto
  then show ?thesis
  proof cases
    case 1
    with p n show ?thesis by (simp add: closeItem_def Let_def resp_inv_def rphase_of_def)
  next
    case 2
    define it where "it = ReasoningItem (st_curItemID st) None"
    from 2 p have "in_phase (ROpen (st_items st) it (st_reasonBuf st)) st"
      by (simp add: rphase_of_def cur_item_def cur_buf_def it_def)
    then have "in_phase (RIdle (st_items st @ [done_item it (st_reasonBuf st)]))
        (resp_emit (ItemDone (st_outIndex st) (ReasoningItem (st_curItemID st) (Some (st_reasonBuf st))))
          (resp_emit (SummaryPartDone (st_curItemID st) (st_outIndex st) (st_reasonBuf st))
            (resp_emit (ReasoningDone (st_curItemID st) (st_outIndex st) (st_reasonBuf st)) st)))"
      by (intro in_phase_emit [where p = "RPartDone (st_items st) it (st_reasonBuf st)"]
          in_phase_emit [where p = "RTextDone (st_items st) it (st_reasonBuf st)"]
          in_phase_emit [where p = "ROpen (st_items st) it (st_reasonBuf st)"])
        (simp_all add: n it_def after_text_def)
    with 2 n show ?thesis
      by (simp add: closeItem_def close_reasoning_def finish_item_def Let_def resp_inv_def
          rphase_of_def it_def)
  next
    case 3
    define it where "it = MessageItem (st_curItemID st) None"
    from 3 p have "in_phase (ROpen (st_items st) it (st_textBuf st)) st"
      by (simp add: rphase_of_def cur_item_def cur_buf_def it_def)
    then have "in_phase (RIdle (st_items st @ [done_item it (st_textBuf st)]))
        (resp_emit (ItemDone (st_outIndex st) (MessageItem (st_curItemID st) (Some (st_textBuf st))))
          (resp_emit (ContentPartDone (st_curItemID st) (st_outIndex st) (st_textBuf st))
            (resp_emit (OutputTextDone (st_curItemID st) (st_outIndex st) (st_textBuf st)) st)))"
      by (intro in_phase_emit [where p = "RPartDone (st_items st) it (st_textBuf st)"]
          in_phase_emit [where p = "RTextDone (st_items st) it (st_textBuf st)"]
          in_phase_emit [where p = "ROpen (st_items st) it (st_textBuf st)"])
        (simp_all add: n it_def after_text_def)
    with 3 n show ?thesis
      by (simp add: closeItem_def close_message_def finish_item_def Let_def resp_inv_def
          rphase_of_def it_def)
  next
    case 4
    define it where "it = CallItem (st_curItemID st) (st_fcCallID st) (st_fcName st) None"
    from 4 p have "in_phase (ROpen (st_items st) it (st_argsBuf st)) st"
      by (simp add: rphase_of_def cur_item_def cur_buf_def it_def)
    then have "in_phase (RIdle (st_items st @ [done_item it (st_argsBuf st)]))
        (resp_emit (ItemDone (st_outIndex st)
            (CallItem (st_curItemID st) (st_fcCallID st) (st_fcName st) (Some (st_argsBuf st))))
          (resp_emit (ArgumentsDone (st_curItemID st) (st_outIndex st) (st_argsBuf st)) st))"
      by (intro in_phase_emit [where p = "RPartDone (st_items st) it (st_argsBuf st)"]
          in_phase_emit [where p = "ROpen (st_items st) it (st_argsBuf st)"])
        (simp_all add: n it_def after_text_def)
    with 4 n show ?thesis
      by (simp add: closeItem_def close_call_def finish_item_def Let_def resp_inv_def
          rphase_of_def it_def)
  qed
qed

section \<open>Opening and filling\<close>

lemma new_item_phase:
  assumes "resp_inv st"
  shows "in_phase (RIdle (st_items (new_item ids kind pfx st))) (new_item ids kind pfx st) \<and>
    st_outIndex (new_item ids kind pfx st) = int (length (st_items (new_item ids kind pfx st))) \<and>
    st_curKind (new_item ids kind pfx st) = kind"
  using closeItem_inv [OF assms]
  by (auto simp: new_item_def Let_def resp_inv_def rphase_of_def)

lemma openReasoning_inv:
  assumes "resp_inv st"
  shows "resp_inv (openReasoning ids st) \<and> st_curKind (openReasoning ids st) = ''reasoning''"
proof (cases "st_curKind st = ''reasoning''")
  case True
  with assms show ?thesis by (simp add: openReasoning_def)
next
  case False
  define s where "s = (new_item ids ''reasoning'' ''rs_'' st)\<lparr>st_reasonBuf := []\<rparr>"
  define it where "it = ReasoningItem (st_curItemID s) None"
  have s: "in_phase (RIdle (st_items s)) s" "st_outIndex s = int (length (st_items s))"
    "st_curKind s = ''reasoning''"
    using new_item_phase [OF assms, of ids "''reasoning''" "''rs_''"] by (simp_all add: s_def)
  from s(1) have "in_phase (ROpen (st_items s) it []) (resp_emit (SummaryPartAdded (st_curItemID s) (st_outIndex s))
      (resp_emit (ItemAdded (st_outIndex s) (ReasoningItem (st_curItemID s) None)) s))"
    by (intro in_phase_emit [where p = "RAdded (st_items s) it"] in_phase_emit [where p = "RIdle (st_items s)"])
      (simp_all add: s(2) it_def after_added_def)
  moreover have "st_reasonBuf s = []" by (simp add: s_def)
  ultimately show ?thesis
    using False s by (simp add: openReasoning_def s_def [symmetric] Let_def resp_inv_def rphase_of_def
        cur_item_def cur_buf_def it_def)
qed

lemma openMessage_inv:
  assumes "resp_inv st"
  shows "resp_inv (openMessage ids st) \<and> st_curKind (openMessage ids st) = ''message''"
proof (cases "st_curKind st = ''message''")
  case True
  with assms show ?thesis by (simp add: openMessage_def)
next
  case False
  define s where "s = (new_item ids ''message'' ''msg_'' st)\<lparr>st_textBuf := []\<rparr>"
  define it where "it = MessageItem (st_curItemID s) None"
  have s: "in_phase (RIdle (st_items s)) s" "st_outIndex s = int (length (st_items s))"
    "st_curKind s = ''message''"
    using new_item_phase [OF assms, of ids "''message''" "''msg_''"] by (simp_all add: s_def)
  from s(1) have "in_phase (ROpen (st_items s) it []) (resp_emit (ContentPartAdded (st_curItemID s) (st_outIndex s))
      (resp_emit (ItemAdded (st_outIndex s) (MessageItem (st_curItemID s) None)) s))"
    by (intro in_phase_emit [where p = "RAdded (st_items s) it"] in_phase_emit [where p = "RIdle (st_items s)"])
      (simp_all add: s(2) it_def after_added_def)
  moreover have "st_textBuf s = []" by (simp add: s_def)
  ultimately show ?thesis
    using False s by (simp add: openMessage_def s_def [symmetric] Let_def resp_inv_def rphase_of_def
        cur_item_def cur_buf_def it_def)
qed

lemma openFunctionCall_inv:
  assumes "resp_inv st"
  shows "resp_inv (openFunctionCall ids c n st) \<and> st_curKind (openFunctionCall ids c n st) = ''function_call''"
proof -
  define s where "s = (new_item ids ''function_call'' ''fc_'' st)
    \<lparr>st_fcCallID := c, st_fcName := n, st_argsBuf := []\<rparr>"
  define it where "it = CallItem (st_curItemID s) c n None"
  have s: "in_phase (RIdle (st_items s)) s" "st_outIndex s = int (length (st_items s))"
    "st_curKind s = ''function_call''"
    using new_item_phase [OF assms, of ids "''function_call''" "''fc_''"] by (simp_all add: s_def)
  from s(1) have "in_phase (ROpen (st_items s) it [])
      (resp_emit (ItemAdded (st_outIndex s) (CallItem (st_curItemID s) c n None)) s)"
    by (intro in_phase_emit [where p = "RIdle (st_items s)"])
      (simp_all add: s(2) it_def after_added_def)
  moreover have "st_argsBuf s = []" "st_fcCallID s = c" "st_fcName s = n" by (simp_all add: s_def)
  ultimately show ?thesis
    using s by (simp add: openFunctionCall_def s_def [symmetric] Let_def resp_inv_def rphase_of_def
        cur_item_def cur_buf_def it_def)
qed

text \<open>A delta for the open item.\<close>

lemma delta_phase:
  assumes "in_phase (ROpen its it buf) st" "ev = delta_event it (int (length its)) t"
  shows "in_phase (ROpen its it (buf @ t)) (resp_emit ev st)"
  using assms by (cases it) (auto intro!: in_phase_emit)

lemma resp_reasoning_inv:
  assumes "resp_inv st"
  shows "resp_inv (resp_reasoning ids t st)"
proof -
  define s where "s = openReasoning ids st"
  have s: "resp_inv s" "st_curKind s = ''reasoning''"
    using openReasoning_inv [OF assms] by (simp_all add: s_def)
  then have "in_phase (ROpen (st_items s) (ReasoningItem (st_curItemID s) None) (st_reasonBuf s)) s"
    "st_outIndex s = int (length (st_items s))"
    by (simp_all add: resp_inv_def rphase_of_def cur_item_def cur_buf_def)
  with s assms show ?thesis
    by (auto simp: resp_reasoning_def s_def [symmetric] Let_def resp_inv_def rphase_of_def
        cur_item_def cur_buf_def intro!: delta_phase)
qed

lemma resp_content_inv:
  assumes "resp_inv st"
  shows "resp_inv (resp_content ids t st)"
proof -
  define s where "s = openMessage ids st"
  have s: "resp_inv s" "st_curKind s = ''message''"
    using openMessage_inv [OF assms] by (simp_all add: s_def)
  then have "in_phase (ROpen (st_items s) (MessageItem (st_curItemID s) None) (st_textBuf s)) s"
    "st_outIndex s = int (length (st_items s))"
    by (simp_all add: resp_inv_def rphase_of_def cur_item_def cur_buf_def)
  with s assms show ?thesis
    by (auto simp: resp_content_def s_def [symmetric] Let_def resp_inv_def rphase_of_def
        cur_item_def cur_buf_def intro!: delta_phase)
qed

lemma resp_arguments_inv:
  assumes "resp_inv st"
  shows "resp_inv (resp_arguments ids a st)"
proof -
  define s where "s = (if st_curKind st \<noteq> ''function_call''
    then openFunctionCall ids (st_fcCallID st) (st_fcName st) st else st)"
  have s: "resp_inv s" "st_curKind s = ''function_call''"
    using openFunctionCall_inv [OF assms] assms by (simp_all add: s_def)
  then have "in_phase (ROpen (st_items s) (CallItem (st_curItemID s) (st_fcCallID s) (st_fcName s) None)
      (st_argsBuf s)) s" "st_outIndex s = int (length (st_items s))"
    by (simp_all add: resp_inv_def rphase_of_def cur_item_def cur_buf_def)
  with s assms show ?thesis
    by (auto simp: resp_arguments_def s_def [symmetric] Let_def resp_inv_def rphase_of_def
        cur_item_def cur_buf_def intro!: delta_phase)
qed

lemma resp_tool_inv: "resp_inv st \<Longrightarrow> resp_inv (resp_tool ids tc st)"
  by (simp add: resp_tool_def resp_begin_call_def resp_arguments_inv openFunctionCall_inv)

lemma fold_resp_tool_inv: "resp_inv st \<Longrightarrow> resp_inv (fold (resp_tool ids) tcs st)"
  by (induction tcs arbitrary: st) (simp_all add: resp_tool_inv)

lemma resp_inv_update [simp]:
  "resp_inv (st\<lparr>st_usage := u\<rparr>) = resp_inv st" "resp_inv (st\<lparr>st_stopReason := x\<rparr>) = resp_inv st"
  by (simp_all add: resp_inv_def rphase_of_def cur_item_def cur_buf_def)

lemma resp_usage_inv [simp]: "resp_inv (resp_usage u st) = resp_inv st"
  by (simp add: resp_usage_def split: option.split)

lemma resp_finish_inv [simp]: "resp_inv (resp_finish ch u st) = resp_inv st"
  by (simp add: resp_finish_def split: option.split)

lemma resp_chunk_inv: "resp_inv st \<Longrightarrow> resp_inv (resp_chunk ids c st)"
  by (simp add: resp_chunk_def Let_def fold_resp_tool_inv resp_content_inv resp_reasoning_inv
      split: list.split)

lemma fold_resp_chunk_inv: "resp_inv st \<Longrightarrow> resp_inv (fold (resp_chunk ids) cs st)"
  by (induction cs arbitrary: st) (simp_all add: resp_chunk_inv)

lemma resp_start_inv: "resp_inv (resp_emit InProgress (resp_emit Created (new_respStream i m k)))"
proof -
  have "in_phase RStart (new_respStream i m k)"
    by (simp add: in_phase_def new_respStream_def numbered_def)
  then have "in_phase (RIdle []) (resp_emit InProgress (resp_emit Created (new_respStream i m k)))"
    by (intro in_phase_emit [where p = RCreated] in_phase_emit [where p = RStart]) simp_all
  then show ?thesis by (simp add: resp_inv_def rphase_of_def) (simp add: new_respStream_def)
qed

lemma complete_phase: "resp_inv st \<Longrightarrow> in_phase REnd (complete st)"
  using closeItem_inv [of st]
  by (auto simp: complete_def Let_def resp_inv_def rphase_of_def intro!: in_phase_emit)

lemma fail_phase:
  assumes "resp_inv st"
  shows "in_phase RFailed (fail m st)"
proof -
  have "rstep (rphase_of st) (ResponseFailed m) = Some RFailed"
    by (cases "cur_item st") (simp_all add: rphase_of_def)
  with assms show ?thesis by (auto simp: fail_def resp_inv_def intro: in_phase_emit)
qed

section \<open>Properties\<close>

text \<open>What a stream must be: numbered from 1, and a run of the automaton to its end.\<close>

definition valid_response_stream :: "bool \<Rightarrow> (int \<times> respEvent) list \<Rightarrow> bool" where
  "valid_response_stream failed out \<longleftrightarrow>
     map fst out = map (\<lambda>k. int k + 1) [0..<length out] \<and>
     rrun RStart (map snd out) = Some (if failed then RFailed else REnd)"

text \<open>
  C8: every streamed response follows the protocol, whatever chunks arrive: events are numbered
  1, 2, 3 and so on; each output item is added with the next index, gets its part, receives
  deltas under its own identifier and index, is done with the exact concatenation of its
  deltas, and is closed before another begins; the completed response lists exactly the items
  done, in order; an error ends the stream with one failed event.
\<close>

theorem response_stream_valid:
  "valid_response_stream (errc \<noteq> None \<and> errc \<noteq> Some []) (streamResponses ids k model (chunks, errc))"
proof -
  define s where "s = fold (resp_chunk ids) chunks
    (resp_emit InProgress (resp_emit Created (new_respStream (''resp_'' @ ids k) model (k + 1))))"
  have inv: "resp_inv s" unfolding s_def by (intro fold_resp_chunk_inv resp_start_inv)
  have "streamResponses ids k model (chunks, errc) =
      st_out (case errc of Some (m # ms) \<Rightarrow> fail (m # ms) s | _ \<Rightarrow> complete s)"
    unfolding streamResponses_def s_def Let_def by simp
  then show ?thesis
    using complete_phase [OF inv] fail_phase [OF inv]
    by (auto simp: valid_response_stream_def in_phase_def numbered_def split: option.split list.split)
qed

section \<open>Input items\<close>

definition pending_msgs :: "respState \<Rightarrow> upMessage list" where
  "pending_msgs s = rs_msgs s @ opt_list (rs_pending s)"

text \<open>The pending message is an assistant message.\<close>

definition pending_ok :: "respState \<Rightarrow> bool" where
  "pending_ok s \<longleftrightarrow> (case rs_pending s of None \<Rightarrow> True | Some p \<Rightarrow> um_Role p = ''assistant'')"

definition is_call :: "respInputItem \<Rightarrow> bool" where
  "is_call it \<longleftrightarrow> ri_Type it = ''function_call''"

definition is_output :: "respInputItem \<Rightarrow> bool" where
  "is_output it \<longleftrightarrow> ri_Type it = ''function_call_output''"

text \<open>No message item takes the role of a tool.\<close>

definition no_tool_role :: "respInputItem \<Rightarrow> bool" where
  "no_tool_role it \<longleftrightarrow> ri_Role it \<noteq> ''tool''"

lemma result_ids_simps [simp]:
  "result_ids [m] = (if um_Role m = ''tool'' then [um_ToolCallID m] else [])" "result_ids [] = []"
  "call_ids [m] = map tc_ID (um_ToolCalls m)" "call_ids [] = []"
  by (simp_all add: result_ids_def call_ids_def)

lemma flush_pending [simp]:
  "pending_msgs (flushAssistant s) = pending_msgs s" "pending_ok (flushAssistant s)"
  "rs_pending (flushAssistant s) = None" "rs_msgs (flushAssistant s) = pending_msgs s"
  by (simp_all add: pending_msgs_def flushAssistant_def pending_ok_def)

lemma add_message_ids:
  "no_tool_role it \<Longrightarrow> call_ids (pending_msgs (add_message it s)) = call_ids (pending_msgs s) \<and>
     result_ids (pending_msgs (add_message it s)) = result_ids (pending_msgs s) \<and> pending_ok (add_message it s)"
  by (simp add: add_message_def Let_def message_item_def empty_message_def no_tool_role_def
      pending_msgs_def pending_ok_def)

lemma add_output_ids:
  "call_ids (pending_msgs (add_output it s)) = call_ids (pending_msgs s) \<and>
     result_ids (pending_msgs (add_output it s)) = result_ids (pending_msgs s) @ [ri_CallID it] \<and>
     pending_ok (add_output it s)"
  by (simp add: add_output_def Let_def empty_message_def pending_msgs_def pending_ok_def)

lemma add_call_ids:
  "pending_ok s \<Longrightarrow> call_ids (pending_msgs (add_call it s)) = call_ids (pending_msgs s) @ [ri_CallID it] \<and>
     result_ids (pending_msgs (add_call it s)) = result_ids (pending_msgs s) \<and> pending_ok (add_call it s)"
  by (auto simp: add_call_def Let_def item_call_def empty_message_def pending_msgs_def pending_ok_def
      split: option.splits)

lemma resp_item_ids:
  assumes "no_tool_role it" "pending_ok s"
  shows "call_ids (pending_msgs (resp_item it s)) =
      call_ids (pending_msgs s) @ (if is_call it then [ri_CallID it] else []) \<and>
    result_ids (pending_msgs (resp_item it s)) =
      result_ids (pending_msgs s) @ (if is_output it then [ri_CallID it] else []) \<and>
    pending_ok (resp_item it s)"
  using add_message_ids [OF assms(1), of s] add_output_ids [of it s] add_call_ids [OF assms(2), of it] assms(2)
  by (auto simp: resp_item_def is_call_def is_output_def)

lemma resp_items_ids:
  "list_all no_tool_role items \<Longrightarrow> pending_ok s \<Longrightarrow>
     call_ids (pending_msgs (fold resp_item items s)) =
       call_ids (pending_msgs s) @ map ri_CallID (filter is_call items) \<and>
     result_ids (pending_msgs (fold resp_item items s)) =
       result_ids (pending_msgs s) @ map ri_CallID (filter is_output items)"
proof (induction items arbitrary: s)
  case (Cons it items)
  then show ?case using resp_item_ids [of it s] Cons.IH [of "resp_item it s"] by simp
qed simp

lemma unmark_ids: "map unmark xs = map unmark ys \<Longrightarrow> call_ids xs = call_ids ys \<and> result_ids xs = result_ids ys"
proof (induction xs arbitrary: ys)
  case (Cons x xs)
  then obtain y zs where y: "ys = y # zs" "unmark x = unmark y" "map unmark xs = map unmark zs" by auto
  then have "um_ToolCalls x = um_ToolCalls y" "um_Role x = um_Role y" "um_ToolCallID x = um_ToolCallID y"
    by (metis (no_types, lifting) unmark_def upMessage.select_convs upMessage.update_convs(3)
        upMessage.surjective)+
  with Cons.IH [OF y(3)] show ?case by (simp add: y(1) call_ids_def result_ids_def)
qed simp

text \<open>
  C9: an item list that decodes keeps its calls: the upstream messages carry the call ids of the
  \<open>function_call\<close> items and, as tool messages, those of the \<open>function_call_output\<close> items, each
  once and in order, however messages and unknown items are mixed between them.
\<close>

theorem response_calls_preserved:
  assumes "dec_string [] d = None"
    and "dec_list zero_item (dec_struct item_fields) [] d = Some items"
    and "list_all no_tool_role items"
    and "respToUpstream instructions (Some d) = Ok (system, msgs)"
  shows "call_ids msgs = map ri_CallID (filter is_call items) \<and>
    result_ids msgs = map ri_CallID (filter is_output items)"
proof -
  define s where "s = fold resp_item items
    \<lparr>rs_sys = (if instructions \<noteq> [] then [instructions] else []), rs_msgs = [], rs_pending = None\<rparr>"
  have "msgs = ensureCacheMarker (pending_msgs s)"
    using assms(1,2,4) by (simp add: respToUpstream_def s_def Let_def)
  then have "call_ids msgs = call_ids (pending_msgs s)" "result_ids msgs = result_ids (pending_msgs s)"
    using unmark_ids [OF ensureCacheMarker_unmark] by simp_all
  then show ?thesis
    using resp_items_ids [OF assms(3)] by (simp add: s_def pending_ok_def pending_msgs_def)
qed

definition call_doc :: jdoc where
  "call_doc = DArr ''['' [
     DObj ''{'' [(''type'', DStr ''t'' ''function_call''), (''call_id'', DStr ''i'' ''c1''), (''name'', DStr ''n'' ''f'')],
     DObj ''{'' [(''type'', DStr ''t'' ''function_call_output''), (''call_id'', DStr ''i'' ''c1''), (''output'', DStr ''o'' ''ok'')]]"

lemma call_doc_items:
  "dec_list zero_item (dec_struct item_fields) [] call_doc = Some
     [zero_item\<lparr>ri_Type := ''function_call'', ri_CallID := ''c1'', ri_Name := ''f''\<rparr>,
      zero_item\<lparr>ri_Type := ''function_call_output'', ri_CallID := ''c1'', ri_Output := ''ok''\<rparr>]"
  by (simp add: call_doc_def item_fields_def zero_item_def fld_def find_field_def lower_char_def char_eval)

lemma call_doc_list: "dec_string [] call_doc = None"
  by (simp add: call_doc_def)

lemma response_calls_preserved_witness:
  "\<exists>system msgs. respToUpstream [] (Some call_doc) = Ok (system, msgs) \<and>
     call_ids msgs = [''c1''] \<and> result_ids msgs = [''c1'']"
proof -
  obtain system msgs where r: "respToUpstream [] (Some call_doc) = Ok (system, msgs)"
    using call_doc_list call_doc_items by (simp add: respToUpstream_def Let_def)
  from response_calls_preserved [OF call_doc_list call_doc_items _ r] show ?thesis
    using r by (simp add: zero_item_def no_tool_role_def is_call_def is_output_def)
qed

section \<open>Where the two writers differ\<close>

text \<open>A stream without items completes with \<open>"output": null\<close>; the collected response has \<open>[]\<close>.\<close>

lemma empty_stream_output_null:
  "streamResponses ids k model ([], None) = [(1, Created), (2, InProgress), (3, Completed ''completed'' [] no_usage)]"
  "map_of (case completed_json r [] u now st of JMap ms \<Rightarrow> ms | _ \<Rightarrow> []) ''output'' = Some JNull"
  by (simp_all add: streamResponses_def Let_def complete_def closeItem_def resp_emit_def new_respStream_def
      resp_status_def completed_json_def map_of_map_set)

text \<open>Usage that comes with a choice but before the finish reason is only collected.\<close>

lemma early_usage_ignored:
  assumes "ck_Choices c = [ch]" "ck_Usage c = Some u" "finish_reason ch = None" "ch_Delta ch = zero_delta"
  shows "st_usage (resp_chunk ids c st) = st_usage st" "rc_usage (rc_chunk c a) = setUsage u"
  using assms by (simp_all add: resp_chunk_def rc_chunk_def resp_finish_def Let_def zero_delta_def
      resp_content_def resp_reasoning_def)

end
