(* ===== verification/Retry.thy ===== *)
theory Retry
  imports Go_Json
begin

text \<open>
  \<open>callUpstream\<close> of \<open>proxy.go\<close>: retries on transport errors, expired tokens, retryable statuses
  and queueing, with \<open>queueWait\<close>, the \<open>Retry-After\<close> header and the waits. What the outside does
  (the answer to each attempt, the token refresh, whether a wait is cut short) is an
  environment; the loop returns its result and the trace of what it did.
\<close>

section \<open>Durations\<close>

text \<open>A \<open>time.Duration\<close> is a 64-bit count of nanoseconds.\<close>

definition millisecond :: int where "millisecond = 1000000"
definition second :: int where "second = 1000000000"

definition two63 :: nat where "two63 = 9223372036854775808"

text \<open>
  \<open>time.ParseDuration\<close>. Its one floating-point step, the nanoseconds of a fraction, is the
  argument \<open>frac\<close> (digits, number of digits, unit).
\<close>

fun leadingInt :: "nat \<Rightarrow> string \<Rightarrow> (nat \<times> string) option" where
  "leadingInt x [] = Some (x, [])"
| "leadingInt x (c # s) =
     (if \<not> is_digit c then Some (x, c # s)
      else if x > two63 div 10 then None
      else (let y = x * 10 + (ord c - 48) in if y > two63 then None else leadingInt y s))"

fun leadingFraction :: "bool \<Rightarrow> nat \<Rightarrow> nat \<Rightarrow> string \<Rightarrow> nat \<times> nat \<times> string" where
  "leadingFraction overflow x scale [] = (x, scale, [])"
| "leadingFraction overflow x scale (c # s) =
     (if \<not> is_digit c then (x, scale, c # s)
      else if overflow then leadingFraction True x scale s
      else if x > (two63 - 1) div 10 then leadingFraction True x scale s
      else (let y = x * 10 + (ord c - 48) in
            if y > two63 then leadingFraction True x scale s
            else leadingFraction False y (scale + 1) s))"

definition unit_ns :: "string \<Rightarrow> nat option" where
  "unit_ns u = map_of
     [(''ns'', 1), (''us'', 1000), ([CHR 0xC2, CHR 0xB5, CHR ''s''], 1000),
      ([CHR 0xCE, CHR 0xBC, CHR ''s''], 1000), (''ms'', 1000000), (''s'', 1000000000),
      (''m'', 60000000000), (''h'', 3600000000000)] u"

definition unit_char :: "char \<Rightarrow> bool" where
  "unit_char c \<longleftrightarrow> c \<noteq> CHR ''.'' \<and> \<not> is_digit c"

text \<open>One \<open>number unit\<close> group: its nanoseconds and the rest.\<close>

definition duration_group :: "(nat \<Rightarrow> nat \<Rightarrow> nat \<Rightarrow> nat) \<Rightarrow> string \<Rightarrow> (nat \<times> string) option" where
  "duration_group frac s =
     (if s = [] \<or> \<not> (hd s = CHR ''.'' \<or> is_digit (hd s)) then None
      else (case leadingInt 0 s of None \<Rightarrow> None
        | Some (v, s1) \<Rightarrow>
            let pre = (length s1 \<noteq> length s);
                (f, scale, s2) = (if s1 \<noteq> [] \<and> hd s1 = CHR ''.''
                                  then leadingFraction False 0 0 (tl s1) else (0, 0, s1));
                post = (s1 \<noteq> [] \<and> hd s1 = CHR ''.'' \<and> length s2 \<noteq> length (tl s1));
                u = takeWhile unit_char s2; rest = dropWhile unit_char s2
            in if \<not> pre \<and> \<not> post then None
               else if u = [] then None
               else (case unit_ns u of None \<Rightarrow> None
                 | Some unit \<Rightarrow>
                     if v > two63 div unit then None
                     else (let w = v * unit + (if f > 0 then frac f scale unit else 0)
                           in if w > two63 then None else Some (w, rest)))))"

text \<open>The loop over groups; each group takes at least one byte, so the length is enough fuel.\<close>

fun duration_groups :: "(nat \<Rightarrow> nat \<Rightarrow> nat \<Rightarrow> nat) \<Rightarrow> nat \<Rightarrow> nat \<Rightarrow> string \<Rightarrow> nat option" where
  "duration_groups frac 0 d s = (if s = [] then Some d else None)"
| "duration_groups frac (Suc n) d s =
     (if s = [] then Some d
      else (case duration_group frac s of None \<Rightarrow> None
        | Some (v, rest) \<Rightarrow> if d + v > two63 then None else duration_groups frac n (d + v) rest))"

definition ParseDuration :: "(nat \<Rightarrow> nat \<Rightarrow> nat \<Rightarrow> nat) \<Rightarrow> string \<Rightarrow> int option" where
  "ParseDuration frac s =
     (let neg = (s \<noteq> [] \<and> hd s = CHR ''-'');
          t = (if s \<noteq> [] \<and> (hd s = CHR ''-'' \<or> hd s = CHR ''+'') then tl s else s)
      in if t = ''0'' then Some 0
         else if t = [] then None
         else (case duration_groups frac (length t) 0 t of None \<Rightarrow> None
           | Some d \<Rightarrow> if neg then Some (- int d)
                      else if d > two63 - 1 then None else Some (int d)))"

section \<open>Queueing\<close>

record queueInfo =
  qi_IsQueued :: bool
  qi_WaitTime :: int

record queueBody =
  qb_Code :: string
  qb_RetryAfterMs :: int
  qb_Queue :: "queueInfo option"

definition queue_fields :: "(string \<times> queueInfo decoder) list" where
  "queue_fields = [(''isQueued'', fld qi_IsQueued qi_IsQueued_update dec_bool),
                   (''waitTime'', fld qi_WaitTime qi_WaitTime_update dec_int)]"

definition queueBody_fields :: "(string \<times> queueBody decoder) list" where
  "queueBody_fields =
     [(''code'', fld qb_Code qb_Code_update dec_string),
      (''retryAfterMs'', fld qb_RetryAfterMs qb_RetryAfterMs_update dec_int),
      (''queue'', fld qb_Queue qb_Queue_update
         (dec_ptr \<lparr>qi_IsQueued = False, qi_WaitTime = 0\<rparr> (dec_struct queue_fields)))]"

definition wait_ms :: "int \<Rightarrow> int" where
  "wait_ms ms = wrap64 (ms * millisecond)"

definition default_ms :: "int \<Rightarrow> int" where
  "default_ms ms = (if ms \<le> 0 then 2000 else ms)"

definition queue_wait_of :: "queueBody \<Rightarrow> int option" where
  "queue_wait_of p =
     (case qb_Queue p of
        Some q \<Rightarrow>
          if qi_IsQueued q
          then Some (wait_ms (default_ms (if qi_WaitTime q \<le> 0 then qb_RetryAfterMs p else qi_WaitTime q)))
          else if qb_Code p = ''10605'' then Some (wait_ms (default_ms (qb_RetryAfterMs p))) else None
      | None \<Rightarrow> if qb_Code p = ''10605'' then Some (wait_ms (default_ms (qb_RetryAfterMs p))) else None)"

definition queueWait :: "string \<Rightarrow> int option" where
  "queueWait body =
     (case unmarshal \<lparr>qb_Code = [], qb_RetryAfterMs = 0, qb_Queue = None\<rparr> (dec_struct queueBody_fields) body of
        None \<Rightarrow> None | Some p \<Rightarrow> queue_wait_of p)"

definition retryableStatus :: "int \<Rightarrow> bool" where
  "retryableStatus code \<longleftrightarrow> code = 408 \<or> code = 429 \<or> (code \<ge> 500 \<and> code < 600)"

section \<open>The loop\<close>

record response =
  re_status :: int
  re_retryAfter :: string
  re_body :: string

text \<open>
  The environment: the answer of attempt \<open>k\<close>, whether a forced refresh succeeds, and whether the
  wait after attempt \<open>k\<close> runs to its end before the context is cancelled.
\<close>

record environment =
  env_call :: "nat \<Rightarrow> (string, response) result"
  env_refresh :: bool
  env_sleep :: "nat \<Rightarrow> bool"
  env_frac :: "nat \<Rightarrow> nat \<Rightarrow> nat \<Rightarrow> nat"

datatype action = Attempt nat | Refresh | Sleep int

datatype call_result =
    Answered response
  | TransportError string
  | Cancelled
  | Unreachable

definition maxAttempts :: nat where "maxAttempts = 4"

definition backoff :: "(nat \<Rightarrow> nat \<Rightarrow> nat \<Rightarrow> nat) \<Rightarrow> nat \<Rightarrow> string \<Rightarrow> int" where
  "backoff frac attempt retryAfter =
     (let base = wrap64 (2 ^ (attempt - 1) * second) in
      if retryAfter = [] then base
      else (case ParseDuration frac (retryAfter @ ''s'') of Some secs \<Rightarrow> secs | None \<Rightarrow> base))"

definition clamp_wait :: "int \<Rightarrow> int" where
  "clamp_wait w = (if w > 30 * second then 30 * second else w)"

text \<open>The first 8192 bytes of an error body are kept.\<close>

definition errorResponse :: "response \<Rightarrow> response" where
  "errorResponse r = r\<lparr>re_body := take 8192 (re_body r)\<rparr>"

text \<open>What to do after an answer: stop with a result, or go on to the next attempt.\<close>

datatype decision = Stop call_result | GoOn

definition decide :: "environment \<Rightarrow> nat \<Rightarrow> (string, response) result \<Rightarrow> action list \<times> decision" where
  "decide env k outcome =
     (case outcome of
        Err m \<Rightarrow>
          if k < maxAttempts
          then ([Sleep (wrap64 (int k * second))], if env_sleep env k then GoOn else Stop Cancelled)
          else ([], Stop (TransportError m))
      | Ok r \<Rightarrow>
          if re_status r = 200 then ([], Stop (Answered r))
          else if re_status r = 401 then
            (if k = 1 then ([Refresh], if env_refresh env then GoOn else Stop (Answered (errorResponse r)))
             else ([], Stop (Answered (errorResponse r))))
          else
            let queued = queueWait (take 8192 (re_body r)) in
            if retryableStatus (re_status r) \<or> queued \<noteq> None then
              (if k \<ge> maxAttempts then ([], Stop (Answered (errorResponse r)))
               else
                 let wait = (case queued of Some w \<Rightarrow> w | None \<Rightarrow> backoff (env_frac env) k (re_retryAfter r))
                 in ([Sleep (clamp_wait wait)], if env_sleep env k then GoOn else Stop Cancelled))
            else ([], Stop (Answered (errorResponse r))))"

fun call_loop :: "environment \<Rightarrow> nat list \<Rightarrow> action list \<times> call_result" where
  "call_loop env [] = ([], Unreachable)"
| "call_loop env (k # ks) =
     (case decide env k (env_call env k) of
        (acts, Stop res) \<Rightarrow> (Attempt k # acts, res)
      | (acts, GoOn) \<Rightarrow>
          (case call_loop env ks of (acts', res) \<Rightarrow> (Attempt k # acts @ acts', res)))"

definition callUpstream :: "environment \<Rightarrow> action list \<times> call_result" where
  "callUpstream env = call_loop env [1..<maxAttempts + 1]"

section \<open>Bounds\<close>

definition attempts_of :: "action list \<Rightarrow> nat list" where
  "attempts_of acts = concat (map (\<lambda>a. case a of Attempt k \<Rightarrow> [k] | _ \<Rightarrow> []) acts)"

definition refreshes :: "action list \<Rightarrow> nat" where
  "refreshes acts = length (filter (\<lambda>a. a = Refresh) acts)"

definition short_sleep :: "action \<Rightarrow> bool" where
  "short_sleep a = (case a of Sleep w \<Rightarrow> w \<le> 30 * second | _ \<Rightarrow> True)"

lemma refreshes_simps [simp]:
  "refreshes [] = 0" "refreshes (a # acts) = (if a = Refresh then 1 else 0) + refreshes acts"
  "refreshes (xs @ ys) = refreshes xs + refreshes ys"
  by (simp_all add: refreshes_def)

lemma attempts_simps [simp]:
  "attempts_of [] = []" "attempts_of (Attempt k # acts) = k # attempts_of acts"
  "attempts_of (Refresh # acts) = attempts_of acts" "attempts_of (Sleep w # acts) = attempts_of acts"
  "attempts_of (xs @ ys) = attempts_of xs @ attempts_of ys"
  by (simp_all add: attempts_of_def)

lemma short_sleep_simps [simp]:
  "short_sleep (Attempt k)" "short_sleep Refresh" "short_sleep (Sleep w) \<longleftrightarrow> w \<le> 30 * second"
  by (simp_all add: short_sleep_def)

lemma clamp_le: "clamp_wait w \<le> 30 * second"
  by (simp add: clamp_wait_def)

lemma decide_actions:
  assumes "decide env k out = (acts, d)" "k \<le> 4"
  shows "attempts_of acts = [] \<and> list_all short_sleep acts \<and> refreshes acts \<le> (if k = 1 then 1 else 0)"
proof -
  have "k = 0 \<or> k = 1 \<or> k = 2 \<or> k = 3 \<or> k = 4" using assms(2) by linarith
  then have "wrap64 (int k * second) \<le> 30 * second" by (auto simp: wrap64_def second_def)
  with assms(1) show ?thesis
    by (auto simp: decide_def Let_def clamp_le split: sum.splits if_splits)
qed

lemma loop_bounds:
  assumes "call_loop env ks = (acts, res)" "list_all (\<lambda>k. k \<le> 4) ks" "distinct ks"
  shows "prefix (attempts_of acts) ks \<and> list_all short_sleep acts \<and>
    refreshes acts \<le> (if 1 \<in> set ks then 1 else 0)"
  using assms
proof (induction ks arbitrary: acts res)
  case (Cons k ks)
  obtain a1 d where d: "decide env k (env_call env k) = (a1, d)" by fastforce
  have a1: "attempts_of a1 = []" "list_all short_sleep a1" "refreshes a1 \<le> (if k = 1 then 1 else 0)"
    using decide_actions [OF d] Cons.prems(2) by auto
  show ?case
  proof (cases d)
    case (Stop r)
    with d a1 Cons.prems show ?thesis by (auto split: if_splits)
  next
    case GoOn
    obtain a2 r2 where r: "call_loop env ks = (a2, r2)" by fastforce
    from Cons.IH [OF this] Cons.prems(2,3) have "prefix (attempts_of a2) ks" "list_all short_sleep a2"
      "refreshes a2 \<le> (if 1 \<in> set ks then 1 else 0)" by simp_all
    with d GoOn r a1 Cons.prems show ?thesis by (auto split: if_splits)
  qed
qed simp

text \<open>The last attempt never asks for another one.\<close>

lemma decide_last: "snd (decide env 4 out) \<noteq> GoOn"
  by (simp add: decide_def Let_def maxAttempts_def split: sum.split)

lemma loop_reachable:
  "k \<le> 4 \<Longrightarrow> snd (call_loop env [k..<5]) \<noteq> Unreachable"
proof (induction "4 - k" arbitrary: k)
  case 0
  then have "k = 4" by simp
  moreover have "[4..<5] = [4::nat]" by (simp add: upt_rec)
  ultimately show ?case
    using decide_last [of env "env_call env 4"]
    by (cases "decide env 4 (env_call env 4)"; cases "snd (decide env 4 (env_call env 4))")
      (auto simp: decide_def Let_def maxAttempts_def split: sum.splits if_splits)
next
  case (Suc n)
  then have k: "[k..<5] = k # [Suc k..<5]" "n = 4 - Suc k" "Suc k \<le> 4" by (simp_all add: upt_rec)
  obtain acts d where d: "decide env k (env_call env k) = (acts, d)" by fastforce
  then have "d \<noteq> Stop Unreachable"
    by (auto simp: decide_def Let_def split: sum.splits if_splits)
  moreover obtain acts' res where "call_loop env [Suc k..<5] = (acts', res)" by fastforce
  ultimately show ?case
    using Suc.hyps(1) [OF k(2,3)] by (cases d) (simp_all add: k(1) d)
qed

section \<open>Properties\<close>

text \<open>
  C10: \<open>callUpstream\<close> always ends: it makes attempts 1, 2 and so on, at most four of them, refreshes
  the token at most once, never waits more than 30 seconds at a time, and never runs into its
  \<open>unreachable\<close> error.
\<close>

theorem calls_bounded:
  "prefix (attempts_of (fst (callUpstream env))) [1, 2, 3, 4] \<and>
   refreshes (fst (callUpstream env)) \<le> 1 \<and>
   list_all short_sleep (fst (callUpstream env)) \<and>
   snd (callUpstream env) \<noteq> Unreachable"
proof -
  have c: "callUpstream env = call_loop env [1..<5]"
    unfolding callUpstream_def maxAttempts_def by simp
  have u: "[1::nat, 2, 3, 4] = [1..<5]" by (simp add: upt_rec)
  obtain acts res where r: "call_loop env [1..<5] = (acts, res)" by fastforce
  have "list_all (\<lambda>k. k \<le> 4) [1..<5]" by (auto simp: list_all_iff)
  from loop_bounds [OF r this] loop_reachable [of 1 env] show ?thesis
    unfolding c u r by auto
qed

text \<open>
  A queued answer is honoured: a positive wait time that fits is waited in full up to 30
  seconds before the next attempt, as long as attempts are left.
\<close>

lemma queue_wait_honoured:
  assumes "queueWait (take 8192 (re_body r)) = Some w" and "re_status r \<noteq> 200" and "re_status r \<noteq> 401"
    and "k < maxAttempts"
  shows "fst (decide env k (Ok r)) = [Sleep (min w (30 * second))] \<and>
    (env_sleep env k \<longrightarrow> snd (decide env k (Ok r)) = GoOn)"
  using assms by (auto simp: decide_def Let_def clamp_wait_def)

definition queued_answer :: response where
  "queued_answer = \<lparr>re_status = 503, re_retryAfter = [],
     re_body = ''{'' @ DQ # ''code'' @ DQ # '':'' @ DQ # ''10605'' @ DQ # ''}''\<rparr>"

definition calm :: environment where
  "calm = \<lparr>env_call = (\<lambda>k. Ok queued_answer), env_refresh = True, env_sleep = (\<lambda>k. True),
     env_frac = (\<lambda>f n u. 0)\<rparr>"

lemma queued_wait: "queueWait (take 8192 (re_body queued_answer)) = Some 2000000000"
  by (simp add: queueWait_def queued_answer_def json_eval decode_eval queueBody_fields_def
      queue_wait_of_def default_ms_def wait_ms_def wrap64_def millisecond_def)

lemma queue_wait_honoured_witness: "fst (decide calm 1 (Ok queued_answer)) = [Sleep 2000000000]"
  using queue_wait_honoured [OF queued_wait, of 1 calm]
  by (simp add: queued_answer_def maxAttempts_def second_def)

text \<open>A wait time of more than 2 ^ 63 nanoseconds wraps around: the clamp does not see it.\<close>

lemma queue_wait_overflow:
  "queue_wait_of \<lparr>qb_Code = [], qb_RetryAfterMs = 0,
      qb_Queue = Some \<lparr>qi_IsQueued = True, qi_WaitTime = 9223372036855\<rparr>\<rparr> = Some (- 9223372036854551616)"
  "clamp_wait (- 9223372036854551616) < 0"
  by (simp_all add: queue_wait_of_def default_ms_def wait_ms_def wrap64_def millisecond_def
      clamp_wait_def second_def)

end
