(* ===== verification/Local_Guard.thy ===== *)
theory Local_Guard
  imports Native_Local
begin

text \<open>
  Access control: the configuration check and the request guard of the native local mode
  (\<open>native_local.go\<close>), the API key check (\<open>authOK\<close>, \<open>proxy.go\<close>), the session table
  (\<open>sessionFor\<close>), and the admission gate of the server (\<open>app.go\<close>). The guard and the gate are
  shared by concurrent requests: each is a step relation over arrivals and departures.
\<close>

section \<open>Addresses\<close>

text \<open>\<open>net.SplitHostPort\<close>: the host, or an error.\<close>

definition last_colon :: "string \<Rightarrow> nat option" where
  "last_colon s =
     (if CHR '':'' \<in> set s then Some (length s - 1 - length (takeWhile (\<lambda>c. c \<noteq> CHR '':'') (rev s))) else None)"

definition SplitHostPort :: "string \<Rightarrow> (string \<times> string) option" where
  "SplitHostPort hp =
     (case last_colon hp of None \<Rightarrow> None
      | Some i \<Rightarrow>
          if hd hp = CHR ''['' then
            (if CHR '']'' \<notin> set hp then None
             else
               let e = length (takeWhile (\<lambda>c. c \<noteq> CHR '']'') hp) in
               if e + 1 \<noteq> i then None
               else if CHR ''['' \<in> set (tl hp) \<or> CHR '']'' \<in> set (drop (e + 1) hp) then None
               else Some (take (e - 1) (tl hp), drop (i + 1) hp))
          else if CHR '':'' \<in> set (take i hp) then None
          else if CHR ''['' \<in> set hp \<or> CHR '']'' \<in> set hp then None
          else Some (take i hp, drop (i + 1) hp))"

definition localHost :: "string \<Rightarrow> bool" where
  "localHost name \<longleftrightarrow> name = ''127.0.0.1'' \<or> name = ''localhost'' \<or> name = ''::1''"

section \<open>The configuration\<close>

record appConfig =
  cfg_addr :: string
  cfg_sk :: string
  cfg_authDir :: string
  cfg_inferEndpoint :: string
  cfg_openapiEndpoint :: string
  cfg_webEndpoint :: string
  cfg_modelMapJSON :: string
  cfg_defaultModel :: string
  cfg_oneMModel :: string
  cfg_catalogPath :: string
  cfg_dumpDir :: string
  cfg_login :: bool
  cfg_loginPAT :: string
  cfg_readOnlyAuth :: bool
  cfg_contextPrefsJSON :: string
  cfg_verbose :: bool

datatype config_error = NotLoopback | NoCredential | DumpsEnabled | NotReadOnly | WrongEndpoints

definition validateLocalNativeConfig :: "bool \<Rightarrow> appConfig \<Rightarrow> config_error option" where
  "validateLocalNativeConfig locked cfg =
     (if \<not> locked then None
      else if map_option fst (SplitHostPort (cfg_addr cfg)) \<noteq> Some ''127.0.0.1'' then Some NotLoopback
      else if length (cfg_sk cfg) < 32 then Some NoCredential
      else if cfg_dumpDir cfg \<noteq> [] \<or> cfg_verbose cfg then Some DumpsEnabled
      else if \<not> cfg_readOnlyAuth cfg then Some NotReadOnly
      else if cfg_inferEndpoint cfg \<noteq> ''https://gateway.qoder.com.cn'' \<or>
              cfg_openapiEndpoint cfg \<noteq> ''https://openapi.qoder.com.cn'' \<or>
              cfg_webEndpoint cfg \<noteq> ''https://qoder.cn'' then Some WrongEndpoints
      else None)"

section \<open>The API key\<close>

text \<open>The two header values the check reads; an absent header is the empty string.\<close>

definition authOK :: "string \<Rightarrow> string \<Rightarrow> string \<Rightarrow> bool" where
  "authOK sk xApiKey authorization =
     (if sk = [] then True
      else if xApiKey = sk then True
      else HasPrefix authorization ''Bearer '' \<and> TrimPrefix authorization ''Bearer '' = sk)"

lemma authOK_iff:
  "authOK sk k a \<longleftrightarrow> sk = [] \<or> k = sk \<or> a = ''Bearer '' @ sk"
proof -
  have "HasPrefix a ''Bearer '' \<and> TrimPrefix a ''Bearer '' = sk \<longleftrightarrow> a = ''Bearer '' @ sk"
    by (auto simp: HasPrefix_def TrimPrefix_def) (metis append_take_drop_id append_Cons append_Nil)
  then show ?thesis by (auto simp: authOK_def)
qed

section \<open>Sessions\<close>

text \<open>The session table; \<open>fresh\<close> is what \<open>newUUID\<close> returns when it is called.\<close>

definition sessionFor :: "string \<Rightarrow> string \<Rightarrow> (string \<times> string) list \<Rightarrow> string \<times> (string \<times> string) list" where
  "sessionFor fresh clientModel sessions =
     (case map_of sessions clientModel of
        Some i \<Rightarrow> (i, sessions)
      | None \<Rightarrow> (''q2a-'' @ fresh, map_set clientModel (''q2a-'' @ fresh) sessions))"

lemma sessionFor_stable:
  "map_of (snd (sessionFor f m ss)) m = Some (fst (sessionFor f m ss))"
  "fst (sessionFor g m (snd (sessionFor f m ss))) = fst (sessionFor f m ss)"
  "k \<noteq> m \<Longrightarrow> map_of (snd (sessionFor f m ss)) k = map_of ss k"
  by (auto simp: sessionFor_def map_of_map_set split: option.split)

section \<open>The request guard\<close>

text \<open>
  What the guard reads of a request: the Host header, the Origin header, and the path. The host
  name of an origin (\<open>url.Parse\<close> and \<open>Hostname\<close>) is given by \<open>originHost\<close>, \<open>None\<close> when it does not
  parse.
\<close>

record request =
  rq_host :: string
  rq_origin :: string
  rq_path :: string

datatype verdict = Refuse int | Direct | NeedsSlot

definition open_path :: "string \<Rightarrow> bool" where
  "open_path p \<longleftrightarrow> p = ''/health'' \<or> p = ''/_qoder/shutdown'' \<or> p = ''/v1/models''"

definition guard_verdict :: "bool \<Rightarrow> (string \<Rightarrow> string option) \<Rightarrow> request \<Rightarrow> verdict" where
  "guard_verdict locked originHost r =
     (if \<not> locked then Direct
      else if (case SplitHostPort (rq_host r) of None \<Rightarrow> True | Some (h, p) \<Rightarrow> \<not> localHost h) then Refuse 403
      else if rq_origin r \<noteq> [] \<and> (case originHost (rq_origin r) of None \<Rightarrow> True | Some h \<Rightarrow> \<not> localHost h)
      then Refuse 403
      else if open_path (rq_path r) then Direct
      else NeedsSlot)"

definition max_slots :: nat where "max_slots = 4"

text \<open>
  The guard's state: the requests being served with a slot, and without. A step is a request that
  is refused, admitted, or done. The body limit (8 MiB) is on the request that got a slot.
\<close>

record guardState =
  gs_slots :: "nat list"
  gs_direct :: "nat list"

datatype guardEvent = Arrive nat request | Depart nat
datatype guardReply = Served | Rejected int | Done

inductive guard_step ::
  "bool \<Rightarrow> (string \<Rightarrow> string option) \<Rightarrow> guardState \<Rightarrow> guardEvent \<Rightarrow> guardReply \<Rightarrow> guardState \<Rightarrow> bool"
  for locked originHost
  where
    refuse: "guard_verdict locked originHost r = Refuse code \<Longrightarrow>
      guard_step locked originHost s (Arrive i r) (Rejected code) s"
  | direct: "guard_verdict locked originHost r = Direct \<Longrightarrow>
      guard_step locked originHost s (Arrive i r) Served (s\<lparr>gs_direct := i # gs_direct s\<rparr>)"
  | take_slot: "guard_verdict locked originHost r = NeedsSlot \<Longrightarrow> length (gs_slots s) < max_slots \<Longrightarrow>
      guard_step locked originHost s (Arrive i r) Served (s\<lparr>gs_slots := i # gs_slots s\<rparr>)"
  | full: "guard_verdict locked originHost r = NeedsSlot \<Longrightarrow> \<not> length (gs_slots s) < max_slots \<Longrightarrow>
      guard_step locked originHost s (Arrive i r) (Rejected 429) s"
  | leave_slot: "i \<in> set (gs_slots s) \<Longrightarrow>
      guard_step locked originHost s (Depart i) Done (s\<lparr>gs_slots := remove1 i (gs_slots s)\<rparr>)"
  | leave_direct: "i \<notin> set (gs_slots s) \<Longrightarrow> i \<in> set (gs_direct s) \<Longrightarrow>
      guard_step locked originHost s (Depart i) Done (s\<lparr>gs_direct := remove1 i (gs_direct s)\<rparr>)"

inductive_simps arrive_simps: "guard_step locked oh s (Arrive i r) reply t"
inductive_cases departE: "guard_step locked oh s (Depart i) reply t"

inductive guard_reach :: "bool \<Rightarrow> (string \<Rightarrow> string option) \<Rightarrow> guardState \<Rightarrow> bool"
  for locked originHost
  where
    start: "guard_reach locked originHost \<lparr>gs_slots = [], gs_direct = []\<rparr>"
  | next_state: "guard_reach locked originHost s \<Longrightarrow> guard_step locked originHost s ev reply t \<Longrightarrow>
      guard_reach locked originHost t"

lemma step_slots:
  "guard_step locked oh s ev reply t \<Longrightarrow> length (gs_slots s) \<le> max_slots \<Longrightarrow> length (gs_slots t) \<le> max_slots"
  by (induction rule: guard_step.induct) (auto simp: length_remove1)

lemma reach_slots: "guard_reach locked oh s \<Longrightarrow> length (gs_slots s) \<le> max_slots"
  by (induction rule: guard_reach.induct) (auto dest: step_slots)

section \<open>The admission gate\<close>

text \<open>
  Go's \<open>handlerAdmissionGate\<close>: the mutex makes each of these a single step. \<open>gate_quiet\<close> is the
  condition \<open>wait\<close> blocks on.
\<close>

record gateState =
  ga_closing :: bool
  ga_active :: nat

datatype gateEvent = Enter | Leave | CloseAdmission

definition gate_step :: "gateEvent \<Rightarrow> gateState \<Rightarrow> gateState \<times> int option" where
  "gate_step ev g =
     (case ev of
        Enter \<Rightarrow> if ga_closing g then (g, Some 503) else (g\<lparr>ga_active := ga_active g + 1\<rparr>, None)
      | Leave \<Rightarrow> (g\<lparr>ga_active := ga_active g - 1\<rparr>, None)
      | CloseAdmission \<Rightarrow> (g\<lparr>ga_closing := True\<rparr>, None))"

definition gate_quiet :: "gateState \<Rightarrow> bool" where
  "gate_quiet g \<longleftrightarrow> ga_active g = 0"

fun gate_run :: "gateEvent list \<Rightarrow> gateState \<Rightarrow> gateState" where
  "gate_run [] g = g"
| "gate_run (e # es) g = gate_run es (fst (gate_step e g))"

lemma gate_closing_stays: "ga_closing g \<Longrightarrow> ga_closing (gate_run es g)"
  by (induction es arbitrary: g) (auto simp: gate_step_def split: gateEvent.split)

lemma gate_active_falls: "ga_closing g \<Longrightarrow> ga_active (gate_run es g) \<le> ga_active g"
proof (induction es arbitrary: g)
  case (Cons e es)
  then have "ga_closing (fst (gate_step e g))" "ga_active (fst (gate_step e g)) \<le> ga_active g"
    by (auto simp: gate_step_def split: gateEvent.split)
  with Cons.IH [of "fst (gate_step e g)"] show ?case by simp
qed simp

section \<open>Properties\<close>

text \<open>
  In the locked mode the configuration check passes exactly a configuration bound to the IPv4
  loopback address with a key of at least 32 bytes, no dumps or verbose logs, read-only
  authentication, and the three pinned endpoints.
\<close>

lemma config_check_iff:
  "validateLocalNativeConfig True cfg = None \<longleftrightarrow>
     (\<exists>port. SplitHostPort (cfg_addr cfg) = Some (''127.0.0.1'', port)) \<and>
     32 \<le> length (cfg_sk cfg) \<and> cfg_dumpDir cfg = [] \<and> \<not> cfg_verbose cfg \<and> cfg_readOnlyAuth cfg \<and>
     cfg_inferEndpoint cfg = ''https://gateway.qoder.com.cn'' \<and>
     cfg_openapiEndpoint cfg = ''https://openapi.qoder.com.cn'' \<and>
     cfg_webEndpoint cfg = ''https://qoder.cn''"
  by (auto simp: validateLocalNativeConfig_def)


definition local_request :: request where
  "local_request = \<lparr>rq_host = ''localhost:1'', rq_origin = [], rq_path = ''/v1/messages''\<rparr>"

lemma local_needs_slot: "guard_verdict True oh local_request = NeedsSlot"
  by (simp add: guard_verdict_def local_request_def SplitHostPort_def last_colon_def localHost_def open_path_def)

lemma one_in_flight: "guard_reach True oh \<lparr>gs_slots = [7], gs_direct = []\<rparr>"
proof -
  have "guard_step True oh \<lparr>gs_slots = [], gs_direct = []\<rparr> (Arrive 7 local_request) Served
      (\<lparr>gs_slots = [], gs_direct = []\<rparr>\<lparr>gs_slots := [7]\<rparr>)"
    using guard_step.take_slot [OF local_needs_slot, where s = "\<lparr>gs_slots = [], gs_direct = []\<rparr>" and i = 7]
    by (simp add: max_slots_def)
  from guard_reach.next_state [OF guard_reach.start this] show ?thesis by simp
qed


text \<open>
  The locked guard serves no request whose Host is not a local name with a port, or whose
  Origin is present and not local.
\<close>

theorem guard_serves_local_only:
  assumes "guard_step True originHost s (Arrive i r) Served t"
  shows "(\<exists>h p. SplitHostPort (rq_host r) = Some (h, p) \<and> localHost h) \<and>
    (rq_origin r = [] \<or> (\<exists>h. originHost (rq_origin r) = Some h \<and> localHost h))"
  using assms
  by (auto simp: arrive_simps guard_verdict_def split: if_splits option.splits)

lemma guard_serves_local_only_witness: "localHost ''localhost''"
proof -
  have "guard_step True Some \<lparr>gs_slots = [], gs_direct = []\<rparr> (Arrive 7 local_request) Served
      (\<lparr>gs_slots = [], gs_direct = []\<rparr>\<lparr>gs_slots := [7]\<rparr>)"
    using guard_step.take_slot [OF local_needs_slot, where s = "\<lparr>gs_slots = [], gs_direct = []\<rparr>" and i = 7]
    by (simp add: max_slots_def)
  from guard_serves_local_only [OF this] show ?thesis
    by (simp add: local_request_def SplitHostPort_def last_colon_def)
qed

text \<open>
  Once admission is closed, every later arrival is answered 503 and the number of active
  handlers never grows again, so waiting for them ends when those already in have left.
\<close>

theorem gate_closed:
  assumes "ga_closing g"
  shows "snd (gate_step Enter (gate_run es g)) = Some 503 \<and> ga_active (gate_run es g) \<le> ga_active g"
  using gate_closing_stays [OF assms, of es] gate_active_falls [OF assms, of es] by (simp add: gate_step_def)

lemma gate_closed_witness:
  "snd (gate_step Enter (gate_run [Leave, Enter] \<lparr>ga_closing = True, ga_active = 2\<rparr>)) = Some 503"
  using gate_closed [of "\<lparr>ga_closing = True, ga_active = 2\<rparr>" "[Leave, Enter]"] by simp

end
