(* ===== verification/Protocol_Error.thy ===== *)
theory Protocol_Error
  imports Go_Strings
begin

text \<open>
  \<open>protocol_error.go\<close>: the error values of the native protocol. A Go error is a tree: plain
  errors, \<open>fmt.Errorf("...: %w")\<close> wraps, \<open>errors.Join\<close>, the two context errors, and
  \<open>protocolError\<close>, which shows a public text and unwraps to an internal cause. \<open>nil\<close> is
  \<open>None\<close> where the code allows it.
\<close>

section \<open>Error values\<close>

datatype protocolErrorKind =
  InvalidInput | AuthUnavailable | BackendIncompatible | EntropyFailure | BackendFailure
| ContextClosed

fun kind_name :: "protocolErrorKind \<Rightarrow> string" where
  "kind_name InvalidInput = ''invalid-input''"
| "kind_name AuthUnavailable = ''auth-unavailable''"
| "kind_name BackendIncompatible = ''backend-incompatible''"
| "kind_name EntropyFailure = ''entropy-failure''"
| "kind_name BackendFailure = ''backend-failure''"
| "kind_name ContextClosed = ''context-closed''"

datatype go_error =
  Plain string
| Canceled
| DeadlineExceeded
| Wrap string go_error
| Joined "go_error list"
| Protocol protocolErrorKind string "go_error option"

text \<open>\<open>Error()\<close>.\<close>

fun error_text :: "go_error \<Rightarrow> string" where
  "error_text (Plain m) = m"
| "error_text Canceled = ''context canceled''"
| "error_text DeadlineExceeded = ''context deadline exceeded''"
| "error_text (Wrap m e) = m @ '': '' @ error_text e"
| "error_text (Joined es) = Join (map error_text es) [LF]"
| "error_text (Protocol k public i) = public"

text \<open>\<open>errors.Is\<close> for a value that only equals itself: the whole tree is searched.\<close>

fun errors_Is :: "go_error \<Rightarrow> go_error \<Rightarrow> bool" where
  "errors_Is (Wrap m e) target \<longleftrightarrow> Wrap m e = target \<or> errors_Is e target"
| "errors_Is (Joined es) target \<longleftrightarrow> Joined es = target \<or> list_ex (\<lambda>e. errors_Is e target) es"
| "errors_Is (Protocol k p i) target \<longleftrightarrow> Protocol k p i = target \<or>
     (case i of None \<Rightarrow> False | Some e \<Rightarrow> errors_Is e target)"
| "errors_Is e target \<longleftrightarrow> e = target"

text \<open>\<open>errors.Join\<close> drops \<open>nil\<close>s and is \<open>nil\<close> when nothing is left.\<close>

definition errors_Join :: "go_error option list \<Rightarrow> go_error option" where
  "errors_Join es = (case concat (map opt_list es) of [] \<Rightarrow> None | xs \<Rightarrow> Some (Joined xs))"

section \<open>Looking through an error\<close>

text \<open>\<open>errors.As\<close> visits the tree in preorder and stops at the first \<open>protocolError\<close>.\<close>

fun first_some :: "'a option list \<Rightarrow> 'a option" where
  "first_some [] = None"
| "first_some (None # xs) = first_some xs"
| "first_some (Some x # xs) = Some x"

fun protocolErrorFrom :: "go_error \<Rightarrow> (protocolErrorKind \<times> string \<times> go_error option) option" where
  "protocolErrorFrom (Protocol k p i) = Some (k, p, i)"
| "protocolErrorFrom (Wrap m e) = protocolErrorFrom e"
| "protocolErrorFrom (Joined es) = first_some (map protocolErrorFrom es)"
| "protocolErrorFrom e = None"

definition protocolErrorKindOf :: "go_error option \<Rightarrow> protocolErrorKind" where
  "protocolErrorKindOf err =
     (case Option.bind err protocolErrorFrom of Some (k, _, _) \<Rightarrow> k | None \<Rightarrow> BackendFailure)"

definition protocolInternalError :: "go_error option \<Rightarrow> go_error option" where
  "protocolInternalError err =
     (case Option.bind err protocolErrorFrom of Some (_, _, i) \<Rightarrow> i | None \<Rightarrow> err)"

definition protocolDiagnosticError :: "go_error option \<Rightarrow> go_error option" where
  "protocolDiagnosticError err =
     (case err of None \<Rightarrow> None
      | Some e \<Rightarrow>
          (case protocolInternalError err of
             None \<Rightarrow> err
           | Some i \<Rightarrow> if i = e then err else Some (Wrap (error_text e) i)))"

definition normalizeHostDependencyError ::
  "go_error \<Rightarrow> protocolErrorKind \<Rightarrow> string \<Rightarrow> string \<Rightarrow> go_error" where
  "normalizeHostDependencyError err kind public action =
     (if protocolErrorFrom err \<noteq> None then err else Protocol kind public (Some (Wrap action err)))"

definition mergeProtocolErrors :: "go_error option \<Rightarrow> go_error option \<Rightarrow> go_error option" where
  "mergeProtocolErrors primary secondary =
     (case (primary, secondary) of
        (None, _) \<Rightarrow> secondary
      | (Some p, None) \<Rightarrow> Some p
      | (Some p, Some s) \<Rightarrow>
          (case protocolErrorFrom p of
             Some (k, public, _) \<Rightarrow>
               Some (Protocol k public
                 (errors_Join [protocolInternalError (Some p), protocolInternalError (Some s)]))
           | None \<Rightarrow>
               Some (Protocol BackendFailure ''Qoder protocol operation failed''
                 (errors_Join [Some p, protocolInternalError (Some s)]))))"

section \<open>Properties\<close>

text \<open>The public text of a protocol error does not depend on its cause.\<close>

lemma protocol_text [simp]: "error_text (Protocol k p i) = error_text (Protocol k p j)"
  by simp

lemma protocol_from_size: "protocolErrorFrom e = Some (k, p, Some i) \<Longrightarrow> size i < size e"
proof (induction e)
  case (Joined es)
  have "first_some (map protocolErrorFrom es) = Some (k, p, Some i) \<Longrightarrow>
      \<exists>e \<in> set es. protocolErrorFrom e = Some (k, p, Some i)"
    by (induction es rule: induct_list012) (auto split: option.splits elim: first_some.elims)
  then obtain e where e: "e \<in> set es" "protocolErrorFrom e = Some (k, p, Some i)"
    using Joined.prems by auto
  then have "size i < size e" using Joined.IH by blast
  moreover have "size e < size (Joined es)" using e(1) by (simp add: size_list_estimation' less_Suc_eq_le)
  ultimately show ?case by simp
qed auto

end
