(* ===== verification/Protocol_Types.thy ===== *)
theory Protocol_Types
  imports Protocol_Error Go_Json
begin

text \<open>
  \<open>protocol.go\<close> and \<open>protocol_host.go\<close>: the data the native protocol passes around, and the two
  host dependencies, a clock and a source of entropy.
\<close>

section \<open>Data\<close>

record runtimeFieldInput =
  fi_UID :: string
  fi_OrganizationID :: string
  fi_OrganizationTags :: "string list option"   \<comment> \<open>\<open>None\<close> is the nil slice\<close>
  fi_DataPolicyAgreed :: bool

record runtimeFieldOutput =
  fo_EncryptUserInfo :: string
  fo_Key :: string

record protocolUserInfo =
  pu_UID :: string
  pu_EncryptUserInfo :: string
  pu_Key :: string
  pu_OrganizationID :: string
  pu_OrganizationTags :: "string list option"
  pu_DataPolicyAgreed :: bool

record protocolScene =
  sc_ClientType :: string
  sc_BusinessProduct :: string
  sc_BusinessType :: string
  sc_Scene :: string

record protocolContextConfig =
  cc_MachineID :: string
  cc_Version :: string
  cc_User :: protocolUserInfo
  cc_Scene :: protocolScene

record inferRequestInput =
  ii_Endpoint :: string
  ii_Body :: string
  ii_ModelKey :: string
  ii_ModelSource :: string

type_synonym header = "(string \<times> string) list"

record preparedRequest =
  pr_URL :: string
  pr_Header :: header
  pr_Body :: string

definition defaultProtocolScene :: protocolScene where
  "defaultProtocolScene = \<lparr>sc_ClientType = ''5'', sc_BusinessProduct = ''cli'',
     sc_BusinessType = ''agent'', sc_Scene = ''assistant''\<rparr>"

definition tags_json :: "string list option \<Rightarrow> json" where
  "tags_json ts = (case ts of None \<Rightarrow> JNull | Some xs \<Rightarrow> JArr (map JStr xs))"

definition runtimeFieldInput_json :: "runtimeFieldInput \<Rightarrow> json" where
  "runtimeFieldInput_json i =
     JObj [(''uid'', JStr (fi_UID i)), (''organization_id'', JStr (fi_OrganizationID i)),
       (''organization_tags'', tags_json (fi_OrganizationTags i)),
       (''data_policy_agreed'', JBool (fi_DataPolicyAgreed i))]"

section \<open>Host dependencies\<close>

text \<open>
  A source of entropy answers its reads one after the other: \<open>en i n\<close> is the outcome of the
  \<open>i\<close>-th read, of \<open>n\<close> bytes. What \<open>io.ReadFull\<close> promises is \<open>fills\<close>: a read that succeeds has
  filled the slice. The clock gives the Unix time in seconds. Either may be missing (nil).
\<close>

type_synonym entropy = "nat \<Rightarrow> nat \<Rightarrow> (go_error, string) result"
type_synonym clock = "(go_error, int) result"

definition fills :: "entropy \<Rightarrow> bool" where
  "fills en \<longleftrightarrow> (\<forall>i n s. en i n = Ok s \<longrightarrow> length s = n)"

lemma fillsD: "fills en \<Longrightarrow> en i n = Ok s \<Longrightarrow> length s = n"
  by (simp add: fills_def)

record protocolHostDeps =
  hd_Clock :: "clock option"
  hd_Entropy :: "entropy option"

text \<open>
  A context is known by what \<open>Err()\<close> returns at the successive points where the code asks, and by
  the host dependencies an operation may have put into it.
\<close>

record context_state =
  cx_Err :: "nat \<Rightarrow> go_error option"
  cx_Deps :: "protocolHostDeps option"

definition protocolHostDepsFor :: "context_state \<Rightarrow> protocolHostDeps \<Rightarrow> protocolHostDeps" where
  "protocolHostDepsFor ctx fallback = (case cx_Deps ctx of Some deps \<Rightarrow> deps | None \<Rightarrow> fallback)"

definition withProtocolHostDeps :: "context_state \<Rightarrow> protocolHostDeps \<Rightarrow> context_state" where
  "withProtocolHostDeps ctx deps = ctx\<lparr>cx_Deps := Some deps\<rparr>"

lemma deps_for_with [simp]: "protocolHostDepsFor (withProtocolHostDeps ctx deps) fallback = deps"
  by (simp add: protocolHostDepsFor_def withProtocolHostDeps_def)

end
