(* ===== verification/Body_Codec.thy ===== *)
theory Body_Codec
  imports Go_Base64 Protocol_Error "HOL-Library.Multiset"
begin

text \<open>
  \<open>native_body_codec.go\<close>: the request body is base64 over the gateway's own alphabet with the
  outer thirds of the text exchanged. \<open>Encode\<close> never fails; \<open>Decode\<close> is strict and checks
  that the text is the canonical one.
\<close>

section \<open>The code\<close>

definition qoderBodyAlphabet :: string where
  "qoderBodyAlphabet = ''_doRTgHZBKcGVjlvpC,@aFSx#DPuNJme&i*MzLOEn)sUrthbf%Y^w.(kIQyXqWA!''"

definition qoderBodyBase64 :: encoding where
  "qoderBodyBase64 = \<lparr>alphabet = qoderBodyAlphabet, padChar = CHR ''$'', strict = True\<rparr>"

definition swapOuterThirds :: "string \<Rightarrow> string" where
  "swapOuterThirds src =
     (let q = length src div 3
      in drop (length src - q) src @ take (length src - q - q) (drop q src) @ take q src)"

definition invalidNativeBodyError :: "go_error \<Rightarrow> go_error" where
  "invalidNativeBodyError internal = Protocol InvalidInput ''protocol body is invalid'' (Some internal)"

definition body_encode :: "string \<Rightarrow> string" where
  "body_encode raw = swapOuterThirds (b64_encode qoderBodyBase64 raw)"

text \<open>
  The library's decoding error carries the offset of the bad character; it stays behind the
  public text, so the model names the cause only.
\<close>

definition body_decode :: "string \<Rightarrow> (go_error, string) result" where
  "body_decode encoded =
     (if CR \<in> set encoded \<or> LF \<in> set encoded
      then Err (invalidNativeBodyError (Plain ''encoded body contains a line break''))
      else
        (case b64_decode qoderBodyBase64 (swapOuterThirds encoded) of
           None \<Rightarrow> Err (invalidNativeBodyError
                     (Wrap ''strict base64 decode'' (Plain ''illegal base64 data'')))
         | Some decoded \<Rightarrow>
             (if body_encode decoded \<noteq> encoded
              then Err (invalidNativeBodyError (Plain ''encoded body is not canonical''))
              else Ok decoded)))"

section \<open>The alphabet and the exchange\<close>

interpretation body: base64_alphabet qoderBodyBase64
  by unfold_locales (simp_all add: qoderBodyBase64_def qoderBodyAlphabet_def is_break_def)

lemma strict_body: "strict qoderBodyBase64"
  by (simp add: qoderBodyBase64_def)

lemma swap_split:
  assumes "length a = q" and "length c = q" and "length (a @ b @ c) div 3 = q"
  shows "swapOuterThirds (a @ b @ c) = c @ b @ a"
  unfolding swapOuterThirds_def Let_def assms(3) using assms(1,2) by simp

lemma thirds:
  obtains a b c where "s = a @ b @ c" "length a = length s div 3" "length c = length s div 3"
proof
  let ?q = "length s div 3"
  have q: "?q + ?q \<le> length s" by linarith
  have "drop (length s - ?q) s = drop (length s - ?q - ?q) (drop ?q s)" using q by simp
  then show "s = take ?q s @ take (length s - ?q - ?q) (drop ?q s) @ drop (length s - ?q) s"
    by (simp only: append_take_drop_id)
  show "length (take ?q s) = ?q" "length (drop (length s - ?q) s) = ?q" using q by simp_all
qed

lemma swap_thirds:
  obtains a b c where "s = a @ b @ c" "swapOuterThirds s = c @ b @ a"
    "swapOuterThirds (c @ b @ a) = a @ b @ c"
proof -
  obtain a b c where s: "s = a @ b @ c" "length a = length s div 3" "length c = length s div 3"
    by (rule thirds)
  have "length (c @ b @ a) = length s" using s(1) by simp
  then show thesis using that s swap_split [of a _ c b] swap_split [of c _ a b] by metis
qed

lemma swap_involution [codec_simps]: "swapOuterThirds (swapOuterThirds s) = s"
  by (rule swap_thirds [of s]) (simp only:)

lemma swap_mset [codec_simps]: "mset (swapOuterThirds s) = mset s"
  by (rule swap_thirds [of s]) (simp add: union_ac)

lemma swap_set [codec_simps]: "set (swapOuterThirds s) = set s"
  using swap_mset [of s] by (metis set_mset_mset)

lemma swap_length [codec_simps]: "length (swapOuterThirds s) = length s"
  using swap_mset [of s] by (metis size_mset)

lemma body_encode_no_breaks: "CR \<notin> set (body_encode raw)" "LF \<notin> set (body_encode raw)"
proof -
  have "\<forall>c \<in> set (body_encode raw). \<not> is_break c"
    using body.encode_chars [of raw] body.no_breaks unfolding body_encode_def swap_set by blast
  then show "CR \<notin> set (body_encode raw)" "LF \<notin> set (body_encode raw)"
    by (meson is_break_def)+
qed

lemma body_decode_encode: "body_decode (body_encode raw) = Ok raw"
  by (simp add: body_decode_def body_encode_no_breaks)
    (simp add: body_encode_def swap_involution body.decode_encode)

text \<open>
  The canonical check is redundant: in strict mode the library only accepts what the encoder
  writes.
\<close>

lemma canonical_check_redundant:
  assumes "CR \<notin> set encoded" and "LF \<notin> set encoded"
    and "b64_decode qoderBodyBase64 (swapOuterThirds encoded) = Some decoded"
  shows "body_encode decoded = encoded"
proof -
  have "\<forall>c \<in> set (swapOuterThirds encoded). \<not> is_break c"
    using assms(1,2) by (auto simp: is_break_def swap_set)
  then have "b64_encode qoderBodyBase64 decoded = swapOuterThirds encoded"
    using body.decode_strict strict_body assms(3) by blast
  then show ?thesis by (simp add: body_encode_def swap_involution)
qed

text \<open>
  C29: the body codec is a bijection between byte strings and its texts: \<open>Decode\<close> accepts a
  text exactly when it is the encoding of the result, so nothing but canonical texts is
  accepted and encoding loses nothing; and every rejection is an invalid-input error whose
  public text says nothing of the body.
\<close>

theorem body_codec_bijective:
  "(body_decode encoded = Ok raw \<longleftrightarrow> encoded = body_encode raw) \<and>
   (case body_decode encoded of Ok r \<Rightarrow> True
    | Err e \<Rightarrow> protocolErrorKindOf (Some e) = InvalidInput \<and> error_text e = ''protocol body is invalid'')"
proof
  show "body_decode encoded = Ok raw \<longleftrightarrow> encoded = body_encode raw"
  proof
    assume "body_decode encoded = Ok raw"
    then show "encoded = body_encode raw"
      by (auto simp: body_decode_def split: if_splits option.splits)
  qed (simp add: body_decode_encode)
  show "case body_decode encoded of Ok r \<Rightarrow> True
    | Err e \<Rightarrow> protocolErrorKindOf (Some e) = InvalidInput \<and> error_text e = ''protocol body is invalid''"
    by (simp add: body_decode_def invalidNativeBodyError_def protocolErrorKindOf_def split: option.split)
qed

end
