(* ===== verification/Uuid.thy ===== *)
theory Uuid
  imports Go_Strings "HOL-Library.Word"
begin

text \<open>
  \<open>native_uuid.go\<close>: a version-4 UUID from sixteen random bytes read backwards, its text form,
  and the sixteen-character key made of its first eight bytes.
\<close>

unbundle bit_operations_syntax

definition byte_word :: "char \<Rightarrow> 8 word" where
  "byte_word c = word_of_nat (ord c)"

definition word_byte :: "8 word \<Rightarrow> char" where
  "word_byte w = chr (unat w)"

lemma word_byte_word [simp]: "word_byte (byte_word c) = c"
proof -
  have "unat (word_of_nat (ord c) :: 8 word) = ord c"
    by (simp add: unat_of_nat)
  then show ?thesis by (simp add: word_byte_def byte_word_def)
qed

lemma byte_word_byte [simp]: "byte_word (word_byte w) = w"
proof -
  have "unat w < 256" using unsigned_less [of w, where ?'a = nat] by simp
  then show ?thesis by (simp add: word_byte_def byte_word_def)
qed

section \<open>The code\<close>

definition mask_byte :: "8 word \<Rightarrow> 8 word \<Rightarrow> char \<Rightarrow> char" where
  "mask_byte keep set_bits c = word_byte ((byte_word c AND keep) OR set_bits)"

definition reverseMaskUUID :: "string \<Rightarrow> string" where
  "reverseMaskUUID raw =
     (let value = rev raw; v6 = value[6 := mask_byte 0x0f 0x40 (value ! 6)]
      in v6[8 := mask_byte 0x3f 0x80 (v6 ! 8)])"

definition slice :: "nat \<Rightarrow> nat \<Rightarrow> string \<Rightarrow> string" where
  "slice i j s = take (j - i) (drop i s)"

definition formatLowerUUID :: "string \<Rightarrow> string" where
  "formatLowerUUID value =
     hex_encode (slice 0 4 value) @ ''-'' @ hex_encode (slice 4 6 value) @ ''-'' @
     hex_encode (slice 6 8 value) @ ''-'' @ hex_encode (slice 8 10 value) @ ''-'' @
     hex_encode (slice 10 16 value)"

definition runtimeASCIIKey :: "string \<Rightarrow> string" where
  "runtimeASCIIKey value = hex_encode (slice 0 8 value)"

section \<open>Text forms\<close>

definition hex_lower :: "char \<Rightarrow> bool" where
  "hex_lower c \<longleftrightarrow> (48 \<le> ord c \<and> ord c < 58) \<or> (97 \<le> ord c \<and> ord c < 103)"

lemma ord_hex_digit: "n < 16 \<Longrightarrow> ord (hex_digit n) = (if n < 10 then 48 + n else 87 + n)"
  by (simp add: hex_digit_def)

lemma hex_digit_lower: "n < 16 \<Longrightarrow> hex_lower (hex_digit n)"
  by (auto simp: hex_lower_def ord_hex_digit)

lemma hex_digit_inj_upt: "inj_on hex_digit {..<16}"
proof (rule inj_onI)
  fix m n :: nat
  assume "m \<in> {..<16}" "n \<in> {..<16}" and same: "hex_digit m = hex_digit n"
  then have "(if m < 10 then 48 + m else 87 + m) = (if n < 10 then 48 + n else 87 + n)"
    using ord_hex_digit [of m] ord_hex_digit [of n] by (metis lessThan_iff)
  then show "m = n" by (simp split: if_splits)
qed

lemma hex_digit_inject: "m < 16 \<Longrightarrow> n < 16 \<Longrightarrow> hex_digit m = hex_digit n \<longleftrightarrow> m = n"
  using inj_on_eq_iff [OF hex_digit_inj_upt, of m n] by simp

lemma hex_byte_inject [simp]: "hex_byte a = hex_byte b \<longleftrightarrow> a = b"
proof
  assume "hex_byte a = hex_byte b"
  then have "ord a div 16 = ord b div 16" "ord a mod 16 = ord b mod 16"
    by (simp_all add: hex_byte_def hex_digit_inject div_less_iff_less_mult)
  then show "a = b" by (metis div_mult_mod_eq ord_inject)
qed simp

lemma hex_encode_length [simp]: "length (hex_encode s) = 2 * length s"
  by (induction s) (simp_all add: hex_encode_def hex_byte_def)

lemma hex_encode_inject: "hex_encode s = hex_encode t \<longleftrightarrow> s = t"
proof (induction s arbitrary: t)
  case Nil
  then show ?case by (cases t) (simp_all add: hex_encode_def hex_byte_def)
next
  case (Cons a s)
  show ?case
  proof (cases t)
    case (Cons b t')
    have "hex_encode (a # s) = hex_byte a @ hex_encode s" "hex_encode (b # t') = hex_byte b @ hex_encode t'"
      by (simp_all add: hex_encode_def)
    moreover have "length (hex_byte a) = length (hex_byte b)" by (simp add: hex_byte_def)
    ultimately show ?thesis by (simp add: Cons Cons.IH)
  qed (simp add: hex_encode_def hex_byte_def)
qed

lemma hex_encode_lower: "list_all hex_lower (hex_encode s)"
  by (induction s) (simp_all add: hex_encode_def hex_byte_def hex_digit_lower div_less_iff_less_mult)

lemma reverseMask_length [simp]: "length (reverseMaskUUID raw) = length raw"
  by (simp add: reverseMaskUUID_def Let_def)

lemma slice_length [simp]: "j \<le> length s \<Longrightarrow> length (slice i j s) = j - i"
  by (simp add: slice_def)

section \<open>The masked bits\<close>

lemma low_or_high: "n mod 2 ^ k OR push_bit k m = n mod 2 ^ k + push_bit k m" for n m :: nat
  unfolding take_bit_eq_mod [symmetric]
  by (rule disjunctive_add [symmetric]) (auto simp: bit_take_bit_iff bit_push_bit_iff)

lemma version_byte: "ord (mask_byte 0x0f 0x40 c) = 64 + ord c mod 16"
proof -
  have "unat ((byte_word c AND 0x0f) OR 0x40) = (ord c AND 15) OR 64"
    by (simp add: unsigned_or_eq unsigned_and_eq byte_word_def unat_of_nat)
  also have "\<dots> = ord c mod 2 ^ 4 OR push_bit 4 4"
    using take_bit_eq_mask [of 4 "ord c"] by (simp add: mask_eq_exp_minus_1 take_bit_eq_mod push_bit_eq_mult)
  also have "\<dots> = 64 + ord c mod 16"
    unfolding low_or_high by (simp add: push_bit_eq_mult)
  finally show ?thesis by (simp add: mask_byte_def word_byte_def)
qed

lemma variant_byte: "ord (mask_byte 0x3f 0x80 c) = 128 + ord c mod 64"
proof -
  have "unat ((byte_word c AND 0x3f) OR 0x80) = (ord c AND 63) OR 128"
    by (simp add: unsigned_or_eq unsigned_and_eq byte_word_def unat_of_nat)
  also have "\<dots> = ord c mod 2 ^ 6 OR push_bit 6 2"
    using take_bit_eq_mask [of 6 "ord c"] by (simp add: mask_eq_exp_minus_1 take_bit_eq_mod push_bit_eq_mult)
  also have "\<dots> = 128 + ord c mod 64"
    unfolding low_or_high by (simp add: push_bit_eq_mult)
  finally show ?thesis by (simp add: mask_byte_def word_byte_def)
qed

lemma list16:
  assumes "length s = 16"
  obtains a b c d e f g h i j k l m n p q where "s = [a, b, c, d, e, f, g, h, i, j, k, l, m, n, p, q]"
  using assms by (auto simp: numeral_eq_Suc length_Suc_conv)

lemma reverseMask_eq:
  "reverseMaskUUID [q, p, n, m, l, k, j, i, h, g, f, e, d, c, b, a] =
     [a, b, c, d, e, f, mask_byte 0x0f 0x40 g, h, mask_byte 0x3f 0x80 i, j, k, l, m, n, p, q]"
  by (simp add: reverseMaskUUID_def)

lemma formatLower_eq:
  "formatLowerUUID [a, b, c, d, e, f, g, h, i, j, k, l, m, n, p, q] =
     hex_byte a @ hex_byte b @ hex_byte c @ hex_byte d @ ''-'' @ hex_byte e @ hex_byte f @ ''-'' @
     hex_byte g @ hex_byte h @ ''-'' @ hex_byte i @ hex_byte j @ ''-'' @
     hex_byte k @ hex_byte l @ hex_byte m @ hex_byte n @ hex_byte p @ hex_byte q"
  by (simp add: formatLowerUUID_def slice_def hex_encode_def)

text \<open>The form of RFC 4122, version 4: five dash-separated groups, the version and the variant.\<close>

definition is_uuid4 :: "string \<Rightarrow> bool" where
  "is_uuid4 u \<longleftrightarrow> length u = 36 \<and>
     list_all (\<lambda>i. if i \<in> {8, 13, 18, 23} then u ! i = CHR ''-'' else hex_lower (u ! i)) [0..<36] \<and>
     u ! 14 = CHR ''4'' \<and> u ! 19 \<in> set ''89ab''"

lemma hex_byte_lower: "hex_lower (hex_digit (ord c div 16))" "hex_lower (hex_digit (ord c mod 16))"
  by (simp_all add: hex_digit_lower div_less_iff_less_mult)

lemma uuid4_form:
  assumes "length raw = 16"
  shows "is_uuid4 (formatLowerUUID (reverseMaskUUID raw))"
proof -
  from assms obtain a b c d e f g h i j k l m n p q where
    raw: "raw = [q, p, n, m, l, k, j, i, h, g, f, e, d, c, b, a]" by (rule list16)
  have "ord g mod 16 < 16" by simp
  then have "(64 + ord g mod 16) div 16 = 4" by linarith
  then have version: "hex_digit (ord (mask_byte 0x0f 0x40 g) div 16) = CHR ''4''"
    by (simp add: version_byte hex_digit_def char_eval)
  have "ord i mod 64 < 64" by simp
  then have "(128 + ord i mod 64) div 16 < 12" "8 \<le> (128 + ord i mod 64) div 16" by linarith+
  then consider "(128 + ord i mod 64) div 16 = 8" | "(128 + ord i mod 64) div 16 = 9"
    | "(128 + ord i mod 64) div 16 = 10" | "(128 + ord i mod 64) div 16 = 11" by linarith
  then have variant: "hex_digit (ord (mask_byte 0x3f 0x80 i) div 16) \<in> set ''89ab''"
    by cases (simp_all add: variant_byte hex_digit_def char_eval)
  have "hex_lower (CHR ''4'')" by (simp add: hex_lower_def)
  then show ?thesis
    unfolding is_uuid4_def raw reverseMask_eq formatLower_eq hex_byte_def
    using version variant by (simp add: hex_byte_lower upt_rec)
qed

text \<open>The text determines the sixteen bytes, and these the random ones up to the six masked bits.\<close>

lemma formatLower_inject:
  assumes "length u = 16" and "length v = 16"
  shows "formatLowerUUID u = formatLowerUUID v \<longleftrightarrow> u = v"
proof -
  from assms(1) obtain a b c d e f g h i j k l m n p q where
    u: "u = [a, b, c, d, e, f, g, h, i, j, k, l, m, n, p, q]" by (rule list16)
  from assms(2) obtain a' b' c' d' e' f' g' h' i' j' k' l' m' n' p' q' where
    v: "v = [a', b', c', d', e', f', g', h', i', j', k', l', m', n', p', q']" by (rule list16)
  have "length (hex_byte x) = 2" for x by (simp add: hex_byte_def)
  then show ?thesis
    unfolding u v formatLower_eq by (simp add: append_eq_append_conv)
qed

definition random_bits :: "string \<Rightarrow> string" where
  "random_bits raw = raw[9 := chr (ord (raw ! 9) mod 16), 7 := chr (ord (raw ! 7) mod 64)]"

lemma chr_inject: "m < 256 \<Longrightarrow> n < 256 \<Longrightarrow> chr m = chr n \<longleftrightarrow> m = n"
  by (metis ord_chr)

lemma masked_inject:
  "mask_byte 0x0f 0x40 c = mask_byte 0x0f 0x40 d \<longleftrightarrow> ord c mod 16 = ord d mod 16"
  "mask_byte 0x3f 0x80 c = mask_byte 0x3f 0x80 d \<longleftrightarrow> ord c mod 64 = ord d mod 64"
  by (simp_all only: ord_inject [symmetric] version_byte variant_byte add_left_cancel)

lemma uuid_collision:
  assumes "length raw = 16" and "length raw' = 16"
  shows "formatLowerUUID (reverseMaskUUID raw) = formatLowerUUID (reverseMaskUUID raw') \<longleftrightarrow>
    random_bits raw = random_bits raw'"
proof -
  from assms(1) obtain a b c d e f g h i j k l m n p q where
    raw: "raw = [q, p, n, m, l, k, j, i, h, g, f, e, d, c, b, a]" by (rule list16)
  from assms(2) obtain a' b' c' d' e' f' g' h' i' j' k' l' m' n' p' q' where
    raw': "raw' = [q', p', n', m', l', k', j', i', h', g', f', e', d', c', b', a']" by (rule list16)
  have small: "ord c mod 16 < 256" "ord c mod 64 < 256" for c
    by (auto intro: le_less_trans [OF mod_le_divisor])
  have "formatLowerUUID (reverseMaskUUID raw) = formatLowerUUID (reverseMaskUUID raw') \<longleftrightarrow>
    reverseMaskUUID raw = reverseMaskUUID raw'"
    using assms by (simp add: formatLower_inject)
  also have "\<dots> \<longleftrightarrow> random_bits raw = random_bits raw'"
    unfolding raw raw' reverseMask_eq random_bits_def
    by (auto simp: masked_inject chr_inject small)
  finally show ?thesis .
qed

end
