(* ===== verification/Hashes.thy ===== *)
theory Hashes
  imports Uuid
begin

text \<open>
  The hash functions the gateway calls, as their standards define them: SHA-256 (FIPS 180-4)
  with HMAC and HKDF over it (\<open>crypto/hkdf\<close>), and MD5 (RFC 1321, \<open>crypto/md5\<close>). The numbers
  are big-endian in the first and little-endian in the second.
\<close>

section \<open>Numbers and bytes\<close>

definition be_number :: "string \<Rightarrow> nat" where
  "be_number s = foldl (\<lambda>n c. n * 256 + ord c) 0 s"

fun be_bytes :: "nat \<Rightarrow> nat \<Rightarrow> string" where
  "be_bytes 0 n = []"
| "be_bytes (Suc k) n = be_bytes k (n div 256) @ [chr (n mod 256)]"

lemma be_bytes_length [simp]: "length (be_bytes k n) = k"
  by (induction k arbitrary: n) simp_all

lemma be_number_snoc [simp]: "be_number (s @ [c]) = be_number s * 256 + ord c"
  by (simp add: be_number_def)

lemma be_number_less: "be_number s < 256 ^ length s"
proof (induction s rule: rev_induct)
  case (snoc c s)
  have "be_number s * 256 + ord c < (be_number s + 1) * 256" by simp
  also have "\<dots> \<le> 256 ^ length s * 256" using snoc by (intro mult_le_mono1) simp
  finally show ?case by simp
qed (simp add: be_number_def)

lemma be_number_bytes: "n < 256 ^ k \<Longrightarrow> be_number (be_bytes k n) = n"
proof (induction k arbitrary: n)
  case (Suc k)
  have "n div 256 < 256 ^ k" using Suc.prems by (simp add: div_less_iff_less_mult mult.commute)
  then show ?case using Suc.IH [of "n div 256"] by simp
qed (simp add: be_number_def)

lemma be_bytes_number: "be_bytes (length s) (be_number s) = s"
  by (induction s rule: rev_induct) (simp_all add: be_number_def)

function in_blocks :: "nat \<Rightarrow> string \<Rightarrow> string list" where
  "in_blocks n s = (if s = [] \<or> n = 0 then [] else take n s # in_blocks n (drop n s))"
  by pat_completeness auto
termination
  by (relation "measure (\<lambda>(n, s). length s)") simp_all

declare in_blocks.simps [simp del]

section \<open>SHA-256\<close>

text \<open>
  The constants are the first 32 bits of the fractional parts of roots of the first primes: cube
  roots for the rounds, square roots for the initial state. \<open>root_bits\<close> finds an integer root bit
  by bit.
\<close>

fun root_bits :: "nat \<Rightarrow> nat \<Rightarrow> nat \<Rightarrow> nat \<Rightarrow> nat" where
  "root_bits k n 0 r = r"
| "root_bits k n (Suc b) r = root_bits k n b (if (r + 2 ^ b) ^ k \<le> n then r + 2 ^ b else r)"

definition fraction_bits :: "nat \<Rightarrow> nat \<Rightarrow> 32 word" where
  "fraction_bits k p = word_of_nat (root_bits k (p * 2 ^ (32 * k)) 40 0)"

definition small_primes :: "nat list" where
  "small_primes =
    [2, 3, 5, 7, 11, 13, 17, 19, 23, 29, 31, 37, 41, 43, 47, 53, 59, 61, 67, 71, 73, 79,
     83, 89, 97, 101, 103, 107, 109, 113, 127, 131, 137, 139, 149, 151, 157, 163, 167,
     173, 179, 181, 191, 193, 197, 199, 211, 223, 227, 229, 233, 239, 241, 251, 257, 263,
     269, 271, 277, 281, 283, 293, 307, 311]"

definition sha256_constants :: "32 word list" where
  "sha256_constants = map (fraction_bits 3) small_primes"

definition sha256_initial :: "32 word list" where
  "sha256_initial = map (fraction_bits 2) (take 8 small_primes)"

definition sha256_pad :: "string \<Rightarrow> string" where
  "sha256_pad s = s @ chr 128 # replicate ((119 - length s mod 64) mod 64) (chr 0) @ be_bytes 8 (8 * length s)"

text \<open>The message schedule, the newest word first.\<close>

fun sha256_schedule :: "nat \<Rightarrow> 32 word list \<Rightarrow> 32 word list" where
  "sha256_schedule 0 ws = ws"
| "sha256_schedule (Suc n) ws =
     (let a = ws ! 1; b = ws ! 14;
          s1 = word_rotr 17 a XOR word_rotr 19 a XOR drop_bit 10 a;
          s0 = word_rotr 7 b XOR word_rotr 18 b XOR drop_bit 3 b
      in sha256_schedule n ((s1 + ws ! 6 + s0 + ws ! 15) # ws))"

definition sha256_round :: "32 word \<times> 32 word \<Rightarrow> 32 word list \<Rightarrow> 32 word list" where
  "sha256_round kw st =
     (case st of
        [a, b, c, d, e, f, g, h] \<Rightarrow>
          (let t1 = h + (word_rotr 6 e XOR word_rotr 11 e XOR word_rotr 25 e)
                      + ((e AND f) XOR (NOT e AND g)) + fst kw + snd kw;
               t2 = (word_rotr 2 a XOR word_rotr 13 a XOR word_rotr 22 a)
                      + ((a AND b) XOR (a AND c) XOR (b AND c))
           in [t1 + t2, a, b, c, d + t1, e, f, g])
      | _ \<Rightarrow> st)"

definition sha256_block :: "string \<Rightarrow> 32 word list \<Rightarrow> 32 word list" where
  "sha256_block b st =
     (let ws = rev (sha256_schedule 48 (rev (map (\<lambda>w. word_of_nat (be_number w)) (in_blocks 4 b))))
      in map2 (+) st (fold sha256_round (zip sha256_constants ws) st))"

definition sha256 :: "string \<Rightarrow> string" where
  "sha256 s = concat (map (\<lambda>w. be_bytes 4 (unat w)) (fold sha256_block (in_blocks 64 (sha256_pad s)) sha256_initial))"

section \<open>HMAC and HKDF\<close>

definition hmac_key :: "string \<Rightarrow> string" where
  "hmac_key k = (let k' = (if 64 < length k then sha256 k else k) in k' @ replicate (64 - length k') (chr 0))"

definition xor_with :: "8 word \<Rightarrow> string \<Rightarrow> string" where
  "xor_with w s = map (\<lambda>c. word_byte (byte_word c XOR w)) s"

definition hmac_sha256 :: "string \<Rightarrow> string \<Rightarrow> string" where
  "hmac_sha256 key s = sha256 (xor_with 0x5c (hmac_key key) @ sha256 (xor_with 0x36 (hmac_key key) @ s))"

text \<open>\<open>hkdf.Key\<close> for one output block.\<close>

definition hkdf_key :: "string \<Rightarrow> string \<Rightarrow> string \<Rightarrow> string" where
  "hkdf_key secret salt info = hmac_sha256 (hmac_sha256 salt secret) (info @ [chr 1])"

section \<open>MD5\<close>

definition md5_constants :: "32 word list" where
  "md5_constants =
    [0xd76aa478, 0xe8c7b756, 0x242070db, 0xc1bdceee, 0xf57c0faf, 0x4787c62a, 0xa8304613, 0xfd469501,
     0x698098d8, 0x8b44f7af, 0xffff5bb1, 0x895cd7be, 0x6b901122, 0xfd987193, 0xa679438e, 0x49b40821,
     0xf61e2562, 0xc040b340, 0x265e5a51, 0xe9b6c7aa, 0xd62f105d, 0x02441453, 0xd8a1e681, 0xe7d3fbc8,
     0x21e1cde6, 0xc33707d6, 0xf4d50d87, 0x455a14ed, 0xa9e3e905, 0xfcefa3f8, 0x676f02d9, 0x8d2a4c8a,
     0xfffa3942, 0x8771f681, 0x6d9d6122, 0xfde5380c, 0xa4beea44, 0x4bdecfa9, 0xf6bb4b60, 0xbebfbc70,
     0x289b7ec6, 0xeaa127fa, 0xd4ef3085, 0x04881d05, 0xd9d4d039, 0xe6db99e5, 0x1fa27cf8, 0xc4ac5665,
     0xf4292244, 0x432aff97, 0xab9423a7, 0xfc93a039, 0x655b59c3, 0x8f0ccc92, 0xffeff47d, 0x85845dd1,
     0x6fa87e4f, 0xfe2ce6e0, 0xa3014314, 0x4e0811a1, 0xf7537e82, 0xbd3af235, 0x2ad7d2bb, 0xeb86d391]"

definition md5_shifts :: "nat list" where
  "md5_shifts = concat (map (\<lambda>r. concat (replicate 4 r)) [[7, 12, 17, 22], [5, 9, 14, 20], [4, 11, 16, 23], [6, 10, 15, 21]])"

definition md5_pad :: "string \<Rightarrow> string" where
  "md5_pad s = s @ chr 128 # replicate ((119 - length s mod 64) mod 64) (chr 0) @ rev (be_bytes 8 (8 * length s))"

definition md5_step :: "32 word list \<Rightarrow> nat \<Rightarrow> 32 word list \<Rightarrow> 32 word list" where
  "md5_step ms i st =
     (case st of
        [a, b, c, d] \<Rightarrow>
          (let (f, g) =
             (if i < 16 then ((b AND c) OR (NOT b AND d), i)
              else if i < 32 then ((d AND b) OR (NOT d AND c), (5 * i + 1) mod 16)
              else if i < 48 then (b XOR c XOR d, (3 * i + 5) mod 16)
              else (c XOR (b OR NOT d), (7 * i) mod 16));
             r = word_rotl (md5_shifts ! i) (a + f + md5_constants ! i + ms ! g)
           in [d, b + r, b, c])
      | _ \<Rightarrow> st)"

definition md5_block :: "string \<Rightarrow> 32 word list \<Rightarrow> 32 word list" where
  "md5_block b st =
     (let ms = map (\<lambda>w. word_of_nat (be_number (rev w))) (in_blocks 4 b)
      in map2 (+) st (fold (md5_step ms) [0..<64] st))"

definition md5 :: "string \<Rightarrow> string" where
  "md5 s = concat (map (\<lambda>w. rev (be_bytes 4 (unat w)))
     (fold md5_block (in_blocks 64 (md5_pad s)) [0x67452301, 0xefcdab89, 0x98badcfe, 0x10325476]))"

section \<open>Output lengths\<close>

lemma sha256_round_length: "length st = 8 \<Longrightarrow> length (sha256_round kw st) = 8"
  by (auto simp: sha256_round_def Let_def split: list.split)

lemma fold_length:
  assumes "\<And>x st. length st = n \<Longrightarrow> length (f x st) = n" and "length st = n"
  shows "length (fold f xs st) = n"
  using assms(2) by (induction xs arbitrary: st) (simp_all add: assms(1))

lemma sha256_block_length: "length st = 8 \<Longrightarrow> length (sha256_block b st) = 8"
  using fold_length [where n = 8 and f = sha256_round, OF sha256_round_length]
  by (simp add: sha256_block_def Let_def)

lemma concat_words_length:
  assumes "\<And>w. length (f w) = 4"
  shows "length (concat (map f ws)) = 4 * length ws"
  by (induction ws) (simp_all add: assms)

lemma sha256_length [simp]: "length (sha256 s) = 32"
  using fold_length [where n = 8 and f = sha256_block, OF sha256_block_length]
  by (simp add: sha256_def concat_words_length sha256_initial_def small_primes_def)

lemma hkdf_length [simp]: "length (hkdf_key secret salt info) = 32"
  by (simp add: hkdf_key_def hmac_sha256_def)

lemma md5_step_length: "length st = 4 \<Longrightarrow> length (md5_step ms i st) = 4"
  by (auto simp: md5_step_def Let_def split: list.split prod.split)

lemma md5_block_length: "length st = 4 \<Longrightarrow> length (md5_block b st) = 4"
  using fold_length [where n = 4 and f = "md5_step ms" for ms, OF md5_step_length]
  by (simp add: md5_block_def Let_def)

lemma md5_length [simp]: "length (md5 s) = 16"
  using fold_length [where n = 4 and f = md5_block, OF md5_block_length]
  by (simp add: md5_def concat_words_length)

end
