(* ===== verification/Infer.thy ===== *)
theory Infer
  imports Protocol_Types Body_Codec Uuid Hashes
begin

text \<open>
  \<open>native_infer.go\<close>: the request the gateway sends for one inference. The order of its checks is
  the code's: the context, the user's fields and the host dependencies, the body, the clock, the
  entropy, with the context asked again after each of them.
\<close>

section \<open>The parts of the request\<close>

record nativeContextSnapshot =
  ns_host :: protocolHostDeps
  ns_machineID :: string
  ns_version :: string
  ns_user :: protocolUserInfo
  ns_scene :: protocolScene

record nativeInferHeaderValues =
  hv_Authorization :: string
  hv_BusinessProduct :: string
  hv_BusinessType :: string
  hv_ClientType :: string
  hv_DataPolicy :: bool
  hv_UnixSeconds :: string
  hv_Key :: string
  hv_MachineID :: string
  hv_OrganizationID :: string
  hv_Tags :: "string list"
  hv_Scene :: string
  hv_UID :: string
  hv_Version :: string
  hv_ModelKey :: string
  hv_ModelSource :: string

definition nativeInferPath :: string where
  "nativeInferPath = ''/algo/api/v2/service/pro/sse/agent_chat_generation''"
definition cosySignedPath :: string where
  "cosySignedPath = ''/api/v2/service/pro/sse/agent_chat_generation''"
definition nativeInferQuery :: string where
  "nativeInferQuery = ''?FetchKeys=llm_model_result&AgentId=agent_common&Encode=1''"

definition nativeInferURL :: "string \<Rightarrow> string" where
  "nativeInferURL endpoint = endpoint @ nativeInferPath @ nativeInferQuery"

text \<open>
  \<open>header.Set\<close> replaces the values of the canonical form of the name: a letter that begins the
  name or follows a dash in upper case, every other letter in lower case.
\<close>

definition upper_char :: "char \<Rightarrow> bool" where
  "upper_char c \<longleftrightarrow> 65 \<le> ord c \<and> ord c \<le> 90"

fun canonical_from :: "bool \<Rightarrow> string \<Rightarrow> string" where
  "canonical_from up [] = []"
| "canonical_from up (c # s) =
     (if up \<and> lower_char c then chr (ord c - 32)
      else if \<not> up \<and> upper_char c then chr (ord c + 32) else c) # canonical_from (c = CHR ''-'') s"

definition header_set :: "string \<Rightarrow> string \<Rightarrow> header \<Rightarrow> header" where
  "header_set name v h = map_set (canonical_from True name) v h"

definition header_get :: "header \<Rightarrow> string \<Rightarrow> string option" where
  "header_get h name = map_of h (canonical_from True name)"

definition set_all :: "(string \<times> string) list \<Rightarrow> header \<Rightarrow> header" where
  "set_all kvs h = fold (\<lambda>(k, v). header_set k v) kvs h"

definition nativeInferHeaders :: "nativeInferHeaderValues \<Rightarrow> header" where
  "nativeInferHeaders v = set_all
     ([(''Accept'', ''text/event-stream''),
       (''Authorization'', hv_Authorization v),
       (''Cache-Control'', ''no-cache''),
       (''Connection'', ''keep-alive''),
       (''Content-Type'', ''application/json''),
       (''Cosy-Business-Product'', hv_BusinessProduct v),
       (''Cosy-Business-Type'', hv_BusinessType v),
       (''Cosy-ClientType'', hv_ClientType v),
       (''Cosy-Data-Policy'', if hv_DataPolicy v then ''agree'' else ''disagree''),
       (''Cosy-Date'', hv_UnixSeconds v),
       (''Cosy-Key'', hv_Key v),
       (''Cosy-MachineId'', hv_MachineID v),
       (''Cosy-MachineToken'', hv_MachineID v),
       (''Cosy-MachineType'', ''5'')]
      @ (if hv_OrganizationID v \<noteq> [] then [(''Cosy-Organization-Id'', hv_OrganizationID v)] else [])
      @ (if hv_Tags v \<noteq> [] then [(''Cosy-Organization-Tags'', Join (hv_Tags v) '','')] else [])
      @ [(''Cosy-Scene'', hv_Scene v),
         (''Cosy-User'', hv_UID v),
         (''Cosy-Version'', hv_Version v),
         (''Login-Version'', ''v2'')]
      @ (if hv_ModelKey v \<noteq> []
         then [(''X-Model-Key'', hv_ModelKey v), (''X-Model-Source'', hv_ModelSource v)] else [])) []"

definition nativeInferSignature :: "string \<Rightarrow> string \<Rightarrow> string \<Rightarrow> string \<Rightarrow> string" where
  "nativeInferSignature payloadB64 key unixSeconds encodedBody =
     hex_encode (md5 (payloadB64 @ [LF] @ key @ [LF] @ unixSeconds @ [LF] @ encodedBody @ [LF] @ cosySignedPath))"

definition authorization_payload :: "string \<Rightarrow> string \<Rightarrow> string \<Rightarrow> string" where
  "authorization_payload requestID info cosyVersion =
     marshal (JObj [(''version'', JStr ''v1''), (''requestId'', JStr requestID), (''info'', JStr info),
       (''cosyVersion'', JStr cosyVersion), (''ideVersion'', JStr [])])"

definition nativeInferPayload :: "string \<Rightarrow> string \<Rightarrow> string \<Rightarrow> string \<times> string" where
  "nativeInferPayload requestID info cosyVersion =
     (let raw = authorization_payload requestID info cosyVersion
      in (raw, b64_encode StdEncoding raw))"

definition nativeInferRequestID :: "string \<Rightarrow> (go_error, string) result" where
  "nativeInferRequestID entropy =
     (if length entropy \<noteq> 16
      then Err (Protocol InvalidInput ''native inference input is invalid''
        (Some (Plain ''native infer request entropy length is invalid'')))
      else Ok (formatLowerUUID (reverseMaskUUID entropy)))"

section \<open>Errors\<close>

definition auth_unavailable :: "string \<Rightarrow> go_error" where
  "auth_unavailable cause = Protocol AuthUnavailable ''Qoder authentication is unavailable'' (Some (Plain cause))"

definition backend_failure :: "go_error \<Rightarrow> go_error" where
  "backend_failure cause = Protocol BackendFailure ''Qoder protocol operation failed'' (Some cause)"

definition validateNativeInferPreparation ::
  "nativeContextSnapshot \<Rightarrow> protocolHostDeps \<Rightarrow> go_error option" where
  "validateNativeInferPreparation snapshot deps =
     (if pu_EncryptUserInfo (ns_user snapshot) = []
      then Some (auth_unavailable ''encrypted user information is empty'')
      else if pu_Key (ns_user snapshot) = [] then Some (auth_unavailable ''runtime key is empty'')
      else if hd_Clock deps = None \<or> hd_Entropy deps = None
      then Some (backend_failure (Plain ''native inference host dependencies are incomplete''))
      else None)"

definition nativeInferExistingProtocolError :: "go_error \<Rightarrow> go_error option" where
  "nativeInferExistingProtocolError err = (if protocolErrorFrom err \<noteq> None then Some err else None)"

definition nativeInferCancellation :: "go_error option \<Rightarrow> go_error \<Rightarrow> go_error option" where
  "nativeInferCancellation ctxErr err =
     (case ctxErr of Some e \<Rightarrow> Some e
      | None \<Rightarrow> (if errors_Is err Canceled then Some Canceled
                 else if errors_Is err DeadlineExceeded then Some DeadlineExceeded else None))"

text \<open>A failed host dependency: a cancellation wins, then a protocol error as it is, else the given wrap.\<close>

definition host_failure :: "go_error option \<Rightarrow> go_error \<Rightarrow> go_error \<Rightarrow> go_error" where
  "host_failure ctxErr err fallback =
     (case nativeInferCancellation ctxErr err of Some e \<Rightarrow> e
      | None \<Rightarrow> (case nativeInferExistingProtocolError err of Some e \<Rightarrow> e | None \<Rightarrow> fallback))"

section \<open>The preparation\<close>

definition assemble ::
  "nativeContextSnapshot \<Rightarrow> inferRequestInput \<Rightarrow> string \<Rightarrow> int \<Rightarrow> string \<Rightarrow> preparedRequest" where
  "assemble snapshot input encodedBody now requestID =
     (let unixSeconds = itoa now;
          payloadB64 = snd (nativeInferPayload requestID (pu_EncryptUserInfo (ns_user snapshot)) (ns_version snapshot));
          signature = nativeInferSignature payloadB64 (pu_Key (ns_user snapshot)) unixSeconds encodedBody
      in \<lparr>pr_URL = nativeInferURL (ii_Endpoint input),
          pr_Header = nativeInferHeaders
            \<lparr>hv_Authorization = ''Bearer COSY.'' @ payloadB64 @ ''.'' @ signature,
             hv_BusinessProduct = sc_BusinessProduct (ns_scene snapshot),
             hv_BusinessType = sc_BusinessType (ns_scene snapshot),
             hv_ClientType = sc_ClientType (ns_scene snapshot),
             hv_DataPolicy = pu_DataPolicyAgreed (ns_user snapshot),
             hv_UnixSeconds = unixSeconds,
             hv_Key = pu_Key (ns_user snapshot),
             hv_MachineID = ns_machineID snapshot,
             hv_OrganizationID = pu_OrganizationID (ns_user snapshot),
             hv_Tags = (case pu_OrganizationTags (ns_user snapshot) of Some ts \<Rightarrow> ts | None \<Rightarrow> []),
             hv_Scene = sc_Scene (ns_scene snapshot),
             hv_UID = pu_UID (ns_user snapshot),
             hv_Version = ns_version snapshot,
             hv_ModelKey = ii_ModelKey input,
             hv_ModelSource = ii_ModelSource input\<rparr>,
          pr_Body = encodedBody\<rparr>)"

text \<open>
  Six questions to the context: on entry, after the body, in and after the clock (2, 3), in and
  after the entropy (4, 5). The entropy is asked once, for sixteen bytes.
\<close>

definition prepareNativeInferRequest ::
  "context_state \<Rightarrow> nativeContextSnapshot \<Rightarrow> inferRequestInput \<Rightarrow> (go_error, preparedRequest) result" where
  "prepareNativeInferRequest ctx snapshot input =
     (case cx_Err ctx 0 of Some e \<Rightarrow> Err e
      | None \<Rightarrow>
        let deps = protocolHostDepsFor ctx (ns_host snapshot)
        in (case validateNativeInferPreparation snapshot deps of Some e \<Rightarrow> Err e
            | None \<Rightarrow>
              let encodedBody = body_encode (ii_Body input)
              in (case cx_Err ctx 1 of Some e \<Rightarrow> Err e
                  | None \<Rightarrow>
                    (case the (hd_Clock deps) of
                       Err err \<Rightarrow> Err (host_failure (cx_Err ctx 2) err
                         (backend_failure (Wrap ''read native inference clock'' err)))
                     | Ok now \<Rightarrow>
                       (case cx_Err ctx 3 of Some e \<Rightarrow> Err e
                        | None \<Rightarrow>
                          (case the (hd_Entropy deps) 0 16 of
                             Err err \<Rightarrow> Err (host_failure (cx_Err ctx 4) err
                               (Protocol EntropyFailure ''Qoder protocol entropy is unavailable''
                                 (Some (Wrap ''read native inference request entropy'' err))))
                           | Ok entropy \<Rightarrow>
                             (case cx_Err ctx 5 of Some e \<Rightarrow> Err e
                              | None \<Rightarrow>
                                (case nativeInferRequestID entropy of Err e \<Rightarrow> Err e
                                 | Ok requestID \<Rightarrow>
                                     Ok (assemble snapshot input encodedBody now requestID)))))))))"

section \<open>The headers\<close>

fun last_set :: "(string \<times> string) list \<Rightarrow> string \<Rightarrow> string option \<Rightarrow> string option" where
  "last_set [] name old = old"
| "last_set ((k, v) # kvs) name old = last_set kvs name (if canonical_from True k = name then Some v else old)"

lemma last_set_append [simp]: "last_set (xs @ ys) name old = last_set ys name (last_set xs name old)"
  by (induction xs name old rule: last_set.induct) simp_all

lemma last_set_if [simp]: "last_set (if b then xs else []) name old = (if b then last_set xs name old else old)"
  by simp

lemma get_set_all:
  "header_get (set_all kvs h) name = last_set kvs (canonical_from True name) (map_of h (canonical_from True name))"
proof (induction kvs arbitrary: h)
  case (Cons p kvs)
  then show ?case
    by (cases p) (simp add: header_get_def set_all_def header_set_def map_of_map_set)
qed (simp add: set_all_def header_get_def)

lemmas canonical_eval = lower_char_def upper_char_def char_eval

lemma canonical_names:
  "canonical_from True ''Accept'' = ''Accept''"
  "canonical_from True ''Authorization'' = ''Authorization''"
  "canonical_from True ''Cache-Control'' = ''Cache-Control''"
  "canonical_from True ''Connection'' = ''Connection''"
  "canonical_from True ''Content-Type'' = ''Content-Type''"
  "canonical_from True ''Cosy-Business-Product'' = ''Cosy-Business-Product''"
  "canonical_from True ''Cosy-Business-Type'' = ''Cosy-Business-Type''"
  "canonical_from True ''Cosy-ClientType'' = ''Cosy-Clienttype''"
  "canonical_from True ''Cosy-Data-Policy'' = ''Cosy-Data-Policy''"
  "canonical_from True ''Cosy-Date'' = ''Cosy-Date''"
  "canonical_from True ''Cosy-Key'' = ''Cosy-Key''"
  "canonical_from True ''Cosy-MachineId'' = ''Cosy-Machineid''"
  "canonical_from True ''Cosy-MachineToken'' = ''Cosy-Machinetoken''"
  "canonical_from True ''Cosy-MachineType'' = ''Cosy-Machinetype''"
  "canonical_from True ''Cosy-Organization-Id'' = ''Cosy-Organization-Id''"
  "canonical_from True ''Cosy-Organization-Tags'' = ''Cosy-Organization-Tags''"
  "canonical_from True ''Cosy-Scene'' = ''Cosy-Scene''"
  "canonical_from True ''Cosy-User'' = ''Cosy-User''"
  "canonical_from True ''Cosy-Version'' = ''Cosy-Version''"
  "canonical_from True ''Login-Version'' = ''Login-Version''"
  "canonical_from True ''X-Model-Key'' = ''X-Model-Key''"
  "canonical_from True ''X-Model-Source'' = ''X-Model-Source''"
  by (simp_all add: canonical_eval)

lemma infer_headers:
  "header_get (nativeInferHeaders v) ''Authorization'' = Some (hv_Authorization v)"
  "header_get (nativeInferHeaders v) ''Cosy-Key'' = Some (hv_Key v)"
  "header_get (nativeInferHeaders v) ''Cosy-Date'' = Some (hv_UnixSeconds v)"
  "header_get (nativeInferHeaders v) ''Cosy-User'' = Some (hv_UID v)"
  "header_get (nativeInferHeaders v) ''Cosy-Data-Policy'' = Some (if hv_DataPolicy v then ''agree'' else ''disagree'')"
  by (simp_all only: nativeInferHeaders_def get_set_all last_set_append last_set_if last_set.simps
      canonical_names list.inject char.inject simp_thms if_True if_False if_cancel list.distinct)

section \<open>What the server can check\<close>

lemma prepare_Ok:
  assumes "prepareNativeInferRequest ctx snapshot input = Ok r"
  obtains now entropy where "length entropy = 16"
    "r = assemble snapshot input (body_encode (ii_Body input)) now (formatLowerUUID (reverseMaskUUID entropy))"
    "\<exists>en. hd_Entropy (protocolHostDepsFor ctx (ns_host snapshot)) = Some en \<and> en 0 16 = Ok entropy"
    "hd_Clock (protocolHostDepsFor ctx (ns_host snapshot)) = Some (Ok now)"
  using assms
  by (auto simp: prepareNativeInferRequest_def Let_def bind_Ok_iff nativeInferRequestID_def
      validateNativeInferPreparation_def split: option.splits sum.splits if_splits)

text \<open>
  What a receiver can check of a request for a body, knowing the user and the version it is from.
\<close>

definition verifiable :: "string \<Rightarrow> protocolUserInfo \<Rightarrow> string \<Rightarrow> preparedRequest \<Rightarrow> bool" where
  "verifiable body user version r \<longleftrightarrow> body_decode (pr_Body r) = Ok body \<and>
    (\<exists>requestID payload sig key date.
       header_get (pr_Header r) ''Authorization'' = Some (''Bearer COSY.'' @ payload @ ''.'' @ sig) \<and>
       b64_decode StdEncoding payload =
         Some (authorization_payload requestID (pu_EncryptUserInfo user) version) \<and>
       is_uuid4 requestID \<and>
       header_get (pr_Header r) ''Cosy-Key'' = Some key \<and> header_get (pr_Header r) ''Cosy-Date'' = Some date \<and>
       sig = nativeInferSignature payload key date (pr_Body r) \<and> length sig = 32)"

lemma prepare_verifiable:
  assumes "prepareNativeInferRequest ctx snapshot input = Ok r"
  shows "verifiable (ii_Body input) (ns_user snapshot) (ns_version snapshot) r"
proof -
  obtain now entropy where n: "length entropy = 16"
    and r: "r = assemble snapshot input (body_encode (ii_Body input)) now (formatLowerUUID (reverseMaskUUID entropy))"
    using prepare_Ok [OF assms] by metis
  let ?id = "formatLowerUUID (reverseMaskUUID entropy)"
  let ?p = "b64_encode StdEncoding (authorization_payload ?id (pu_EncryptUserInfo (ns_user snapshot)) (ns_version snapshot))"
  let ?sig = "nativeInferSignature ?p (pu_Key (ns_user snapshot)) (itoa now) (pr_Body r)"
  show ?thesis unfolding verifiable_def
  proof (intro conjI exI)
    show "body_decode (pr_Body r) = Ok (ii_Body input)"
      by (simp add: r assemble_def Let_def body_decode_encode)
    show "header_get (pr_Header r) ''Authorization'' = Some (''Bearer COSY.'' @ ?p @ ''.'' @ ?sig)"
      by (simp add: r assemble_def Let_def infer_headers nativeInferPayload_def)
    show "b64_decode StdEncoding ?p = Some (authorization_payload ?id (pu_EncryptUserInfo (ns_user snapshot)) (ns_version snapshot))"
      by (rule std.decode_encode)
    show "is_uuid4 ?id" by (rule uuid4_form [OF n])
    show "header_get (pr_Header r) ''Cosy-Key'' = Some (pu_Key (ns_user snapshot))"
      "header_get (pr_Header r) ''Cosy-Date'' = Some (itoa now)"
      by (simp_all add: r assemble_def Let_def infer_headers)
    show "length ?sig = 32" by (simp add: nativeInferSignature_def)
  qed simp
qed

text \<open>
  C26: a prepared request can be checked from what it carries alone. Its body decodes to the body
  given in; its authorization is a base64 payload, which names a version-4 request id, the
  encrypted user info and the protocol version, and a signature; and the signature is that of the
  payload, the key and date headers and the encoded body.
\<close>

theorem prepared_request_verifiable:
  assumes "prepareNativeInferRequest ctx snapshot input = Ok r"
  shows "body_decode (pr_Body r) = Ok (ii_Body input) \<and>
    (\<exists>requestID payload sig key date.
       header_get (pr_Header r) ''Authorization'' = Some (''Bearer COSY.'' @ payload @ ''.'' @ sig) \<and>
       b64_decode StdEncoding payload =
         Some (authorization_payload requestID (pu_EncryptUserInfo (ns_user snapshot)) (ns_version snapshot)) \<and>
       is_uuid4 requestID \<and>
       header_get (pr_Header r) ''Cosy-Key'' = Some key \<and> header_get (pr_Header r) ''Cosy-Date'' = Some date \<and>
       sig = nativeInferSignature payload key date (pr_Body r) \<and> length sig = 32)"
  using prepare_verifiable [OF assms] by (simp only: verifiable_def)

definition sample_snapshot :: nativeContextSnapshot where
  "sample_snapshot = \<lparr>ns_host = \<lparr>hd_Clock = Some (Ok 0), hd_Entropy = Some (\<lambda>i n. Ok (replicate n (CHR ''r'')))\<rparr>,
     ns_machineID = ''machine'', ns_version = ''1.1.34'',
     ns_user = \<lparr>pu_UID = ''user'', pu_EncryptUserInfo = ''info'', pu_Key = ''key'', pu_OrganizationID = [],
       pu_OrganizationTags = Some [], pu_DataPolicyAgreed = True\<rparr>,
     ns_scene = defaultProtocolScene\<rparr>"

definition sample_infer_input :: inferRequestInput where
  "sample_infer_input = \<lparr>ii_Endpoint = ''https://host'', ii_Body = ''{}'', ii_ModelKey = ''auto'', ii_ModelSource = ''system''\<rparr>"

lemma prepared_request_verifiable_witness:
  "\<exists>r. prepareNativeInferRequest \<lparr>cx_Err = (\<lambda>i. None), cx_Deps = None\<rparr> sample_snapshot sample_infer_input = Ok r \<and>
     body_decode (pr_Body r) = Ok ''{}''"
proof -
  let ?ctx = "\<lparr>cx_Err = (\<lambda>i. None), cx_Deps = None\<rparr>"
  obtain r where r: "prepareNativeInferRequest ?ctx sample_snapshot sample_infer_input = Ok r"
    by (simp add: prepareNativeInferRequest_def sample_snapshot_def protocolHostDepsFor_def Let_def
        validateNativeInferPreparation_def nativeInferRequestID_def)
  from prepared_request_verifiable [OF this] show ?thesis
    using r by (auto simp: sample_infer_input_def)
qed

section \<open>How a preparation fails\<close>

definition is_cancellation :: "go_error \<Rightarrow> bool" where
  "is_cancellation e \<longleftrightarrow> e = Canceled \<or> e = DeadlineExceeded"

definition typed_failure :: "go_error \<Rightarrow> bool" where
  "typed_failure e \<longleftrightarrow> is_cancellation e \<or> protocolErrorFrom e \<noteq> None"

lemma typed_Protocol: "typed_failure (Protocol k p i)"
  by (simp add: typed_failure_def)

lemma host_failure_typed:
  assumes "\<And>e. ctxErr = Some e \<Longrightarrow> is_cancellation e" and "typed_failure fallback"
  shows "typed_failure (host_failure ctxErr err fallback)"
  using assms by (auto simp: host_failure_def nativeInferCancellation_def nativeInferExistingProtocolError_def
      is_cancellation_def typed_failure_def split: option.splits)

text \<open>
  Whatever the host dependencies answer, a failed preparation is a cancellation or a protocol error;
  an error of the clock or of the source never comes through bare.
\<close>

lemma prepare_errors_typed:
  assumes "\<And>i e. cx_Err ctx i = Some e \<Longrightarrow> is_cancellation e"
    and "prepareNativeInferRequest ctx snapshot input = Err e"
  shows "typed_failure e"
proof -
  have host: "typed_failure (host_failure (cx_Err ctx i) err (Protocol k p c))" for i err k p c
    by (rule host_failure_typed) (use assms(1) typed_Protocol in auto)
  have cancel: "cx_Err ctx i = Some e' \<Longrightarrow> typed_failure e'" for i e'
    using assms(1) by (simp add: typed_failure_def)
  have valid: "validateNativeInferPreparation snapshot deps = Some e' \<Longrightarrow> typed_failure e'" for deps e'
    by (auto simp: validateNativeInferPreparation_def auth_unavailable_def backend_failure_def
        typed_Protocol split: if_splits)
  have "nativeInferRequestID en = Err e' \<Longrightarrow> typed_failure e'" for en e'
    by (auto simp: nativeInferRequestID_def typed_Protocol split: if_splits)
  then show ?thesis
    using assms(2) host cancel valid unfolding prepareNativeInferRequest_def Let_def backend_failure_def
    by (simp split: option.splits sum.splits) blast+
qed

end
