(* ===== verification/Rsa.thy ===== *)
theory Rsa
  imports Protocol_Types Hashes
begin

text \<open>
  \<open>rsaEncryptPKCS1v15Exact\<close> of \<open>native_runtime_fields.go\<close>: PKCS#1 v1.5 encryption with the
  padding read from the given entropy and every zero byte of it read again. The redraw loop has
  no bound in the code; here it is a partial function, and that it ends is a theorem about
  sources that do not give zeros for ever.
\<close>

section \<open>Modular exponentiation\<close>

fun mod_exp :: "nat \<Rightarrow> nat \<Rightarrow> nat \<Rightarrow> nat" where
  "mod_exp b e n =
     (if e = 0 then 1 mod n
      else let h = mod_exp (b * b mod n) (e div 2) n in if odd e then b * h mod n else h)"

declare mod_exp.simps [simp del]

lemma mod_exp_eq: "mod_exp b e n = b ^ e mod n"
proof (induction b e n rule: mod_exp.induct)
  case (1 b e n)
  show ?case
  proof (cases "e = 0")
    case False
    have half: "(b * b mod n) ^ (e div 2) mod n = b ^ (2 * (e div 2)) mod n"
      by (simp add: power_mod power_mult power2_eq_square)
    show ?thesis
    proof (cases "odd e")
      case True
      then have "b ^ e = b * b ^ (2 * (e div 2))" by (metis odd_two_times_div_two_succ power_Suc Suc_eq_plus1)
      then show ?thesis
        using False True 1 half by (simp add: mod_exp.simps [of b e n] Let_def mod_mult_right_eq)
    next
      case even: False
      then show ?thesis
        using False 1 half by (simp add: mod_exp.simps [of b e n] Let_def)
    qed
  qed (simp add: mod_exp.simps)
qed

section \<open>The code\<close>

record rsaPublicKey =
  rk_N :: int
  rk_E :: int

text \<open>\<open>publicKey.Size()\<close>: the bytes of the modulus.\<close>

fun byte_length :: "nat \<Rightarrow> nat" where
  "byte_length n = (if n = 0 then 0 else Suc (byte_length (n div 256)))"

declare byte_length.simps [simp del]

lemma byte_length_bound: "n < 256 ^ byte_length n"
proof (induction n rule: byte_length.induct)
  case (1 n)
  show ?case
  proof (cases "n = 0")
    case False
    then have "n div 256 < 256 ^ byte_length (n div 256)" using 1 by simp
    then show ?thesis using False by (simp add: byte_length.simps [of n] div_less_iff_less_mult mult.commute)
  qed (simp add: byte_length.simps)
qed

definition runtimeFieldsBackendIncompatible :: "go_error \<Rightarrow> go_error" where
  "runtimeFieldsBackendIncompatible internal =
     Protocol BackendIncompatible ''runtime fields backend is incompatible'' (Some internal)"

definition runtimeFieldsBackendFailure :: "go_error \<Rightarrow> go_error" where
  "runtimeFieldsBackendFailure internal =
     Protocol BackendFailure ''runtime fields operation failed'' (Some internal)"

definition entropy_failure :: "go_error \<Rightarrow> string \<Rightarrow> go_error" where
  "entropy_failure err action =
     normalizeHostDependencyError err EntropyFailure ''Secure protocol randomness is unavailable'' action"

text \<open>
  One byte of padding: read again while it is zero. The number of reads made so far is threaded
  through; \<open>None\<close> is a loop that never ends.
\<close>

partial_function (option) redraw_byte ::
  "entropy \<Rightarrow> nat \<Rightarrow> char \<Rightarrow> ((go_error, char) result \<times> nat) option" where
  "redraw_byte en i c =
     (if c \<noteq> chr 0 then Some (Ok c, i)
      else (case en i 1 of
              Err e \<Rightarrow> Some (Err (entropy_failure e ''redraw runtime RSA padding entropy''), Suc i)
            | Ok s \<Rightarrow> redraw_byte en (Suc i) (hd s)))"

declare redraw_byte.simps [code]

fun redraw :: "entropy \<Rightarrow> nat \<Rightarrow> string \<Rightarrow> ((go_error, string) result \<times> nat) option" where
  "redraw en i [] = Some (Ok [], i)"
| "redraw en i (c # cs) =
     Option.bind (redraw_byte en i c) (\<lambda>(r, j).
       case r of Err e \<Rightarrow> Some (Err e, j)
       | Ok d \<Rightarrow>
           map_option (\<lambda>(q, k). (case q of Err e \<Rightarrow> Err e | Ok ds \<Rightarrow> Ok (d # ds), k)) (redraw en j cs))"

definition encoded_message :: "string \<Rightarrow> string \<Rightarrow> string" where
  "encoded_message padding message = [chr 0, chr 2] @ padding @ [chr 0] @ message"

definition rsa_block :: "rsaPublicKey \<Rightarrow> string \<Rightarrow> string \<Rightarrow> (go_error, string) result" where
  "rsa_block publicKey message ps =
     (let n = nat (rk_N publicKey); m = be_number (encoded_message ps message)
      in if n \<le> m
         then Err (runtimeFieldsBackendIncompatible
           (Plain ''runtime RSA encoded message is not below the modulus''))
         else Ok (be_bytes (byte_length n) (mod_exp m (nat (rk_E publicKey)) n)))"

definition rsaEncryptPKCS1v15Exact ::
  "rsaPublicKey \<Rightarrow> string \<Rightarrow> entropy option \<Rightarrow> nat \<Rightarrow> ((go_error, string) result \<times> nat) option" where
  "rsaEncryptPKCS1v15Exact publicKey message entropy i =
     (if rk_N publicKey \<le> 0 \<or> rk_E publicKey \<le> 1
      then Some (Err (runtimeFieldsBackendIncompatible (Plain ''runtime RSA public key is invalid'')), i)
      else
        let k = byte_length (nat (rk_N publicKey))
        in if k < 11 \<or> k - 11 < length message
           then Some (Err (Protocol InvalidInput ''runtime fields input is invalid''
             (Some (Plain (''runtime RSA message byte length '' @ itoa (int (length message)) @
                '' exceeds maximum '' @ itoa (int k - 11))))), i)
           else (case entropy of
             None \<Rightarrow> Some (Err (runtimeFieldsBackendIncompatible
                       (Plain ''runtime RSA entropy dependency is missing'')), i)
           | Some en \<Rightarrow>
               (case en i (k - length message - 3) of
                  Err e \<Rightarrow> Some (Err (entropy_failure e ''read runtime RSA padding entropy''), Suc i)
                | Ok padding \<Rightarrow>
                    map_option (\<lambda>(r, j).
                      (case r of Err e \<Rightarrow> Err e | Ok ps \<Rightarrow> rsa_block publicKey message ps, j))
                    (redraw en (Suc i) padding))))"

section \<open>The padding\<close>

lemma redraw_byte_result:
  assumes "redraw_byte en i c = Some (Ok d, j)"
  shows "d \<noteq> chr 0"
proof -
  have "\<forall>d. fst p = Ok d \<longrightarrow> d \<noteq> chr 0" if "redraw_byte en i c = Some p" for p
  proof (rule redraw_byte.raw_induct [where P = "\<lambda>en i c p. \<forall>d. fst p = Ok d \<longrightarrow> d \<noteq> chr 0", OF _ that])
    fix rb :: "entropy \<Rightarrow> nat \<Rightarrow> char \<Rightarrow> ((go_error, char) result \<times> nat) option" and en i c y
    assume ih: "\<And>en i c y. rb en i c = Some y \<Longrightarrow> \<forall>d. fst y = Ok d \<longrightarrow> d \<noteq> chr 0"
      and step: "(if c \<noteq> chr 0 then Some (Ok c, i)
        else case en i 1 of
          Err e \<Rightarrow> Some (Err (entropy_failure e ''redraw runtime RSA padding entropy''), Suc i)
        | Ok s \<Rightarrow> rb en (Suc i) (hd s)) = Some y"
    show "\<forall>d. fst y = Ok d \<longrightarrow> d \<noteq> chr 0"
    proof (cases "c \<noteq> chr 0")
      case False
      then show ?thesis using step ih by (cases "en i 1") auto
    qed (use step in auto)
  qed
  from this [OF assms] show ?thesis by simp
qed

lemma redraw_Cons:
  "redraw en i (c # cs) = Some (Ok ps, j) \<longleftrightarrow>
     (\<exists>d k ds. redraw_byte en i c = Some (Ok d, k) \<and> redraw en k cs = Some (Ok ds, j) \<and> ps = d # ds)"
proof (cases "redraw_byte en i c")
  case (Some p)
  obtain r k where p: "p = (r, k)" by (cases p)
  show ?thesis
  proof (cases r)
    case (Inr d)
    show ?thesis by (cases "redraw en k cs") (auto simp: Some p Inr split: sum.splits)
  qed (simp add: Some p)
qed simp

lemma redraw_result:
  "redraw en i cs = Some (Ok ps, j) \<Longrightarrow> length ps = length cs \<and> chr 0 \<notin> set ps"
proof (induction cs arbitrary: i ps j)
  case (Cons c cs)
  then obtain d k ds where b: "redraw_byte en i c = Some (Ok d, k)" and
    r: "redraw en k cs = Some (Ok ds, j)" and ps: "ps = d # ds"
    unfolding redraw_Cons by blast
  show ?case using Cons.IH [OF r] redraw_byte_result [OF b] by (simp add: ps)
qed simp

text \<open>
  A source stops giving zeros when from any point on some read of one byte fails or gives a
  byte other than zero.
\<close>

definition not_only_zeros :: "entropy \<Rightarrow> bool" where
  "not_only_zeros en \<longleftrightarrow>
     (\<forall>i. \<exists>j \<ge> i. case en j 1 of Err e \<Rightarrow> True | Ok s \<Rightarrow> hd s \<noteq> chr 0)"

lemma redraw_byte_ends:
  assumes "not_only_zeros en"
  shows "\<exists>r. redraw_byte en i c = Some r"
proof -
  obtain j where j: "i \<le> j" "case en j 1 of Err e \<Rightarrow> True | Ok s \<Rightarrow> hd s \<noteq> chr 0"
    using assms by (auto simp: not_only_zeros_def)
  from j(1) show ?thesis
  proof (induction i arbitrary: c rule: inc_induct)
    case base
    show ?case
      using j(2) by (simp add: redraw_byte.simps [of en j c] redraw_byte.simps [of en "Suc j"] split: sum.splits)
  next
    case (step i)
    then show ?case by (simp add: redraw_byte.simps [of en i c] split: sum.splits)
  qed
qed

lemma redraw_ends: "not_only_zeros en \<Longrightarrow> \<exists>r. redraw en i cs = Some r"
proof (induction cs arbitrary: i)
  case (Cons c cs)
  obtain r j where "redraw_byte en i c = Some (r, j)" using redraw_byte_ends [OF Cons.prems] by fastforce
  moreover obtain q where "redraw en j cs = Some q" using Cons.IH [OF Cons.prems] by blast
  ultimately show ?case by (cases r) (auto split: prod.split)
qed simp

section \<open>Reading the block back\<close>

text \<open>The receiver of a block drops the leading 0 and 2 and the padding up to the next 0.\<close>

definition unpad_message :: "string \<Rightarrow> string option" where
  "unpad_message em =
     (case em of a # b # rest \<Rightarrow>
        (let ps = takeWhile (\<lambda>c. c \<noteq> chr 0) rest; tail = dropWhile (\<lambda>c. c \<noteq> chr 0) rest
         in if a = chr 0 \<and> b = chr 2 \<and> 8 \<le> length ps \<and> tail \<noteq> [] then Some (tl tail) else None)
      | _ \<Rightarrow> None)"

lemma unpad_encoded:
  assumes "chr 0 \<notin> set ps" and "8 \<le> length ps"
  shows "unpad_message (encoded_message ps message) = Some message"
proof -
  have "list_all (\<lambda>c. c \<noteq> chr 0) ps" using assms(1) by (auto simp: list_all_iff)
  then show ?thesis
    using assms(2) by (simp add: unpad_message_def encoded_message_def takeWhile_append_stop
        dropWhile_append_stop)
qed

definition valid_public_key :: "rsaPublicKey \<Rightarrow> bool" where
  "valid_public_key pk \<longleftrightarrow> 0 < rk_N pk \<and> 1 < rk_E pk \<and> 11 \<le> byte_length (nat (rk_N pk))"

lemma rsa_result:
  assumes "rsaEncryptPKCS1v15Exact pk message (Some en) i = Some (Ok c, j)" and "fills en"
  shows "\<exists>ps. chr 0 \<notin> set ps \<and> 8 \<le> length ps \<and>
    length (encoded_message ps message) = byte_length (nat (rk_N pk)) \<and>
    be_number (encoded_message ps message) < nat (rk_N pk) \<and>
    c = be_bytes (byte_length (nat (rk_N pk)))
      (be_number (encoded_message ps message) ^ nat (rk_E pk) mod nat (rk_N pk))"
proof -
  let ?n = "nat (rk_N pk)" and ?k = "byte_length (nat (rk_N pk))"
  from assms(1) have k: "11 \<le> ?k" "length message \<le> ?k - 11"
    by (auto simp: rsaEncryptPKCS1v15Exact_def Let_def split: if_splits)
  with assms(1) obtain padding where read: "en i (?k - length message - 3) = Ok padding"
    by (auto simp: rsaEncryptPKCS1v15Exact_def Let_def split: if_splits sum.splits)
  from assms(1) k read obtain r where "redraw en (Suc i) padding = Some (r, j)"
    and res: "(case r of Err e \<Rightarrow> Err e | Ok ps \<Rightarrow> rsa_block pk message ps) = Ok c"
    by (auto simp: rsaEncryptPKCS1v15Exact_def Let_def split: if_splits)
  then obtain ps where ps: "redraw en (Suc i) padding = Some (Ok ps, j)" and "rsa_block pk message ps = Ok c"
    by (auto split: sum.splits)
  then have m: "be_number (encoded_message ps message) < ?n"
    and c: "c = be_bytes ?k (be_number (encoded_message ps message) ^ nat (rk_E pk) mod ?n)"
    by (auto simp: rsa_block_def Let_def mod_exp_eq not_le split: if_splits)
  have "length padding = ?k - length message - 3" using fillsD [OF assms(2) read] .
  then have l: "length ps = ?k - length message - 3" "chr 0 \<notin> set ps" using redraw_result [OF ps] by simp_all
  then have "8 \<le> length ps" "length (encoded_message ps message) = ?k"
    using k by (simp_all add: encoded_message_def)
  with l(2) m c show ?thesis by blast
qed

text \<open>
  The key of a runtime field is encrypted in the PKCS#1 v1.5 form: a success is the modular
  power of a block as long as the modulus, below it, from which the receiver reads the message
  back; and the encryption returns, whatever the source, unless it gives zeros for ever.
\<close>

lemma rsa_block_valid:
  assumes "fills en" and "not_only_zeros en"
  shows "\<exists>r j. rsaEncryptPKCS1v15Exact pk message (Some en) i = Some (r, j) \<and>
    (case r of Err e \<Rightarrow> True
     | Ok c \<Rightarrow> \<exists>em. unpad_message em = Some message \<and> length em = length c \<and>
         be_number em < nat (rk_N pk) \<and> be_number c = be_number em ^ nat (rk_E pk) mod nat (rk_N pk))"
proof -
  have "\<exists>p. rsaEncryptPKCS1v15Exact pk message (Some en) i = Some p"
    using redraw_ends [OF assms(2)] by (fastforce simp: rsaEncryptPKCS1v15Exact_def Let_def split: sum.split)
  then obtain r j where run: "rsaEncryptPKCS1v15Exact pk message (Some en) i = Some (r, j)" by fastforce
  show ?thesis
  proof (cases r)
    case (Inr c)
    then obtain ps where ps: "chr 0 \<notin> set ps" "8 \<le> length ps"
      and em: "length (encoded_message ps message) = byte_length (nat (rk_N pk))"
        "be_number (encoded_message ps message) < nat (rk_N pk)"
      and c: "c = be_bytes (byte_length (nat (rk_N pk)))
        (be_number (encoded_message ps message) ^ nat (rk_E pk) mod nat (rk_N pk))"
      using rsa_result [of pk message en i c j] run assms(1) by blast
    let ?p = "be_number (encoded_message ps message) ^ nat (rk_E pk) mod nat (rk_N pk)"
    have "?p < nat (rk_N pk)" using em(2) by simp
    also have "\<dots> < 256 ^ byte_length (nat (rk_N pk))" by (rule byte_length_bound)
    finally have "be_number c = ?p" by (simp add: c be_number_bytes)
    then show ?thesis using run Inr em unpad_encoded [OF ps] c by auto
  qed (use run in auto)
qed

definition ones :: entropy where
  "ones i n = Ok (replicate n (chr 1))"

lemma rsa_block_valid_witness:
  "\<exists>p. rsaEncryptPKCS1v15Exact \<lparr>rk_N = 256 ^ 11 + 1, rk_E = 3\<rparr> ''A'' (Some ones) 0 = Some p"
proof -
  have "fills ones" by (simp add: fills_def ones_def)
  moreover have "chr 1 \<noteq> chr 0" using chr_inject [of 1 0] by simp
  then have "not_only_zeros ones" by (auto simp: not_only_zeros_def ones_def)
  ultimately show ?thesis using rsa_block_valid [of ones] by blast
qed

end
