(* ===== verification/Block_Modes.thy ===== *)
theory Block_Modes
  imports Uuid
begin

text \<open>
  Bytes as words, exclusive or of byte strings, and cipher block chaining
  (\<open>crypto/cipher.NewCBCEncrypter\<close> and \<open>NewCBCDecrypter\<close>) over any block cipher that meets the
  contract of the locale. \<open>Aes\<close> provides the cipher and interprets the locale.
\<close>

section \<open>Exclusive or of byte strings\<close>

definition xor_bytes :: "string \<Rightarrow> string \<Rightarrow> string" where
  "xor_bytes a b = map2 (\<lambda>x y. word_byte (byte_word x XOR byte_word y)) a b"

lemma xor_bytes_length [simp]: "length (xor_bytes a b) = min (length a) (length b)"
  by (simp add: xor_bytes_def)

lemma xor_bytes_cancel: "length a = length b \<Longrightarrow> xor_bytes a (xor_bytes a b) = b"
proof (induction a b rule: list_induct2)
  case (Cons x a y b)
  have "byte_word x XOR (byte_word x XOR byte_word y) = byte_word y"
    by (simp add: xor.assoc [symmetric])
  with Cons show ?case by (simp add: xor_bytes_def)
qed (simp add: xor_bytes_def)

section \<open>Cipher block chaining\<close>

definition block_size :: nat where "block_size = 16"

function cbc_encrypt :: "(string \<Rightarrow> string) \<Rightarrow> string \<Rightarrow> string \<Rightarrow> string" where
  "cbc_encrypt E iv s =
     (if s = [] then []
      else let c = E (xor_bytes iv (take block_size s))
           in c @ cbc_encrypt E c (drop block_size s))"
  by pat_completeness auto
termination
  by (relation "measure (\<lambda>(E, iv, s). length s)") (simp_all add: block_size_def)

function cbc_decrypt :: "(string \<Rightarrow> string) \<Rightarrow> string \<Rightarrow> string \<Rightarrow> string" where
  "cbc_decrypt D iv s =
     (if s = [] then []
      else let c = take block_size s
           in xor_bytes iv (D c) @ cbc_decrypt D c (drop block_size s))"
  by pat_completeness auto
termination
  by (relation "measure (\<lambda>(D, iv, s). length s)") (simp_all add: block_size_def)

declare cbc_encrypt.simps [simp del] cbc_decrypt.simps [simp del]

lemma cbc_Nil [simp]: "cbc_encrypt E iv [] = []" "cbc_decrypt D iv [] = []"
  by (simp_all add: cbc_encrypt.simps cbc_decrypt.simps)

lemma cbc_block:
  assumes "length b = block_size"
  shows "cbc_encrypt E iv (b @ s) = (let c = E (xor_bytes iv b) in c @ cbc_encrypt E c s)"
    and "cbc_decrypt D iv (b @ s) = xor_bytes iv (D b) @ cbc_decrypt D b s"
  using assms by (auto simp: cbc_encrypt.simps [of _ _ "b @ s"] cbc_decrypt.simps [of _ _ "b @ s"]
      block_size_def Let_def)

text \<open>Whole blocks, one at a time.\<close>

lemma aligned_induct [consumes 1, case_names empty block]:
  assumes "block_size dvd length s" and "P []"
    and "\<And>b s. length b = block_size \<Longrightarrow> block_size dvd length s \<Longrightarrow> P s \<Longrightarrow> P (b @ s)"
  shows "P s"
  using assms(1)
proof (induction s rule: length_induct)
  case (1 s)
  show ?case
  proof (cases "s = []")
    case False
    with 1(2) have long: "block_size \<le> length s" by (auto intro: dvd_imp_le)
    then have "P (drop block_size s)" using 1 False by (auto simp: block_size_def dvd_diff_nat)
    then show ?thesis
      using assms(3) [of "take block_size s" "drop block_size s"] long 1(2) by (simp add: dvd_diff_nat)
  qed (simp add: assms(2))
qed

locale block_cipher =
  fixes enc_block dec_block :: "string \<Rightarrow> string \<Rightarrow> string" and key_ok :: "string \<Rightarrow> bool"
  assumes enc_length: "\<lbrakk> key_ok k; length b = block_size \<rbrakk> \<Longrightarrow> length (enc_block k b) = block_size"
    and dec_length: "\<lbrakk> key_ok k; length b = block_size \<rbrakk> \<Longrightarrow> length (dec_block k b) = block_size"
    and dec_enc: "\<lbrakk> key_ok k; length b = block_size \<rbrakk> \<Longrightarrow> dec_block k (enc_block k b) = b"
    and enc_dec: "\<lbrakk> key_ok k; length b = block_size \<rbrakk> \<Longrightarrow> enc_block k (dec_block k b) = b"
begin

lemma cbc_encrypt_length:
  assumes "key_ok k" and "block_size dvd length s"
  shows "length iv = block_size \<Longrightarrow> length (cbc_encrypt (enc_block k) iv s) = length s"
  using assms(2)
proof (induction s arbitrary: iv rule: aligned_induct)
  case (block b s)
  then show ?case using assms(1) by (simp add: cbc_block Let_def enc_length)
qed simp

lemma cbc_decrypt_length:
  assumes "key_ok k" and "block_size dvd length s"
  shows "length iv = block_size \<Longrightarrow> length (cbc_decrypt (dec_block k) iv s) = length s"
  using assms(2)
proof (induction s arbitrary: iv rule: aligned_induct)
  case (block b s)
  then show ?case using assms(1) by (simp add: cbc_block dec_length)
qed simp

lemma cbc_decrypt_encrypt:
  assumes "key_ok k" and "block_size dvd length s"
  shows "length iv = block_size \<Longrightarrow>
    cbc_decrypt (dec_block k) iv (cbc_encrypt (enc_block k) iv s) = s"
  using assms(2)
proof (induction s arbitrary: iv rule: aligned_induct)
  case (block b s)
  then show ?case
    using assms(1) by (simp add: cbc_block Let_def enc_length dec_enc xor_bytes_cancel)
qed simp

lemma cbc_encrypt_decrypt:
  assumes "key_ok k" and "block_size dvd length s"
  shows "length iv = block_size \<Longrightarrow>
    cbc_encrypt (enc_block k) iv (cbc_decrypt (dec_block k) iv s) = s"
  using assms(2)
proof (induction s arbitrary: iv rule: aligned_induct)
  case (block b s)
  then show ?case
    using assms(1) by (simp add: cbc_block Let_def dec_length enc_dec xor_bytes_cancel)
qed simp

end

end
