(* ===== verification/Aes.thy ===== *)
theory Aes
  imports Block_Modes
begin

text \<open>
  The block cipher of \<open>crypto/aes\<close> as FIPS 197 defines it, for keys of 16, 24 and 32 bytes:
  the byte substitution, the row shift, the column mix over GF(2^8), the key schedule and the
  two directions of the cipher. The block is the list of its sixteen bytes, column by column.
  Every step has an inverse, so the cipher meets the contract of \<open>Block_Modes.block_cipher\<close>.
\<close>

section \<open>Bytes\<close>

definition sbox_numbers :: "nat list" where
  "sbox_numbers =
    [
     0x63, 0x7c, 0x77, 0x7b, 0xf2, 0x6b, 0x6f, 0xc5, 0x30, 0x01, 0x67, 0x2b, 0xfe, 0xd7, 0xab, 0x76,
     0xca, 0x82, 0xc9, 0x7d, 0xfa, 0x59, 0x47, 0xf0, 0xad, 0xd4, 0xa2, 0xaf, 0x9c, 0xa4, 0x72, 0xc0,
     0xb7, 0xfd, 0x93, 0x26, 0x36, 0x3f, 0xf7, 0xcc, 0x34, 0xa5, 0xe5, 0xf1, 0x71, 0xd8, 0x31, 0x15,
     0x04, 0xc7, 0x23, 0xc3, 0x18, 0x96, 0x05, 0x9a, 0x07, 0x12, 0x80, 0xe2, 0xeb, 0x27, 0xb2, 0x75,
     0x09, 0x83, 0x2c, 0x1a, 0x1b, 0x6e, 0x5a, 0xa0, 0x52, 0x3b, 0xd6, 0xb3, 0x29, 0xe3, 0x2f, 0x84,
     0x53, 0xd1, 0x00, 0xed, 0x20, 0xfc, 0xb1, 0x5b, 0x6a, 0xcb, 0xbe, 0x39, 0x4a, 0x4c, 0x58, 0xcf,
     0xd0, 0xef, 0xaa, 0xfb, 0x43, 0x4d, 0x33, 0x85, 0x45, 0xf9, 0x02, 0x7f, 0x50, 0x3c, 0x9f, 0xa8,
     0x51, 0xa3, 0x40, 0x8f, 0x92, 0x9d, 0x38, 0xf5, 0xbc, 0xb6, 0xda, 0x21, 0x10, 0xff, 0xf3, 0xd2,
     0xcd, 0x0c, 0x13, 0xec, 0x5f, 0x97, 0x44, 0x17, 0xc4, 0xa7, 0x7e, 0x3d, 0x64, 0x5d, 0x19, 0x73,
     0x60, 0x81, 0x4f, 0xdc, 0x22, 0x2a, 0x90, 0x88, 0x46, 0xee, 0xb8, 0x14, 0xde, 0x5e, 0x0b, 0xdb,
     0xe0, 0x32, 0x3a, 0x0a, 0x49, 0x06, 0x24, 0x5c, 0xc2, 0xd3, 0xac, 0x62, 0x91, 0x95, 0xe4, 0x79,
     0xe7, 0xc8, 0x37, 0x6d, 0x8d, 0xd5, 0x4e, 0xa9, 0x6c, 0x56, 0xf4, 0xea, 0x65, 0x7a, 0xae, 0x08,
     0xba, 0x78, 0x25, 0x2e, 0x1c, 0xa6, 0xb4, 0xc6, 0xe8, 0xdd, 0x74, 0x1f, 0x4b, 0xbd, 0x8b, 0x8a,
     0x70, 0x3e, 0xb5, 0x66, 0x48, 0x03, 0xf6, 0x0e, 0x61, 0x35, 0x57, 0xb9, 0x86, 0xc1, 0x1d, 0x9e,
     0xe1, 0xf8, 0x98, 0x11, 0x69, 0xd9, 0x8e, 0x94, 0x9b, 0x1e, 0x87, 0xe9, 0xce, 0x55, 0x28, 0xdf,
     0x8c, 0xa1, 0x89, 0x0d, 0xbf, 0xe6, 0x42, 0x68, 0x41, 0x99, 0x2d, 0x0f, 0xb0, 0x54, 0xbb, 0x16]"

definition sbox_table :: "8 word list" where
  "sbox_table = map word_of_nat sbox_numbers"

fun position :: "nat \<Rightarrow> 8 word list \<Rightarrow> 8 word \<Rightarrow> nat" where
  "position i [] w = i"
| "position i (x # xs) w = (if x = w then i else position (Suc i) xs w)"

definition sub_byte :: "8 word \<Rightarrow> 8 word" where
  "sub_byte w = sbox_table ! unat w"

definition inv_sub_byte :: "8 word \<Rightarrow> 8 word" where
  "inv_sub_byte w = word_of_nat (position 0 sbox_table w)"

definition xtime :: "8 word \<Rightarrow> 8 word" where
  "xtime w = push_bit 1 w XOR (if bit w 7 then 0x1b else 0)"

section \<open>Rounds\<close>

definition sub_bytes :: "8 word list \<Rightarrow> 8 word list" where
  "sub_bytes s = map sub_byte s"

definition inv_sub_bytes :: "8 word list \<Rightarrow> 8 word list" where
  "inv_sub_bytes s = map inv_sub_byte s"

definition shift_rows :: "8 word list \<Rightarrow> 8 word list" where
  "shift_rows s = map (\<lambda>i. s ! i) [0, 5, 10, 15, 4, 9, 14, 3, 8, 13, 2, 7, 12, 1, 6, 11]"

definition inv_shift_rows :: "8 word list \<Rightarrow> 8 word list" where
  "inv_shift_rows s = map (\<lambda>i. s ! i) [0, 13, 10, 7, 4, 1, 14, 11, 8, 5, 2, 15, 12, 9, 6, 3]"

definition mul3 :: "8 word \<Rightarrow> 8 word" where "mul3 w = xtime w XOR w"
definition mul9 :: "8 word \<Rightarrow> 8 word" where "mul9 w = xtime (xtime (xtime w)) XOR w"
definition mul11 :: "8 word \<Rightarrow> 8 word" where
  "mul11 w = xtime (xtime (xtime w)) XOR xtime w XOR w"
definition mul13 :: "8 word \<Rightarrow> 8 word" where
  "mul13 w = xtime (xtime (xtime w)) XOR xtime (xtime w) XOR w"
definition mul14 :: "8 word \<Rightarrow> 8 word" where
  "mul14 w = xtime (xtime (xtime w)) XOR xtime (xtime w) XOR xtime w"

fun mix_columns :: "8 word list \<Rightarrow> 8 word list" where
  "mix_columns (a # b # c # d # s) =
     (xtime a XOR mul3 b XOR c XOR d) # (a XOR xtime b XOR mul3 c XOR d) #
     (a XOR b XOR xtime c XOR mul3 d) # (mul3 a XOR b XOR c XOR xtime d) # mix_columns s"
| "mix_columns s = s"

fun inv_mix_columns :: "8 word list \<Rightarrow> 8 word list" where
  "inv_mix_columns (a # b # c # d # s) =
     (mul14 a XOR mul11 b XOR mul13 c XOR mul9 d) # (mul9 a XOR mul14 b XOR mul11 c XOR mul13 d) #
     (mul13 a XOR mul9 b XOR mul14 c XOR mul11 d) # (mul11 a XOR mul13 b XOR mul9 c XOR mul14 d) #
     inv_mix_columns s"
| "inv_mix_columns s = s"

definition add_round_key :: "8 word list \<Rightarrow> 8 word list \<Rightarrow> 8 word list" where
  "add_round_key k s = map2 (XOR) k s"

fun cipher_rounds :: "8 word list list \<Rightarrow> 8 word list \<Rightarrow> 8 word list" where
  "cipher_rounds [] s = s"
| "cipher_rounds [k] s = add_round_key k (shift_rows (sub_bytes s))"
| "cipher_rounds (k # ks) s =
     cipher_rounds ks (add_round_key k (mix_columns (shift_rows (sub_bytes s))))"

fun inv_cipher_rounds :: "8 word list list \<Rightarrow> 8 word list \<Rightarrow> 8 word list" where
  "inv_cipher_rounds [] s = s"
| "inv_cipher_rounds [k] s = inv_sub_bytes (inv_shift_rows (add_round_key k s))"
| "inv_cipher_rounds (k # ks) s =
     inv_sub_bytes (inv_shift_rows (inv_mix_columns (add_round_key k (inv_cipher_rounds ks s))))"

section \<open>Key schedule\<close>

text \<open>
  The schedule is a list of four-byte words, the newest first; \<open>nk\<close> is the number of words of
  the key and \<open>i\<close> the number of the word to make.
\<close>

definition rot_word :: "8 word list \<Rightarrow> 8 word list" where
  "rot_word w = tl w @ [hd w]"

definition round_constant :: "nat \<Rightarrow> 8 word list" where
  "round_constant j = [(xtime ^^ (j - 1)) 1, 0, 0, 0]"

definition schedule_word :: "nat \<Rightarrow> nat \<Rightarrow> 8 word list \<Rightarrow> 8 word list" where
  "schedule_word nk i w =
     (if i mod nk = 0 then map2 (XOR) (sub_bytes (rot_word w)) (round_constant (i div nk))
      else if 6 < nk \<and> i mod nk = 4 then sub_bytes w
      else w)"

fun schedule :: "nat \<Rightarrow> nat \<Rightarrow> 8 word list list \<Rightarrow> 8 word list list" where
  "schedule nk 0 ws = ws"
| "schedule nk (Suc n) ws =
     schedule nk n (map2 (XOR) (ws ! (nk - 1)) (schedule_word nk (length ws) (hd ws)) # ws)"

fun group4 :: "'a list \<Rightarrow> 'a list list" where
  "group4 (a # b # c # d # s) = [a, b, c, d] # group4 s"
| "group4 s = []"

definition round_keys :: "8 word list \<Rightarrow> 8 word list list" where
  "round_keys key =
     (let nk = length key div 4
      in map concat (group4 (rev (schedule nk (4 * (nk + 7) - nk) (rev (group4 key))))))"

definition aes_cipher :: "8 word list list \<Rightarrow> 8 word list \<Rightarrow> 8 word list" where
  "aes_cipher ks s = cipher_rounds (tl ks) (add_round_key (hd ks) s)"

definition aes_inv_cipher :: "8 word list list \<Rightarrow> 8 word list \<Rightarrow> 8 word list" where
  "aes_inv_cipher ks s = add_round_key (hd ks) (inv_cipher_rounds (tl ks) s)"

definition aes_key :: "string \<Rightarrow> bool" where
  "aes_key key \<longleftrightarrow> length key \<in> {16, 24, 32}"

definition aes_encrypt :: "string \<Rightarrow> string \<Rightarrow> string" where
  "aes_encrypt key block = map word_byte (aes_cipher (round_keys (map byte_word key)) (map byte_word block))"

definition aes_decrypt :: "string \<Rightarrow> string \<Rightarrow> string" where
  "aes_decrypt key block = map word_byte (aes_inv_cipher (round_keys (map byte_word key)) (map byte_word block))"

section \<open>Every step has an inverse\<close>

text \<open>That no entry comes twice is checked by splitting on the bits of the entries.\<close>

fun bit_distinct :: "nat \<Rightarrow> nat list \<Rightarrow> bool" where
  "bit_distinct 0 xs \<longleftrightarrow> length xs \<le> 1"
| "bit_distinct (Suc n) xs \<longleftrightarrow>
     bit_distinct n (map (\<lambda>x. x div 2) (filter even xs)) \<and>
     bit_distinct n (map (\<lambda>x. x div 2) (filter odd xs))"

lemma bit_distinct: "bit_distinct n xs \<Longrightarrow> distinct xs"
proof (induction n arbitrary: xs)
  case 0
  then show ?case by (cases xs) auto
next
  case (Suc n)
  then have "distinct (map (\<lambda>x. x div 2) (filter even xs))" "distinct (map (\<lambda>x. x div 2) (filter odd xs))"
    by simp_all
  then have "distinct (filter even xs)" "distinct (filter odd xs)"
    using distinct_map by blast+
  then show ?case
    by (induction xs) (auto split: if_splits)
qed

lemma sbox_length: "length sbox_table = 256"
  by (simp add: sbox_table_def sbox_numbers_def)

lemma sbox_small: "list_all (\<lambda>n. n < 256) sbox_numbers"
  by (simp add: sbox_numbers_def)

lemma sbox_bits: "bit_distinct (Suc (Suc (Suc (Suc (Suc (Suc (Suc (Suc 0)))))))) sbox_numbers"
  by (simp add: sbox_numbers_def)

lemma sbox_distinct: "distinct sbox_table"
proof -
  have "inj_on (word_of_nat :: nat \<Rightarrow> 8 word) (set sbox_numbers)"
  proof (rule inj_onI)
    fix m n :: nat
    assume "m \<in> set sbox_numbers" "n \<in> set sbox_numbers" and same: "(word_of_nat m :: 8 word) = word_of_nat n"
    then have "m < 256" "n < 256" using sbox_small by (auto simp: list_all_iff)
    then have "unat (word_of_nat m :: 8 word) = m" "unat (word_of_nat n :: 8 word) = n"
      by (simp_all add: unat_of_nat)
    with same show "m = n" by metis
  qed
  then show ?thesis using bit_distinct [OF sbox_bits] by (simp add: sbox_table_def distinct_map)
qed

lemma position_nth: "distinct xs \<Longrightarrow> j < length xs \<Longrightarrow> position i xs (xs ! j) = i + j"
proof (induction xs arbitrary: i j)
  case (Cons x xs)
  then show ?case by (cases j) auto
qed simp

lemma byte_index: "unat w < 256" for w :: "8 word"
  using unsigned_less [of w, where ?'a = nat] by simp

lemma inv_sub_byte [simp]: "inv_sub_byte (sub_byte w) = w"
  using position_nth [OF sbox_distinct, of "unat w" 0] byte_index [of w]
  by (simp add: inv_sub_byte_def sub_byte_def sbox_length)

text \<open>An injection of the bytes into the bytes has its left inverse as right inverse.\<close>

lemma sub_byte_surj: "\<exists>v. sub_byte v = w"
proof -
  have "inj sub_byte" by (metis injI inv_sub_byte)
  then have "surj sub_byte" by (simp add: finite_UNIV_inj_surj)
  then show ?thesis by (metis surj_def)
qed

lemma sub_byte_inv [simp]: "sub_byte (inv_sub_byte w) = w"
  using sub_byte_surj [of w] by auto

lemma sub_bytes_inverse [simp]: "inv_sub_bytes (sub_bytes s) = s" "sub_bytes (inv_sub_bytes s) = s"
  by (simp_all add: sub_bytes_def inv_sub_bytes_def o_def)

lemma sub_bytes_length [simp]: "length (sub_bytes s) = length s" "length (inv_sub_bytes s) = length s"
  by (simp_all add: sub_bytes_def inv_sub_bytes_def)

lemma state16:
  assumes "length s = 16"
  obtains a b c d e f g h i j k l m n p q where "s = [a, b, c, d, e, f, g, h, i, j, k, l, m, n, p, q]"
  using assms by (auto simp: numeral_eq_Suc length_Suc_conv)

lemma shift_rows_inverse:
  assumes "length s = 16"
  shows "inv_shift_rows (shift_rows s) = s" "shift_rows (inv_shift_rows s) = s"
  by (rule state16 [OF assms]; simp add: shift_rows_def inv_shift_rows_def)+

lemma shift_rows_length [simp]: "length (shift_rows s) = 16" "length (inv_shift_rows s) = 16"
  by (simp_all add: shift_rows_def inv_shift_rows_def)

lemma xor_cancel [simp]: "a XOR (a XOR b) = b" for a b :: "8 word"
  by (simp add: xor.assoc [symmetric])

lemma xtime_xor: "xtime (a XOR b) = xtime a XOR xtime b"
proof -
  have "push_bit 1 (a XOR b) = push_bit 1 a XOR push_bit 1 b" by (rule push_bit_xor)
  then show ?thesis by (auto simp: xtime_def bit_xor_iff xor.left_commute xor.commute xor.assoc)
qed

lemmas column_defs = mul3_def mul9_def mul11_def mul13_def mul14_def

lemma mix_columns_inverse [simp]: "inv_mix_columns (mix_columns s) = s" "mix_columns (inv_mix_columns s) = s"
  by (induction s rule: mix_columns.induct)
    (simp_all add: column_defs xtime_xor xor.assoc xor.commute xor.left_commute)

lemma mix_columns_length [simp]: "length (mix_columns s) = length s" "length (inv_mix_columns s) = length s"
  by (induction s rule: mix_columns.induct) simp_all

lemma add_round_key_length [simp]: "length (add_round_key k s) = min (length k) (length s)"
  by (simp add: add_round_key_def)

lemma add_round_key_inverse: "length k = length s \<Longrightarrow> add_round_key k (add_round_key k s) = s"
  by (induction k s rule: list_induct2) (simp_all add: add_round_key_def)

definition keys_ok :: "8 word list list \<Rightarrow> bool" where
  "keys_ok ks \<longleftrightarrow> list_all (\<lambda>k. length k = 16) ks"

lemma cipher_rounds_length:
  "keys_ok ks \<Longrightarrow> length s = 16 \<Longrightarrow> length (cipher_rounds ks s) = 16"
  "keys_ok ks \<Longrightarrow> length s = 16 \<Longrightarrow> length (inv_cipher_rounds ks s) = 16"
  by (induction ks s rule: cipher_rounds.induct) (simp_all add: keys_ok_def)

lemma inv_cipher_rounds:
  "keys_ok ks \<Longrightarrow> length s = 16 \<Longrightarrow> inv_cipher_rounds ks (cipher_rounds ks s) = s"
proof (induction ks s rule: cipher_rounds.induct)
  case (2 k s)
  then show ?case by (simp add: keys_ok_def add_round_key_inverse shift_rows_inverse)
next
  case (3 k k' ks s)
  then show ?case by (simp add: keys_ok_def add_round_key_inverse shift_rows_inverse)
qed simp

lemma cipher_inv_rounds:
  "keys_ok ks \<Longrightarrow> length s = 16 \<Longrightarrow> cipher_rounds ks (inv_cipher_rounds ks s) = s"
proof (induction ks s rule: inv_cipher_rounds.induct)
  case (2 k s)
  then show ?case by (simp add: keys_ok_def add_round_key_inverse shift_rows_inverse)
next
  case (3 k k' ks s)
  then show ?case
    by (simp add: keys_ok_def add_round_key_inverse shift_rows_inverse cipher_rounds_length)
qed simp

section \<open>The key schedule is long enough\<close>

lemma group4_all: "list_all (\<lambda>g. length g = 4) (group4 s)" "length (group4 s) = length s div 4"
  by (induction s rule: group4.induct) simp_all

lemma schedule_word_length: "length w = 4 \<Longrightarrow> length (schedule_word nk i w) = 4"
  by (cases w) (simp_all add: schedule_word_def rot_word_def round_constant_def)

lemma schedule_ok:
  assumes "0 < nk"
  shows "nk \<le> length ws \<Longrightarrow> list_all (\<lambda>w. length w = 4) ws \<Longrightarrow>
    list_all (\<lambda>w. length w = 4) (schedule nk n ws) \<and> length (schedule nk n ws) = n + length ws"
proof (induction n arbitrary: ws)
  case (Suc n)
  have "ws \<noteq> []" using Suc.prems(1) assms by auto
  then have "length (hd ws) = 4" "length (ws ! (nk - 1)) = 4"
    using Suc.prems assms by (auto simp: list_all_iff list_all_length)
  then show ?case
    using Suc.IH [of "map2 (XOR) (ws ! (nk - 1)) (schedule_word nk (length ws) (hd ws)) # ws"] Suc.prems
    by (simp add: schedule_word_length)
qed simp

lemma group4_words: "list_all (\<lambda>w. length w = 4) s \<Longrightarrow> keys_ok (map concat (group4 s))"
  by (induction s rule: group4.induct) (simp_all add: keys_ok_def)

lemma round_keys_ok:
  assumes "length key \<in> {16, 24, 32}"
  shows "keys_ok (round_keys key)" "hd (round_keys key) \<in> set (round_keys key)"
    "length (round_keys key) = length key div 4 + 7"
proof -
  let ?nk = "length key div 4"
  let ?ws = "schedule ?nk (4 * (?nk + 7) - ?nk) (rev (group4 key))"
  have nk: "0 < ?nk" "?nk \<le> 4 * (?nk + 7)" using assms by auto
  have "list_all (\<lambda>w. length w = 4) ?ws \<and> length ?ws = 4 * (?nk + 7) - ?nk + length (rev (group4 key))"
    by (rule schedule_ok [OF nk(1)]) (simp_all add: group4_all)
  then have ws: "list_all (\<lambda>w. length w = 4) ?ws" "length ?ws = 4 * (?nk + 7)"
    using nk by (simp_all add: group4_all)
  show "keys_ok (round_keys key)"
    using ws(1) by (simp add: round_keys_def Let_def group4_words)
  show l: "length (round_keys key) = ?nk + 7"
    using ws(2) by (simp add: round_keys_def Let_def group4_all)
  then have "round_keys key \<noteq> []" by auto
  then show "hd (round_keys key) \<in> set (round_keys key)" by simp
qed

lemma round_keys_parts:
  assumes "length key \<in> {16, 24, 32}"
  shows "keys_ok (tl (round_keys key))" "length (hd (round_keys key)) = 16"
  using round_keys_ok [OF assms] by (cases "round_keys key"; auto simp: keys_ok_def)+

interpretation aes: block_cipher aes_encrypt aes_decrypt aes_key
proof unfold_locales
  fix k b :: string
  assume k: "aes_key k" and b: "length b = block_size"
  then have l: "length (map byte_word k) \<in> {16, 24, 32}" "length (map byte_word b) = 16"
    by (simp_all add: aes_key_def block_size_def)
  note parts = round_keys_parts [OF l(1)]
  show "length (aes_encrypt k b) = block_size" "length (aes_decrypt k b) = block_size"
    using parts l(2) by (simp_all add: aes_encrypt_def aes_decrypt_def aes_cipher_def
        aes_inv_cipher_def cipher_rounds_length block_size_def)
  have "map word_byte (map byte_word b) = b" by (simp add: o_def)
  then show "aes_decrypt k (aes_encrypt k b) = b" "aes_encrypt k (aes_decrypt k b) = b"
    using parts l(2) by (simp_all add: aes_encrypt_def aes_decrypt_def aes_cipher_def o_def
        aes_inv_cipher_def cipher_rounds_length inv_cipher_rounds cipher_inv_rounds add_round_key_inverse)
qed

end
