(* ===== verification/Codec_Helpers.thy ===== *)
theory Codec_Helpers
  imports Go_Base64 Protocol_Error Aes
begin

text \<open>
  \<open>native_codec_helpers.go\<close>: strict base64, PKCS#7 padding and AES-CBC with that padding. The
  errors are the code's; a slice never has more than \<open>2 ^ 63 - 1\<close> bytes, and the overflow
  check of \<open>pkcs7Pad\<close> is kept.
\<close>

section \<open>The code\<close>

definition max_int :: nat where "max_int = 9223372036854775807"

definition decodeStrictStdBase64 :: "string \<Rightarrow> (go_error, string) result" where
  "decodeStrictStdBase64 value =
     (if ContainsAny value [CR, LF] then Err (Plain ''standard base64 contains a line break'')
      else (case b64_decode StdStrict value of
         None \<Rightarrow> Err (Wrap ''strict standard base64 decode'' (Plain ''illegal base64 data''))
       | Some decoded \<Rightarrow>
           (if b64_encode StdEncoding decoded \<noteq> value
            then Err (Plain ''standard base64 is not canonical'')
            else Ok decoded)))"

definition invalid_block_size :: "nat \<Rightarrow> go_error" where
  "invalid_block_size n = Plain (''PKCS#7 block size '' @ itoa (int n) @ '' is invalid'')"

definition pkcs7Pad :: "string \<Rightarrow> nat \<Rightarrow> (go_error, string) result" where
  "pkcs7Pad src blockSize =
     (if blockSize < 1 \<or> 255 < blockSize then Err (invalid_block_size blockSize)
      else let paddingLen = blockSize - length src mod blockSize
           in if max_int - paddingLen < length src
              then Err (Plain ''PKCS#7 padded length overflows int'')
              else Ok (src @ replicate paddingLen (chr paddingLen)))"

definition pkcs7Unpad :: "string \<Rightarrow> nat \<Rightarrow> (go_error, string) result" where
  "pkcs7Unpad src blockSize =
     (if blockSize < 1 \<or> 255 < blockSize then Err (invalid_block_size blockSize)
      else if src = [] then Err (Plain ''PKCS#7 input is empty'')
      else if length src mod blockSize \<noteq> 0 then Err (Plain ''PKCS#7 input is not block aligned'')
      else let paddingLen = ord (last src)
           in if paddingLen = 0 \<or> blockSize < paddingLen \<or> length src < paddingLen
              then Err (Plain ''PKCS#7 padding length is invalid'')
              else let paddingStart = length src - paddingLen
                   in if list_ex (\<lambda>c. ord c \<noteq> paddingLen) (drop paddingStart src)
                      then Err (Plain ''PKCS#7 padding bytes are inconsistent'')
                      else Ok (take paddingStart src))"

definition validateAESCBCKeyAndIV :: "string \<Rightarrow> string \<Rightarrow> go_error option" where
  "validateAESCBCKeyAndIV key iv =
     (if length key \<notin> {16, 24, 32}
      then Some (Plain (''AES key length '' @ itoa (int (length key)) @ '' is invalid''))
      else if length iv \<noteq> block_size
      then Some (Plain (''AES-CBC IV length '' @ itoa (int (length iv)) @
             '' does not match block size '' @ itoa (int block_size)))
      else None)"

text \<open>
  \<open>aes.NewCipher\<close> fails on the key lengths that \<open>validateAESCBCKeyAndIV\<close> has already refused,
  so its error branch is not taken.
\<close>

definition aesCBCEncryptPKCS7 :: "string \<Rightarrow> string \<Rightarrow> string \<Rightarrow> (go_error, string) result" where
  "aesCBCEncryptPKCS7 plain key iv =
     (case validateAESCBCKeyAndIV key iv of Some e \<Rightarrow> Err e
      | None \<Rightarrow>
          (case pkcs7Pad plain block_size of
             Err e \<Rightarrow> Err (Wrap ''pad AES-CBC plaintext'' e)
           | Ok padded \<Rightarrow> Ok (cbc_encrypt (aes_encrypt key) iv padded)))"

definition aesCBCDecryptPKCS7 :: "string \<Rightarrow> string \<Rightarrow> string \<Rightarrow> (go_error, string) result" where
  "aesCBCDecryptPKCS7 ciphertext key iv =
     (case validateAESCBCKeyAndIV key iv of Some e \<Rightarrow> Err e
      | None \<Rightarrow>
          (if ciphertext = [] then Err (Plain ''AES-CBC ciphertext is empty'')
           else if length ciphertext mod block_size \<noteq> 0
           then Err (Plain (''AES-CBC ciphertext length '' @ itoa (int (length ciphertext)) @
                  '' is not block aligned''))
           else (case pkcs7Unpad (cbc_decrypt (aes_decrypt key) iv ciphertext) block_size of
                   Err e \<Rightarrow> Err (Wrap ''unpad AES-CBC plaintext'' e)
                 | Ok plain \<Rightarrow> Ok plain)))"

section \<open>Strict base64\<close>

lemma std_encode_strict: "b64_encode StdStrict s = b64_encode StdEncoding s"
  by (simp add: StdStrict_def b64_encode_strict_irrelevant)

lemma std_no_breaks: "\<not> ContainsAny (b64_encode StdEncoding s) [CR, LF]"
proof -
  have "\<forall>c \<in> set (b64_encode StdEncoding s). \<not> is_break c"
    using std.encode_chars [of s] std.no_breaks by blast
  then show ?thesis by (auto simp: ContainsAny_def is_break_def)
qed

lemma strict_base64_iff: "decodeStrictStdBase64 v = Ok d \<longleftrightarrow> v = b64_encode StdEncoding d"
proof
  assume "v = b64_encode StdEncoding d"
  then show "decodeStrictStdBase64 v = Ok d"
    using std_strict.decode_encode [of d] std_no_breaks [of d]
    by (simp add: decodeStrictStdBase64_def std_encode_strict)
qed (auto simp: decodeStrictStdBase64_def split: if_splits option.splits)

section \<open>Padding\<close>

lemma pad_length_pos: "0 < n \<Longrightarrow> 0 < n - m mod n" for m n :: nat
  by simp

lemma padded_aligned: "0 < n \<Longrightarrow> (m + (n - m mod n)) mod n = 0" for m n :: nat
proof -
  assume n: "0 < n"
  then have "m mod n \<le> n" by (simp add: less_imp_le)
  have "m = n * (m div n) + m mod n" by simp
  then have "m + (n - m mod n) = n * (m div n) + n" using \<open>m mod n \<le> n\<close> by linarith
  then show ?thesis by simp
qed

lemma pad_mod: "p + q = n * k \<Longrightarrow> 0 < q \<Longrightarrow> q \<le> n \<Longrightarrow> n - p mod n = q" for n k p q :: nat
proof -
  assume a: "p + q = n * k" "0 < q" "q \<le> n"
  then obtain j where j: "k = Suc j" by (cases k) auto
  then have "p = n * j + (n - q)" using a by simp
  then have "p mod n = (n - q) mod n" by simp
  also have "\<dots> = n - q" using a by simp
  finally show ?thesis using a by simp
qed

lemma unpad_pad:
  assumes "pkcs7Pad src n = Ok padded"
  shows "pkcs7Unpad padded n = Ok src"
proof -
  define k where "k = n - length src mod n"
  from assms have n: "1 \<le> n" "n \<le> 255" and p: "padded = src @ replicate k (chr k)"
    by (auto simp: pkcs7Pad_def Let_def k_def split: if_splits)
  have k: "0 < k" "k \<le> n" "k < 256" using n by (simp_all add: k_def)
  then have "last padded = chr k" "ord (chr k) = k" by (simp_all add: p)
  moreover have "(length src + k) mod n = 0" unfolding k_def by (rule padded_aligned) (use n in simp)
  moreover have "padded \<noteq> []" using k by (simp add: p)
  ultimately show ?thesis
    using n k by (simp add: pkcs7Unpad_def Let_def list_ex_iff p)
qed

lemma pad_unpad:
  assumes "pkcs7Unpad padded n = Ok src" and "length padded \<le> max_int"
  shows "pkcs7Pad src n = Ok padded"
proof -
  let ?q = "ord (last padded)"
  from assms(1) have n: "1 \<le> n" "n \<le> 255" and al: "length padded mod n = 0"
    and q: "0 < ?q" "?q \<le> n" "?q \<le> length padded"
    and tail: "\<forall>c \<in> set (drop (length padded - ?q) padded). ord c = ?q"
    and src: "src = take (length padded - ?q) padded"
    by (auto simp: pkcs7Unpad_def Let_def list_ex_iff not_less split: if_splits)
  have "length src + ?q = length padded" using q src by simp
  moreover obtain k where "length padded = n * k" using al by (auto simp: mod_eq_0_iff_dvd)
  ultimately have k: "n - length src mod n = ?q" using pad_mod q by metis
  have "drop (length padded - ?q) padded = replicate ?q (chr ?q)"
  proof (rule replicate_eqI)
    fix c assume "c \<in> set (drop (length padded - ?q) padded)"
    with tail show "c = chr ?q" by (metis chr_ord)
  qed (use q in simp)
  then have "src @ replicate ?q (chr ?q) = padded" using src by (metis append_take_drop_id)
  moreover have "\<not> max_int - ?q < length src"
    using \<open>length src + ?q = length padded\<close> assms(2) by linarith
  ultimately show ?thesis using n k by (simp add: pkcs7Pad_def Let_def)
qed

text \<open>Padding fails only on a block size out of range or on a slice near the end of memory.\<close>

lemma pad_total: "length src < max_int - 255 \<Longrightarrow> \<exists>p. pkcs7Pad src 16 = Ok p"
  by (simp add: pkcs7Pad_def Let_def max_int_def)

section \<open>AES-CBC\<close>

lemma valid_key_iv: "validateAESCBCKeyAndIV key iv = None \<longleftrightarrow> aes_key key \<and> length iv = block_size"
  by (simp add: validateAESCBCKeyAndIV_def aes_key_def)

lemma pad_aligned: "pkcs7Pad s n = Ok p \<Longrightarrow> n dvd length p \<and> p \<noteq> []"
  using unpad_pad [of s n p] by (auto simp: pkcs7Unpad_def Let_def split: if_splits)

lemma cbc_round_trip:
  assumes "aes_key key" and "length iv = block_size"
  shows "aesCBCEncryptPKCS7 plain key iv = Ok c \<Longrightarrow> aesCBCDecryptPKCS7 c key iv = Ok plain"
    and "aesCBCDecryptPKCS7 c key iv = Ok plain \<Longrightarrow> length c \<le> max_int \<Longrightarrow>
      aesCBCEncryptPKCS7 plain key iv = Ok c"
proof -
  have ok: "validateAESCBCKeyAndIV key iv = None" using assms by (simp add: valid_key_iv)
  {
    assume "aesCBCEncryptPKCS7 plain key iv = Ok c"
    then obtain p where p: "pkcs7Pad plain block_size = Ok p"
      and c: "c = cbc_encrypt (aes_encrypt key) iv p"
      by (auto simp: aesCBCEncryptPKCS7_def ok split: sum.splits)
    have al: "block_size dvd length p" "p \<noteq> []" using pad_aligned [OF p] by simp_all
    have "length c = length p" using aes.cbc_encrypt_length assms al by (simp add: c)
    moreover from this have "c \<noteq> []" using al(2) by auto
    moreover have "cbc_decrypt (aes_decrypt key) iv c = p"
      using aes.cbc_decrypt_encrypt assms al by (simp add: c)
    ultimately show "aesCBCDecryptPKCS7 c key iv = Ok plain"
      using al unpad_pad [OF p] by (simp add: aesCBCDecryptPKCS7_def ok)
  }
  {
    assume "aesCBCDecryptPKCS7 c key iv = Ok plain" and len: "length c \<le> max_int"
    then have al: "block_size dvd length c"
      and u: "pkcs7Unpad (cbc_decrypt (aes_decrypt key) iv c) block_size = Ok plain"
      by (auto simp: aesCBCDecryptPKCS7_def ok mod_eq_0_iff_dvd split: if_splits sum.splits)
    have "length (cbc_decrypt (aes_decrypt key) iv c) \<le> max_int"
      using aes.cbc_decrypt_length assms al len by simp
    then have "pkcs7Pad plain block_size = Ok (cbc_decrypt (aes_decrypt key) iv c)"
      using pad_unpad [OF u] by simp
    then show "aesCBCEncryptPKCS7 plain key iv = Ok c"
      using aes.cbc_encrypt_decrypt assms al by (simp add: aesCBCEncryptPKCS7_def ok)
  }
qed

lemma encrypt_total:
  assumes "aes_key key" and "length iv = block_size" and "length plain < max_int - 255"
  shows "\<exists>c. aesCBCEncryptPKCS7 plain key iv = Ok c"
  using assms pad_total [of plain] valid_key_iv [of key iv]
  by (auto simp: aesCBCEncryptPKCS7_def block_size_def)

lemma encrypt_length:
  assumes "aes_key key" and "length iv = block_size" and "aesCBCEncryptPKCS7 plain key iv = Ok c"
  shows "length c = length plain + (16 - length plain mod 16)"
proof -
  from assms obtain p where p: "pkcs7Pad plain block_size = Ok p"
    and c: "c = cbc_encrypt (aes_encrypt key) iv p"
    by (auto simp: aesCBCEncryptPKCS7_def split: option.splits sum.splits)
  have "length c = length p"
    using aes.cbc_encrypt_length assms(1,2) pad_aligned [OF p] by (simp add: c)
  then show ?thesis
    using p by (auto simp: pkcs7Pad_def Let_def block_size_def split: if_splits)
qed

text \<open>
  With a valid key and initialisation vector, decryption returns a plaintext exactly for the
  ciphertext that encryption of that plaintext produces; so decryption undoes encryption, the
  padding is never ambiguous, and no other ciphertext decrypts to it.
\<close>

theorem aes_cbc_round_trip:
  assumes "length key \<in> {16, 24, 32}" and "length iv = 16" and "length c \<le> 2 ^ 63 - 1"
  shows "aesCBCDecryptPKCS7 c key iv = Ok plain \<longleftrightarrow> aesCBCEncryptPKCS7 plain key iv = Ok c"
  using cbc_round_trip [of key iv, where plain = plain and c = c] assms by (auto simp: aes_key_def block_size_def max_int_def)

lemma aes_cbc_round_trip_witness:
  "\<exists>c. aesCBCDecryptPKCS7 c (replicate 16 (CHR ''k'')) (replicate 16 (CHR ''i'')) = Ok ''hello''"
proof -
  let ?k = "replicate 16 (CHR ''k'')" and ?iv = "replicate 16 (CHR ''i'')"
  have ok: "aes_key ?k" "length ?iv = block_size" by (simp_all add: aes_key_def block_size_def)
  then obtain c where c: "aesCBCEncryptPKCS7 ''hello'' ?k ?iv = Ok c"
    using encrypt_total [of ?k ?iv "''hello''"] by (auto simp: max_int_def)
  have "length c = 16" using encrypt_length [OF ok c] by simp
  then show ?thesis using aes_cbc_round_trip [of ?k ?iv c "''hello''"] c by auto
qed

end
