(* ===== verification/Runtime_Fields.thy ===== *)
theory Runtime_Fields
  imports Rsa Codec_Helpers
begin

text \<open>
  \<open>native_runtime_fields.go\<close>: the encrypted user info and its key. The user info is encrypted
  under a fresh sixteen-character key, the key under the pinned RSA key, and the pair goes through
  JSON and a strict reader of it.
\<close>

section \<open>The pinned key\<close>

text \<open>
  The body of \<open>runtimePublicKeyPEM\<close>. Its decoding is a \<open>SubjectPublicKeyInfo\<close> of 162 bytes in
  which the modulus takes the bytes from 29 to 157 and the exponent the last three, so the error
  branches of \<open>runtimePublicKey\<close> are not taken for it.
\<close>

definition runtimePublicKeyPEM :: string where
  "runtimePublicKeyPEM =
     ''MIGfMA0GCSqGSIb3DQEBAQUAA4GNADCBiQKBgQDA8iMH5c02LilrsERw9t6Pv5Nc'' @
     ''4k6Pz1EaDicBMpdpxKduSZu5OANqUq8er4GM95omAGIOPOh+Nx0spthYA2BqGz+l'' @
     ''6HRkPJ7S236FZz73In/KVuLnwI8JJ2CbuJap8kvheCCZpmAWpb/cPx/3Vr/J6I17'' @
     ''XcW+ML9FoCI6AOvOzwIDAQAB''"

definition runtimePublicKey :: rsaPublicKey where
  "runtimePublicKey =
     (let der = (case b64_decode StdEncoding runtimePublicKeyPEM of Some d \<Rightarrow> d | None \<Rightarrow> [])
      in \<lparr>rk_N = int (be_number (slice 29 157 der)), rk_E = int (be_number (slice 159 162 der))\<rparr>)"

section \<open>Generation\<close>

definition output_wire :: "string \<Rightarrow> string \<Rightarrow> string" where
  "output_wire ciphertext encryptedKey =
     marshal (JObj [(''encrypt_user_info'', JStr (b64_encode StdEncoding ciphertext)),
       (''key'', JStr (b64_encode StdEncoding encryptedKey))])"

text \<open>
  The result, the number of entropy reads made, and \<open>None\<close> when the padding is redrawn for ever.
\<close>

definition generateNativeRuntimeFieldsRaw ::
  "context_state \<Rightarrow> protocolHostDeps \<Rightarrow> string \<Rightarrow> ((go_error, string) result \<times> nat) option" where
  "generateNativeRuntimeFieldsRaw ctx host raw =
     (case cx_Err ctx 0 of Some e \<Rightarrow> Some (Err e, 0)
      | None \<Rightarrow>
          (if \<not> utf8_Valid raw
           then Some (Err (Protocol InvalidInput ''runtime fields input is invalid''
             (Some (Plain ''runtime fields raw input is not valid UTF-8''))), 0)
           else (case hd_Entropy (protocolHostDepsFor ctx host) of
             None \<Rightarrow> Some (Err (runtimeFieldsBackendIncompatible
                       (Plain ''runtime fields entropy dependency is missing'')), 0)
           | Some en \<Rightarrow>
               (case en 0 16 of
                  Err e \<Rightarrow> Some (Err (entropy_failure e ''read runtime UUID entropy''), 1)
                | Ok random \<Rightarrow>
                    (let key = runtimeASCIIKey (reverseMaskUUID random)
                     in (case aesCBCEncryptPKCS7 raw key key of
                           Err e \<Rightarrow> Some (Err (runtimeFieldsBackendFailure
                                     (Wrap ''encrypt runtime user info'' e)), 1)
                         | Ok ciphertext \<Rightarrow>
                             map_option (\<lambda>(r, j).
                               (case r of Err e \<Rightarrow> Err e
                                | Ok encryptedKey \<Rightarrow> Ok (output_wire ciphertext encryptedKey), j))
                             (rsaEncryptPKCS1v15Exact runtimePublicKey key (Some en) 1)))))))"

section \<open>Reading the output back\<close>

text \<open>
  \<open>decodeRuntimeFieldOutputJSON\<close> asks \<open>json.Decoder\<close> for one token at a time, so it reports the
  first trouble in the text. White space is skipped before every token; a string token is what
  the scanner of \<open>Go_Json\<close> reads.
\<close>

definition json_space :: "char \<Rightarrow> bool" where
  "json_space c \<longleftrightarrow> c = SP \<or> c = LF \<or> c = CR \<or> c = CHR 0x09"

definition skip :: "string \<Rightarrow> string" where
  "skip s = dropWhile json_space s"

fun single_string :: "tok list \<Rightarrow> string option" where
  "single_string [TStr t v] = Some v"
| "single_string ts = None"

fun string_token :: "lex_mode \<Rightarrow> string \<Rightarrow> (string \<times> string) option" where
  "string_token m [] = None"
| "string_token m (c # s) =
     (case lex_step m c of None \<Rightarrow> None
      | Some (ts, m') \<Rightarrow>
          (case single_string ts of Some v \<Rightarrow> Some (v, s) | None \<Rightarrow> string_token m' s))"

definition read_string :: "string \<Rightarrow> (string \<times> string) option" where
  "read_string s = (if s \<noteq> [] \<and> hd s = DQ then string_token LPlain s else None)"

definition runtimeFieldsOutputFailure :: "string \<Rightarrow> go_error" where
  "runtimeFieldsOutputFailure category =
     Protocol BackendFailure ''Qoder protocol operation failed'' (Some (Plain category))"

text \<open>\<open>decoder.Decode\<close> into a string: a colon, then a string or \<open>null\<close>, which changes nothing.\<close>

definition read_field :: "string \<Rightarrow> string \<Rightarrow> (string \<times> string) option" where
  "read_field old s =
     (let t = skip s
      in if t = [] \<or> hd t \<noteq> CHR '':'' then None
         else let v = skip (tl t)
              in if HasPrefix v ''null'' then Some (old, drop 4 v) else read_string v)"

record outputReader =
  or_Info :: "string option"     \<comment> \<open>the field once seen\<close>
  or_Key :: "string option"

text \<open>The key of the next member: after the first member a comma comes before it.\<close>

definition next_key :: "bool \<Rightarrow> string \<Rightarrow> (string \<times> string) option" where
  "next_key first t =
     (if first then read_string t
      else if t \<noteq> [] \<and> hd t = CHR '','' then read_string (skip (tl t)) else None)"

definition old_value :: "string option \<Rightarrow> string" where
  "old_value seen = (case seen of Some v \<Rightarrow> v | None \<Rightarrow> [])"

lemma string_token_shorter: "string_token m s = Some (v, r) \<Longrightarrow> length r < length s"
proof (induction s arbitrary: m)
  case (Cons c s)
  then show ?case
    by (auto split: option.splits prod.splits dest!: Cons.IH)
qed simp

lemma read_string_shorter: "read_string s = Some (v, r) \<Longrightarrow> length r < length s"
  by (auto simp: read_string_def string_token_shorter split: if_splits)

lemma skip_length: "length (skip s) \<le> length s"
  by (simp add: skip_def length_dropWhile_le)

lemma read_field_shorter: "read_field old s = Some (v, r) \<Longrightarrow> length r < length s"
proof -
  assume a: "read_field old s = Some (v, r)"
  let ?t = "skip s"
  from a have t: "?t \<noteq> []" by (auto simp: read_field_def Let_def)
  from a t have "length r \<le> length (skip (tl ?t))"
    by (auto simp: read_field_def Let_def dest: read_string_shorter split: if_splits)
  also have "\<dots> \<le> length (tl ?t)" by (rule skip_length)
  also have "\<dots> < length ?t" using t by simp
  also have "\<dots> \<le> length s" by (rule skip_length)
  finally show ?thesis .
qed

lemma next_key_shorter: "next_key first t = Some (k, r) \<Longrightarrow> length r < length t"
proof -
  assume a: "next_key first t = Some (k, r)"
  show ?thesis
  proof (cases first)
    case False
    with a have r: "read_string (skip (tl t)) = Some (k, r)" and t: "t \<noteq> []"
      by (auto simp: next_key_def split: if_splits)
    have "length r < length (tl t)" using read_string_shorter [OF r] skip_length [of "tl t"] by linarith
    then show ?thesis using t by simp
  qed (use a in \<open>simp add: next_key_def read_string_shorter\<close>)
qed

text \<open>The members up to the closing brace; the result is the rest of the text after it.\<close>

definition member_step ::
  "outputReader \<Rightarrow> string \<Rightarrow> string \<Rightarrow> (go_error, outputReader \<times> string) result" where
  "member_step r k s =
     (if k = ''encrypt_user_info''
      then (if or_Info r \<noteq> None then Err (runtimeFieldsOutputFailure ''runtime fields output has a duplicate field'')
            else (case read_field [] s of
                    None \<Rightarrow> Err (runtimeFieldsOutputFailure ''runtime fields output has a non-string field value'')
                  | Some (v, u) \<Rightarrow> Ok (r\<lparr>or_Info := Some v\<rparr>, u)))
      else if k = ''key''
      then (if or_Key r \<noteq> None then Err (runtimeFieldsOutputFailure ''runtime fields output has a duplicate field'')
            else (case read_field [] s of
                    None \<Rightarrow> Err (runtimeFieldsOutputFailure ''runtime fields output has a non-string field value'')
                  | Some (v, u) \<Rightarrow> Ok (r\<lparr>or_Key := Some v\<rparr>, u)))
      else Err (runtimeFieldsOutputFailure ''runtime fields output has an unknown field''))"

lemma member_step_shorter: "member_step r k s = Ok (r', u) \<Longrightarrow> length u < length s"
  by (auto simp: member_step_def dest: read_field_shorter split: if_splits option.splits)

function members ::
  "bool \<Rightarrow> outputReader \<Rightarrow> string \<Rightarrow> (go_error, outputReader \<times> string) result" where
  "members first r s =
     (let t = skip s
      in if t = [] \<or> hd t = CHR '']''
         then Err (runtimeFieldsOutputFailure ''runtime fields output object is incomplete'')
         else if hd t = CHR ''}'' then Ok (r, tl t)
         else (case next_key first t of
                 None \<Rightarrow> Err (runtimeFieldsOutputFailure ''runtime fields output has a malformed field'')
               | Some (k, u) \<Rightarrow>
                   (case member_step r k u of Err e \<Rightarrow> Err e
                    | Ok (r', v) \<Rightarrow> members False r' v)))"
  by pat_completeness auto
termination
proof (relation "measure (\<lambda>(first, r, s). length s)", simp)
  fix first :: bool and r r' :: outputReader and s t :: string and p q :: "_ \<times> string" and k u v
  assume t: "t = skip s" and key: "next_key first t = Some p" "(k, u) = p"
    and step: "member_step r k u = Ok q" "(r', v) = q"
  have "length v < length u" using step member_step_shorter by metis
  also have "\<dots> < length t" using key next_key_shorter by metis
  also have "\<dots> \<le> length s" unfolding t by (rule skip_length)
  finally show "((False, r', v), first, r, s) \<in> measure (\<lambda>(first, r, s). length s)" by simp
qed

declare members.simps [simp del]

text \<open>
  The first token decides between "malformed" and "not an object": a complete token of another
  value, or the opening of an array, is the latter.
\<close>

definition number_token :: "string \<Rightarrow> bool" where
  "number_token s =
     (let u = (if HasPrefix s ''-'' then tl s else s);
          digits = takeWhile is_digit u;
          whole = (if HasPrefix digits ''0'' then 1 else length digits);
          r = drop whole u;
          frac = HasPrefix r ''.'';
          fd = takeWhile is_digit (tl r);
          r2 = (if frac then drop (length fd) (tl r) else r);
          exp = (HasPrefix r2 ''e'' \<or> HasPrefix r2 ''E'');
          r3 = (if exp \<and> (HasPrefix (tl r2) ''+'' \<or> HasPrefix (tl r2) ''-'') then tl (tl r2) else tl r2);
          ed = takeWhile is_digit r3;
          used = length s - length (if exp then drop (length ed) r3 else r2)
      in digits \<noteq> [] \<and> (frac \<longrightarrow> fd \<noteq> []) \<and> (exp \<longrightarrow> ed \<noteq> []) \<and> float_in_range (take used s))"

definition other_token :: "string \<Rightarrow> bool" where
  "other_token t \<longleftrightarrow> HasPrefix t ''['' \<or> HasPrefix t ''true'' \<or> HasPrefix t ''false'' \<or>
     HasPrefix t ''null'' \<or> read_string t \<noteq> None \<or> number_token t"

definition decodeRuntimeFieldOutputJSON :: "string \<Rightarrow> (go_error, runtimeFieldOutput) result" where
  "decodeRuntimeFieldOutputJSON raw =
     (if \<not> utf8_Valid raw
      then Err (runtimeFieldsOutputFailure ''runtime fields output is not valid UTF-8'')
      else let t = skip raw
      in if \<not> HasPrefix t ''{''
         then Err (runtimeFieldsOutputFailure
           (if other_token t then ''runtime fields output is not an object''
            else ''runtime fields output is malformed JSON''))
         else (case members True \<lparr>or_Info = None, or_Key = None\<rparr> (tl t) of
           Err e \<Rightarrow> Err e
         | Ok (r, rest) \<Rightarrow>
             (if skip rest \<noteq> []
              then Err (runtimeFieldsOutputFailure ''runtime fields output has trailing data'')
              else (case (or_Info r, or_Key r) of
                (Some info, Some key) \<Rightarrow>
                  (if info = [] \<or> key = []
                   then Err (runtimeFieldsOutputFailure ''runtime fields output has an empty field'')
                   else Ok \<lparr>fo_EncryptUserInfo = info, fo_Key = key\<rparr>)
              | _ \<Rightarrow> Err (runtimeFieldsOutputFailure
                       ''runtime fields output is missing a required field'')))))"

text \<open>A context after one more question: \<open>Generate\<close> asks once before the raw function asks again.\<close>

definition asked :: "context_state \<Rightarrow> context_state" where
  "asked ctx = ctx\<lparr>cx_Err := (\<lambda>i. cx_Err ctx (Suc i))\<rparr>"

definition generate :: "context_state \<Rightarrow> protocolHostDeps \<Rightarrow> runtimeFieldInput \<Rightarrow>
    ((go_error, runtimeFieldOutput) result \<times> nat) option" where
  "generate ctx host input =
     (case cx_Err ctx 0 of Some e \<Rightarrow> Some (Err e, 0)
      | None \<Rightarrow>
          map_option (\<lambda>(r, j). (case r of Err e \<Rightarrow> Err e | Ok raw \<Rightarrow> decodeRuntimeFieldOutputJSON raw, j))
            (generateNativeRuntimeFieldsRaw (asked ctx) host (marshal (runtimeFieldInput_json input))))"

end
