(* ===== verification/Native_Context.thy ===== *)
theory Native_Context
  imports Infer Runtime_Fields
begin

text \<open>
  \<open>native_context.go\<close>: the factory that validates a configuration and makes a protocol context,
  and the context's two operations, which a lock orders: preparing a request and closing.
\<close>

section \<open>The factory\<close>

definition invalidNativeContextInput :: "string \<Rightarrow> go_error" where
  "invalidNativeContextInput category =
     Protocol InvalidInput ''native protocol context input is invalid'' (Some (Plain category))"

text \<open>The factory's runtime field generator and preparer are its fields; \<open>None\<close> is the default.\<close>

type_synonym generator = "context_state \<Rightarrow> runtimeFieldInput \<Rightarrow> ((go_error, runtimeFieldOutput) result \<times> nat) option"
type_synonym preparer =
  "context_state \<Rightarrow> nativeContextSnapshot \<Rightarrow> inferRequestInput \<Rightarrow> (go_error, preparedRequest option) result"

record nativeContextFactory =
  nf_host :: protocolHostDeps
  nf_runtimeFields :: "generator option"
  nf_prepare :: "preparer option"

definition validateNativeContextFactoryInput ::
  "nativeContextFactory option \<Rightarrow> protocolContextConfig \<Rightarrow> go_error option" where
  "validateNativeContextFactoryInput factory config =
     (case factory of None \<Rightarrow> Some (invalidNativeContextInput ''native context factory is missing'')
      | Some f \<Rightarrow>
        (if hd_Clock (nf_host f) = None \<or> hd_Entropy (nf_host f) = None
         then Some (invalidNativeContextInput ''native context fallback host dependencies are incomplete'')
         else if cc_MachineID config = [] then Some (invalidNativeContextInput ''native context machine ID is empty'')
         else if cc_Version config = [] then Some (invalidNativeContextInput ''native context version is empty'')
         else if pu_UID (cc_User config) = [] then Some (invalidNativeContextInput ''native context user ID is empty'')
         else if pu_OrganizationTags (cc_User config) = None
         then Some (backend_failure (Plain ''native context organization tags are nil''))
         else if sc_ClientType (cc_Scene config) = []
         then Some (invalidNativeContextInput ''native context scene client type is empty'')
         else if sc_BusinessProduct (cc_Scene config) = []
         then Some (invalidNativeContextInput ''native context scene business product is empty'')
         else if sc_BusinessType (cc_Scene config) = []
         then Some (invalidNativeContextInput ''native context scene business type is empty'')
         else if sc_Scene (cc_Scene config) = []
         then Some (invalidNativeContextInput ''native context scene name is empty'')
         else None))"

definition normalizeNativeContextStageError :: "string \<Rightarrow> go_error \<Rightarrow> go_error" where
  "normalizeNativeContextStageError stage err =
     (if errors_Is err Canceled then Canceled
      else if errors_Is err DeadlineExceeded then DeadlineExceeded
      else if protocolErrorFrom err \<noteq> None then err
      else backend_failure (Wrap stage err))"

record nativeProtocolContext =
  nc_host :: protocolHostDeps
  nc_machineID :: string
  nc_version :: string
  nc_user :: protocolUserInfo
  nc_scene :: protocolScene
  nc_prepare :: "preparer option"
  nc_closed :: bool
  nc_closeErr :: "go_error option"

definition default_prepare :: preparer where
  "default_prepare ctx snapshot input =
     (case prepareNativeInferRequest ctx snapshot input of Err e \<Rightarrow> Err e | Ok r \<Rightarrow> Ok (Some r))"

definition field_input :: "protocolUserInfo \<Rightarrow> runtimeFieldInput" where
  "field_input user = \<lparr>fi_UID = pu_UID user, fi_OrganizationID = pu_OrganizationID user,
     fi_OrganizationTags = pu_OrganizationTags user, fi_DataPolicyAgreed = pu_DataPolicyAgreed user\<rparr>"

text \<open>
  The generator runs for its side effects and errors only: the context keeps the caller's fields.
  \<open>None\<close> is a generator that does not return.
\<close>

definition factory_New ::
  "nativeContextFactory option \<Rightarrow> context_state \<Rightarrow> protocolContextConfig \<Rightarrow>
   (go_error, nativeProtocolContext) result option" where
  "factory_New factory ctx config =
     (case cx_Err ctx 0 of Some e \<Rightarrow> Some (Err e)
      | None \<Rightarrow>
        (case validateNativeContextFactoryInput factory config of Some e \<Rightarrow> Some (Err e)
         | None \<Rightarrow>
           let f = the factory; deps = protocolHostDepsFor ctx (nf_host f);
               operation = withProtocolHostDeps (asked ctx) deps;
               gen = (case nf_runtimeFields f of Some g \<Rightarrow> g | None \<Rightarrow> (\<lambda>c. generate c (nf_host f)))
           in map_option (\<lambda>(r, j).
                (case r of Err e \<Rightarrow> Err (normalizeNativeContextStageError ''initialize native context runtime fields'' e)
                 | Ok out \<Rightarrow>
                     Ok \<lparr>nc_host = nf_host f, nc_machineID = cc_MachineID config, nc_version = cc_Version config,
                         nc_user = cc_User config, nc_scene = cc_Scene config,
                         nc_prepare = Some (case nf_prepare f of Some p \<Rightarrow> p | None \<Rightarrow> default_prepare),
                         nc_closed = False, nc_closeErr = None\<rparr>))
              (gen operation (field_input (cc_User config)))))"

section \<open>The context\<close>

definition nativeContextClosedError :: go_error where
  "nativeContextClosedError = Protocol ContextClosed ''Qoder protocol context is closed''
     (Some (Plain ''native protocol context is closed''))"

definition nativePrepareUnavailable :: preparer where
  "nativePrepareUnavailable ctx snapshot input =
     Err (Protocol BackendIncompatible ''native inference preparation is unavailable in this stage''
       (Some (Plain ''native COSY request preparation is not implemented'')))"

definition snapshot_of :: "nativeProtocolContext \<Rightarrow> nativeContextSnapshot" where
  "snapshot_of c = \<lparr>ns_host = nc_host c, ns_machineID = nc_machineID c, ns_version = nc_version c,
     ns_user = nc_user c, ns_scene = nc_scene c\<rparr>"

text \<open>A nil context is closed; a closed context is reported before a cancelled one.\<close>

definition PrepareInferRequest ::
  "nativeProtocolContext option \<Rightarrow> context_state \<Rightarrow> inferRequestInput \<Rightarrow> (go_error, preparedRequest) result" where
  "PrepareInferRequest context ctx input =
     (case context of None \<Rightarrow> Err nativeContextClosedError
      | Some c \<Rightarrow>
        (if nc_closed c then Err nativeContextClosedError
         else (case cx_Err ctx 0 of Some e \<Rightarrow> Err e
           | None \<Rightarrow>
             (case (case nc_prepare c of Some p \<Rightarrow> p | None \<Rightarrow> nativePrepareUnavailable)
                 (asked ctx) (snapshot_of c) input of
                Err e \<Rightarrow> Err (normalizeNativeContextStageError ''prepare native inference request'' e)
              | Ok None \<Rightarrow> Err (backend_failure (Plain ''native inference preparer returned a nil request''))
              | Ok (Some r) \<Rightarrow> Ok r))))"

definition context_Close :: "nativeProtocolContext \<Rightarrow> nativeProtocolContext \<times> go_error option" where
  "context_Close c = (if nc_closed c then (c, nc_closeErr c) else (c\<lparr>nc_closed := True\<rparr>, nc_closeErr c))"

section \<open>Life of a context\<close>

text \<open>
  The lock makes calls one after the other; a run is the list of calls in the order in which they
  took it, with the answer of each.
\<close>

datatype context_call = CallPrepare context_state inferRequestInput | CallClose
datatype context_answer = Prepared "(go_error, preparedRequest) result" | Closed "go_error option"

fun context_step :: "context_call \<Rightarrow> nativeProtocolContext \<Rightarrow> nativeProtocolContext \<times> context_answer" where
  "context_step (CallPrepare ctx input) c = (c, Prepared (PrepareInferRequest (Some c) ctx input))"
| "context_step CallClose c = (case context_Close c of (c', e) \<Rightarrow> (c', Closed e))"

fun context_run :: "context_call list \<Rightarrow> nativeProtocolContext \<Rightarrow> context_answer list" where
  "context_run [] c = []"
| "context_run (call # calls) c = (case context_step call c of (c', a) \<Rightarrow> a # context_run calls c')"

text \<open>The specification: requests are answered by the context as it was made until the first close.\<close>

fun answer_spec :: "nativeProtocolContext \<Rightarrow> bool \<Rightarrow> context_call list \<Rightarrow> context_answer list" where
  "answer_spec c closed [] = []"
| "answer_spec c closed (CallPrepare ctx input # calls) =
     Prepared (if closed then Err nativeContextClosedError else PrepareInferRequest (Some c) ctx input) # answer_spec c closed calls"
| "answer_spec c closed (CallClose # calls) = Closed None # answer_spec c True calls"

lemma run_spec:
  "nc_closeErr c = None \<Longrightarrow> \<not> nc_closed c \<Longrightarrow>
     context_run calls (if closed then c\<lparr>nc_closed := True\<rparr> else c) = answer_spec c closed calls"
proof (induction calls arbitrary: closed)
  case (Cons call calls)
  show ?case
  proof (cases call)
    case (CallPrepare ctx input)
    then show ?thesis
      using Cons.IH [of closed] Cons.prems by (cases closed) (simp_all add: PrepareInferRequest_def)
  next
    case CallClose
    then show ?thesis
      using Cons.IH [of True] Cons.prems by (cases closed) (simp_all add: context_Close_def)
  qed
qed simp

lemma factory_result:
  assumes "factory_New factory ctx config = Some (Ok c)"
  shows "nc_closed c = False" "nc_closeErr c = None" "nc_user c = cc_User config"
    "nc_machineID c = cc_MachineID config" "nc_version c = cc_Version config"
    "validateNativeContextFactoryInput factory config = None"
  using assms by (auto simp: factory_New_def Let_def bind_Ok_iff split: option.splits)

text \<open>
  C27: a context made by the factory answers any sequence of calls as its specification does: the
  requests before the first close are prepared from the configuration the factory was given, those
  after it are refused as closed, and closing is idempotent and never fails.
\<close>

theorem context_lifecycle:
  assumes "factory_New factory ctx config = Some (Ok c)"
  shows "context_run calls c = answer_spec c False calls"
  using run_spec [of c calls False] factory_result [OF assms] by simp

definition sample_config :: protocolContextConfig where
  "sample_config = \<lparr>cc_MachineID = ''machine'', cc_Version = ''1.1.34'',
     cc_User = ns_user sample_snapshot, cc_Scene = defaultProtocolScene\<rparr>"

definition sample_factory :: nativeContextFactory where
  "sample_factory = \<lparr>nf_host = ns_host sample_snapshot,
     nf_runtimeFields = Some (\<lambda>ctx input. Some (Ok \<lparr>fo_EncryptUserInfo = ''info'', fo_Key = ''key''\<rparr>, 0)),
     nf_prepare = None\<rparr>"

lemma context_lifecycle_witness:
  "\<exists>c. factory_New (Some sample_factory) \<lparr>cx_Err = (\<lambda>i. None), cx_Deps = None\<rparr> sample_config = Some (Ok c) \<and>
     (\<forall>ctx input. context_run [CallClose, CallPrepare ctx input, CallClose] c =
       [Closed None, Prepared (Err nativeContextClosedError), Closed None])"
proof -
  obtain c where c: "factory_New (Some sample_factory) \<lparr>cx_Err = (\<lambda>i. None), cx_Deps = None\<rparr> sample_config = Some (Ok c)"
    by (simp add: factory_New_def sample_factory_def sample_config_def sample_snapshot_def Let_def
        validateNativeContextFactoryInput_def defaultProtocolScene_def)
  then have "context_run [CallClose, CallPrepare ctx input, CallClose] c =
      [Closed None, Prepared (Err nativeContextClosedError), Closed None]" for ctx input
    by (simp only: context_lifecycle answer_spec.simps if_True)
  with c show ?thesis by blast
qed

text \<open>The factory refuses exactly the configurations with a missing part, in the code's order.\<close>

lemma factory_accepts_iff:
  "validateNativeContextFactoryInput (Some f) config = None \<longleftrightarrow>
     hd_Clock (nf_host f) \<noteq> None \<and> hd_Entropy (nf_host f) \<noteq> None \<and>
     list_all (\<lambda>part. part \<noteq> []) [cc_MachineID config, cc_Version config, pu_UID (cc_User config),
       sc_ClientType (cc_Scene config), sc_BusinessProduct (cc_Scene config),
       sc_BusinessType (cc_Scene config), sc_Scene (cc_Scene config)] \<and>
     pu_OrganizationTags (cc_User config) \<noteq> None"
  by (auto simp: validateNativeContextFactoryInput_def)

end
