(* ===== verification/Runtime_Fields_Props.thy ===== *)
theory Runtime_Fields_Props
  imports Runtime_Fields
begin

text \<open>
  What a receiver of the runtime fields can do with them: the JSON the generator writes is read
  back as it was written, and the two fields open to the user info.
\<close>

section \<open>Plain text in JSON\<close>

text \<open>Characters that JSON writes as they are: printable ASCII without quotes and HTML characters.\<close>

definition plain_char :: "char \<Rightarrow> bool" where
  "plain_char c \<longleftrightarrow> 0x20 \<le> ord c \<and> ord c < 0x80 \<and> ord c \<notin> {34, 92, 60, 62, 38}"

lemma plain_escape: "list_all plain_char s \<Longrightarrow> esc_body (map ord s) = map ord s"
proof (induction s)
  case (Cons c s)
  then show ?case
    by (subst esc_body.simps) (simp add: plain_char_def esc_byte_def)
qed (simp add: esc_body.simps)

lemma plain_unquote: "list_all plain_char s \<Longrightarrow> unquote (map ord s) = map ord s"
proof (induction s)
  case (Cons c s)
  then show ?case
    by (subst unquote.simps) (simp add: plain_char_def)
qed (simp add: unquote.simps)

lemma plain_quote: "list_all plain_char s \<Longrightarrow> quote_str s = DQ # s @ [DQ]"
  by (simp add: quote_str_def plain_escape o_def)

lemma plain_step: "plain_char c \<Longrightarrow> lex_step (LStr b) c = Some ([], LStr (c # b))"
  by (auto simp: lex_step_def plain_char_def)

lemma plain_token:
  "list_all plain_char s \<Longrightarrow>
    string_token (LStr b) (s @ DQ # rest) = Some (map chr (unquote (map ord (rev b @ s))), rest)"
proof (induction s arbitrary: b)
  case Nil
  then show ?case by (simp add: lex_step_def str_tok_def)
next
  case (Cons c s)
  then show ?case by (simp add: plain_step)
qed

lemma read_plain: "list_all plain_char s \<Longrightarrow> read_string (DQ # s @ DQ # rest) = Some (s, rest)"
  using plain_token [of s "[]" rest] by (simp add: read_string_def lex_step_def start_mode_def plain_unquote o_def)

lemma ascii_valid: "list_all (\<lambda>c. ord c < 0x80) s \<Longrightarrow> utf8_Valid s"
  unfolding utf8_Valid_def
proof (induction s)
  case (Cons c s)
  then show ?case by (subst utf8_valid.simps) simp
qed (simp add: utf8_valid.simps)

lemma alphabet_plain: "list_all plain_char (CHR ''='' # std_alphabet)"
  by (simp add: std_alphabet_def plain_char_def)

lemma base64_plain: "list_all plain_char (b64_encode StdEncoding s)"
  using std.encode_chars [of s] alphabet_plain
  by (auto simp: list_all_iff StdEncoding_def)

section \<open>The output read back\<close>

lemma skip_id: "s = [] \<or> \<not> json_space (hd s) \<Longrightarrow> skip s = s"
  by (cases s) (auto simp: skip_def)

lemma read_field_plain:
  assumes "list_all plain_char s"
  shows "read_field old (CHR '':'' # DQ # s @ DQ # rest) = Some (s, rest)"
  using read_plain [OF assms] by (simp add: read_field_def Let_def skip_id json_space_def HasPrefix_def)

definition wire_text :: "string \<Rightarrow> string \<Rightarrow> string" where
  "wire_text info key = ''{'' @ DQ # ''encrypt_user_info'' @ DQ # '':'' @ DQ # info @ DQ # '','' @
     DQ # ''key'' @ DQ # '':'' @ DQ # key @ DQ # ''}''"

lemma output_wire_text:
  "output_wire c k = wire_text (b64_encode StdEncoding c) (b64_encode StdEncoding k)"
proof -
  have "quote_str ''encrypt_user_info'' = DQ # ''encrypt_user_info'' @ [DQ]" "quote_str ''key'' = DQ # ''key'' @ [DQ]"
    by (rule plain_quote; simp add: plain_char_def)+
  then show ?thesis
    by (simp add: output_wire_def wire_text_def plain_quote base64_plain)
qed

lemma member_info:
  assumes "list_all plain_char info"
  shows "member_step \<lparr>or_Info = None, or_Key = None\<rparr> ''encrypt_user_info'' (CHR '':'' # DQ # info @ DQ # rest)
    = Ok (\<lparr>or_Info = Some info, or_Key = None\<rparr>, rest)"
  by (simp add: member_step_def read_field_plain [OF assms])

lemma member_key:
  assumes "list_all plain_char key"
  shows "member_step \<lparr>or_Info = i, or_Key = None\<rparr> ''key'' (CHR '':'' # DQ # key @ DQ # rest)
    = Ok (\<lparr>or_Info = i, or_Key = Some key\<rparr>, rest)"
  by (simp add: member_step_def read_field_plain [OF assms])

lemma members_wire:
  assumes "list_all plain_char info" and "list_all plain_char key"
  shows "members True \<lparr>or_Info = None, or_Key = None\<rparr> (tl (wire_text info key)) =
    Ok (\<lparr>or_Info = Some info, or_Key = Some key\<rparr>, [])"
proof -
  let ?r = "\<lparr>or_Info = Some info, or_Key = None\<rparr>"
  let ?tail = "CHR '','' # DQ # ''key'' @ DQ # CHR '':'' # DQ # key @ DQ # ''}''"
  have key: "read_string (DQ # ''key'' @ DQ # CHR '':'' # DQ # key @ DQ # ''}'') =
      Some (''key'', CHR '':'' # DQ # key @ DQ # ''}'')"
    by (rule read_plain) (simp add: plain_char_def)
  have info: "read_string (DQ # ''encrypt_user_info'' @ DQ # CHR '':'' # DQ # info @ DQ # ?tail) =
      Some (''encrypt_user_info'', CHR '':'' # DQ # info @ DQ # ?tail)"
    by (rule read_plain) (simp add: plain_char_def)
  have close: "members False \<lparr>or_Info = Some info, or_Key = Some key\<rparr> ''}'' =
      Ok (\<lparr>or_Info = Some info, or_Key = Some key\<rparr>, [])"
    by (simp add: members.simps skip_id json_space_def)
  have second: "members False ?r ?tail = Ok (\<lparr>or_Info = Some info, or_Key = Some key\<rparr>, [])"
    by (subst members.simps)
      (simp add: skip_id json_space_def next_key_def key [simplified] member_key [OF assms(2), simplified] close)
  show ?thesis
    by (subst members.simps)
      (simp add: wire_text_def skip_id json_space_def next_key_def info [simplified]
        member_info [OF assms(1), simplified] second [simplified])
qed

lemma plain_ascii: "list_all plain_char s \<Longrightarrow> list_all (\<lambda>c. ord c < 0x80) s"
  by (auto simp: list_all_iff plain_char_def)

lemma decode_wire:
  assumes "list_all plain_char info" and "list_all plain_char key" and "info \<noteq> []" and "key \<noteq> []"
  shows "decodeRuntimeFieldOutputJSON (wire_text info key) = Ok \<lparr>fo_EncryptUserInfo = info, fo_Key = key\<rparr>"
proof -
  have "utf8_Valid (wire_text info key)"
    by (rule ascii_valid) (use plain_ascii [OF assms(1)] plain_ascii [OF assms(2)] in \<open>simp add: wire_text_def\<close>)
  moreover have "skip (wire_text info key) = wire_text info key" "HasPrefix (wire_text info key) ''{''"
    by (simp_all add: wire_text_def skip_id json_space_def HasPrefix_def)
  moreover have "skip [] = []" by (simp add: skip_def)
  ultimately show ?thesis
    using members_wire [OF assms(1,2)] assms(3,4) by (simp add: decodeRuntimeFieldOutputJSON_def Let_def)
qed

section \<open>What the receiver recovers\<close>

lemma runtime_key:
  assumes "length random = 16"
  shows "aes_key (runtimeASCIIKey (reverseMaskUUID random))"
    and "length (runtimeASCIIKey (reverseMaskUUID random)) = block_size"
  using assms by (simp_all add: runtimeASCIIKey_def aes_key_def block_size_def)

text \<open>
  \<open>opens key info out\<close>: the first field decrypts to \<open>info\<close> under \<open>key\<close>, and the second is the
  RSA power of a block that carries \<open>key\<close>.
\<close>

definition opens :: "string \<Rightarrow> string \<Rightarrow> runtimeFieldOutput \<Rightarrow> bool" where
  "opens key info out \<longleftrightarrow>
     (\<exists>c. decodeStrictStdBase64 (fo_EncryptUserInfo out) = Ok c \<and> aesCBCDecryptPKCS7 c key key = Ok info) \<and>
     (\<exists>k em. decodeStrictStdBase64 (fo_Key out) = Ok k \<and> unpad_message em = Some key \<and>
        be_number em < nat (rk_N runtimePublicKey) \<and>
        be_number k = be_number em ^ nat (rk_E runtimePublicKey) mod nat (rk_N runtimePublicKey))"

lemma raw_result:
  assumes "generateNativeRuntimeFieldsRaw ctx host raw = Some (Ok wire, j)"
  obtains en random c k where "hd_Entropy (protocolHostDepsFor ctx host) = Some en" "en 0 16 = Ok random"
    "aesCBCEncryptPKCS7 raw (runtimeASCIIKey (reverseMaskUUID random))
      (runtimeASCIIKey (reverseMaskUUID random)) = Ok c"
    "rsaEncryptPKCS1v15Exact runtimePublicKey (runtimeASCIIKey (reverseMaskUUID random)) (Some en) 1 = Some (Ok k, j)"
    "wire = output_wire c k"
  using assms
  by (auto simp: generateNativeRuntimeFieldsRaw_def Let_def bind_Ok_iff split: option.splits if_splits sum.splits)

lemma raw_opens:
  assumes "generateNativeRuntimeFieldsRaw ctx host raw = Some (Ok wire, j)"
    and en: "hd_Entropy (protocolHostDepsFor ctx host) = Some en" and "fills en"
  shows "\<exists>key out. length key = 16 \<and> list_all hex_lower key \<and>
    decodeRuntimeFieldOutputJSON wire = Ok out \<and> opens key raw out"
proof -
  obtain random c k where read: "en 0 16 = Ok random"
    and c: "aesCBCEncryptPKCS7 raw (runtimeASCIIKey (reverseMaskUUID random))
      (runtimeASCIIKey (reverseMaskUUID random)) = Ok c"
    and k: "rsaEncryptPKCS1v15Exact runtimePublicKey (runtimeASCIIKey (reverseMaskUUID random)) (Some en) 1 = Some (Ok k, j)"
    and wire: "wire = output_wire c k"
    using raw_result [OF assms(1)] en by (metis option.inject)
  let ?key = "runtimeASCIIKey (reverseMaskUUID random)"
  have "length random = 16" using fillsD [OF assms(3) read] .
  note key = runtime_key [OF this]
  obtain ps where ps: "chr 0 \<notin> set ps" "8 \<le> length ps"
    and em: "length (encoded_message ps ?key) = byte_length (nat (rk_N runtimePublicKey))"
      "be_number (encoded_message ps ?key) < nat (rk_N runtimePublicKey)"
    and kb: "k = be_bytes (byte_length (nat (rk_N runtimePublicKey)))
      (be_number (encoded_message ps ?key) ^ nat (rk_E runtimePublicKey) mod nat (rk_N runtimePublicKey))"
    using rsa_result [OF k assms(3)] by blast
  have "be_number k = be_number (encoded_message ps ?key) ^ nat (rk_E runtimePublicKey) mod nat (rk_N runtimePublicKey)"
    unfolding kb using em(2) by (intro be_number_bytes less_trans [OF mod_less_divisor byte_length_bound]) simp
  moreover have "length k = length (encoded_message ps ?key)" by (simp add: kb em(1))
  then have "k \<noteq> []" by (auto simp: encoded_message_def)
  moreover have "c \<noteq> []" using encrypt_length [OF key c] by auto
  moreover have "b64_encode StdEncoding s \<noteq> []" if "s \<noteq> []" for s
    using that by (cases "(StdEncoding, s)" rule: b64_encode.cases) (simp_all add: Let_def)
  ultimately have nonempty: "b64_encode StdEncoding c \<noteq> []" "b64_encode StdEncoding k \<noteq> []"
    and number: "be_number k = be_number (encoded_message ps ?key) ^ nat (rk_E runtimePublicKey) mod nat (rk_N runtimePublicKey)"
    by blast+
  let ?out = "\<lparr>fo_EncryptUserInfo = b64_encode StdEncoding c, fo_Key = b64_encode StdEncoding k\<rparr>"
  have "decodeRuntimeFieldOutputJSON wire = Ok ?out"
    unfolding wire output_wire_text using base64_plain nonempty by (intro decode_wire)
  moreover have "opens ?key raw ?out"
    unfolding opens_def
  proof (intro conjI exI)
    show "decodeStrictStdBase64 (fo_EncryptUserInfo ?out) = Ok c" "decodeStrictStdBase64 (fo_Key ?out) = Ok k"
      by (simp_all add: strict_base64_iff)
    show "unpad_message (encoded_message ps ?key) = Some ?key" using unpad_encoded ps by blast
  qed (use cbc_round_trip(1) [OF key c] em(2) number in simp_all)
  moreover have "length ?key = 16" "list_all hex_lower ?key"
    using key(2) by (simp_all add: block_size_def runtimeASCIIKey_def hex_encode_lower)
  ultimately show ?thesis by blast
qed


definition quiet_context :: context_state where
  "quiet_context = \<lparr>cx_Err = (\<lambda>i. None), cx_Deps = None\<rparr>"

definition sample_input :: runtimeFieldInput where
  "sample_input = \<lparr>fi_UID = ''user'', fi_OrganizationID = [], fi_OrganizationTags = Some [], fi_DataPolicyAgreed = True\<rparr>"


end
