(* ===== verification/Credential.thy ===== *)
theory Credential
  imports Codec_Helpers
begin

text \<open>
  \<open>native_credential.go\<close>: a credential is encrypted with AES-CBC under the machine key, which is
  also the initialisation vector, and written in base64. \<open>ctx\<close> is what \<open>ctx.Err()\<close> returns.
\<close>

section \<open>The code\<close>

definition nativeCredentialBackendIncompatible :: "go_error \<Rightarrow> go_error" where
  "nativeCredentialBackendIncompatible internal =
     Protocol BackendIncompatible ''credential data is incompatible'' (Some internal)"

definition nativeCredentialBackendFailure :: "go_error \<Rightarrow> go_error" where
  "nativeCredentialBackendFailure internal =
     Protocol BackendFailure ''credential operation failed'' (Some internal)"

definition nativeCredentialKey :: "string \<Rightarrow> (go_error, string) result" where
  "nativeCredentialKey machineKey =
     (if length machineKey \<noteq> block_size
      then Err (Protocol InvalidInput ''credential input is invalid''
        (Some (Plain (''credential machine key byte length '' @ itoa (int (length machineKey)) @
           '', want '' @ itoa (int block_size)))))
      else Ok machineKey)"

definition credential_encrypt :: "go_error option \<Rightarrow> string \<Rightarrow> string \<Rightarrow> (go_error, string) result" where
  "credential_encrypt ctx plain machineKey =
     (case ctx of Some e \<Rightarrow> Err e
      | None \<Rightarrow>
          (case nativeCredentialKey machineKey of Err e \<Rightarrow> Err e
           | Ok key \<Rightarrow>
               (case aesCBCEncryptPKCS7 plain key key of
                  Err e \<Rightarrow> Err (nativeCredentialBackendFailure (Wrap ''encrypt AES-CBC credential'' e))
                | Ok ciphertext \<Rightarrow> Ok (b64_encode StdEncoding ciphertext))))"

definition credential_decrypt :: "go_error option \<Rightarrow> string \<Rightarrow> string \<Rightarrow> (go_error, string) result" where
  "credential_decrypt ctx blob machineKey =
     (case ctx of Some e \<Rightarrow> Err e
      | None \<Rightarrow>
          (case nativeCredentialKey machineKey of Err e \<Rightarrow> Err e
           | Ok key \<Rightarrow>
               (case decodeStrictStdBase64 blob of
                  Err e \<Rightarrow> Err (nativeCredentialBackendIncompatible (Wrap ''decode credential envelope'' e))
                | Ok ciphertext \<Rightarrow>
                    (if ciphertext = []
                     then Err (nativeCredentialBackendIncompatible (Plain ''credential ciphertext is empty''))
                     else if length ciphertext mod block_size \<noteq> 0
                     then Err (nativeCredentialBackendIncompatible
                       (Plain (''credential ciphertext length '' @ itoa (int (length ciphertext)) @
                          '' is not block aligned'')))
                     else
                       (case aesCBCDecryptPKCS7 ciphertext key key of
                          Err e \<Rightarrow> Err (nativeCredentialBackendIncompatible
                                   (Wrap ''decrypt credential envelope'' e))
                        | Ok plain \<Rightarrow>
                            (if \<not> utf8_Valid plain
                             then Err (nativeCredentialBackendIncompatible
                                (Plain ''credential plaintext is not valid UTF-8''))
                             else Ok plain))))))"

section \<open>What is decrypted was encrypted\<close>

lemma credential_key_eq:
  "nativeCredentialKey k = (if length k = 16 then Ok k else Err (Protocol InvalidInput
     ''credential input is invalid'' (Some (Plain (''credential machine key byte length '' @
       itoa (int (length k)) @ '', want '' @ itoa (int block_size))))))"
  by (simp add: nativeCredentialKey_def block_size_def)

lemma key_is_aes: "length k = 16 \<Longrightarrow> aes_key k \<and> length k = block_size"
  by (simp add: aes_key_def block_size_def)

lemma credential_encrypt_iff:
  "credential_encrypt None plain key = Ok blob \<longleftrightarrow> length key = 16 \<and>
     (\<exists>c. aesCBCEncryptPKCS7 plain key key = Ok c \<and> blob = b64_encode StdEncoding c)"
  by (auto simp: credential_encrypt_def credential_key_eq split: sum.splits)

lemma cbc_decrypt_shape:
  "aesCBCDecryptPKCS7 c key iv = Ok plain \<Longrightarrow> c \<noteq> [] \<and> length c mod block_size = 0"
  by (auto simp: aesCBCDecryptPKCS7_def split: option.splits if_splits)

lemma credential_decrypt_iff:
  "credential_decrypt None blob key = Ok plain \<longleftrightarrow> length key = 16 \<and> utf8_Valid plain \<and>
     (\<exists>c. aesCBCDecryptPKCS7 c key key = Ok plain \<and> blob = b64_encode StdEncoding c)"
    (is "?l \<longleftrightarrow> ?r")
proof
  assume ?l
  then show ?r
    by (auto simp: credential_decrypt_def credential_key_eq strict_base64_iff split: sum.splits if_splits)
next
  assume ?r
  then obtain c where k: "length key = 16" "utf8_Valid plain" and c: "aesCBCDecryptPKCS7 c key key = Ok plain"
    and "decodeStrictStdBase64 blob = Ok c"
    by (auto simp: strict_base64_iff)
  then show ?l
    using cbc_decrypt_shape [OF c] by (simp add: credential_decrypt_def credential_key_eq)
qed

lemma encode_grows: "length s \<le> length (b64_encode StdEncoding s)"
  unfolding std.encode_length by linarith

lemma decrypt_iff_encrypt:
  assumes "length blob \<le> 2 ^ 63 - 1"
  shows "credential_decrypt None blob machineKey = Ok plain \<longleftrightarrow>
    utf8_Valid plain \<and> credential_encrypt None plain machineKey = Ok blob"
proof -
  have len: "length c \<le> max_int" if "blob = b64_encode StdEncoding c" for c
    using encode_grows [of c] assms that by (simp add: max_int_def)
  show ?thesis
    unfolding credential_decrypt_iff credential_encrypt_iff
    using cbc_round_trip key_is_aes len by blast
qed

text \<open>
  C28: a blob decrypts to a plaintext exactly when the plaintext is valid UTF-8 and encrypting it
  under the same key gives that blob: stored credentials are read back unchanged, and a blob that
  was not written by \<open>Encrypt\<close> under this key is refused.
\<close>

theorem credential_round_trip:
  assumes "length blob \<le> 2 ^ 63 - 1"
  shows "credential_decrypt None blob machineKey = Ok plain \<longleftrightarrow>
    utf8_Valid plain \<and> credential_encrypt None plain machineKey = Ok blob"
  by (rule decrypt_iff_encrypt [OF assms])

lemma credential_round_trip_witness:
  "\<exists>blob. credential_decrypt None blob ''0000-1111-2222-3'' = Ok ''token''"
proof -
  let ?key = "''0000-1111-2222-3''"
  have key: "aes_key ?key" "length ?key = block_size" by (simp_all add: aes_key_def block_size_def)
  obtain c where c: "aesCBCEncryptPKCS7 ''token'' ?key ?key = Ok c"
    using encrypt_total [OF key, of "''token''"] by (auto simp: max_int_def)
  have "length c = 16" using encrypt_length [OF key c] by simp
  then have "length (b64_encode StdEncoding c) \<le> 2 ^ 63 - 1" by (simp add: std.encode_length)
  moreover have "credential_encrypt None ''token'' ?key = Ok (b64_encode StdEncoding c)"
    using c by (simp add: credential_encrypt_iff)
  moreover have "utf8_Valid ''token''" by (simp add: utf8_Valid_def utf8_valid.simps)
  ultimately show ?thesis using credential_round_trip by blast
qed

text \<open>Every failure of a live call is a protocol error of the kind the code chose for it.\<close>

lemma credential_errors:
  "credential_decrypt None blob machineKey = Err e \<Longrightarrow>
    protocolErrorKindOf (Some e) = (if length machineKey = 16 then BackendIncompatible else InvalidInput)"
  by (auto simp: credential_decrypt_def credential_key_eq nativeCredentialBackendIncompatible_def
      protocolErrorKindOf_def split: sum.splits if_splits)

end
