(* ===== verification/Gcm.thy ===== *)
theory Gcm
  imports Aes Hashes
begin

text \<open>
  Galois counter mode over AES without additional data, with a nonce of twelve bytes and a tag of
  sixteen, as \<open>cipher.NewGCM\<close> defines it, and the contract of an authenticated cipher that the
  model cache relies on.
\<close>

section \<open>The contract\<close>

locale aead =
  fixes seal :: "string \<Rightarrow> string \<Rightarrow> string \<Rightarrow> string"
    and open_sealed :: "string \<Rightarrow> string \<Rightarrow> string \<Rightarrow> string option"
    and key_ok :: "string \<Rightarrow> bool" and nonce_ok :: "string \<Rightarrow> bool"
  assumes open_seal: "\<lbrakk> key_ok k; nonce_ok n \<rbrakk> \<Longrightarrow> open_sealed k n (seal k n p) = Some p"
    and seal_open: "\<lbrakk> key_ok k; nonce_ok n; open_sealed k n c = Some p \<rbrakk> \<Longrightarrow> seal k n p = c"
begin

lemma open_iff: "\<lbrakk> key_ok k; nonce_ok n \<rbrakk> \<Longrightarrow> open_sealed k n c = Some p \<longleftrightarrow> c = seal k n p"
  using open_seal seal_open by blast

lemma seal_inject: "\<lbrakk> key_ok k; nonce_ok n; seal k n p = seal k n q \<rbrakk> \<Longrightarrow> p = q"
  using open_seal by (metis option.inject)

end

section \<open>Counter mode\<close>

definition nonce_size :: nat where "nonce_size = 12"
definition tag_size :: nat where "tag_size = 16"

text \<open>The counter is the last four bytes of the block and wraps at \<open>2 ^ 32\<close>.\<close>

definition counter_block :: "string \<Rightarrow> nat \<Rightarrow> string" where
  "counter_block nonce i = nonce @ be_bytes 4 (i mod 2 ^ 32)"

function counter_mode :: "(string \<Rightarrow> string) \<Rightarrow> string \<Rightarrow> nat \<Rightarrow> string \<Rightarrow> string" where
  "counter_mode E nonce i s =
     (if s = [] then []
      else xor_bytes (take block_size s) (E (counter_block nonce i)) @
        counter_mode E nonce (i + 1) (drop block_size s))"
  by pat_completeness auto
termination
  by (relation "measure (\<lambda>(E, nonce, i, s). length s)") (simp_all add: block_size_def)

declare counter_mode.simps [simp del]

section \<open>The tag\<close>

definition gf_shift :: "128 word \<Rightarrow> 128 word" where
  "gf_shift v = drop_bit 1 v XOR (if bit v 0 then push_bit 120 0xe1 else 0)"

fun gf_multiply :: "nat \<Rightarrow> 128 word \<Rightarrow> 128 word \<Rightarrow> 128 word \<Rightarrow> 128 word" where
  "gf_multiply 0 x v z = z"
| "gf_multiply (Suc i) x v z =
     gf_multiply i x (gf_shift v) (if bit x i then z XOR v else z)"

definition block_word :: "string \<Rightarrow> 128 word" where
  "block_word b = word_of_nat (be_number (b @ replicate (block_size - length b) (chr 0)))"

definition ghash :: "128 word \<Rightarrow> string \<Rightarrow> 128 word" where
  "ghash h s = fold (\<lambda>b y. gf_multiply 128 (y XOR block_word b) h 0) (in_blocks block_size s) 0"

definition pad_block :: "string \<Rightarrow> string" where
  "pad_block s = s @ replicate ((block_size - length s mod block_size) mod block_size) (chr 0)"

definition gcm_tag :: "string \<Rightarrow> string \<Rightarrow> string \<Rightarrow> string" where
  "gcm_tag key nonce c =
     (let h = block_word (aes_encrypt key (replicate block_size (chr 0)));
          s = ghash h (pad_block c @ be_bytes 8 0 @ be_bytes 8 (8 * length c))
      in xor_bytes (be_bytes block_size (unat s)) (aes_encrypt key (counter_block nonce 1)))"

definition gcm_seal :: "string \<Rightarrow> string \<Rightarrow> string \<Rightarrow> string" where
  "gcm_seal key nonce plain =
     (let c = counter_mode (aes_encrypt key) nonce 2 plain in c @ gcm_tag key nonce c)"

definition gcm_open :: "string \<Rightarrow> string \<Rightarrow> string \<Rightarrow> string option" where
  "gcm_open key nonce sealed =
     (if length sealed < tag_size then None
      else let c = take (length sealed - tag_size) sealed;
               tag = drop (length sealed - tag_size) sealed
           in if tag = gcm_tag key nonce c then Some (counter_mode (aes_encrypt key) nonce 2 c) else None)"

section \<open>Opening undoes sealing\<close>

lemma xor_bytes_twice: "length a \<le> length k \<Longrightarrow> xor_bytes (xor_bytes a k) k = a"
proof (induction a arbitrary: k)
  case (Cons x a)
  then obtain y k' where k: "k = y # k'" by (cases k) auto
  with Cons show ?case by (simp add: xor_bytes_def xor.assoc)
qed (simp add: xor_bytes_def)

lemma counter_mode_Nil [simp]: "counter_mode E nonce i [] = []"
  by (simp add: counter_mode.simps)

lemma counter_mode_block:
  assumes "length (E (counter_block nonce i)) = block_size" and "a \<noteq> []" and "length a \<le> block_size"
    and "length a < block_size \<Longrightarrow> s = []"
  shows "counter_mode E nonce i (a @ s) =
    xor_bytes a (E (counter_block nonce i)) @ counter_mode E nonce (i + 1) s"
proof (cases "length a < block_size")
  case True
  with assms show ?thesis by (simp add: counter_mode.simps [of E nonce i a])
next
  case False
  with assms(3) have "length a = block_size" by simp
  with assms(2) show ?thesis by (simp add: counter_mode.simps [of E nonce i "a @ s"])
qed

lemma counter_mode_inverse:
  assumes "\<And>j. length (E (counter_block nonce j)) = block_size"
  shows "counter_mode E nonce i (counter_mode E nonce i s) = s \<and> length (counter_mode E nonce i s) = length s"
proof (induction s arbitrary: i rule: length_induct)
  case (1 s)
  show ?case
  proof (cases "s = []")
    case False
    let ?a = "take block_size s" and ?t = "drop block_size s" and ?k = "E (counter_block nonce i)"
    have step: "counter_mode E nonce i s = xor_bytes ?a ?k @ counter_mode E nonce (i + 1) ?t"
      using False by (simp add: counter_mode.simps [of E nonce i s])
    have "length ?t < length s" using False by (simp add: block_size_def)
    then have ih: "counter_mode E nonce (i + 1) (counter_mode E nonce (i + 1) ?t) = ?t"
      "length (counter_mode E nonce (i + 1) ?t) = length ?t" using 1 by blast+
    have la: "length (xor_bytes ?a ?k) = length ?a" by (simp add: assms)
    have "counter_mode E nonce i (counter_mode E nonce i s) =
        xor_bytes (xor_bytes ?a ?k) ?k @ counter_mode E nonce (i + 1) (counter_mode E nonce (i + 1) ?t)"
      unfolding step
    proof (rule counter_mode_block)
      show "xor_bytes ?a ?k \<noteq> []" using la False by (metis block_size_def length_0_conv take_eq_Nil zero_neq_numeral)
      show "counter_mode E nonce (i + 1) ?t = []" if "length (xor_bytes ?a ?k) < block_size"
        using that la by simp
    qed (use assms la in simp_all)
    also have "\<dots> = ?a @ ?t" by (simp only: ih(1)) (simp add: xor_bytes_twice assms)
    finally show ?thesis unfolding step using la ih(2) by simp
  qed simp
qed

lemma gcm_keystream:
  assumes "aes_key key" and "length nonce = nonce_size"
  shows "length (aes_encrypt key (counter_block nonce j)) = block_size"
  using assms by (intro aes.enc_length) (simp_all add: counter_block_def nonce_size_def block_size_def)

lemma gcm_tag_length:
  assumes "aes_key key" and "length nonce = nonce_size"
  shows "length (gcm_tag key nonce c) = tag_size"
  using gcm_keystream [OF assms] by (simp add: gcm_tag_def Let_def block_size_def tag_size_def)

interpretation gcm: aead gcm_seal gcm_open aes_key "\<lambda>nonce. length nonce = nonce_size"
proof unfold_locales
  fix k n p :: string
  assume k: "aes_key k" "length n = nonce_size"
  note inverse = counter_mode_inverse [of "aes_encrypt k" n, OF gcm_keystream [OF k]]
  show "gcm_open k n (gcm_seal k n p) = Some p"
    by (simp add: gcm_open_def gcm_seal_def Let_def gcm_tag_length [OF k] inverse)
  fix c
  assume opened: "gcm_open k n c = Some p"
  let ?b = "take (length c - tag_size) c"
  from opened have p: "p = counter_mode (aes_encrypt k) n 2 ?b"
    and tag: "drop (length c - tag_size) c = gcm_tag k n ?b"
    by (auto simp: gcm_open_def Let_def split: if_splits)
  have "counter_mode (aes_encrypt k) n 2 p = ?b" using inverse by (simp add: p)
  then show "gcm_seal k n p = c" by (simp add: gcm_seal_def Let_def tag [symmetric])
qed

end
