(* ===== verification/Model_Cache.thy ===== *)
theory Model_Cache
  imports Gcm Codec_Helpers
begin

text \<open>
  \<open>native_model_cache.go\<close>: the model cache is a base64 envelope of a magic prefix, a nonce and
  an AES-GCM sealed text, under a key derived from the user id.
\<close>

section \<open>The code\<close>

definition qmcV1Prefix :: string where "qmcV1Prefix = ''QMC'' @ [chr 1]"

definition modelCacheBackendIncompatible :: "string \<Rightarrow> go_error" where
  "modelCacheBackendIncompatible internal =
     Protocol BackendIncompatible ''model cache data is incompatible'' (Some (Plain internal))"

text \<open>
  \<open>hkdf.Key\<close> fails only for more output than 255 blocks, and it returns the 32 bytes it was asked
  for, so both error branches of \<open>deriveModelCacheKey\<close> are not taken.
\<close>

definition deriveModelCacheKey :: "string \<Rightarrow> string" where
  "deriveModelCacheKey uid = hkdf_key uid ''qoder-model-cache-enc'' ''model-cache-v1''"

definition decryptQMCV1 :: "string \<Rightarrow> string \<Rightarrow> (go_error, string) result" where
  "decryptQMCV1 blob uid =
     (case decodeStrictStdBase64 blob of
        Err e \<Rightarrow> Err (modelCacheBackendIncompatible ''model cache envelope encoding is invalid'')
      | Ok envelope \<Rightarrow>
          (if length envelope < length qmcV1Prefix + nonce_size + tag_size
           then Err (modelCacheBackendIncompatible ''model cache envelope is too short'')
           else if take (length qmcV1Prefix) envelope \<noteq> qmcV1Prefix
           then Err (modelCacheBackendIncompatible ''model cache envelope magic or version is unsupported'')
           else
             let rest = drop (length qmcV1Prefix) envelope
             in (case gcm_open (deriveModelCacheKey uid) (take nonce_size rest) (drop nonce_size rest) of
                   None \<Rightarrow> Err (modelCacheBackendIncompatible ''model cache envelope authentication failed'')
                 | Some plain \<Rightarrow> Ok plain)))"

definition model_cache_decrypt :: "go_error option \<Rightarrow> string \<Rightarrow> string \<Rightarrow> (go_error, string) result" where
  "model_cache_decrypt ctx blob uid = (case ctx of Some e \<Rightarrow> Err e | None \<Rightarrow> decryptQMCV1 blob uid)"

definition encryptQMCV1ForTest :: "string \<Rightarrow> string \<Rightarrow> string \<Rightarrow> (go_error, string) result" where
  "encryptQMCV1ForTest plain uid nonce =
     (if length nonce \<noteq> nonce_size
      then Err (Protocol InvalidInput ''model cache input is invalid''
        (Some (Plain (''model cache nonce length '' @ itoa (int (length nonce)) @ '', want '' @
           itoa (int nonce_size)))))
      else Ok (b64_encode StdEncoding
        (qmcV1Prefix @ nonce @ gcm_seal (deriveModelCacheKey uid) nonce plain)))"

section \<open>Only sealed envelopes are opened\<close>

lemma derived_key: "aes_key (deriveModelCacheKey uid)"
  by (simp add: aes_key_def deriveModelCacheKey_def)

lemma seal_length:
  assumes "aes_key key" and "length nonce = nonce_size"
  shows "length (gcm_seal key nonce p) = length p + tag_size"
  using counter_mode_inverse [of "aes_encrypt key" nonce, OF gcm_keystream [OF assms]]
  by (simp add: gcm_seal_def Let_def gcm_tag_length [OF assms])

lemma decrypt_encrypted:
  assumes "encryptQMCV1ForTest plain uid nonce = Ok blob"
  shows "decryptQMCV1 blob uid = Ok plain"
proof -
  let ?key = "deriveModelCacheKey uid"
  from assms have n: "length nonce = nonce_size"
    and blob: "blob = b64_encode StdEncoding (qmcV1Prefix @ nonce @ gcm_seal ?key nonce plain)"
    by (auto simp: encryptQMCV1ForTest_def split: if_splits)
  have "decodeStrictStdBase64 blob = Ok (qmcV1Prefix @ nonce @ gcm_seal ?key nonce plain)"
    by (simp add: strict_base64_iff blob)
  then show ?thesis
    by (simp add: decryptQMCV1_def Let_def n seal_length derived_key gcm.open_seal)
qed

lemma encrypted_decrypt:
  assumes "decryptQMCV1 blob uid = Ok plain"
  shows "\<exists>nonce. encryptQMCV1ForTest plain uid nonce = Ok blob"
proof -
  let ?key = "deriveModelCacheKey uid"
  from assms obtain envelope where e: "decodeStrictStdBase64 blob = Ok envelope"
    and long: "length qmcV1Prefix + nonce_size + tag_size \<le> length envelope"
    and magic: "take (length qmcV1Prefix) envelope = qmcV1Prefix"
    and opened: "gcm_open ?key (take nonce_size (drop (length qmcV1Prefix) envelope))
      (drop nonce_size (drop (length qmcV1Prefix) envelope)) = Some plain"
    by (auto simp: decryptQMCV1_def Let_def split: sum.splits if_splits option.splits)
  define rest where "rest = drop (length qmcV1Prefix) envelope"
  define nonce where "nonce = take nonce_size rest"
  have n: "length nonce = nonce_size" using long by (simp add: nonce_def rest_def)
  have "gcm_seal ?key nonce plain = drop nonce_size rest"
    using gcm.seal_open [OF derived_key n] opened by (simp add: nonce_def rest_def)
  then have "nonce @ gcm_seal ?key nonce plain = rest" by (simp add: nonce_def)
  moreover have "qmcV1Prefix @ rest = envelope"
    unfolding rest_def using magic by (metis append_take_drop_id)
  ultimately have "encryptQMCV1ForTest plain uid nonce = Ok blob"
    using e n by (simp add: encryptQMCV1ForTest_def strict_base64_iff)
  then show ?thesis ..
qed

text \<open>
  An envelope is opened to a plaintext exactly when it is the one the cache format gives that
  plaintext under the user's key and some nonce of twelve bytes. Every other blob, truncated,
  altered or in another base64 form, is refused.
\<close>

theorem model_cache_round_trip:
  "decryptQMCV1 blob uid = Ok plain \<longleftrightarrow> (\<exists>nonce. encryptQMCV1ForTest plain uid nonce = Ok blob)"
  using decrypt_encrypted encrypted_decrypt by blast

text \<open>Every refusal shows the same public text, whatever check failed.\<close>

lemma model_cache_refusal:
  "decryptQMCV1 blob uid = Err e \<Longrightarrow>
    protocolErrorKindOf (Some e) = BackendIncompatible \<and> error_text e = ''model cache data is incompatible''"
  by (auto simp: decryptQMCV1_def modelCacheBackendIncompatible_def protocolErrorKindOf_def Let_def
      split: sum.splits if_splits option.splits)

end
