(* ===== verification/Go_Time.thy ===== *)
theory Go_Time
  imports Go_Json
begin

text \<open>
  \<open>time.Parse(time.RFC3339, s)\<close> followed by \<open>Unix()\<close>: the fields in the layout's order with the
  library's tolerances (an hour of one digit, a fraction of a second the layout does not name,
  zone offsets up to 24 hours and 60 minutes).
\<close>

definition digit :: "char \<Rightarrow> nat" where "digit c = ord c - 48"

definition literal :: "string \<Rightarrow> string \<Rightarrow> string option" where
  "literal p s = (if HasPrefix s p then Some (drop (length p) s) else None)"

text \<open>\<open>getnum\<close>: two digits, or one when the layout allows it.\<close>

definition getnum :: "bool \<Rightarrow> string \<Rightarrow> (nat \<times> string) option" where
  "getnum fixed s =
     (case s of [] \<Rightarrow> None
      | c # t \<Rightarrow>
          (if \<not> is_digit c then None
           else (case t of d # u \<Rightarrow>
                   (if is_digit d then Some (digit c * 10 + digit d, u)
                    else if fixed then None else Some (digit c, t))
                 | [] \<Rightarrow> if fixed then None else Some (digit c, t))))"

definition year :: "string \<Rightarrow> (nat \<times> string) option" where
  "year s = (if 4 \<le> length s \<and> list_all is_digit (take 4 s) then Some (digits_val 0 (take 4 s), drop 4 s) else None)"

definition upto :: "nat \<Rightarrow> (nat \<times> string) option \<Rightarrow> (nat \<times> string) option" where
  "upto limit r = (case r of Some (n, s) \<Rightarrow> if n \<le> limit then Some (n, s) else None | None \<Rightarrow> None)"

definition skip_fraction :: "string \<Rightarrow> string" where
  "skip_fraction s =
     (if 2 \<le> length s \<and> hd s \<in> set ''.,'' \<and> is_digit (s ! 1) then dropWhile is_digit (tl s) else s)"

definition zone :: "string \<Rightarrow> (int \<times> string) option" where
  "zone s =
     (if HasPrefix s ''Z'' then Some (0, tl s)
      else if length s < 6 \<or> s ! 3 \<noteq> CHR '':'' then None
      else case (upto 24 (getnum True (take 2 (tl s))), upto 60 (getnum True (take 2 (drop 4 s)))) of
             (Some (hr, _), Some (mm, _)) \<Rightarrow>
               (let off = int ((hr * 60 + mm) * 60)
                in if hd s = CHR ''+'' then Some (off, drop 6 s)
                   else if hd s = CHR ''-'' then Some (- off, drop 6 s) else None)
           | _ \<Rightarrow> None)"

definition leap :: "nat \<Rightarrow> bool" where
  "leap y \<longleftrightarrow> y mod 4 = 0 \<and> (y mod 100 \<noteq> 0 \<or> y mod 400 = 0)"

definition days_in :: "nat \<Rightarrow> nat \<Rightarrow> nat" where
  "days_in m y = (if m = 2 then (if leap y then 29 else 28) else if m \<in> {4, 6, 9, 11} then 30 else 31)"

definition days_before_year :: "nat \<Rightarrow> int" where
  "days_before_year y = 365 * int y + int ((y + 3) div 4) - int ((y + 99) div 100) + int ((y + 399) div 400)"

definition unix_seconds :: "nat \<Rightarrow> nat \<Rightarrow> nat \<Rightarrow> nat \<Rightarrow> nat \<Rightarrow> nat \<Rightarrow> int" where
  "unix_seconds y mo d h mi s =
     (let days = days_before_year y - days_before_year 1970 +
                 int (sum_list (map (\<lambda>m. days_in m y) [1..<mo])) + int d - 1
      in days * 86400 + int (h * 3600 + mi * 60 + s))"

definition parse_date :: "string \<Rightarrow> ((nat \<times> nat \<times> nat) \<times> string) option" where
  "parse_date s =
     Option.bind (year s) (\<lambda>(y, s).
     Option.bind (literal ''-'' s) (\<lambda>s.
     Option.bind (upto 12 (getnum True s)) (\<lambda>(mo, s).
     Option.bind (if mo = 0 then None else literal ''-'' s) (\<lambda>s.
     Option.bind (getnum True s) (\<lambda>(d, s). Some ((y, mo, d), s))))))"

definition parse_clock :: "string \<Rightarrow> ((nat \<times> nat \<times> nat) \<times> string) option" where
  "parse_clock s =
     Option.bind (upto 23 (getnum False s)) (\<lambda>(h, s).
     Option.bind (literal '':'' s) (\<lambda>s.
     Option.bind (upto 59 (getnum True s)) (\<lambda>(mi, s).
     Option.bind (literal '':'' s) (\<lambda>s.
     Option.bind (upto 59 (getnum True s)) (\<lambda>(sec, s). Some ((h, mi, sec), skip_fraction s))))))"

definition parse_rfc3339 :: "string \<Rightarrow> int option" where
  "parse_rfc3339 s =
     Option.bind (parse_date s) (\<lambda>((y, mo, d), s).
     Option.bind (literal ''T'' s) (\<lambda>s.
     Option.bind (parse_clock s) (\<lambda>((h, mi, sec), s).
     Option.bind (zone s) (\<lambda>(off, s).
       if s = [] \<and> 1 \<le> d \<and> d \<le> days_in mo y then Some (unix_seconds y mo d h mi sec - off) else None))))"

end
