(* ===== verification/Go_Path.thy ===== *)
theory Go_Path
  imports Go_Strings
begin

text \<open>
  \<open>path/filepath\<close> on Unix: \<open>Clean\<close> drops empty and \<open>.\<close> elements and resolves \<open>..\<close> against
  the element before it, \<open>Join\<close> cleans the non-empty elements joined by slashes, \<open>Dir\<close> cleans
  what is before the last slash.
\<close>

fun split_on :: "char \<Rightarrow> string \<Rightarrow> string list" where
  "split_on d [] = [[]]"
| "split_on d (c # s) =
     (if c = d then [] # split_on d s
      else (case split_on d s of [] \<Rightarrow> [[c]] | p # ps \<Rightarrow> (c # p) # ps))"

text \<open>The elements kept so far, the last first.\<close>

fun clean_element :: "bool \<Rightarrow> string \<Rightarrow> string list \<Rightarrow> string list" where
  "clean_element rooted part stack =
     (if part = [] \<or> part = ''.'' then stack
      else if part = ''..'' then
        (case stack of [] \<Rightarrow> if rooted then [] else [''..'']
         | last_part # rest \<Rightarrow> if last_part = ''..'' then ''..'' # stack else rest)
      else part # stack)"

definition path_clean :: "string \<Rightarrow> string" where
  "path_clean p =
     (let rooted = (p \<noteq> [] \<and> hd p = CHR ''/'');
          body = Join (rev (fold (clean_element rooted) (split_on (CHR ''/'') p) [])) ''/''
      in if rooted then CHR ''/'' # body else if body = [] then ''.'' else body)"

definition path_join :: "string list \<Rightarrow> string" where
  "path_join elems =
     (case filter (\<lambda>e. e \<noteq> []) elems of [] \<Rightarrow> [] | es \<Rightarrow> path_clean (Join es ''/''))"

definition path_dir :: "string \<Rightarrow> string" where
  "path_dir p = path_clean (rev (dropWhile (\<lambda>c. c \<noteq> CHR ''/'') (rev p)))"

lemma split_on_nonempty [simp]: "split_on d s \<noteq> []"
  by (induction s) (auto split: list.split)

lemma join_split [simp]: "Join (split_on d s) [d] = s"
proof (induction s)
  case (Cons c s)
  show ?case
  proof (cases "split_on d s")
    case Nil
    then show ?thesis by simp
  next
    case p: (Cons p ps)
    have "Join ((c # p) # ps) [d] = c # Join (p # ps) [d]" by (cases ps) simp_all
    then show ?thesis using Cons p by (cases ps) auto
  qed
qed simp

text \<open>No element of a cleaned path is empty or a dot.\<close>

lemma clean_element_proper:
  "[] \<notin> set stack \<and> ''.'' \<notin> set stack \<Longrightarrow>
     [] \<notin> set (clean_element rooted part stack) \<and> ''.'' \<notin> set (clean_element rooted part stack)"
  by (auto split: list.splits)

lemma clean_proper:
  "[] \<notin> set stack \<and> ''.'' \<notin> set stack \<Longrightarrow>
     [] \<notin> set (fold (clean_element rooted) ps stack) \<and> ''.'' \<notin> set (fold (clean_element rooted) ps stack)"
proof (induction ps arbitrary: stack)
  case (Cons p ps)
  show ?case using Cons.IH [OF clean_element_proper [OF Cons.prems]] by simp
qed simp

lemma path_eval:
  "path_join [''/home/u/.qoder/.auth'', ''user''] = ''/home/u/.qoder/.auth/user''"
  "path_clean (path_join [path_dir ''/home/u/.qoder/.auth/user'', ''..'', ''.models'', ''u1'', ''catalog-v6'']) =
     ''/home/u/.qoder/.models/u1/catalog-v6''"
  "path_clean ''a//./b/../../..'' = ''..''" "path_clean [] = ''.''" "path_dir ''user'' = ''.''"
  by (simp_all add: path_join_def path_clean_def path_dir_def)

end
