(* ===== verification/Auth_State.thy ===== *)
theory Auth_State
  imports Credential Protocol_Types Go_Time Go_Path Openai Retry
begin

text \<open>
  \<open>auth.go\<close>, first part: the credentials, the state of the manager and what it meets outside.
  Every answer from outside (the clock, the system calls, the network, the runtime field
  generator, the context factory) comes from a record of functions, asked with a counter that
  grows with each question, so no two questions need have related answers.
\<close>

section \<open>Credentials\<close>

record userInfo =
  ui_UID :: string
  ui_Name :: string
  ui_Email :: string
  ui_AvatarURL :: string
  ui_OrgID :: string
  ui_OrgName :: string
  ui_OrgTags :: "string list"
  ui_DataPolicyAgreed :: bool
  ui_IsDataPolicyModifiable :: bool
  ui_SecurityOAuthToken :: string
  ui_AccessToken :: string
  ui_RefreshToken :: string
  ui_ExpireTime :: int
  ui_RefreshTokenExpireTime :: int
  ui_LoginMethod :: string
  ui_LoginTimestamp :: int
  ui_EncryptUserInfo :: string
  ui_Key :: string
  ui_PersonalAccessToken :: string

definition zero_userInfo :: userInfo where
  "zero_userInfo = \<lparr>ui_UID = [], ui_Name = [], ui_Email = [], ui_AvatarURL = [], ui_OrgID = [],
     ui_OrgName = [], ui_OrgTags = [], ui_DataPolicyAgreed = False, ui_IsDataPolicyModifiable = False,
     ui_SecurityOAuthToken = [], ui_AccessToken = [], ui_RefreshToken = [], ui_ExpireTime = 0,
     ui_RefreshTokenExpireTime = 0, ui_LoginMethod = [], ui_LoginTimestamp = 0,
     ui_EncryptUserInfo = [], ui_Key = [], ui_PersonalAccessToken = []\<rparr>"

definition userInfo_fields :: "(string \<times> userInfo decoder) list" where
  "userInfo_fields =
    [(''uid'', fld ui_UID ui_UID_update dec_string),
     (''name'', fld ui_Name ui_Name_update dec_string),
     (''email'', fld ui_Email ui_Email_update dec_string),
     (''avatar_url'', fld ui_AvatarURL ui_AvatarURL_update dec_string),
     (''organization_id'', fld ui_OrgID ui_OrgID_update dec_string),
     (''organization_name'', fld ui_OrgName ui_OrgName_update dec_string),
     (''organization_tags'', fld ui_OrgTags ui_OrgTags_update (dec_list [] dec_string)),
     (''data_policy_agreed'', fld ui_DataPolicyAgreed ui_DataPolicyAgreed_update dec_bool),
     (''is_data_policy_modifiable'', fld ui_IsDataPolicyModifiable ui_IsDataPolicyModifiable_update dec_bool),
     (''security_oauth_token'', fld ui_SecurityOAuthToken ui_SecurityOAuthToken_update dec_string),
     (''access_token'', fld ui_AccessToken ui_AccessToken_update dec_string),
     (''refresh_token'', fld ui_RefreshToken ui_RefreshToken_update dec_string),
     (''expire_time'', fld ui_ExpireTime ui_ExpireTime_update dec_int),
     (''refresh_token_expire_time'', fld ui_RefreshTokenExpireTime ui_RefreshTokenExpireTime_update dec_int),
     (''login_method'', fld ui_LoginMethod ui_LoginMethod_update dec_string),
     (''login_timestamp'', fld ui_LoginTimestamp ui_LoginTimestamp_update dec_int),
     (''encrypt_user_info'', fld ui_EncryptUserInfo ui_EncryptUserInfo_update dec_string),
     (''key'', fld ui_Key ui_Key_update dec_string),
     (''personal_access_token'', fld ui_PersonalAccessToken ui_PersonalAccessToken_update dec_string)]"

definition decode_userInfo :: "string \<Rightarrow> userInfo option" where
  "decode_userInfo s = unmarshal zero_userInfo (dec_struct userInfo_fields) s"

definition opt_str :: "string \<Rightarrow> string \<Rightarrow> (string \<times> json) list" where
  "opt_str k v = (if v = [] then [] else [(k, JStr v)])"

definition userInfo_json :: "userInfo \<Rightarrow> json" where
  "userInfo_json u = JObj
    ([(''uid'', JStr (ui_UID u))] @ opt_str ''name'' (ui_Name u) @ opt_str ''email'' (ui_Email u) @
     opt_str ''avatar_url'' (ui_AvatarURL u) @ opt_str ''organization_id'' (ui_OrgID u) @
     opt_str ''organization_name'' (ui_OrgName u) @
     (if ui_OrgTags u = [] then [] else [(''organization_tags'', JArr (map JStr (ui_OrgTags u)))]) @
     [(''data_policy_agreed'', JBool (ui_DataPolicyAgreed u))] @
     (if ui_IsDataPolicyModifiable u then [(''is_data_policy_modifiable'', JBool True)] else []) @
     [(''security_oauth_token'', JStr (ui_SecurityOAuthToken u)),
      (''access_token'', JStr (ui_AccessToken u)), (''refresh_token'', JStr (ui_RefreshToken u)),
      (''expire_time'', JInt (ui_ExpireTime u))] @
     (if ui_RefreshTokenExpireTime u = 0 then []
      else [(''refresh_token_expire_time'', JInt (ui_RefreshTokenExpireTime u))]) @
     [(''login_method'', JStr (ui_LoginMethod u)), (''login_timestamp'', JInt (ui_LoginTimestamp u)),
      (''encrypt_user_info'', JStr (ui_EncryptUserInfo u)), (''key'', JStr (ui_Key u))] @
     opt_str ''personal_access_token'' (ui_PersonalAccessToken u))"

section \<open>The world outside\<close>

record httpRequest =
  hq_Method :: string
  hq_URL :: string
  hq_Header :: header
  hq_Body :: string

text \<open>A response, with the error at which reading its body ended, if any.\<close>

record httpResponse =
  hr_Status :: int
  hr_Body :: string
  hr_BodyErr :: "go_error option"

text \<open>
  \<open>aw_Fault\<close> is the error of a system call, of the codec's context or of a context's \<open>Close\<close>;
  \<open>aw_Written\<close> how many bytes a copy wrote; \<open>aw_New\<close> the context factory, which may give no
  context; \<open>aw_JsonErr\<close> and \<open>aw_BadURL\<close> the library's errors for a text that does not decode and
  for a URL that does not parse.
\<close>

record auth_world =
  aw_Now :: "nat \<Rightarrow> int"
  aw_Fault :: "nat \<Rightarrow> go_error option"
  aw_Temp :: "nat \<Rightarrow> string"
  aw_Written :: "nat \<Rightarrow> nat"
  aw_Rand :: "nat \<Rightarrow> nat \<Rightarrow> string"
  aw_Generate :: "nat \<Rightarrow> runtimeFieldInput \<Rightarrow> (go_error, runtimeFieldOutput) result"
  aw_New :: "nat \<Rightarrow> protocolContextConfig \<Rightarrow> (go_error, bool) result"
  aw_Prepare :: "nat \<Rightarrow> protocolContextConfig \<Rightarrow> inferRequestInput \<Rightarrow> (go_error, preparedRequest) result"
  aw_Do :: "nat \<Rightarrow> httpRequest \<Rightarrow> (go_error, httpResponse) result"
  aw_BadURL :: "string \<Rightarrow> go_error option"
  aw_JsonErr :: "string \<Rightarrow> go_error"

text \<open>The clock in nanoseconds; \<open>Unix()\<close> is its second.\<close>

definition unix :: "int \<Rightarrow> int" where "unix t = t div second"

section \<open>The manager\<close>

text \<open>
  A context is a number, the position in the list of all contexts made, with the configuration
  it was made from and how often \<open>Close\<close> was called on it. The credentials are a pointer in the
  code, so they carry an identity. \<open>au_closeErr\<close> is \<open>None\<close> until \<open>Close\<close> has run.
\<close>

record auth =
  au_readOnly :: bool
  au_authFile :: string
  au_machineID :: string
  au_openapiBase :: string
  au_inferBase :: string
  au_webBase :: string
  au_ui :: "(nat \<times> userInfo) option"
  au_nextID :: nat
  au_dirty :: bool
  au_retryAt :: "int option"
  au_closed :: bool
  au_closeErr :: "go_error option option"
  au_ctx :: "nat option"
  au_contexts :: "(protocolContextConfig \<times> nat) list"
  au_files :: "string \<Rightarrow> string option"
  au_sent :: "httpRequest list"
  au_out :: string
  au_tick :: nat

definition fault :: "auth_world \<Rightarrow> auth \<Rightarrow> go_error option \<times> auth" where
  "fault w s = (aw_Fault w (au_tick s), s\<lparr>au_tick := Suc (au_tick s)\<rparr>)"

definition now :: "auth_world \<Rightarrow> auth \<Rightarrow> int \<times> auth" where
  "now w s = (aw_Now w (au_tick s), s\<lparr>au_tick := Suc (au_tick s)\<rparr>)"

definition ReadFile :: "auth_world \<Rightarrow> string \<Rightarrow> auth \<Rightarrow> (go_error, string) result \<times> auth" where
  "ReadFile w p s =
     (case fault w s of
        (Some e, s) \<Rightarrow> (Err e, s)
      | (None, s) \<Rightarrow>
          (case au_files s p of
             None \<Rightarrow> (Err (Plain (''open '' @ p @ '': no such file or directory'')), s)
           | Some c \<Rightarrow> (Ok c, s)))"

text \<open>\<open>os.WriteFile\<close> empties the file when it opens it, so a failed write leaves a part.\<close>

definition WriteFile :: "auth_world \<Rightarrow> string \<Rightarrow> string \<Rightarrow> auth \<Rightarrow> go_error option \<times> auth" where
  "WriteFile w p c s =
     (case fault w s of
        (Some e, s) \<Rightarrow> (Some e, s)
      | (None, s) \<Rightarrow>
          (case fault w s of
             (Some e, s) \<Rightarrow> (Some e, s\<lparr>au_files := (au_files s)(p \<mapsto> take (aw_Written w (au_tick s)) c)\<rparr>)
           | (None, s) \<Rightarrow> (None, s\<lparr>au_files := (au_files s)(p \<mapsto> c)\<rparr>)))"

text \<open>The client of a read-only manager answers every request itself.\<close>

definition auth_error :: "string \<Rightarrow> go_error" where
  "auth_error cause = Protocol AuthUnavailable ''Authentication is unavailable'' (Some (Plain cause))"

definition readOnlyAuthError :: go_error where
  "readOnlyAuthError =
     Plain ''authentication is read-only; use the official Qoder CLI to log in or refresh credentials''"

definition httpc_Do :: "auth_world \<Rightarrow> httpRequest \<Rightarrow> auth \<Rightarrow> (go_error, httpResponse) result \<times> auth" where
  "httpc_Do w req s =
     (if au_readOnly s then (Err (Wrap (hq_Method req @ '' '' @ hq_URL req) readOnlyAuthError), s)
      else (aw_Do w (au_tick s) req, s\<lparr>au_tick := Suc (au_tick s), au_sent := au_sent s @ [req]\<rparr>))"

definition authManagerClosedError :: go_error where
  "authManagerClosedError = Protocol ContextClosed ''Qoder protocol context is closed''
     (Some (Plain ''auth manager is closed''))"

definition closedStateError :: "auth \<Rightarrow> go_error option" where
  "closedStateError s = (if au_closed s then Some authManagerClosedError else None)"

definition loggedIn :: "auth \<Rightarrow> bool" where
  "loggedIn s \<longleftrightarrow> closedStateError s = None \<and>
     (case au_ui s of None \<Rightarrow> False | Some (i, u) \<Rightarrow> ui_SecurityOAuthToken u \<noteq> [])"

definition machineCredentialKey :: "string \<Rightarrow> string" where
  "machineCredentialKey machineID = (if 16 < length machineID then take 16 machineID else machineID)"

section \<open>Making a manager\<close>

definition newUUID :: "string \<Rightarrow> string" where
  "newUUID b =
     (let b6 = b[6 := mask_byte 0x0f 0x40 (b ! 6)]
      in formatLowerUUID (b6[8 := mask_byte 0x3f 0x80 (b6 ! 8)]))"

definition random :: "auth_world \<Rightarrow> nat \<Rightarrow> auth \<Rightarrow> string \<times> auth" where
  "random w n s = (aw_Rand w (au_tick s) n, s\<lparr>au_tick := Suc (au_tick s)\<rparr>)"

definition loadOrCreateMachineID :: "auth_world \<Rightarrow> string \<Rightarrow> auth \<Rightarrow> (go_error, string) result \<times> auth" where
  "loadOrCreateMachineID w dir s =
     (let p = path_join [dir, ''machine_id'']
      in case ReadFile w p s of (r, s) \<Rightarrow>
        (let found = (case r of Ok b \<Rightarrow> TrimSpace b | Err e \<Rightarrow> [])
         in if found \<noteq> [] then (Ok found, s)
            else (case random w 16 s of (b, s) \<Rightarrow>
              (case fault w s of
                 (Some e, s) \<Rightarrow> (Err e, s)
               | (None, s) \<Rightarrow>
                   (case WriteFile w p (newUUID b) s of
                      (Some e, s) \<Rightarrow> (Err e, s)
                    | (None, s) \<Rightarrow> (Ok (newUUID b), s))))))"

definition missing_file :: "string \<Rightarrow> go_error" where
  "missing_file name = Plain (''read-only authentication requires an existing readable, non-empty '' @
     name @ '' file; sign in with the official Qoder CLI'')"

definition readExistingAuthFiles :: "auth_world \<Rightarrow> string \<Rightarrow> auth \<Rightarrow> (go_error, string) result \<times> auth" where
  "readExistingAuthFiles w dir s =
     (case ReadFile w (path_join [dir, ''user'']) s of
        (Err e, s) \<Rightarrow> (Err (missing_file ''user''), s)
      | (Ok user, s) \<Rightarrow>
          (if TrimSpace user = [] then (Err (missing_file ''user''), s)
           else (case ReadFile w (path_join [dir, ''machine_id'']) s of
             (Err e, s) \<Rightarrow> (Err (missing_file ''machine_id''), s)
           | (Ok mid, s) \<Rightarrow>
               (if TrimSpace mid = [] then (Err (missing_file ''machine_id''), s)
                else (Ok (TrimSpace mid), s)))))"

definition base_or :: "string \<Rightarrow> string \<Rightarrow> string" where
  "base_or b fallback = (if b = [] then fallback else b)"

text \<open>Before it exists the manager is its files and the counter: \<open>start files\<close>.\<close>

definition start :: "(string \<Rightarrow> string option) \<Rightarrow> auth" where
  "start files = \<lparr>au_readOnly = False, au_authFile = [], au_machineID = [], au_openapiBase = [],
     au_inferBase = [], au_webBase = [], au_ui = None, au_nextID = 0, au_dirty = False,
     au_retryAt = None, au_closed = False, au_closeErr = None, au_ctx = None, au_contexts = [],
     au_files = files, au_sent = [], au_out = [], au_tick = 0\<rparr>"

definition newAuthManagerWithMode ::
  "auth_world \<Rightarrow> string \<Rightarrow> string \<Rightarrow> string \<Rightarrow> string \<Rightarrow> bool \<Rightarrow> auth \<Rightarrow> (go_error, unit) result \<times> auth" where
  "newAuthManagerWithMode w authDir openapiBase inferBase webBase ro s =
     (case (if ro then readExistingAuthFiles w authDir s else loadOrCreateMachineID w authDir s) of
        (Err e, s) \<Rightarrow> (Err e, s)
      | (Ok mid, s) \<Rightarrow>
          (Ok (), s\<lparr>au_readOnly := ro, au_authFile := path_join [authDir, ''user''], au_machineID := mid,
             au_openapiBase := base_or openapiBase ''https://openapi.qoder.sh'',
             au_inferBase := base_or inferBase ''https://api2.qoder.sh'',
             au_webBase := base_or webBase ''https://qoder.com''\<rparr>))"

end
