(* ===== verification/Auth_Store.thy ===== *)
theory Auth_Store
  imports Auth_State
begin

text \<open>
  \<open>auth.go\<close>, the credential file: a new version is encrypted into a temporary file beside it and
  renamed over it; a flag says that the memory holds credentials the file does not.
\<close>

section \<open>Staging and publishing\<close>

record stagedCredential =
  st_temp :: string
  st_final :: string
  st_published :: bool

text \<open>Steps that may fail, one after the other.\<close>

definition and_then ::
  "(auth \<Rightarrow> go_error option \<times> auth) \<Rightarrow> (auth \<Rightarrow> go_error option \<times> auth) \<Rightarrow> auth \<Rightarrow> go_error option \<times> auth" where
  "and_then f g s = (case f s of (Some e, s') \<Rightarrow> (Some e, s') | (None, s') \<Rightarrow> g s')"

definition discard :: "auth_world \<Rightarrow> stagedCredential option \<Rightarrow> auth \<Rightarrow> auth" where
  "discard w staged s =
     (case staged of None \<Rightarrow> s
      | Some st \<Rightarrow>
          (if st_published st \<or> st_temp st = [] then s
           else (case fault w s of (Some e, s) \<Rightarrow> s
                 | (None, s) \<Rightarrow> s\<lparr>au_files := (au_files s)(st_temp st := None)\<rparr>)))"

definition publish ::
  "auth_world \<Rightarrow> stagedCredential option \<Rightarrow> auth \<Rightarrow> go_error option \<times> stagedCredential option \<times> auth" where
  "publish w staged s =
     (case staged of None \<Rightarrow> (Some (Plain ''staged credential is incomplete''), staged, s)
      | Some st \<Rightarrow>
          (if st_temp st = [] \<or> st_final st = [] then (Some (Plain ''staged credential is incomplete''), staged, s)
           else (case fault w s of
                   (Some e, s) \<Rightarrow> (Some e, staged, s)
                 | (None, s) \<Rightarrow>
                     (case au_files s (st_temp st) of
                        None \<Rightarrow> (Some (Plain ''rename: no such file or directory''), staged, s)
                      | Some c \<Rightarrow> (None, Some (st\<lparr>st_published := True\<rparr>),
                          s\<lparr>au_files := (au_files s)(st_temp st := None, st_final st := Some c)\<rparr>)))))"

definition CreateTemp :: "auth_world \<Rightarrow> string \<Rightarrow> auth \<Rightarrow> (go_error, string) result \<times> auth" where
  "CreateTemp w dir s =
     (let p = dir @ (if HasSuffix dir ''/'' then [] else ''/'') @ ''.user-'' @ aw_Temp w (au_tick s)
      in case fault w s of
           (Some e, s) \<Rightarrow> (Err e, s)
         | (None, s) \<Rightarrow>
             (if au_files s p \<noteq> None then (Err (Plain (''createtemp '' @ p @ '': file exists'')), s)
              else (Ok p, s\<lparr>au_files := (au_files s)(p \<mapsto> [])\<rparr>)))"

text \<open>\<open>io.Copy\<close> into the file \<open>p\<close> this process has just made, and the check of what it wrote.\<close>

definition copy_into :: "auth_world \<Rightarrow> string \<Rightarrow> string \<Rightarrow> auth \<Rightarrow> go_error option \<times> auth" where
  "copy_into w p c s =
     (let n = min (aw_Written w (au_tick s)) (length c)
      in case fault w s of (e, s) \<Rightarrow>
           (if e \<noteq> None then e else if n \<noteq> length c then Some (Plain ''short write'') else None,
            s\<lparr>au_files := (au_files s)(p \<mapsto> take n c)\<rparr>))"

text \<open>\<open>Chmod\<close>, the copy, \<open>Sync\<close>, \<open>Close\<close>.\<close>

definition fill_temp :: "auth_world \<Rightarrow> string \<Rightarrow> string \<Rightarrow> auth \<Rightarrow> go_error option \<times> auth" where
  "fill_temp w p c = and_then (fault w) (and_then (copy_into w p c) (and_then (fault w) (fault w)))"

definition encode_credential :: "go_error option \<Rightarrow> string \<Rightarrow> userInfo \<Rightarrow> (go_error, string) result" where
  "encode_credential ctx machineID u =
     credential_encrypt ctx (marshal (userInfo_json u)) (machineCredentialKey machineID)"

definition stageCredentialForUserLocked ::
  "auth_world \<Rightarrow> userInfo option \<Rightarrow> auth \<Rightarrow> (go_error, stagedCredential option) result \<times> auth" where
  "stageCredentialForUserLocked w ui s =
     (if au_readOnly s then (Err readOnlyAuthError, s)
      else (case ui of None \<Rightarrow> (Ok None, s)
        | Some u \<Rightarrow>
          (case fault w s of (ctx, s) \<Rightarrow>
            (case encode_credential ctx (au_machineID s) u of
               Err e \<Rightarrow> (Err e, s)
             | Ok enc \<Rightarrow>
               (case fault w s of
                  (Some e, s) \<Rightarrow> (Err e, s)
                | (None, s) \<Rightarrow>
                  (case CreateTemp w (path_dir (au_authFile s)) s of
                     (Err e, s) \<Rightarrow> (Err e, s)
                   | (Ok p, s) \<Rightarrow>
                     (let st = \<lparr>st_temp = p, st_final = au_authFile s, st_published = False\<rparr>
                      in case fill_temp w p enc s of
                           (Some e, s) \<Rightarrow> (Err e, discard w (Some st) s)
                         | (None, s) \<Rightarrow> (Ok (Some st), s))))))))"

section \<open>The flag\<close>

definition markCredentialDirtyLocked :: "auth \<Rightarrow> auth" where
  "markCredentialDirtyLocked s = (if au_readOnly s then s else s\<lparr>au_dirty := True, au_retryAt := None\<rparr>)"

definition clearCredentialDirtyLocked :: "auth \<Rightarrow> auth" where
  "clearCredentialDirtyLocked s = s\<lparr>au_dirty := False, au_retryAt := None\<rparr>"

definition saveLocked :: "auth_world \<Rightarrow> auth \<Rightarrow> go_error option \<times> auth" where
  "saveLocked w s =
     (case closedStateError s of Some e \<Rightarrow> (Some e, s)
      | None \<Rightarrow>
        (if au_readOnly s then (Some readOnlyAuthError, s)
         else (case au_ui s of None \<Rightarrow> (None, s)
           | Some (i, u) \<Rightarrow>
             (case stageCredentialForUserLocked w (Some u) (markCredentialDirtyLocked s) of
                (Err e, s) \<Rightarrow> (Some e, s)
              | (Ok staged, s) \<Rightarrow>
                (case publish w staged s of
                   (Some e, staged, s) \<Rightarrow> (Some e, discard w staged s)
                 | (None, staged, s) \<Rightarrow> (None, discard w staged (clearCredentialDirtyLocked s)))))))"

text \<open>\<open>fmt.Errorf("...: %w", protocolInternalError(err))\<close>; the cause may be nil.\<close>

definition wrap_internal :: "string \<Rightarrow> go_error \<Rightarrow> go_error" where
  "wrap_internal action err =
     (case protocolInternalError (Some err) of
        Some i \<Rightarrow> Wrap action i | None \<Rightarrow> Plain (action @ '': %!w(<nil>)''))"

definition credentialPersistenceError :: "string \<Rightarrow> go_error \<Rightarrow> go_error" where
  "credentialPersistenceError action err =
     Protocol BackendFailure ''Authentication state could not be saved''
       (Some (wrap_internal action err))"

definition persistDirtyCredentialLocked :: "auth_world \<Rightarrow> auth \<Rightarrow> go_error option \<times> auth" where
  "persistDirtyCredentialLocked w s =
     (if au_readOnly s \<or> \<not> au_dirty s then (None, s)
      else (case saveLocked w s of
              (Some e, s) \<Rightarrow> (Some (credentialPersistenceError ''persist pending credentials'' e), s)
            | (None, s) \<Rightarrow> (None, s)))"

definition credentialPersistRetryDelay :: int where
  "credentialPersistRetryDelay = 30 * second"

definition persistDirtyCredentialBestEffortLocked :: "auth_world \<Rightarrow> bool \<Rightarrow> auth \<Rightarrow> auth" where
  "persistDirtyCredentialBestEffortLocked w force s =
     (if au_readOnly s \<or> \<not> au_dirty s then s
      else (case now w s of (t, s) \<Rightarrow>
        (if \<not> force \<and> (case au_retryAt s of None \<Rightarrow> False | Some r \<Rightarrow> t < r) then s
         else (case persistDirtyCredentialLocked w s of
                 (None, s) \<Rightarrow> s
               | (Some e, s) \<Rightarrow>
                   (case now w s of (t, s) \<Rightarrow> s\<lparr>au_retryAt := Some (t + credentialPersistRetryDelay)\<rparr>)))))"

section \<open>What the file says\<close>

definition read_credential :: "auth_world \<Rightarrow> go_error option \<Rightarrow> auth \<Rightarrow> string \<Rightarrow> (go_error, userInfo) result" where
  "read_credential w ctx s blob =
     (let t = TrimSpace blob;
          plain = (if HasPrefix t ''{'' then Ok t
                   else (case credential_decrypt ctx t (machineCredentialKey (au_machineID s)) of
                           Err e \<Rightarrow> Err (Wrap (''decrypt '' @ au_authFile s) e)
                         | Ok dec \<Rightarrow> Ok dec))
      in case plain of Err e \<Rightarrow> Err e
         | Ok p \<Rightarrow> (case decode_userInfo p of None \<Rightarrow> Err (aw_JsonErr w p) | Some u \<Rightarrow> Ok u))"

text \<open>
  The file is a version of \<open>u\<close>: it was written from \<open>u\<close>, or read as \<open>u\<close>.
\<close>

definition version_of :: "string \<Rightarrow> userInfo \<Rightarrow> string \<Rightarrow> bool" where
  "version_of machineID u blob \<longleftrightarrow> encode_credential None machineID u = Ok blob \<or>
     (let t = TrimSpace blob
      in if HasPrefix t ''{'' then decode_userInfo t = Some u
         else \<exists>p. credential_decrypt None t (machineCredentialKey machineID) = Ok p \<and> decode_userInfo p = Some u)"

definition on_file :: "auth \<Rightarrow> userInfo \<Rightarrow> bool" where
  "on_file s u \<longleftrightarrow> (\<exists>blob. au_files s (au_authFile s) = Some blob \<and> version_of (au_machineID s) u blob)"

text \<open>The file was written from \<open>u\<close>.\<close>

definition written :: "auth \<Rightarrow> userInfo \<Rightarrow> bool" where
  "written s u \<longleftrightarrow> (\<exists>blob. au_files s (au_authFile s) = Some blob \<and>
     encode_credential None (au_machineID s) u = Ok blob)"

text \<open>The invariant of the flag: credentials that are not dirty are on file.\<close>

definition durable :: "auth \<Rightarrow> bool" where
  "durable s \<longleftrightarrow> (\<not> au_readOnly s \<longrightarrow> \<not> au_dirty s \<longrightarrow> (\<forall>i u. au_ui s = Some (i, u) \<longrightarrow> on_file s u))"

section \<open>Working on temporary files\<close>

text \<open>
  A state that differs only in files and questions asked, and still has every file it had.
\<close>

definition temp_work :: "auth \<Rightarrow> auth \<Rightarrow> bool" where
  "temp_work s s' \<longleftrightarrow> s'\<lparr>au_files := Map.empty, au_tick := 0\<rparr> = s\<lparr>au_files := Map.empty, au_tick := 0\<rparr> \<and>
     (\<forall>p c. au_files s p = Some c \<longrightarrow> au_files s' p = Some c)"

lemma temp_workE:
  assumes "temp_work s s'"
  obtains F t where "s' = s\<lparr>au_files := F, au_tick := t\<rparr>" "\<And>p c. au_files s p = Some c \<Longrightarrow> F p = Some c"
proof -
  have "s' = s\<lparr>au_files := au_files s', au_tick := au_tick s'\<rparr>"
    using assms by (cases s; cases s') (simp add: temp_work_def)
  then show ?thesis using assms that unfolding temp_work_def by metis
qed

lemma temp_work_refl [simp, intro]: "temp_work s s"
  by (simp add: temp_work_def)

lemma temp_work_trans: "temp_work s1 s2 \<Longrightarrow> temp_work s2 s3 \<Longrightarrow> temp_work s1 s3"
  by (simp add: temp_work_def)

lemma temp_work_tick [simp]: "temp_work s (s'\<lparr>au_tick := t\<rparr>) = temp_work s s'"
  by (cases s; cases s') (simp add: temp_work_def)

lemma fault_eq: "fault w s = (aw_Fault w (au_tick s), s\<lparr>au_tick := Suc (au_tick s)\<rparr>)"
  by (simp add: fault_def)

text \<open>Removing or filling a file that the earlier state did not have is such work.\<close>

lemma temp_work_files [simp]:
  "au_files s p = None \<Longrightarrow> temp_work s s' \<Longrightarrow> temp_work s (s'\<lparr>au_files := (au_files s')(p := x)\<rparr>)"
  by (cases s; cases s') (auto simp: temp_work_def)

lemma CreateTemp_work:
  "CreateTemp w dir s = (r, s') \<Longrightarrow> temp_work s s' \<and>
     (\<forall>p. r = Ok p \<longrightarrow> p \<noteq> [] \<and> au_files s p = None)"
  by (auto simp: CreateTemp_def fault_eq Let_def temp_work_def split: option.splits if_splits)

lemma fill_temp_work:
  assumes "temp_work s s0" "au_files s p = None" "fill_temp w p c s0 = (r, s')"
  shows "temp_work s s' \<and> (r = None \<longrightarrow> au_files s' p = Some c)"
  using assms by (auto simp: fill_temp_def and_then_def copy_into_def fault_eq Let_def temp_work_def
      split: option.splits if_splits)

lemma discard_work:
  assumes "temp_work s s0" "case staged of None \<Rightarrow> True | Some st \<Rightarrow> au_files s (st_temp st) = None"
  shows "temp_work s (discard w staged s0)"
  using assms by (auto simp: discard_def fault_eq temp_work_def split: option.splits)

definition staged_for :: "auth \<Rightarrow> userInfo \<Rightarrow> auth \<Rightarrow> stagedCredential \<Rightarrow> bool" where
  "staged_for s u s' st \<longleftrightarrow> st_temp st \<noteq> [] \<and> st_final st = au_authFile s \<and> \<not> st_published st \<and>
     au_files s (st_temp st) = None \<and>
     (\<exists>blob. au_files s' (st_temp st) = Some blob \<and> encode_credential None (au_machineID s) u = Ok blob)"

lemma encode_ok_ctx: "encode_credential ctx m u = Ok blob \<Longrightarrow> encode_credential None m u = Ok blob"
  by (auto simp: encode_credential_def credential_encrypt_def split: option.splits)

text \<open>A state that agrees with an earlier one on everything but the files, the counter and the flag.\<close>

definition keeps :: "auth \<Rightarrow> auth \<Rightarrow> bool" where
  "keeps s s' \<longleftrightarrow> s'\<lparr>au_files := Map.empty, au_tick := 0, au_dirty := False, au_retryAt := None\<rparr> =
     s\<lparr>au_files := Map.empty, au_tick := 0, au_dirty := False, au_retryAt := None\<rparr>"

lemma keepsD:
  assumes "keeps s s'"
  shows "au_readOnly s' = au_readOnly s" "au_authFile s' = au_authFile s" "au_machineID s' = au_machineID s"
    "au_openapiBase s' = au_openapiBase s" "au_inferBase s' = au_inferBase s" "au_webBase s' = au_webBase s"
    "au_ui s' = au_ui s" "au_nextID s' = au_nextID s" "au_closed s' = au_closed s"
    "au_closeErr s' = au_closeErr s" "au_ctx s' = au_ctx s" "au_contexts s' = au_contexts s"
    "au_sent s' = au_sent s" "au_out s' = au_out s"
  using assms by (cases s; cases s'; simp add: keeps_def)+

lemma keeps_refl [simp, intro]: "keeps s s" by (simp add: keeps_def)

lemma keeps_trans: "keeps s1 s2 \<Longrightarrow> keeps s2 s3 \<Longrightarrow> keeps s1 s3" by (simp add: keeps_def)

lemma keeps_update [simp]:
  "keeps s (s'\<lparr>au_tick := t\<rparr>) = keeps s s'" "keeps s (s'\<lparr>au_files := F\<rparr>) = keeps s s'"
  "keeps s (s'\<lparr>au_dirty := d\<rparr>) = keeps s s'" "keeps s (s'\<lparr>au_retryAt := t'\<rparr>) = keeps s s'"
  by (cases s; cases s'; simp add: keeps_def)+

lemma temp_work_keeps: "temp_work s s' \<Longrightarrow> keeps s s' \<and> au_dirty s' = au_dirty s"
  by (cases s; cases s') (simp add: temp_work_def keeps_def)

lemma keeps_flag [simp]: "keeps s (markCredentialDirtyLocked s)" "keeps s (clearCredentialDirtyLocked s)"
  by (simp_all add: markCredentialDirtyLocked_def clearCredentialDirtyLocked_def)

lemma stage_work:
  assumes "stageCredentialForUserLocked w ui s = (r, s')"
  shows "temp_work s s'"
    "r = Ok (Some st) \<Longrightarrow> \<exists>u. ui = Some u \<and> \<not> au_readOnly s \<and> staged_for s u s' st"
    "r = Ok None \<Longrightarrow> ui = None"
proof -
  have "temp_work s s' \<and> (\<forall>st. r = Ok (Some st) \<longrightarrow> (\<exists>u. ui = Some u \<and> \<not> au_readOnly s \<and> staged_for s u s' st)) \<and>
      (r = Ok None \<longrightarrow> ui = None)"
  proof (cases "au_readOnly s \<or> ui = None")
    case True
    then show ?thesis using assms by (auto simp: stageCredentialForUserLocked_def split: if_splits option.splits)
  next
    case False
    then obtain u where u: "ui = Some u" "\<not> au_readOnly s" by auto
    let ?s2 = "s\<lparr>au_tick := Suc (Suc (au_tick s))\<rparr>"
    show ?thesis
    proof (cases "encode_credential (aw_Fault w (au_tick s)) (au_machineID s) u")
      case (Inl e)
      then show ?thesis using assms u by (auto simp: stageCredentialForUserLocked_def fault_eq)
    next
      case enc: (Inr enc)
      obtain rc s3 where c: "CreateTemp w (path_dir (au_authFile s)) ?s2 = (rc, s3)" by fastforce
      have tw: "temp_work s s3" and fresh: "rc = Ok p \<Longrightarrow> p \<noteq> [] \<and> au_files s p = None" for p
        using CreateTemp_work [OF c] temp_work_trans [of s ?s2 s3] by auto
      have stuff: "au_authFile s3 = au_authFile s"
        using temp_work_keeps [OF tw] keepsD(2) by blast
      show ?thesis
      proof (cases rc)
        case (Inl e)
        then show ?thesis using assms u enc c tw
          by (auto simp: stageCredentialForUserLocked_def fault_eq split: option.splits)
      next
        case (Inr p)
        obtain rf s4 where f: "fill_temp w p enc s3 = (rf, s4)" by fastforce
        note d = discard_work [of s s4 "Some \<lparr>st_temp = p, st_final = au_authFile s, st_published = False\<rparr>"]
        show ?thesis
          using assms u enc c fresh [OF Inr] Inr f fill_temp_work [OF tw _ f] d encode_ok_ctx [OF enc] stuff
          by (auto simp: stageCredentialForUserLocked_def fault_eq Let_def staged_for_def split: option.splits)
      qed
    qed
  qed
  then show "temp_work s s'"
    "r = Ok (Some st) \<Longrightarrow> \<exists>u. ui = Some u \<and> \<not> au_readOnly s \<and> staged_for s u s' st"
    "r = Ok None \<Longrightarrow> ui = None" by auto
qed

text \<open>Publishing a staged version either puts it on file or leaves every file as it was.\<close>

lemma publish_result:
  assumes "publish w (Some st) s0 = (e, staged, s')" "staged_for s u s0 st" "temp_work s s0"
  shows "case e of
      None \<Rightarrow> keeps s s' \<and> on_file s' u \<and> written s' u \<and> (\<forall>s''. discard w staged s'' = s'')
    | Some x \<Rightarrow> temp_work s s' \<and> temp_work s (discard w staged s')"
proof (cases e)
  case None
  have k: "keeps s s0" using temp_work_keeps [OF assms(3)] by simp
  obtain c where c: "au_files s0 (st_temp st) = Some c" and enc: "encode_credential None (au_machineID s) u = Ok c"
    using assms(2) unfolding staged_for_def by blast
  have "staged = Some (st\<lparr>st_published := True\<rparr>) \<and>
      s' = s0\<lparr>au_tick := Suc (au_tick s0), au_files := (au_files s0)(st_temp st := None, au_authFile s \<mapsto> c)\<rparr>"
    using assms(1,2) None c by (simp add: publish_def staged_for_def fault_eq split: if_splits option.splits)
  moreover from this have "on_file s' u" "written s' u"
    using enc by (auto simp: on_file_def written_def version_of_def keepsD [OF k])
  ultimately show ?thesis using k None by (simp add: discard_def)
next
  case (Some x)
  with assms have "staged = Some st" "temp_work s s'"
    by (auto simp: publish_def fault_eq split: if_splits option.splits)
  with Some assms(2) discard_work [of s s' "Some st"] show ?thesis
    by (simp add: staged_for_def)
qed

lemma on_file_keeps:
  "keeps s s' \<Longrightarrow> (\<And>c. au_files s (au_authFile s) = Some c \<Longrightarrow> au_files s' (au_authFile s) = Some c) \<Longrightarrow>
     on_file s u \<Longrightarrow> on_file s' u"
  by (auto simp: on_file_def keepsD)

text \<open>Saving succeeds only when the credentials are on file; when it fails the flag is up.\<close>

lemma saveLocked_result:
  assumes "saveLocked w s = (r, s')"
  shows "keeps s s'" "r = None \<Longrightarrow> au_ui s = Some (i, u) \<Longrightarrow> on_file s' u \<and> written s' u \<and> \<not> au_dirty s'"
    "r = Some e \<Longrightarrow> \<not> au_readOnly s \<Longrightarrow> \<not> au_closed s \<Longrightarrow> au_dirty s'"
    "au_readOnly s \<or> au_closed s \<or> au_ui s = None \<Longrightarrow> s' = s"
proof -
  let ?m = "markCredentialDirtyLocked s"
  have "keeps s s' \<and> (\<forall>i u. r = None \<longrightarrow> au_ui s = Some (i, u) \<longrightarrow> on_file s' u \<and> written s' u \<and> \<not> au_dirty s') \<and>
      (r \<noteq> None \<longrightarrow> \<not> au_readOnly s \<longrightarrow> \<not> au_closed s \<longrightarrow> au_dirty s') \<and>
      (au_readOnly s \<or> au_closed s \<or> au_ui s = None \<longrightarrow> s' = s)"
  proof (cases "au_readOnly s \<or> au_closed s \<or> au_ui s = None")
    case True
    then show ?thesis using assms by (auto simp: saveLocked_def closedStateError_def split: option.splits if_splits)
  next
    case False
    then obtain i u where u: "au_ui s = Some (i, u)" "\<not> au_readOnly s" "\<not> au_closed s" by auto
    obtain rs s1 where st: "stageCredentialForUserLocked w (Some u) ?m = (rs, s1)" by fastforce
    note work = stage_work [OF st]
    have m: "au_dirty ?m" using u by (simp add: markCredentialDirtyLocked_def)
    have k: "temp_work ?m x \<Longrightarrow> keeps s x \<and> au_dirty x" for x
      using temp_work_keeps [of ?m x] keeps_trans [of s ?m x] m by simp
    show ?thesis
    proof (cases rs)
      case (Inl x)
      then show ?thesis using assms u st k [OF work(1)] by (auto simp: saveLocked_def closedStateError_def)
    next
      case (Inr staged)
      then obtain st' where staged: "staged = Some st'" "staged_for ?m u s1 st'"
        using work by (cases staged) auto
      obtain x staged' s2 where p: "publish w (Some st') s1 = (x, staged', s2)" by (metis prod_cases3)
      note pub = publish_result [OF p staged(2) work(1)]
      show ?thesis
      proof (cases x)
        case None
        then have "keeps ?m s2" "on_file s2 u" "written s2 u" "discard w staged' y = y" for y using pub by auto
        moreover have "keeps s s2" using \<open>keeps ?m s2\<close> keeps_trans [of s ?m s2] by simp
        ultimately show ?thesis
          using assms u st Inr staged(1) p None
          by (auto simp: saveLocked_def closedStateError_def clearCredentialDirtyLocked_def on_file_def written_def)
      next
        case (Some y)
        then have "temp_work ?m (discard w staged' s2)" using pub by simp
        then show ?thesis
          using assms u st Inr staged(1) p Some k by (auto simp: saveLocked_def closedStateError_def)
      qed
    qed
  qed
  then show "keeps s s'" "r = None \<Longrightarrow> au_ui s = Some (i, u) \<Longrightarrow> on_file s' u \<and> written s' u \<and> \<not> au_dirty s'"
    "r = Some e \<Longrightarrow> \<not> au_readOnly s \<Longrightarrow> \<not> au_closed s \<Longrightarrow> au_dirty s'"
    "au_readOnly s \<or> au_closed s \<or> au_ui s = None \<Longrightarrow> s' = s" by auto
qed

end
