(* ===== verification/Auth_Context.thy ===== *)
theory Auth_Context
  imports Auth_Store
begin

text \<open>
  \<open>auth.go\<close>, the protocol context: making it from credentials, replacing it, loading the
  credentials from the file, committing a login and closing the manager.
\<close>

section \<open>Contexts\<close>

definition closeContext :: "auth_world \<Rightarrow> nat \<Rightarrow> auth \<Rightarrow> go_error option \<times> auth" where
  "closeContext w i s =
     (case fault w s of (e, s) \<Rightarrow>
       (e, s\<lparr>au_contexts := (au_contexts s)[i := apsnd Suc (au_contexts s ! i)]\<rparr>))"

text \<open>An old context, if there is one, is closed; its error is only logged.\<close>

definition close_old :: "auth_world \<Rightarrow> nat option \<Rightarrow> auth \<Rightarrow> auth" where
  "close_old w old s = (case old of None \<Rightarrow> s | Some i \<Rightarrow> snd (closeContext w i s))"

definition factory_context ::
  "auth_world \<Rightarrow> protocolContextConfig \<Rightarrow> auth \<Rightarrow> (go_error, nat option) result \<times> auth" where
  "factory_context w config s =
     (let t = s\<lparr>au_tick := Suc (au_tick s)\<rparr>
      in case aw_New w (au_tick s) config of
           Err e \<Rightarrow> (Err e, t)
         | Ok made \<Rightarrow>
             (if made then (Ok (Some (length (au_contexts s))), t\<lparr>au_contexts := au_contexts s @ [(config, 0)]\<rparr>)
              else (Ok None, t)))"

definition replaceContext :: "auth_world \<Rightarrow> nat option \<Rightarrow> auth \<Rightarrow> go_error option \<times> auth" where
  "replaceContext w next_ctx s =
     (case next_ctx of None \<Rightarrow> (Some (auth_error ''replacement protocol context is nil''), s)
      | Some i \<Rightarrow>
          (if au_closed s then (Some authManagerClosedError, close_old w (Some i) s)
           else (None, close_old w (au_ctx s) (s\<lparr>au_ctx := Some i\<rparr>))))"

definition runtimeFieldInputForLocked :: "userInfo option \<Rightarrow> runtimeFieldInput" where
  "runtimeFieldInputForLocked ui =
     (case ui of
        None \<Rightarrow> \<lparr>fi_UID = [], fi_OrganizationID = [], fi_OrganizationTags = None, fi_DataPolicyAgreed = False\<rparr>
      | Some u \<Rightarrow> \<lparr>fi_UID = ui_UID u, fi_OrganizationID = ui_OrgID u,
          fi_OrganizationTags = Some (ui_OrgTags u), fi_DataPolicyAgreed = ui_DataPolicyAgreed u\<rparr>)"

definition contextConfigForLocked :: "string \<Rightarrow> userInfo option \<Rightarrow> protocolContextConfig" where
  "contextConfigForLocked machineID ui =
     \<lparr>cc_MachineID = machineID, cc_Version = qoderProtocolVersion,
      cc_User = (case ui of
          None \<Rightarrow> \<lparr>pu_UID = [], pu_EncryptUserInfo = [], pu_Key = [], pu_OrganizationID = [],
            pu_OrganizationTags = None, pu_DataPolicyAgreed = False\<rparr>
        | Some u \<Rightarrow> \<lparr>pu_UID = ui_UID u, pu_EncryptUserInfo = ui_EncryptUserInfo u, pu_Key = ui_Key u,
            pu_OrganizationID = ui_OrgID u, pu_OrganizationTags = Some (ui_OrgTags u),
            pu_DataPolicyAgreed = ui_DataPolicyAgreed u\<rparr>),
      cc_Scene = defaultProtocolScene\<rparr>"

text \<open>
  The credentials with runtime fields: those it has, or generated ones. \<open>own\<close> says that the
  pointer is the manager's, whose credentials then change with it and are marked dirty.
\<close>

definition ensure_fields ::
  "auth_world \<Rightarrow> bool \<Rightarrow> userInfo \<Rightarrow> auth \<Rightarrow> (go_error, userInfo) result \<times> auth" where
  "ensure_fields w own u s =
     (if ui_EncryptUserInfo u \<noteq> [] \<and> ui_Key u \<noteq> [] then (Ok u, s)
      else (let t = s\<lparr>au_tick := Suc (au_tick s)\<rparr>
        in case aw_Generate w (au_tick s) (runtimeFieldInputForLocked (Some u)) of
             Err e \<Rightarrow> (Err e, t)
           | Ok f \<Rightarrow>
               (if fo_EncryptUserInfo f = [] \<or> fo_Key f = []
                then (Err (auth_error ''generated runtime authentication fields are incomplete''), t)
                else (let u' = u\<lparr>ui_EncryptUserInfo := fo_EncryptUserInfo f, ui_Key := fo_Key f\<rparr>
                  in (Ok u', if own then markCredentialDirtyLocked
                                   (t\<lparr>au_ui := map_option (\<lambda>(i, _). (i, u')) (au_ui t)\<rparr>) else t)))))"

definition buildContextForUserLocked ::
  "auth_world \<Rightarrow> bool \<Rightarrow> userInfo option \<Rightarrow> auth \<Rightarrow> (go_error, nat option \<times> userInfo) result \<times> auth" where
  "buildContextForUserLocked w own ui s =
     (case closedStateError s of Some e \<Rightarrow> (Err e, s)
      | None \<Rightarrow>
        (case ui of None \<Rightarrow> (Err (auth_error ''user credentials are unavailable''), s)
         | Some u \<Rightarrow>
           (case ensure_fields w own u s of
              (Err e, s) \<Rightarrow> (Err e, s)
            | (Ok u', s) \<Rightarrow>
                (case factory_context w (contextConfigForLocked (au_machineID s) (Some u')) s of
                   (Err e, s) \<Rightarrow> (Err e, s)
                 | (Ok next_ctx, s) \<Rightarrow> (Ok (next_ctx, u'), s)))))"

definition rebuildContextLocked :: "auth_world \<Rightarrow> auth \<Rightarrow> go_error option \<times> auth" where
  "rebuildContextLocked w s =
     (case buildContextForUserLocked w True (map_option snd (au_ui s)) s of
        (Err e, s) \<Rightarrow> (Some e, s)
      | (Ok (next_ctx, u), s) \<Rightarrow> replaceContext w next_ctx s)"

section \<open>Loading, logging in, closing\<close>

definition load :: "auth_world \<Rightarrow> auth \<Rightarrow> go_error option \<times> auth" where
  "load w s =
     (case closedStateError s of Some e \<Rightarrow> (Some e, s)
      | None \<Rightarrow>
        (case ReadFile w (au_authFile s) s of
           (Err e, s) \<Rightarrow> (Some e, s)
         | (Ok blob, s) \<Rightarrow>
           (case fault w s of (ctx, s) \<Rightarrow>
             (case read_credential w ctx s blob of
                Err e \<Rightarrow> (Some e, s)
              | Ok u \<Rightarrow>
                  rebuildContextLocked w (clearCredentialDirtyLocked
                    (s\<lparr>au_ui := Some (au_nextID s, u), au_nextID := Suc (au_nextID s)\<rparr>))))))"

text \<open>
  \<open>commitLoginCandidateLocked\<close>: \<open>i\<close> is the identity of the candidate. Nothing of the manager
  changes until the new file is in place.
\<close>

definition commitLoginCandidateLocked ::
  "auth_world \<Rightarrow> nat \<Rightarrow> userInfo \<Rightarrow> auth \<Rightarrow> go_error option \<times> auth" where
  "commitLoginCandidateLocked w i candidate s =
     (if au_readOnly s then (Some readOnlyAuthError, s)
      else (case buildContextForUserLocked w False (Some candidate) s of
        (Err e, s) \<Rightarrow> (Some e, s)
      | (Ok (None, u), s) \<Rightarrow> (Some (auth_error ''candidate protocol context is unavailable''), s)
      | (Ok (Some c, u), s) \<Rightarrow>
          (case closedStateError s of Some e \<Rightarrow> (Some e, close_old w (Some c) s)
           | None \<Rightarrow>
             (case stageCredentialForUserLocked w (Some u) s of
                (Err e, s) \<Rightarrow> (Some e, close_old w (Some c) s)
              | (Ok staged, s) \<Rightarrow>
                (case publish w staged s of
                   (Some e, staged, s) \<Rightarrow> (Some e, discard w staged (close_old w (Some c) s))
                 | (None, staged, s) \<Rightarrow>
                     (None, discard w staged (close_old w (au_ctx s)
                        (clearCredentialDirtyLocked (s\<lparr>au_ctx := Some c, au_ui := Some (i, u)\<rparr>)))))))))"

text \<open>\<open>Close\<close> does its work once; later calls return the first one's error.\<close>

definition manager_Close :: "auth_world \<Rightarrow> auth \<Rightarrow> go_error option \<times> auth" where
  "manager_Close w s =
     (case au_closeErr s of Some e \<Rightarrow> (e, s)
      | None \<Rightarrow>
        (case persistDirtyCredentialLocked w s of (persistErr, s) \<Rightarrow>
          (case (case au_ctx s of
                   None \<Rightarrow> (None, s\<lparr>au_closed := True, au_ctx := None\<rparr>)
                 | Some i \<Rightarrow> closeContext w i (s\<lparr>au_closed := True, au_ctx := None\<rparr>)) of (contextErr, s) \<Rightarrow>
            (let e = mergeProtocolErrors persistErr contextErr in (e, s\<lparr>au_closeErr := Some e\<rparr>)))))"

section \<open>Accounting for contexts\<close>

text \<open>
  \<open>accounted P s\<close>: the contexts in hand, \<open>P\<close>, and the current one have not been closed, every
  other context has been closed once, a closed manager holds none, and only \<open>Close\<close> leaves its
  error.
\<close>

definition accounted :: "nat set \<Rightarrow> auth \<Rightarrow> bool" where
  "accounted P s \<longleftrightarrow>
     (\<forall>i < length (au_contexts s). snd (au_contexts s ! i) = (if au_ctx s = Some i \<or> i \<in> P then 0 else 1)) \<and>
     (\<forall>i. au_ctx s = Some i \<longrightarrow> i < length (au_contexts s) \<and> i \<notin> P) \<and>
     (\<forall>i \<in> P. i < length (au_contexts s)) \<and> (au_closed s \<longrightarrow> au_ctx s = None) \<and>
     (au_closeErr s \<noteq> None \<longrightarrow> au_closed s)"

lemma accounted_keeps: "keeps s s' \<Longrightarrow> accounted P s' = accounted P s"
  by (simp add: accounted_def keepsD)

lemma accounted_update [simp]:
  "accounted P (s\<lparr>au_tick := t\<rparr>) = accounted P s" "accounted P (s\<lparr>au_files := F\<rparr>) = accounted P s"
  "accounted P (s\<lparr>au_ui := x\<rparr>) = accounted P s" "accounted P (s\<lparr>au_dirty := d\<rparr>) = accounted P s"
  "accounted P (s\<lparr>au_retryAt := r\<rparr>) = accounted P s" "accounted P (s\<lparr>au_nextID := n\<rparr>) = accounted P s"
  "accounted P (s\<lparr>au_sent := q\<rparr>) = accounted P s" "accounted P (s\<lparr>au_out := o'\<rparr>) = accounted P s"
  "accounted P (clearCredentialDirtyLocked s) = accounted P s"
  "accounted P (markCredentialDirtyLocked s) = accounted P s"
  by (simp_all add: accounted_def clearCredentialDirtyLocked_def markCredentialDirtyLocked_def)

lemma flag_other [simp]:
  "au_closed (markCredentialDirtyLocked s) = au_closed s" "au_closed (clearCredentialDirtyLocked s) = au_closed s"
  "au_ctx (markCredentialDirtyLocked s) = au_ctx s" "au_ctx (clearCredentialDirtyLocked s) = au_ctx s"
  by (simp_all add: markCredentialDirtyLocked_def clearCredentialDirtyLocked_def)

lemma close_pending: "accounted {i} s \<Longrightarrow> accounted {} (close_old w (Some i) s)"
  by (auto simp: accounted_def close_old_def closeContext_def fault_eq nth_list_update)

lemma adopt_pending:
  assumes "accounted {i} s" "\<not> au_closed s'" "au_ctx s' = Some i" "au_contexts s' = au_contexts s"
    "au_closeErr s' = au_closeErr s" "au_closed s' = au_closed s"
  shows "accounted {} (close_old w (au_ctx s) s')"
  using assms by (auto simp: accounted_def close_old_def closeContext_def fault_eq nth_list_update split: option.split)

lemma factory_accounted:
  "accounted {} s \<Longrightarrow> factory_context w config s = (r, s') \<Longrightarrow>
     (case r of Ok (Some i) \<Rightarrow> accounted {i} s' | _ \<Rightarrow> accounted {} s') \<and> au_closed s' = au_closed s"
  by (auto simp: factory_context_def Let_def accounted_def nth_append less_Suc_eq split: sum.splits if_splits)

lemma ensure_fields_accounted:
  "ensure_fields w own u s = (r, s') \<Longrightarrow> accounted P s' = accounted P s \<and> au_closed s' = au_closed s"
  by (auto simp: ensure_fields_def Let_def keepsD split: sum.splits if_splits)

lemma build_accounted:
  assumes "accounted {} s" "buildContextForUserLocked w own ui s = (r, s')"
  shows "case r of Ok (Some i, u) \<Rightarrow> accounted {i} s' \<and> \<not> au_closed s' | _ \<Rightarrow> accounted {} s'"
proof (cases "au_closed s \<or> ui = None")
  case True
  then show ?thesis using assms by (auto simp: buildContextForUserLocked_def closedStateError_def split: if_splits option.splits)
next
  case False
  then obtain u where u: "ui = Some u" "\<not> au_closed s" by auto
  obtain rf s1 where f: "ensure_fields w own u s = (rf, s1)" by fastforce
  note e = ensure_fields_accounted [OF f]
  show ?thesis
  proof (cases rf)
    case (Inl x)
    then show ?thesis using assms u f e by (auto simp: buildContextForUserLocked_def closedStateError_def)
  next
    case (Inr u')
    obtain rc s2 where c: "factory_context w (contextConfigForLocked (au_machineID s1) (Some u')) s1 = (rc, s2)"
      by fastforce
    show ?thesis
      using assms u f e Inr c factory_accounted [OF _ c]
      by (auto simp: buildContextForUserLocked_def closedStateError_def split: sum.splits option.splits)
  qed
qed

lemma replace_accounted:
  assumes "case next_ctx of Some i \<Rightarrow> accounted {i} s | None \<Rightarrow> accounted {} s"
  shows "accounted {} (snd (replaceContext w next_ctx s))"
  using assms close_pending [of _ s w] adopt_pending [of _ s _ w]
  by (auto simp: replaceContext_def split: option.splits)

lemma rebuild_accounted:
  "accounted {} s \<Longrightarrow> accounted {} (snd (rebuildContextLocked w s))"
  using build_accounted [of s w True "map_option snd (au_ui s)"] replace_accounted
  by (force simp: rebuildContextLocked_def split: prod.splits sum.splits option.splits)

lemma ReadFile_state: "ReadFile w p s = (r, s') \<Longrightarrow> s' = s\<lparr>au_tick := Suc (au_tick s)\<rparr>"
  by (auto simp: ReadFile_def fault_eq split: option.splits)

lemma publish_keeps: "publish w staged s = (e, staged', s') \<Longrightarrow> keeps s s'"
  by (auto simp: publish_def fault_eq split: option.splits if_splits)

lemma discard_keeps [simp]: "keeps s (discard w staged s') = keeps s s'"
  by (simp add: discard_def fault_eq split: option.split)

lemma persist_keeps: "persistDirtyCredentialLocked w s = (r, s') \<Longrightarrow> keeps s s'"
  using saveLocked_result(1)
  by (auto simp: persistDirtyCredentialLocked_def split: if_splits prod.splits option.splits)

lemma best_effort_keeps: "keeps s (persistDirtyCredentialBestEffortLocked w force s)"
proof -
  have *: "keeps s s'" if "persistDirtyCredentialLocked w (s\<lparr>au_tick := t\<rparr>) = (r, s')" for r s' t
    using persist_keeps [OF that] keeps_trans [of s "s\<lparr>au_tick := t\<rparr>"] by simp
  show ?thesis
    using * by (auto simp: persistDirtyCredentialBestEffortLocked_def now_def split: prod.splits option.splits)
qed

lemma load_accounted:
  assumes "accounted {} s"
  shows "accounted {} (snd (load w s))"
proof -
  obtain r s1 where r: "ReadFile w (au_authFile s) s = (r, s1)" by fastforce
  then have "accounted {} s1" using assms by (simp add: ReadFile_state [OF r])
  then show ?thesis
    using assms r rebuild_accounted
    by (auto simp: load_def fault_eq closedStateError_def split: sum.splits option.splits)
qed

lemma discard_accounted [simp]: "accounted P (discard w staged s) = accounted P s"
  by (simp add: discard_def fault_eq split: option.split)

lemma commit_accounted:
  assumes "accounted {} s"
  shows "accounted {} (snd (commitLoginCandidateLocked w i candidate s))"
proof -
  obtain r s1 where b: "buildContextForUserLocked w False (Some candidate) s = (r, s1)" by fastforce
  note built = build_accounted [OF assms b]
  show ?thesis
  proof (cases "\<exists>c u. r = Ok (Some c, u) \<and> \<not> au_readOnly s")
    case False
    then show ?thesis
      using assms b built
      by (cases r) (auto simp: commitLoginCandidateLocked_def split: option.splits)
  next
    case True
    then obtain c u where r: "r = Ok (Some c, u)" "\<not> au_readOnly s" by blast
    obtain rs s2 where st: "stageCredentialForUserLocked w (Some u) s1 = (rs, s2)" by fastforce
    have k: "keeps s1 s2" using temp_work_keeps [OF stage_work(1) [OF st]] by simp
    then have a2: "accounted {c} s2" "\<not> au_closed s2"
      using built r accounted_keeps [OF k] by (simp_all add: keepsD)
    have pub: "accounted {c} s3 \<and> \<not> au_closed s3" if "publish w staged s2 = (e, staged', s3)" for e staged staged' s3
      using a2 accounted_keeps [OF publish_keeps [OF that]] keepsD(9) [OF publish_keeps [OF that]] by simp
    show ?thesis
      using b built r st a2 pub close_pending [of c]
        adopt_pending [of c]
      by (auto simp: commitLoginCandidateLocked_def closedStateError_def clearCredentialDirtyLocked_def
          split: sum.splits prod.splits option.splits)
  qed
qed

lemma manager_Close_accounted:
  assumes "accounted {} s"
  shows "accounted {} (snd (manager_Close w s))"
proof -
  obtain r s1 where p: "persistDirtyCredentialLocked w s = (r, s1)" by fastforce
  have "accounted {} s1" using assms accounted_keeps [OF persist_keeps [OF p]] by simp
  then show ?thesis
    using assms p
    by (auto simp: manager_Close_def closeContext_def fault_eq Let_def accounted_def nth_list_update
        split: option.splits)
qed

end
