(* ===== verification/Auth_Refresh.thy ===== *)
theory Auth_Refresh
  imports Auth_Context
begin

text \<open>
  \<open>auth.go\<close>, keeping the token fresh: the refresh request, what is kept of a rotated refresh token
  when the refresh fails half way, the profile, and preparing a request with the current context.
\<close>

section \<open>Replies\<close>

record refreshReply =
  rr_DeviceToken :: string
  rr_Token :: string
  rr_AccessToken :: string
  rr_RefreshToken :: string
  rr_ExpiresAt :: string
  rr_ExpiresIn :: int
  rr_RefreshExpAt :: string
  rr_RefreshExpIn :: int

definition zero_refreshReply :: refreshReply where
  "zero_refreshReply = \<lparr>rr_DeviceToken = [], rr_Token = [], rr_AccessToken = [], rr_RefreshToken = [],
     rr_ExpiresAt = [], rr_ExpiresIn = 0, rr_RefreshExpAt = [], rr_RefreshExpIn = 0\<rparr>"

text \<open>The refresh reply has no \<open>access_token\<close>, the token exchange of \<open>patLogin\<close> has one.\<close>

definition refreshReply_fields :: "(string \<times> refreshReply decoder) list" where
  "refreshReply_fields =
    [(''device_token'', fld rr_DeviceToken rr_DeviceToken_update dec_string),
     (''token'', fld rr_Token rr_Token_update dec_string),
     (''refresh_token'', fld rr_RefreshToken rr_RefreshToken_update dec_string),
     (''expires_at'', fld rr_ExpiresAt rr_ExpiresAt_update dec_string),
     (''expires_in'', fld rr_ExpiresIn rr_ExpiresIn_update dec_int),
     (''refresh_token_expires_at'', fld rr_RefreshExpAt rr_RefreshExpAt_update dec_string),
     (''refresh_token_expires_in'', fld rr_RefreshExpIn rr_RefreshExpIn_update dec_int)]"

definition exchangeReply_fields :: "(string \<times> refreshReply decoder) list" where
  "exchangeReply_fields =
     (''access_token'', fld rr_AccessToken rr_AccessToken_update dec_string) # refreshReply_fields"

definition decode_refresh :: "string \<Rightarrow> refreshReply option" where
  "decode_refresh raw = unmarshal zero_refreshReply (dec_struct refreshReply_fields) raw"

definition decode_exchange :: "string \<Rightarrow> refreshReply option" where
  "decode_exchange raw = unmarshal zero_refreshReply (dec_struct exchangeReply_fields) raw"

definition parseExpiry :: "auth_world \<Rightarrow> string \<Rightarrow> int \<Rightarrow> auth \<Rightarrow> int \<times> auth" where
  "parseExpiry w at inSec s =
     (case (if at = [] then None else parse_rfc3339 at) of
        Some t \<Rightarrow> (t, s)
      | None \<Rightarrow>
          (if inSec \<noteq> 0 then (case now w s of (t, s) \<Rightarrow> (wrap64 (unix t + inSec), s)) else (0, s)))"

section \<open>Refreshing\<close>

definition userAgent :: string where "userAgent = ''qoder/'' @ qoderProtocolVersion"

definition refresh_request :: "string \<Rightarrow> string \<Rightarrow> httpRequest" where
  "refresh_request openapiBase token =
     \<lparr>hq_Method = ''POST'', hq_URL = openapiBase @ ''/api/v1/deviceToken/refresh'',
      hq_Header = [(''Content-Type'', ''application/json''), (''Accept'', ''application/json''),
        (''User-Agent'', userAgent)],
      hq_Body = marshal (JMap [(''refresh_token'', JStr token)])\<rparr>"

definition pick_token :: "string list \<Rightarrow> string" where
  "pick_token ts = (case filter (\<lambda>t. t \<noteq> []) ts of [] \<Rightarrow> [] | t # _ \<Rightarrow> t)"

text \<open>\<open>NewRequest\<close>, \<open>Do\<close>, the status and the decoding; the error of reading the body is ignored.\<close>

definition refresh_call :: "auth_world \<Rightarrow> httpRequest \<Rightarrow> auth \<Rightarrow> (go_error, refreshReply) result \<times> auth" where
  "refresh_call w req s =
     (case aw_BadURL w (hq_URL req) of Some e \<Rightarrow> (Err e, s)
      | None \<Rightarrow>
        (case httpc_Do w req s of
           (Err e, s) \<Rightarrow> (Err e, s)
         | (Ok resp, s) \<Rightarrow>
             (if hr_Status resp \<noteq> 200
              then (Err (Plain (''deviceToken/refresh status '' @ itoa (hr_Status resp) @ '': '' @
                      truncate_str (hr_Body resp) 200)), s)
              else (case decode_refresh (hr_Body resp) of
                      None \<Rightarrow> (Err (aw_JsonErr w (hr_Body resp)), s)
                    | Some r \<Rightarrow>
                        (if pick_token [rr_DeviceToken r, rr_Token r] = []
                         then (Err (Plain ''refresh response missing token''), s) else (Ok r, s))))))"

text \<open>The clone of the credentials with the reply's token, expiries and refresh token.\<close>

definition refresh_candidate ::
  "auth_world \<Rightarrow> refreshReply \<Rightarrow> userInfo \<Rightarrow> auth \<Rightarrow> userInfo \<times> int \<times> auth" where
  "refresh_candidate w r u s =
     (let tok = pick_token [rr_DeviceToken r, rr_Token r];
          u1 = u\<lparr>ui_SecurityOAuthToken := tok, ui_AccessToken := tok,
                 ui_RefreshToken := (if rr_RefreshToken r \<noteq> [] then rr_RefreshToken r else ui_RefreshToken u)\<rparr>
      in case parseExpiry w (rr_ExpiresAt r) (rr_ExpiresIn r) s of (exp, s) \<Rightarrow>
           (case parseExpiry w (rr_RefreshExpAt r) (rr_RefreshExpIn r) s of (rexp, s) \<Rightarrow>
             (u1\<lparr>ui_ExpireTime := exp,
                 ui_RefreshTokenExpireTime := (if rexp \<noteq> 0 then rexp else ui_RefreshTokenExpireTime u)\<rparr>,
              rexp, s)))"

text \<open>Fresh runtime fields, or the old ones when they cannot be made.\<close>

definition refresh_fields :: "auth_world \<Rightarrow> userInfo \<Rightarrow> auth \<Rightarrow> userInfo \<times> auth" where
  "refresh_fields w u s =
     (let t = s\<lparr>au_tick := Suc (au_tick s)\<rparr>
      in case aw_Generate w (au_tick s) (runtimeFieldInputForLocked (Some u)) of
           Err e \<Rightarrow> (u, t)
         | Ok f \<Rightarrow>
             (if fo_EncryptUserInfo f \<noteq> [] \<and> fo_Key f \<noteq> []
              then (u\<lparr>ui_EncryptUserInfo := fo_EncryptUserInfo f, ui_Key := fo_Key f\<rparr>, t) else (u, t)))"

definition preserveRefreshRotationAndSaveLocked ::
  "auth_world \<Rightarrow> string \<Rightarrow> int \<Rightarrow> auth \<Rightarrow> go_error option \<times> auth" where
  "preserveRefreshRotationAndSaveLocked w refreshToken refreshExpiry s =
     (if au_readOnly s then (Some readOnlyAuthError, s)
      else (case au_ui s of None \<Rightarrow> (None, s)
        | Some (i, u) \<Rightarrow>
          (let refreshChanged = (refreshToken \<noteq> [] \<and> ui_RefreshToken u \<noteq> refreshToken);
               expiryChanged = (refreshExpiry \<noteq> 0 \<and> ui_RefreshTokenExpireTime u \<noteq> refreshExpiry);
               u1 = (if refreshChanged then u\<lparr>ui_RefreshToken := refreshToken\<rparr> else u);
               u2 = (if expiryChanged then u1\<lparr>ui_RefreshTokenExpireTime := refreshExpiry\<rparr> else u1)
           in if \<not> refreshChanged \<and> \<not> expiryChanged then (None, s)
              else persistDirtyCredentialLocked w ((markCredentialDirtyLocked s)\<lparr>au_ui := Some (i, u2)\<rparr>))))"

text \<open>From the reply to the new credentials and context.\<close>

definition refresh_commit :: "auth_world \<Rightarrow> refreshReply \<Rightarrow> userInfo \<Rightarrow> auth \<Rightarrow> go_error option \<times> auth" where
  "refresh_commit w r u s =
     (case refresh_candidate w r u s of (c, rexp, s) \<Rightarrow>
       (case refresh_fields w c s of (c, s) \<Rightarrow>
         (case buildContextForUserLocked w False (Some c) s of
            (Err e, s) \<Rightarrow>
              (case preserveRefreshRotationAndSaveLocked w (rr_RefreshToken r) rexp s of
                 (p, s) \<Rightarrow> (mergeProtocolErrors (Some e) p, s))
          | (Ok (next_ctx, c), s) \<Rightarrow>
              (case replaceContext w next_ctx s of
                 (Some e, s) \<Rightarrow>
                   (case preserveRefreshRotationAndSaveLocked w (rr_RefreshToken r) rexp s of
                      (p, s) \<Rightarrow> (mergeProtocolErrors (Some e) p, s))
               | (None, s) \<Rightarrow>
                   (None, persistDirtyCredentialBestEffortLocked w True
                      ((markCredentialDirtyLocked s)\<lparr>au_ui := Some (au_nextID s, c), au_nextID := Suc (au_nextID s)\<rparr>))))))"

definition refreshLocked :: "auth_world \<Rightarrow> auth \<Rightarrow> go_error option \<times> auth" where
  "refreshLocked w s =
     (if au_readOnly s then (Some readOnlyAuthError, s)
      else (case closedStateError s of Some e \<Rightarrow> (Some e, s)
      | None \<Rightarrow>
        (case au_ui s of None \<Rightarrow> (Some (Plain ''not authenticated''), s)
         | Some (i, u) \<Rightarrow>
             (if ui_RefreshToken u = [] then (Some (Plain ''no refresh_token''), s)
              else (case refresh_call w (refresh_request (au_openapiBase s) (ui_RefreshToken u)) s of
                      (Err e, s) \<Rightarrow> (Some e, s)
                    | (Ok r, s) \<Rightarrow> refresh_commit w r u s)))))"

definition refreshSkewSec :: int where "refreshSkewSec = 3600"

definition ensureFresh :: "auth_world \<Rightarrow> auth \<Rightarrow> go_error option \<times> auth" where
  "ensureFresh w s =
     (if au_readOnly s then load w s
      else (case closedStateError s of Some e \<Rightarrow> (Some e, s)
      | None \<Rightarrow>
        (let s = persistDirtyCredentialBestEffortLocked w False s
         in case au_ui s of None \<Rightarrow> (Some (Plain ''not authenticated''), s)
          | Some (i, u) \<Rightarrow>
            (case now w s of (t, s) \<Rightarrow>
              (if ui_ExpireTime u = 0 \<or> unix t \<le> wrap64 (ui_ExpireTime u - refreshSkewSec) then (None, s)
               else if ui_RefreshTokenExpireTime u \<noteq> 0 \<and> ui_RefreshTokenExpireTime u < unix t
               then (Some (Plain ''refresh token expired; please re-login''), s)
               else refreshLocked w s)))))"

definition forceRefresh :: "auth_world \<Rightarrow> auth \<Rightarrow> go_error option \<times> auth" where
  "forceRefresh w s =
     (if au_readOnly s then load w s
      else (case closedStateError s of Some e \<Rightarrow> (Some e, s)
      | None \<Rightarrow> refreshLocked w (persistDirtyCredentialBestEffortLocked w False s)))"

section \<open>Preparing a request\<close>

definition prepareWithCurrentContext ::
  "auth_world \<Rightarrow> inferRequestInput \<Rightarrow> auth \<Rightarrow> (go_error, preparedRequest) result \<times> auth" where
  "prepareWithCurrentContext w input s =
     (if au_closed s then (Err authManagerClosedError, s)
      else (case au_ctx s of None \<Rightarrow> (Err (auth_error ''protocol context is unavailable''), s)
        | Some i \<Rightarrow> (aw_Prepare w (au_tick s) (fst (au_contexts s ! i)) input, s\<lparr>au_tick := Suc (au_tick s)\<rparr>)))"

definition manager_Prepare ::
  "auth_world \<Rightarrow> inferRequestInput \<Rightarrow> auth \<Rightarrow> (go_error, preparedRequest) result \<times> auth" where
  "manager_Prepare w input s =
     (case closedStateError s of Some e \<Rightarrow> (Err e, s)
      | None \<Rightarrow>
        (case ensureFresh w s of
           (Some e, s) \<Rightarrow>
             (if protocolErrorKindOf (Some e) = ContextClosed then (Err e, s)
              else (Err (Protocol AuthUnavailable ''Authentication is unavailable''
                      (Some (wrap_internal ''refresh authentication'' e))), s))
         | (None, s) \<Rightarrow> prepareWithCurrentContext w input s))"

section \<open>The profile\<close>

record authUserInfoProfile =
  pf_UID :: string
  pf_Name :: string
  pf_Email :: string
  pf_OrgID :: string
  pf_OrgName :: string
  pf_OrgTags :: "string list"

definition profile_fields :: "(string \<times> authUserInfoProfile decoder) list" where
  "profile_fields =
    [(''uid'', fld pf_UID pf_UID_update dec_string), (''name'', fld pf_Name pf_Name_update dec_string),
     (''email'', fld pf_Email pf_Email_update dec_string),
     (''organization_id'', fld pf_OrgID pf_OrgID_update dec_string),
     (''organization_name'', fld pf_OrgName pf_OrgName_update dec_string),
     (''organization_tags'', fld pf_OrgTags pf_OrgTags_update (dec_list [] dec_string))]"

definition decode_profile :: "string \<Rightarrow> authUserInfoProfile option" where
  "decode_profile raw = unmarshal \<lparr>pf_UID = [], pf_Name = [], pf_Email = [], pf_OrgID = [], pf_OrgName = [],
     pf_OrgTags = []\<rparr> (dec_struct profile_fields) raw"

definition userinfo_request :: "string \<Rightarrow> string \<Rightarrow> httpRequest" where
  "userinfo_request openapiBase token =
     \<lparr>hq_Method = ''GET'', hq_URL = openapiBase @ ''/api/v1/userinfo'',
      hq_Header = [(''Accept'', ''application/json''), (''Authorization'', ''Bearer '' @ token),
        (''User-Agent'', userAgent)], hq_Body = []\<rparr>"

definition requestUserInfo ::
  "auth_world \<Rightarrow> string \<Rightarrow> auth \<Rightarrow> (go_error, authUserInfoProfile) result \<times> auth" where
  "requestUserInfo w token s =
     (let req = userinfo_request (au_openapiBase s) token
      in case aw_BadURL w (hq_URL req) of Some e \<Rightarrow> (Err e, s)
       | None \<Rightarrow>
         (case httpc_Do w req s of
            (Err e, s) \<Rightarrow> (Err e, s)
          | (Ok resp, s) \<Rightarrow>
              (if hr_Status resp \<noteq> 200 then (Err (Plain (''userinfo status '' @ itoa (hr_Status resp))), s)
               else (case hr_BodyErr resp of Some e \<Rightarrow> (Err e, s)
                     | None \<Rightarrow> (case decode_profile (hr_Body resp) of
                                  None \<Rightarrow> (Err (aw_JsonErr w (hr_Body resp)), s) | Some p \<Rightarrow> (Ok p, s))))))"

definition applyAuthUserInfoProfile :: "authUserInfoProfile \<Rightarrow> userInfo \<Rightarrow> userInfo" where
  "applyAuthUserInfoProfile p u =
     (let u1 = (if pf_UID p \<noteq> [] then u\<lparr>ui_UID := pf_UID p\<rparr> else u);
          u2 = (if pf_Email p \<noteq> [] then u1\<lparr>ui_Email := pf_Email p\<rparr> else u1);
          u3 = (if pf_Name p \<noteq> [] then u2\<lparr>ui_Name := pf_Name p\<rparr> else u2);
          u4 = (if pf_OrgID p \<noteq> [] then u3\<lparr>ui_OrgID := pf_OrgID p, ui_OrgName := pf_OrgName p\<rparr> else u3)
      in if pf_OrgTags p \<noteq> [] then u4\<lparr>ui_OrgTags := pf_OrgTags p\<rparr> else u4)"

text \<open>
  \<open>fetchUserInfo\<close> holds the lock before and after the request, not during it: the three parts are
  separate steps. \<open>i\<close> is the identity of the target.
\<close>

definition is_current :: "nat \<Rightarrow> auth \<Rightarrow> bool" where
  "is_current i s \<longleftrightarrow> closedStateError s = None \<and> (case au_ui s of None \<Rightarrow> False | Some (j, _) \<Rightarrow> j = i)"

definition fetch_token :: "nat \<Rightarrow> auth \<Rightarrow> string option" where
  "fetch_token i s = (if is_current i s then map_option (\<lambda>(_, u). ui_SecurityOAuthToken u) (au_ui s) else None)"

definition fetch_apply :: "auth_world \<Rightarrow> nat \<Rightarrow> authUserInfoProfile \<Rightarrow> auth \<Rightarrow> auth" where
  "fetch_apply w i p s =
     (if \<not> is_current i s then s
      else (let s1 = (markCredentialDirtyLocked s)\<lparr>au_ui := map_option (apsnd (applyAuthUserInfoProfile p)) (au_ui s)\<rparr>
            in snd (saveLocked w (snd (rebuildContextLocked w s1)))))"

definition fetchUserInfo :: "auth_world \<Rightarrow> nat \<Rightarrow> auth \<Rightarrow> auth" where
  "fetchUserInfo w i s =
     (case fetch_token i s of None \<Rightarrow> s
      | Some tok \<Rightarrow>
          (case requestUserInfo w tok s of (Err e, s) \<Rightarrow> s | (Ok p, s) \<Rightarrow> fetch_apply w i p s))"

end
