(* ===== verification/Auth_Login.thy ===== *)
theory Auth_Login
  imports Auth_Refresh Hashes
begin

text \<open>
  \<open>auth.go\<close> and \<open>main.go\<close>, logging in: the PKCE pair, the device flow with its polling, and the
  exchange of a personal access token.
\<close>

section \<open>PKCE\<close>

definition URLEncoding :: encoding where
  "URLEncoding = \<lparr>alphabet =
     ''ABCDEFGHIJKLMNOPQRSTUVWXYZabcdefghijklmnopqrstuvwxyz0123456789-_'',
     padChar = CHR ''='', strict = False\<rparr>"

interpretation url: base64_alphabet URLEncoding
  by unfold_locales (simp_all add: URLEncoding_def is_break_def)

text \<open>The raw encoding is the padded one without its padding.\<close>

definition raw_url_encode :: "string \<Rightarrow> string" where
  "raw_url_encode s = filter (\<lambda>c. c \<noteq> CHR ''='') (b64_encode URLEncoding s)"

definition pkce_charset :: string where
  "pkce_charset = ''ABCDEFGHIJKLMNOPQRSTUVWXYZabcdefghijklmnopqrstuvwxyz0123456789-._~''"

definition pkce_verifier :: "string \<Rightarrow> string" where
  "pkce_verifier rb = map (\<lambda>c. pkce_charset ! (ord c mod length pkce_charset)) rb"

definition pkcePair :: "auth_world \<Rightarrow> auth \<Rightarrow> (string \<times> string) \<times> auth" where
  "pkcePair w s =
     (case random w 1 s of (b, s) \<Rightarrow>
       (case random w (43 + ord (hd b) mod 86) s of (rb, s) \<Rightarrow>
         ((pkce_verifier rb, raw_url_encode (sha256 (pkce_verifier rb))), s)))"

section \<open>The device flow\<close>

record pollReply =
  po_Token :: string
  po_RefreshToken :: string
  po_ExpiresAt :: string
  po_ExpiresIn :: int
  po_RefreshExpiresAt :: string
  po_RefreshExpiresIn :: int
  po_UserID :: string
  po_UserName :: string

definition poll_fields :: "(string \<times> pollReply decoder) list" where
  "poll_fields =
    [(''token'', fld po_Token po_Token_update dec_string),
     (''refresh_token'', fld po_RefreshToken po_RefreshToken_update dec_string),
     (''expires_at'', fld po_ExpiresAt po_ExpiresAt_update dec_string),
     (''expires_in'', fld po_ExpiresIn po_ExpiresIn_update dec_int),
     (''refresh_token_expires_at'', fld po_RefreshExpiresAt po_RefreshExpiresAt_update dec_string),
     (''refresh_token_expires_in'', fld po_RefreshExpiresIn po_RefreshExpiresIn_update dec_int),
     (''user_id'', fld po_UserID po_UserID_update dec_string),
     (''user_name'', fld po_UserName po_UserName_update dec_string)]"

definition decode_poll :: "string \<Rightarrow> pollReply option" where
  "decode_poll raw = unmarshal \<lparr>po_Token = [], po_RefreshToken = [], po_ExpiresAt = [], po_ExpiresIn = 0,
     po_RefreshExpiresAt = [], po_RefreshExpiresIn = 0, po_UserID = [], po_UserName = []\<rparr>
     (dec_struct poll_fields) raw"

definition poll_request :: "string \<Rightarrow> httpRequest" where
  "poll_request url = \<lparr>hq_Method = ''GET'', hq_URL = url, hq_Header = [(''Accept'', ''application/json'')],
     hq_Body = []\<rparr>"

text \<open>What the code does with an answer other than a 404.\<close>

definition poll_answer :: "auth_world \<Rightarrow> httpResponse \<Rightarrow> (go_error, pollReply) result" where
  "poll_answer w resp =
     (if hr_Status resp \<noteq> 200
      then Err (Plain (''poll status '' @ itoa (hr_Status resp) @ '': '' @ truncate_str (hr_Body resp) 200))
      else (case decode_poll (hr_Body resp) of
              None \<Rightarrow> Err (aw_JsonErr w (hr_Body resp))
            | Some r \<Rightarrow>
                (if po_Token r = []
                 then Err (Plain (''poll response missing token: '' @ truncate_str (hr_Body resp) 200))
                 else Ok r)))"

text \<open>
  The polling loop. A failed request or a 404 waits for a second, during which the context may
  end; \<open>None\<close> is a loop that never ends.
\<close>

partial_function (option) device_poll ::
  "auth_world \<Rightarrow> string \<Rightarrow> int \<Rightarrow> auth \<Rightarrow> ((go_error, pollReply) result \<times> auth) option" where
  "device_poll w url deadline s =
     (case now w s of (t, s) \<Rightarrow>
       (if \<not> t < deadline then Some (Err (Plain ''device flow timed out after 5 minutes''), s)
        else (case httpc_Do w (poll_request url) s of (answer, s) \<Rightarrow>
          (case (case answer of Err e \<Rightarrow> None
                 | Ok resp \<Rightarrow> if hr_Status resp = 404 then None else Some resp) of
             Some resp \<Rightarrow> Some (poll_answer w resp, s)
           | None \<Rightarrow>
               (case fault w s of
                  (Some e, s) \<Rightarrow> Some (Err e, s)
                | (None, s) \<Rightarrow> device_poll w url deadline s)))))"

definition poll_candidate :: "auth_world \<Rightarrow> pollReply \<Rightarrow> auth \<Rightarrow> userInfo \<times> auth" where
  "poll_candidate w r s =
     (case parseExpiry w (po_ExpiresAt r) (po_ExpiresIn r) s of (exp, s) \<Rightarrow>
       (case parseExpiry w (po_RefreshExpiresAt r) (po_RefreshExpiresIn r) s of (rexp, s) \<Rightarrow>
         (case now w s of (t, s) \<Rightarrow>
           (zero_userInfo\<lparr>ui_UID := po_UserID r, ui_Name := po_UserName r, ui_SecurityOAuthToken := po_Token r,
              ui_AccessToken := po_Token r, ui_RefreshToken := po_RefreshToken r, ui_ExpireTime := exp,
              ui_RefreshTokenExpireTime := rexp, ui_LoginMethod := ''browser'',
              ui_LoginTimestamp := unix t\<rparr>, s))))"

text \<open>A fresh pointer, committed under the lock.\<close>

definition commit_new :: "auth_world \<Rightarrow> userInfo \<Rightarrow> auth \<Rightarrow> nat \<times> go_error option \<times> auth" where
  "commit_new w candidate s =
     (let i = au_nextID s; s1 = s\<lparr>au_nextID := Suc i\<rparr>
      in (i, case closedStateError s1 of Some e \<Rightarrow> (Some e, s1)
             | None \<Rightarrow> commitLoginCandidateLocked w i candidate s1))"

definition prodClientID :: string where "prodClientID = ''e883ade2-e6e3-4d6d-adf7-f92ceff5fdcb''"

definition auth_url :: "auth \<Rightarrow> string \<Rightarrow> string \<Rightarrow> string" where
  "auth_url s challenge nonce = au_webBase s @ ''/device/selectAccounts?challenge='' @ challenge @
     ''&challenge_method=S256&nonce='' @ nonce @ ''&machine_id='' @ au_machineID s @ ''&client_id='' @ prodClientID"

definition poll_url :: "auth \<Rightarrow> string \<Rightarrow> string \<Rightarrow> string" where
  "poll_url s nonce verifier = au_openapiBase s @ ''/api/v1/deviceToken/poll?nonce='' @ nonce @
     ''&verifier='' @ verifier @ ''&challenge_method=S256''"

definition print_out :: "string \<Rightarrow> auth \<Rightarrow> auth" where
  "print_out text s = s\<lparr>au_out := au_out s @ text\<rparr>"

text \<open>
  The error of \<open>NewRequest\<close> is ignored, so a URL that does not parse makes the code use a nil
  request: \<open>nil_request\<close> is that panic.
\<close>

definition nil_request :: go_error where
  "nil_request = Plain ''runtime error: invalid memory address or nil pointer dereference''"

definition device_finish :: "auth_world \<Rightarrow> pollReply \<Rightarrow> auth \<Rightarrow> go_error option \<times> auth" where
  "device_finish w r s =
     (case poll_candidate w r s of (candidate, s) \<Rightarrow>
       (case commit_new w candidate s of
          (i, Some e, s) \<Rightarrow> (Some e, s)
        | (i, None, s) \<Rightarrow>
            (let s1 = fetchUserInfo w i s;
                 u = (case au_ui s1 of Some (_, u) \<Rightarrow> u | None \<Rightarrow> candidate)
             in (None, print_out (''Login successful. uid='' @ ui_UID u @ '' name='' @ ui_Name u @ [LF]) s1))))"

definition device_start :: "auth_world \<Rightarrow> auth \<Rightarrow> (string \<times> int) \<times> auth" where
  "device_start w s =
     (case pkcePair w s of ((verifier, challenge), s) \<Rightarrow>
       (case random w 16 s of (b, s) \<Rightarrow>
         (let nonce = newUUID b;
              s = print_out ([LF] @ ''Open this URL in your browser to authorize:'' @ [LF, LF] @ ''  '' @
                auth_url s challenge nonce @ [LF, LF] @ ''Waiting for authorization (up to 5 minutes)...'' @ [LF]) s
          in case now w s of (t, s) \<Rightarrow> ((poll_url s nonce verifier, t + 300 * second), s))))"

definition deviceLogin :: "auth_world \<Rightarrow> auth \<Rightarrow> (go_error option \<times> auth) option" where
  "deviceLogin w s =
     (if au_readOnly s then Some (Some readOnlyAuthError, s)
      else (case closedStateError s of Some e \<Rightarrow> Some (Some e, s)
      | None \<Rightarrow>
        (case device_start w s of ((url, deadline), s) \<Rightarrow>
          (if aw_BadURL w url \<noteq> None \<and> fst (now w s) < deadline then Some (Some nil_request, s)
           else map_option (\<lambda>(r, s). case r of Err e \<Rightarrow> (Some e, s) | Ok reply \<Rightarrow> device_finish w reply s)
                  (device_poll w url deadline s)))))"

section \<open>Personal access tokens\<close>

definition exchange_request :: "string \<Rightarrow> string \<Rightarrow> httpRequest" where
  "exchange_request openapiBase pat =
     \<lparr>hq_Method = ''POST'', hq_URL = openapiBase @ ''/api/v1/jobToken/exchange'',
      hq_Header = [(''Content-Type'', ''application/json''), (''Accept'', ''application/json''),
        (''User-Agent'', userAgent)],
      hq_Body = marshal (JMap [(''personal_token'', JStr pat)])\<rparr>"

definition exchange_call :: "auth_world \<Rightarrow> httpRequest \<Rightarrow> auth \<Rightarrow> (go_error, refreshReply) result \<times> auth" where
  "exchange_call w req s =
     (case aw_BadURL w (hq_URL req) of Some e \<Rightarrow> (Err e, s)
      | None \<Rightarrow>
        (case httpc_Do w req s of
           (Err e, s) \<Rightarrow> (Err e, s)
         | (Ok resp, s) \<Rightarrow>
             (if hr_Status resp \<noteq> 200
              then (Err (Plain (''jobToken/exchange status '' @ itoa (hr_Status resp) @ '': '' @
                      truncate_str (hr_Body resp) 200)), s)
              else (case decode_exchange (hr_Body resp) of
                      None \<Rightarrow> (Err (aw_JsonErr w (hr_Body resp)), s)
                    | Some r \<Rightarrow>
                        (if pick_token [rr_Token r, rr_DeviceToken r, rr_AccessToken r] = []
                         then (Err (Plain ''exchange response missing token''), s) else (Ok r, s))))))"

definition exchange_candidate :: "auth_world \<Rightarrow> string \<Rightarrow> refreshReply \<Rightarrow> auth \<Rightarrow> userInfo \<times> auth" where
  "exchange_candidate w pat r s =
     (let tok = pick_token [rr_Token r, rr_DeviceToken r, rr_AccessToken r]
      in case parseExpiry w (rr_ExpiresAt r) (rr_ExpiresIn r) s of (exp, s) \<Rightarrow>
        (case parseExpiry w (rr_RefreshExpAt r) (rr_RefreshExpIn r) s of (rexp, s) \<Rightarrow>
          (case now w s of (t, s) \<Rightarrow>
            (zero_userInfo\<lparr>ui_SecurityOAuthToken := tok, ui_AccessToken := tok,
               ui_RefreshToken := rr_RefreshToken r, ui_ExpireTime := exp, ui_RefreshTokenExpireTime := rexp,
               ui_PersonalAccessToken := pat, ui_LoginMethod := ''token'', ui_LoginTimestamp := unix t\<rparr>, s))))"

definition no_user_info :: go_error where
  "no_user_info = Plain ''could not fetch user info after exchange''"

definition patLogin :: "auth_world \<Rightarrow> string \<Rightarrow> auth \<Rightarrow> go_error option \<times> auth" where
  "patLogin w pat s =
     (case closedStateError s of Some e \<Rightarrow> (Some e, s)
      | None \<Rightarrow>
        (case exchange_call w (exchange_request (au_openapiBase s) pat) s of
           (Err e, s) \<Rightarrow> (Some e, s)
         | (Ok r, s) \<Rightarrow>
           (case exchange_candidate w pat r s of (candidate, s) \<Rightarrow>
             (case requestUserInfo w (ui_SecurityOAuthToken candidate) s of
                (Err e, s) \<Rightarrow> (Some no_user_info, s)
              | (Ok p, s) \<Rightarrow>
                  (if ui_UID (applyAuthUserInfoProfile p candidate) = [] then (Some no_user_info, s)
                   else snd (commit_new w (applyAuthUserInfoProfile p candidate) s))))))"

section \<open>The verifier\<close>

text \<open>RFC 7636: 43 to 128 characters, all unreserved.\<close>

definition valid_verifier :: "string \<Rightarrow> bool" where
  "valid_verifier v \<longleftrightarrow> 43 \<le> length v \<and> length v \<le> 128 \<and> set v \<subseteq> set pkce_charset"

definition honest_random :: "auth_world \<Rightarrow> bool" where
  "honest_random w \<longleftrightarrow> (\<forall>t n. length (aw_Rand w t n) = n)"

lemma pkce_charset_length: "length pkce_charset = 66"
  by (simp add: pkce_charset_def)

lemma verifier_chars: "set (pkce_verifier rb) \<subseteq> set pkce_charset"
  using nth_mem [of "n mod 66" pkce_charset for n] by (auto simp: pkce_verifier_def pkce_charset_length)

end
