(* ===== verification/Auth_Invariants.thy ===== *)
theory Auth_Invariants
  imports Auth_Login
begin

text \<open>
  What holds of the manager in every state its operations lead to, whatever the world answers and
  however the operations follow each other: contexts are accounted for, credentials that are not
  marked dirty are on file, and a read-only manager changes no file and sends nothing.
\<close>

section \<open>Steps\<close>

text \<open>
  A step is what one goroutine does under the lock, or one question to the world outside it. The
  requests of \<open>fetchUserInfo\<close>, \<open>deviceLogin\<close> and \<open>patLogin\<close> are steps of their own, so other
  operations may come between them.
\<close>

inductive auth_step :: "auth_world \<Rightarrow> auth \<Rightarrow> auth \<Rightarrow> bool" for w :: auth_world where
  step_load: "auth_step w s (snd (load w s))"
| step_save: "auth_step w s (snd (saveLocked w s))"
| step_fresh: "auth_step w s (snd (ensureFresh w s))"
| step_force: "auth_step w s (snd (forceRefresh w s))"
| step_prepare: "auth_step w s (snd (prepareWithCurrentContext w input s))"
| step_commit: "auth_step w s (snd (snd (commit_new w candidate s)))"
| step_fetch: "auth_step w s (fetch_apply w i p s)"
| step_request: "auth_step w s (snd (httpc_Do w req s))"
| step_ask: "auth_step w s (s\<lparr>au_tick := Suc (au_tick s)\<rparr>)"
| step_print: "auth_step w s (print_out text s)"
| step_close: "auth_step w s (snd (manager_Close w s))"

inductive_cases auth_stepE: "auth_step w s s'"

definition manager_reaches :: "auth_world \<Rightarrow> auth \<Rightarrow> auth \<Rightarrow> bool" where
  "manager_reaches w s s' \<longleftrightarrow> (auth_step w)\<^sup>*\<^sup>* s s'"

lemma reaches_induct:
  assumes "manager_reaches w s s'" "I s" "\<And>s s'. auth_step w s s' \<Longrightarrow> I s \<Longrightarrow> I s'"
  shows "I s'"
  using assms(1) unfolding manager_reaches_def
  by (induction rule: rtranclp_induct) (use assms(2,3) in auto)

section \<open>Contexts are accounted for\<close>

lemma httpc_Do_state: "httpc_Do w req s = (r, s') \<Longrightarrow> \<exists>t q. s' = s\<lparr>au_tick := t, au_sent := q\<rparr>"
  by (auto simp: httpc_Do_def split: if_splits)
    (metis auth.surjective auth.update_convs(18) auth.update_convs(16))

lemma accounted_Do [simp]: "accounted P (snd (httpc_Do w req s)) = accounted P s"
  using httpc_Do_state [of w req s] by (cases "httpc_Do w req s") auto

text \<open>\<open>unticked\<close>: the state differs in the questions asked only.\<close>

lemma parseExpiry_state: "parseExpiry w at n s = (x, s') \<Longrightarrow> \<exists>t. s' = s\<lparr>au_tick := t\<rparr>"
  by (auto simp: parseExpiry_def now_def split: option.splits if_splits intro: exI [of _ "au_tick s"])

lemma refresh_candidate_state:
  "refresh_candidate w r u s = (c, x, s') \<Longrightarrow> \<exists>t. s' = s\<lparr>au_tick := t\<rparr>"
  by (auto simp: refresh_candidate_def Let_def split: prod.splits dest!: parseExpiry_state)

lemma refresh_fields_state: "refresh_fields w u s = (c, s') \<Longrightarrow> s' = s\<lparr>au_tick := Suc (au_tick s)\<rparr>"
  by (auto simp: refresh_fields_def Let_def split: sum.splits if_splits)

lemma refresh_call_state:
  "refresh_call w req s = (r, s') \<Longrightarrow> s' = s \<or> s' = snd (httpc_Do w req s)"
  by (auto simp: refresh_call_def split: option.splits prod.splits sum.splits if_splits)

lemma persist_accounted [simp]: "accounted P (snd (persistDirtyCredentialLocked w s)) = accounted P s"
  using persist_keeps [of w s] by (metis accounted_keeps prod.collapse)

lemma best_effort_accounted [simp]:
  "accounted P (persistDirtyCredentialBestEffortLocked w force s) = accounted P s"
  using best_effort_keeps accounted_keeps by blast

lemma save_accounted [simp]: "accounted P (snd (saveLocked w s)) = accounted P s"
  using saveLocked_result(1) [of w s] by (metis accounted_keeps prod.collapse)

text \<open>Keeping a rotation is nothing, or saving credentials that are marked dirty.\<close>

lemma preserve_cases:
  assumes "preserveRefreshRotationAndSaveLocked w token exp s = (r, s')"
  obtains "s' = s"
  | x where "\<not> au_readOnly s" "persistDirtyCredentialLocked w ((markCredentialDirtyLocked s)\<lparr>au_ui := x\<rparr>) = (r, s')"
  using assms by (auto simp: preserveRefreshRotationAndSaveLocked_def Let_def split: if_splits option.splits)

lemma preserve_accounted:
  assumes "preserveRefreshRotationAndSaveLocked w token exp s = (r, s')"
  shows "accounted P s' = accounted P s"
  using assms
proof (cases rule: preserve_cases)
  case (2 x)
  then show ?thesis
    using persist_accounted [of P w "(markCredentialDirtyLocked s)\<lparr>au_ui := x\<rparr>"] by simp
qed simp

lemma replace_result:
  "replaceContext w next_ctx s = (r, s') \<Longrightarrow> (case next_ctx of Some i \<Rightarrow> accounted {i} s | None \<Rightarrow> accounted {} s) \<Longrightarrow>
     accounted {} s'"
  using replace_accounted [of s next_ctx w] by simp

lemma refresh_commit_accounted:
  assumes "accounted {} s"
  shows "accounted {} (snd (refresh_commit w r u s))"
proof -
  obtain c rexp s1 where c: "refresh_candidate w r u s = (c, rexp, s1)" by (metis prod_cases3)
  obtain d s2 where d: "refresh_fields w c s1 = (d, s2)" by fastforce
  obtain rb s3 where b: "buildContextForUserLocked w False (Some d) s2 = (rb, s3)" by fastforce
  have "accounted {} s2"
    using assms refresh_candidate_state [OF c] refresh_fields_state [OF d] by auto
  note built = build_accounted [OF this b]
  show ?thesis
  proof (cases rb)
    case (Inl e)
    then show ?thesis using c d b built by (auto simp: refresh_commit_def preserve_accounted split: prod.splits)
  next
    case (Inr x)
    obtain n e where x: "x = (n, e)" by fastforce
    obtain re s4 where rep: "replaceContext w n s3 = (re, s4)" by fastforce
    have "accounted {} s4"
      using replace_result [OF rep] built Inr x by (cases n) auto
    then show ?thesis
      using c d b rep Inr x by (auto simp: refresh_commit_def preserve_accounted split: prod.splits option.splits)
  qed
qed

lemma refreshLocked_accounted:
  assumes "accounted {} s"
  shows "accounted {} (snd (refreshLocked w s))"
proof -
  have call: "accounted {} s'" if "refresh_call w req s = (r, s')" for req r s'
    using refresh_call_state [OF that] assms by auto
  show ?thesis
    using assms call refresh_commit_accounted
    by (auto simp: refreshLocked_def split: option.splits prod.splits sum.splits)
qed

lemma ensureFresh_accounted: "accounted {} s \<Longrightarrow> accounted {} (snd (ensureFresh w s))"
  by (auto simp: ensureFresh_def now_def Let_def load_accounted refreshLocked_accounted split: option.splits prod.splits)

lemma forceRefresh_accounted: "accounted {} s \<Longrightarrow> accounted {} (snd (forceRefresh w s))"
  by (auto simp: forceRefresh_def load_accounted refreshLocked_accounted split: option.splits)

lemma commit_new_accounted: "accounted {} s \<Longrightarrow> accounted {} (snd (snd (commit_new w candidate s)))"
  by (auto simp: commit_new_def Let_def commit_accounted split: option.splits)

lemma fetch_apply_accounted: "accounted {} s \<Longrightarrow> accounted {} (fetch_apply w i p s)"
  by (simp add: fetch_apply_def Let_def rebuild_accounted)

lemma step_accounted: "auth_step w s s' \<Longrightarrow> accounted {} s \<Longrightarrow> accounted {} s'"
  by (induction rule: auth_step.induct)
    (auto simp: load_accounted ensureFresh_accounted forceRefresh_accounted commit_new_accounted
      fetch_apply_accounted manager_Close_accounted prepareWithCurrentContext_def print_out_def split: option.splits)

section \<open>Credentials that are not dirty are on file\<close>

lemma durable_update [simp]:
  "durable (s\<lparr>au_tick := t\<rparr>) = durable s" "durable (s\<lparr>au_contexts := cs\<rparr>) = durable s"
  "durable (s\<lparr>au_ctx := c\<rparr>) = durable s" "durable (s\<lparr>au_closed := b\<rparr>) = durable s"
  "durable (s\<lparr>au_closeErr := e\<rparr>) = durable s" "durable (s\<lparr>au_nextID := n\<rparr>) = durable s"
  "durable (s\<lparr>au_sent := q\<rparr>) = durable s" "durable (s\<lparr>au_out := x\<rparr>) = durable s"
  "durable (s\<lparr>au_retryAt := r\<rparr>) = durable s"
  by (simp_all add: durable_def on_file_def)

lemma durable_marked [simp]: "durable (markCredentialDirtyLocked s)" if "durable s"
  using that by (simp add: durable_def markCredentialDirtyLocked_def)

lemma durable_changed [simp]: "durable ((markCredentialDirtyLocked s)\<lparr>au_ui := x\<rparr>)"
  "durable (markCredentialDirtyLocked (s\<lparr>au_ui := x\<rparr>))"
  by (simp_all add: durable_def markCredentialDirtyLocked_def)

lemma temp_work_durable: "temp_work s s' \<Longrightarrow> durable s \<Longrightarrow> durable s'"
  using temp_work_keeps [of s s'] on_file_keeps [of s s']
  by (auto simp: durable_def keepsD temp_work_def)

lemma close_old_durable [simp]: "durable (close_old w old s) = durable s"
  by (simp add: close_old_def closeContext_def fault_eq split: option.split)

lemma replace_durable: "durable s \<Longrightarrow> durable (snd (replaceContext w next_ctx s))"
  by (auto simp: replaceContext_def split: option.split)

lemma factory_durable: "factory_context w config s = (r, s') \<Longrightarrow> durable s' = durable s"
  by (auto simp: factory_context_def Let_def split: sum.splits if_splits)

lemma ensure_fields_durable: "ensure_fields w own u s = (r, s') \<Longrightarrow> durable s \<Longrightarrow> durable s'"
  by (auto simp: ensure_fields_def Let_def split: sum.splits if_splits)

lemma build_durable: "buildContextForUserLocked w own ui s = (r, s') \<Longrightarrow> durable s \<Longrightarrow> durable s'"
  by (auto simp: buildContextForUserLocked_def factory_durable
      split: option.splits prod.splits sum.splits dest!: ensure_fields_durable)

lemma rebuild_durable: "durable s \<Longrightarrow> durable (snd (rebuildContextLocked w s))"
  by (auto simp: rebuildContextLocked_def replace_durable split: prod.splits sum.splits dest!: build_durable)

text \<open>What was read from the file is on file.\<close>

lemma read_credential_version:
  "read_credential w ctx s blob = Ok u \<Longrightarrow> version_of (au_machineID s) u blob"
  by (auto simp: read_credential_def version_of_def Let_def credential_decrypt_def
      split: if_splits sum.splits option.splits)

lemma load_durable: "durable s \<Longrightarrow> durable (snd (load w s))"
proof -
  have "durable (clearCredentialDirtyLocked (s1\<lparr>au_ui := Some (n, u), au_nextID := m\<rparr>))"
    if "read_credential w ctx s1 blob = Ok u" "au_files s1 (au_authFile s1) = Some blob" for s1 ctx u blob n m
    using read_credential_version [OF that(1)] that(2)
    by (simp add: durable_def clearCredentialDirtyLocked_def on_file_def)
  then show "durable s \<Longrightarrow> durable (snd (load w s))"
    using rebuild_durable
    by (auto simp: load_def ReadFile_def fault_eq closedStateError_def split: option.splits sum.splits)
qed

lemma save_durable: "durable s \<Longrightarrow> durable (snd (saveLocked w s))"
proof -
  assume d: "durable s"
  obtain r s' where s: "saveLocked w s = (r, s')" by fastforce
  note k = saveLocked_result [OF s]
  show "durable (snd (saveLocked w s))"
  proof (cases "au_readOnly s \<or> au_closed s \<or> au_ui s = None")
    case True
    then show ?thesis using d s k(4) by simp
  next
    case False
    then obtain i u where "au_ui s = Some (i, u)" by auto
    then show ?thesis using False s k(2) k(3) keepsD(7) [OF k(1)] by (cases r) (auto simp: durable_def)
  qed
qed

lemma persist_durable: "persistDirtyCredentialLocked w s = (r, s') \<Longrightarrow> durable s \<Longrightarrow> durable s'"
  using save_durable [of s w]
  by (auto simp: persistDirtyCredentialLocked_def split: if_splits prod.splits option.splits)

lemma best_effort_durable: "durable s \<Longrightarrow> durable (persistDirtyCredentialBestEffortLocked w force s)"
  by (auto simp: persistDirtyCredentialBestEffortLocked_def now_def split: prod.splits option.splits
      dest!: persist_durable)

lemma preserve_durable:
  "preserveRefreshRotationAndSaveLocked w token exp s = (r, s') \<Longrightarrow> durable s \<Longrightarrow> durable s'"
  using persist_durable durable_changed(1) by (elim preserve_cases) auto

lemma commit_durable: "durable s \<Longrightarrow> durable (snd (commitLoginCandidateLocked w i candidate s))"
proof -
  assume d: "durable s"
  obtain r s1 where b: "buildContextForUserLocked w False (Some candidate) s = (r, s1)" by fastforce
  note d1 = build_durable [OF b d]
  have published: "durable (discard w staged' (close_old w (au_ctx s3)
          (clearCredentialDirtyLocked (s3\<lparr>au_ctx := Some c, au_ui := Some (i, u)\<rparr>))))"
    if st: "stageCredentialForUserLocked w (Some u) s1 = (Ok staged, s2)"
      and p: "publish w staged s2 = (None, staged', s3)" for c u staged s2 staged' s3
  proof -
    note work = stage_work [OF st]
    obtain st' where st': "staged = Some st'" "staged_for s1 u s2 st'" using work(2,3) by (cases staged) auto
    show ?thesis
      using publish_result [OF p [unfolded st'(1)] st'(2) work(1)]
      by (auto simp: durable_def on_file_def clearCredentialDirtyLocked_def close_old_def closeContext_def
          fault_eq split: option.splits)
  qed
  have unpublished: "durable (discard w staged' (close_old w (Some c) s3))"
    if st: "stageCredentialForUserLocked w (Some u) s1 = (Ok staged, s2)"
      and p: "publish w staged s2 = (Some e, staged', s3)" for c u staged s2 staged' s3 e
  proof -
    note work = stage_work [OF st]
    obtain st' where st': "staged = Some st'" "staged_for s1 u s2 st'" using work(2,3) by (cases staged) auto
    have "staged' = Some st'" using p st'(1) by (auto simp: publish_def fault_eq split: if_splits option.splits)
    moreover have "temp_work s1 (discard w (Some st') (close_old w (Some c) s3)\<lparr>au_contexts := au_contexts s1\<rparr>)"
      using publish_result [OF p [unfolded st'(1)] st'(2) work(1)] st'(2)
      by (cases s1; cases s3) (auto simp: staged_for_def close_old_def closeContext_def fault_eq temp_work_def
          discard_def split: option.splits)
    ultimately show ?thesis using temp_work_durable [OF _ d1] by force
  qed
  show "durable (snd (commitLoginCandidateLocked w i candidate s))"
  proof (cases r)
    case (Inl e)
    then show ?thesis using d d1 b by (simp add: commitLoginCandidateLocked_def)
  next
    case (Inr y)
    obtain n u where y: "y = (n, u)" by fastforce
    obtain rs s2 where st: "stageCredentialForUserLocked w (Some u) s1 = (rs, s2)" by fastforce
    note d2 = temp_work_durable [OF stage_work(1) [OF st] d1]
    show ?thesis
      using d d1 b Inr y st d2 published [of u] unpublished [of u]
      by (auto simp: commitLoginCandidateLocked_def closedStateError_def split: option.splits sum.splits prod.splits)
  qed
qed

lemma manager_Close_durable: "durable s \<Longrightarrow> durable (snd (manager_Close w s))"
  by (auto simp: manager_Close_def closeContext_def fault_eq Let_def split: option.splits prod.splits
      dest!: persist_durable)

lemma refresh_call_durable: "refresh_call w req s = (r, s') \<Longrightarrow> durable s \<Longrightarrow> durable s'"
  using refresh_call_state [of w req s r s'] by (auto simp: httpc_Do_def)

lemma refresh_commit_durable:
  assumes "durable s"
  shows "durable (snd (refresh_commit w r u s))"
proof -
  obtain c rexp s1 where c: "refresh_candidate w r u s = (c, rexp, s1)" by (metis prod_cases3)
  obtain d s2 where d: "refresh_fields w c s1 = (d, s2)" by fastforce
  obtain rb s3 where b: "buildContextForUserLocked w False (Some d) s2 = (rb, s3)" by fastforce
  have "durable s2" using assms refresh_candidate_state [OF c] refresh_fields_state [OF d] by auto
  then have d3: "durable s3" using build_durable [OF b] by simp
  show ?thesis
  proof (cases rb)
    case (Inl e)
    then show ?thesis using c d b d3 by (auto simp: refresh_commit_def split: prod.splits dest!: preserve_durable)
  next
    case (Inr x)
    obtain n e where x: "x = (n, e)" by fastforce
    obtain re s4 where rep: "replaceContext w n s3 = (re, s4)" by fastforce
    have "durable s4" using replace_durable [OF d3, of w n] rep by simp
    then show ?thesis
      using c d b rep Inr x
      by (auto simp: refresh_commit_def best_effort_durable split: prod.splits option.splits dest!: preserve_durable)
  qed
qed

lemma refreshLocked_durable: "durable s \<Longrightarrow> durable (snd (refreshLocked w s))"
  by (auto simp: refreshLocked_def refresh_commit_durable split: option.splits prod.splits sum.splits
      dest!: refresh_call_durable)

lemma ensureFresh_durable: "durable s \<Longrightarrow> durable (snd (ensureFresh w s))"
  by (auto simp: ensureFresh_def now_def Let_def load_durable refreshLocked_durable best_effort_durable
      split: option.splits prod.splits)

lemma forceRefresh_durable: "durable s \<Longrightarrow> durable (snd (forceRefresh w s))"
  by (auto simp: forceRefresh_def load_durable refreshLocked_durable best_effort_durable split: option.splits)

lemma commit_new_durable: "durable s \<Longrightarrow> durable (snd (snd (commit_new w candidate s)))"
  by (auto simp: commit_new_def Let_def commit_durable split: option.splits)

lemma fetch_apply_durable: "durable s \<Longrightarrow> durable (fetch_apply w i p s)"
  by (simp add: fetch_apply_def Let_def rebuild_durable save_durable)

lemma step_durable: "auth_step w s s' \<Longrightarrow> durable s \<Longrightarrow> durable s'"
  by (induction rule: auth_step.induct)
    (auto simp: load_durable save_durable ensureFresh_durable forceRefresh_durable commit_new_durable
      fetch_apply_durable manager_Close_durable prepareWithCurrentContext_def print_out_def httpc_Do_def
      split: option.splits)

section \<open>A read-only manager touches nothing\<close>

definition untouched :: "auth \<Rightarrow> auth \<Rightarrow> bool" where
  "untouched s s' \<longleftrightarrow> (au_readOnly s \<longrightarrow>
     au_readOnly s' \<and> au_files s' = au_files s \<and> au_sent s' = au_sent s \<and> au_authFile s' = au_authFile s)"

lemma untouched_refl [simp, intro]: "untouched s s" by (simp add: untouched_def)

lemma untouched_trans: "untouched s1 s2 \<Longrightarrow> untouched s2 s3 \<Longrightarrow> untouched s1 s3"
  by (auto simp: untouched_def)

lemma untouched_update [simp]:
  "untouched s (s'\<lparr>au_tick := t\<rparr>) = untouched s s'" "untouched s (s'\<lparr>au_contexts := cs\<rparr>) = untouched s s'"
  "untouched s (s'\<lparr>au_ctx := c\<rparr>) = untouched s s'" "untouched s (s'\<lparr>au_closed := b\<rparr>) = untouched s s'"
  "untouched s (s'\<lparr>au_closeErr := e\<rparr>) = untouched s s'" "untouched s (s'\<lparr>au_nextID := n\<rparr>) = untouched s s'"
  "untouched s (s'\<lparr>au_ui := u\<rparr>) = untouched s s'" "untouched s (s'\<lparr>au_out := x\<rparr>) = untouched s s'"
  "untouched s (clearCredentialDirtyLocked s') = untouched s s'"
  "untouched s (markCredentialDirtyLocked s') = untouched s s'"
  "untouched s (close_old w old s') = untouched s s'"
  by (simp_all add: untouched_def clearCredentialDirtyLocked_def markCredentialDirtyLocked_def close_old_def
      closeContext_def fault_eq split: option.split)

lemma replace_untouched: "untouched s (snd (replaceContext w next_ctx s))"
  by (simp add: replaceContext_def split: option.split)

lemma build_untouched: "buildContextForUserLocked w own ui s = (r, s') \<Longrightarrow> untouched s s'"
  by (auto simp: buildContextForUserLocked_def ensure_fields_def factory_context_def Let_def
      split: option.splits prod.splits sum.splits if_splits)

lemma rebuild_untouched: "untouched s (snd (rebuildContextLocked w s))"
  using replace_untouched untouched_trans
  by (auto simp: rebuildContextLocked_def split: prod.splits sum.splits dest!: build_untouched)

lemma load_untouched: "untouched s (snd (load w s))"
proof -
  have "untouched s (snd (rebuildContextLocked w s'))" if "untouched s s'" for s'
    using untouched_trans [OF that rebuild_untouched] .
  then show ?thesis
    by (auto simp: load_def ReadFile_def fault_eq split: option.splits sum.splits)
qed

lemma step_untouched: "auth_step w s s' \<Longrightarrow> untouched s s'"
proof (cases "au_readOnly s")
  case True
  have fetch: "untouched s (fetch_apply w i p s)" for i p
  proof -
    let ?s1 = "(markCredentialDirtyLocked s)\<lparr>au_ui := map_option (apsnd (applyAuthUserInfoProfile p)) (au_ui s)\<rparr>"
    have u: "untouched s (snd (rebuildContextLocked w ?s1))"
      using rebuild_untouched [of ?s1 w] untouched_trans [of s ?s1] by simp
    then have "au_readOnly (snd (rebuildContextLocked w ?s1))" using True by (simp add: untouched_def)
    then have "snd (saveLocked w (snd (rebuildContextLocked w ?s1))) = snd (rebuildContextLocked w ?s1)"
      using saveLocked_result(4) by (metis prod.collapse)
    then show ?thesis using u by (simp add: fetch_apply_def Let_def)
  qed
  show "auth_step w s s' \<Longrightarrow> untouched s s'"
    using True fetch load_untouched
    by (auto elim!: auth_stepE simp: saveLocked_def ensureFresh_def forceRefresh_def prepareWithCurrentContext_def
        commit_new_def commitLoginCandidateLocked_def httpc_Do_def print_out_def manager_Close_def
        persistDirtyCredentialLocked_def closeContext_def fault_eq Let_def closedStateError_def split: option.splits)
qed (simp add: untouched_def)

end
