(* ===== verification/Auth_Props.thy ===== *)
theory Auth_Props
  imports Auth_Invariants
begin

text \<open>
  The properties of the authentication manager, over every state it can reach.
\<close>

section \<open>Where a manager starts\<close>

lemma ReadFile_only: "ReadFile w p s = (r, s') \<Longrightarrow> \<exists>t. s' = s\<lparr>au_tick := t\<rparr>"
  using ReadFile_state by blast

lemma machine_id_state:
  "loadOrCreateMachineID w dir s = (r, s') \<Longrightarrow> \<exists>F t. s' = s\<lparr>au_files := F, au_tick := t\<rparr>"
proof -
  assume a: "loadOrCreateMachineID w dir s = (r, s')"
  obtain rf s1 where rf: "ReadFile w (path_join [dir, ''machine_id'']) s = (rf, s1)" by fastforce
  then have s1: "s1 = s\<lparr>au_tick := Suc (au_tick s)\<rparr>" by (rule ReadFile_state)
  have "s'\<lparr>au_files := Map.empty, au_tick := 0\<rparr> = s\<lparr>au_files := Map.empty, au_tick := 0\<rparr>"
    using a rf by (auto simp: loadOrCreateMachineID_def WriteFile_def random_def fault_eq Let_def s1
        split: if_splits option.splits sum.splits)
  then have "s' = s\<lparr>au_files := au_files s', au_tick := au_tick s'\<rparr>" by (cases s; cases s') simp
  then show ?thesis by blast
qed

lemma read_only_state:
  "readExistingAuthFiles w dir s = (r, s') \<Longrightarrow> \<exists>t. s' = s\<lparr>au_tick := t\<rparr>"
  by (auto simp: readExistingAuthFiles_def split: prod.splits sum.splits if_splits dest!: ReadFile_only)

lemma new_manager:
  assumes "newAuthManagerWithMode w dir a i b ro ((start files)\<lparr>au_tick := t\<rparr>) = (Ok (), s)"
  shows "au_readOnly s = ro" "au_ui s = None" "au_contexts s = []" "au_ctx s = None" "\<not> au_closed s"
    "au_closeErr s = None" "au_sent s = []" "ro \<Longrightarrow> au_files s = files"
  using assms
  by (auto simp: newAuthManagerWithMode_def start_def split: if_splits prod.splits sum.splits
      dest!: machine_id_state read_only_state)

text \<open>A state that operations can lead a new manager to, whatever was asked before it was made.\<close>

definition manager_state :: "auth_world \<Rightarrow> auth \<Rightarrow> bool" where
  "manager_state w s \<longleftrightarrow> (\<exists>files t dir a i b ro s0.
     newAuthManagerWithMode w dir a i b ro ((start files)\<lparr>au_tick := t\<rparr>) = (Ok (), s0) \<and> manager_reaches w s0 s)"

lemma start_tick [simp]: "(start files)\<lparr>au_tick := 0\<rparr> = start files"
  by (simp add: start_def)

lemma manager_state_new:
  "newAuthManagerWithMode w dir a i b ro (start files) = (Ok (), s0) \<Longrightarrow> manager_reaches w s0 s \<Longrightarrow> manager_state w s"
  unfolding manager_state_def by (metis start_tick)

lemma manager_state_induct [consumes 1, case_names new step]:
  assumes "manager_state w s"
    "\<And>files t dir a i b ro s0. newAuthManagerWithMode w dir a i b ro ((start files)\<lparr>au_tick := t\<rparr>) = (Ok (), s0) \<Longrightarrow> I s0"
    "\<And>s s'. auth_step w s s' \<Longrightarrow> I s \<Longrightarrow> I s'"
  shows "I s"
  using assms reaches_induct [of w _ s I] unfolding manager_state_def by blast

lemma manager_state_step: "manager_state w s \<Longrightarrow> auth_step w s s' \<Longrightarrow> manager_state w s'"
  unfolding manager_state_def manager_reaches_def by (meson rtranclp.rtrancl_into_rtrancl)

lemma state_accounted: "manager_state w s \<Longrightarrow> accounted {} s"
proof (induction rule: manager_state_induct)
  case (new files t dir a i b ro s0)
  show ?case using new_manager [OF new] by (simp add: accounted_def)
next
  case (step s s')
  then show ?case by (rule step_accounted)
qed

lemma state_durable: "manager_state w s \<Longrightarrow> durable s"
proof (induction rule: manager_state_induct)
  case (new files t dir a i b ro s0)
  show ?case using new_manager [OF new] by (simp add: durable_def)
next
  case (step s s')
  then show ?case by (rule step_durable)
qed

section \<open>Closing\<close>

text \<open>What may still change in a closed manager: questions, requests under way, printed text.\<close>

definition frozen :: "auth \<Rightarrow> auth \<Rightarrow> bool" where
  "frozen s s' \<longleftrightarrow> s'\<lparr>au_tick := 0, au_nextID := 0, au_sent := [], au_out := []\<rparr> =
     s\<lparr>au_tick := 0, au_nextID := 0, au_sent := [], au_out := []\<rparr>"

lemma frozenD:
  "frozen s s' \<Longrightarrow> au_closed s' = au_closed s" "frozen s s' \<Longrightarrow> au_closeErr s' = au_closeErr s"
  "frozen s s' \<Longrightarrow> au_files s' = au_files s" "frozen s s' \<Longrightarrow> au_ui s' = au_ui s"
  "frozen s s' \<Longrightarrow> au_ctx s' = au_ctx s" "frozen s s' \<Longrightarrow> au_contexts s' = au_contexts s"
  "frozen s s' \<Longrightarrow> au_readOnly s' = au_readOnly s"
  by (cases s; cases s'; simp add: frozen_def)+

lemma step_frozen:
  assumes "auth_step w s s'" "au_closed s" "au_closeErr s = Some e"
  shows "frozen s s'"
  using assms
  by (auto elim!: auth_stepE simp: frozen_def load_def saveLocked_def ensureFresh_def forceRefresh_def
      prepareWithCurrentContext_def commit_new_def httpc_Do_def print_out_def manager_Close_def fetch_apply_def
      is_current_def Let_def closedStateError_def)

lemma reaches_frozen:
  assumes "manager_reaches w s s'" "au_closed s" "au_closeErr s = Some e"
  shows "frozen s s'"
proof -
  have "frozen s s' \<and> au_closed s' \<and> au_closeErr s' = Some e"
    using assms(1)
  proof (rule reaches_induct)
    show "frozen s s \<and> au_closed s \<and> au_closeErr s = Some e" using assms by (simp add: frozen_def)
    fix x y assume "auth_step w x y" "frozen s x \<and> au_closed x \<and> au_closeErr x = Some e"
    then show "frozen s y \<and> au_closed y \<and> au_closeErr y = Some e"
      using step_frozen [of w x y e] frozenD(1,2) [of x y] by (simp add: frozen_def)
  qed
  then show ?thesis by simp
qed

lemma close_result:
  assumes "manager_Close w s = (e, s')" "au_closeErr s \<noteq> None \<longrightarrow> au_closed s"
  shows "au_closed s' \<and> au_closeErr s' = Some e"
  using assms by (auto simp: manager_Close_def closeContext_def fault_eq Let_def split: option.splits prod.splits)

section \<open>A world for the examples\<close>

definition calm_world :: auth_world where
  \<open>calm_world = \<lparr>aw_Now = (\<lambda>t. int t * second), aw_Fault = (\<lambda>t. None), aw_Temp = (\<lambda>t. ''1''),
     aw_Written = (\<lambda>t. 100000), aw_Rand = (\<lambda>t n. replicate n (CHR ''x'')),
     aw_Generate = (\<lambda>t i. Ok \<lparr>fo_EncryptUserInfo = ''info'', fo_Key = ''key''\<rparr>),
     aw_New = (\<lambda>t c. Ok True), aw_Prepare = (\<lambda>t c i. Err Canceled),
     aw_Do = (\<lambda>t q. Ok \<lparr>hr_Status = 200, hr_Body = ''{"token":"t","refresh_token":"r"}'', hr_BodyErr = None\<rparr>),
     aw_BadURL = (\<lambda>u. None), aw_JsonErr = Plain\<rparr>\<close>

definition sample_files :: "string \<Rightarrow> string option" where
  \<open>sample_files = [''/a/user'' \<mapsto> ''{"uid":"u","refresh_token":"q","encrypt_user_info":"e","key":"k"}'',
     ''/a/machine_id'' \<mapsto> ''m'']\<close>

definition sample_manager :: "bool \<Rightarrow> auth" where
  "sample_manager ro = snd (newAuthManagerWithMode calm_world ''/a'' [] [] [] ro (start sample_files))"

definition sample_loaded :: "bool \<Rightarrow> auth" where
  "sample_loaded ro = snd (load calm_world (sample_manager ro))"

lemma sample_paths: "path_join [''/a'', ''user''] = ''/a/user''" "path_join [''/a'', ''machine_id''] = ''/a/machine_id''"
  by (simp_all add: path_join_def path_clean_def)

lemma sample_trim:
  "TrimSpace ''m'' = ''m''"
  \<open>TrimSpace ''{"uid":"u","refresh_token":"q","encrypt_user_info":"e","key":"k"}'' =
     ''{"uid":"u","refresh_token":"q","encrypt_user_info":"e","key":"k"}''\<close>
  by (simp_all add: trim_eval)

definition sample_user :: userInfo where
  "sample_user = zero_userInfo\<lparr>ui_UID := ''u'', ui_RefreshToken := ''q'', ui_EncryptUserInfo := ''e'', ui_Key := ''k''\<rparr>"

lemma sample_decode:
  \<open>decode_userInfo ''{"uid":"u","refresh_token":"q","encrypt_user_info":"e","key":"k"}'' = Some sample_user\<close>
  by (simp add: decode_userInfo_def json_eval decode_eval userInfo_fields_def sample_user_def zero_userInfo_def)

lemma sample_new:
  "newAuthManagerWithMode calm_world ''/a'' [] [] [] ro (start sample_files) = (Ok (), sample_manager ro)"
  "sample_manager ro = (start sample_files)\<lparr>au_readOnly := ro, au_authFile := ''/a/user'', au_machineID := ''m'',
     au_openapiBase := ''https://openapi.qoder.sh'', au_inferBase := ''https://api2.qoder.sh'',
     au_webBase := ''https://qoder.com'', au_tick := if ro then 2 else 1\<rparr>"
  by (simp_all add: sample_manager_def newAuthManagerWithMode_def readExistingAuthFiles_def
      loadOrCreateMachineID_def ReadFile_def fault_eq sample_paths sample_files_def calm_world_def start_def
      sample_trim Let_def base_or_def)

lemma sample_load:
  "sample_loaded ro = (sample_manager ro)\<lparr>au_ui := Some (0, sample_user), au_nextID := 1, au_ctx := Some 0,
     au_contexts := [(contextConfigForLocked ''m'' (Some sample_user), 0)],
     au_tick := au_tick (sample_manager ro) + 3\<rparr>"
  by (simp add: sample_loaded_def load_def sample_new(2) closedStateError_def ReadFile_def fault_eq start_def
      sample_files_def calm_world_def read_credential_def sample_trim HasPrefix_def sample_decode
      rebuildContextLocked_def buildContextForUserLocked_def ensure_fields_def sample_user_def
      factory_context_def replaceContext_def close_old_def clearCredentialDirtyLocked_def Let_def)

lemma sample_state: "manager_state calm_world (sample_manager ro)" "manager_state calm_world (sample_loaded ro)"
proof -
  show new: "manager_state calm_world (sample_manager ro)"
    using manager_state_new [OF sample_new(1), of ro "sample_manager ro"] by (simp add: manager_reaches_def)
  show "manager_state calm_world (sample_loaded ro)"
    using manager_state_step [OF new step_load] by (simp add: sample_loaded_def)
qed

section \<open>Contexts\<close>

text \<open>
  C21: in every state of a manager, each protocol context it was ever given, by a load, a refresh, a
  login or a profile update, failed or not, is either the current one, and has not been closed, or
  has been closed exactly once; a closed manager has no current context.
\<close>

theorem contexts_accounted:
  assumes "manager_state w s" "i < length (au_contexts s)"
  shows "snd (au_contexts s ! i) = (if au_ctx s = Some i then 0 else 1) \<and> (au_closed s \<longrightarrow> au_ctx s = None)"
  using state_accounted [OF assms(1)] assms(2) by (simp add: accounted_def)

lemma contexts_accounted_witness:
  "\<exists>s. manager_state calm_world s \<and> length (au_contexts s) = 1 \<and> au_closed s \<and> snd (au_contexts s ! 0) = 1"
proof -
  let ?s = "snd (manager_Close calm_world (sample_loaded False))"
  have m: "manager_state calm_world ?s"
    using manager_state_step [OF sample_state(2) step_close] .
  have "length (au_contexts ?s) = 1" "au_closed ?s" "au_ctx ?s = None"
    by (simp_all add: sample_load sample_new(2) manager_Close_def persistDirtyCredentialLocked_def
        closeContext_def fault_eq start_def Let_def)
  with m contexts_accounted [OF m, of 0] show ?thesis by (intro exI [of _ ?s]) simp
qed

section \<open>The credential file\<close>

text \<open>
  C23: in every state of a manager that may write, credentials it holds and has not marked dirty are
  on file: the file was encrypted from them or reads as them. Whatever fails on the way (a system
  call, a short write, the rename), a change the file does not have keeps the mark.
\<close>

theorem credentials_on_file:
  assumes "manager_state w s" "\<not> au_readOnly s" "\<not> au_dirty s" "au_ui s = Some (i, u)"
  shows "on_file s u"
  using state_durable [OF assms(1)] assms(2-4) by (simp add: durable_def)

lemma credentials_on_file_witness: "on_file (sample_loaded False) sample_user"
  by (rule credentials_on_file [OF sample_state(2)]) (simp_all add: sample_load sample_new(2) start_def)

text \<open>
  C24: a read-only manager changes no file and sends no request, in any sequence of operations,
  logins and refreshes included.
\<close>

theorem read_only_untouched:
  assumes "newAuthManagerWithMode w dir a i b True (start files) = (Ok (), s)" "manager_reaches w s s'"
  shows "au_files s' = files \<and> au_sent s' = []"
proof -
  have "untouched s s'"
    using assms(2) by (rule reaches_induct) (auto intro: untouched_trans step_untouched)
  then show ?thesis using new_manager [where t = 0 and files = files] assms(1) by (simp add: untouched_def)
qed

lemma read_only_untouched_witness:
  "\<exists>s. manager_reaches calm_world (sample_manager True) s \<and> loggedIn s = False \<and> au_ui s \<noteq> None \<and>
     au_files s = sample_files \<and> au_sent s = []"
proof -
  have r: "manager_reaches calm_world (sample_manager True) (sample_loaded True)"
    unfolding manager_reaches_def sample_loaded_def by (rule r_into_rtranclp, rule step_load)
  have "loggedIn (sample_loaded True) = False" "au_ui (sample_loaded True) \<noteq> None"
    by (simp_all add: sample_load sample_new(2) loggedIn_def start_def closedStateError_def sample_user_def zero_userInfo_def)
  with r read_only_untouched [OF sample_new(1) r] show ?thesis by blast
qed

section \<open>A closed manager\<close>



section \<open>A rotated refresh token\<close>

lemma build_other:
  "buildContextForUserLocked w False (Some d) s = (r, s') \<Longrightarrow> au_ui s' = au_ui s \<and> au_readOnly s' = au_readOnly s \<and>
     (\<forall>n e. r = Ok (n, e) \<longrightarrow> ui_RefreshToken e = ui_RefreshToken d)"
  by (auto simp: buildContextForUserLocked_def ensure_fields_def factory_context_def Let_def
      split: option.splits prod.splits sum.splits if_splits)

lemma replace_other:
  "replaceContext w n s = (r, s') \<Longrightarrow> au_ui s' = au_ui s \<and> au_readOnly s' = au_readOnly s"
  by (auto simp: replaceContext_def close_old_def closeContext_def fault_eq split: option.splits if_splits)

lemma candidate_token:
  "refresh_candidate w r u s = (c, x, s') \<Longrightarrow> rr_RefreshToken r \<noteq> [] \<Longrightarrow> ui_RefreshToken c = rr_RefreshToken r"
  by (auto simp: refresh_candidate_def Let_def split: prod.splits)

lemma fields_token: "refresh_fields w c s = (d, s') \<Longrightarrow> ui_RefreshToken d = ui_RefreshToken c"
  by (auto simp: refresh_fields_def Let_def split: sum.splits if_splits)

definition holds_token :: "string \<Rightarrow> auth \<Rightarrow> bool" where
  "holds_token token s \<longleftrightarrow> \<not> au_readOnly s \<and> (\<exists>j v. au_ui s = Some (j, v) \<and> ui_RefreshToken v = token)"

lemma preserve_token:
  assumes "preserveRefreshRotationAndSaveLocked w token exp s = (r, s')" "token \<noteq> []" "\<not> au_readOnly s"
    "au_ui s \<noteq> None"
  shows "holds_token token s'"
proof -
  obtain i u where u: "au_ui s = Some (i, u)" using assms(4) by auto
  have k: "au_ui s' = au_ui s1 \<and> au_readOnly s' = au_readOnly s1" if "persistDirtyCredentialLocked w s1 = (r, s')" for s1
    using persist_keeps [OF that] by (simp add: keepsD)
  show ?thesis
    using assms u k
    by (fastforce simp: preserveRefreshRotationAndSaveLocked_def holds_token_def Let_def markCredentialDirtyLocked_def
        split: if_splits)
qed

lemma refresh_commit_token:
  assumes "\<not> au_readOnly s" "au_ui s = Some (i, u)" "rr_RefreshToken r \<noteq> []"
  shows "holds_token (rr_RefreshToken r) (snd (refresh_commit w r u s))"
proof -
  obtain c rexp s1 where c: "refresh_candidate w r u s = (c, rexp, s1)" by (metis prod_cases3)
  obtain d s2 where d: "refresh_fields w c s1 = (d, s2)" by fastforce
  obtain rb s3 where b: "buildContextForUserLocked w False (Some d) s2 = (rb, s3)" by fastforce
  have s2: "\<not> au_readOnly s2" "au_ui s2 = Some (i, u)"
    using assms(1,2) refresh_candidate_state [OF c] refresh_fields_state [OF d] by auto
  have s3: "\<not> au_readOnly s3" "au_ui s3 = Some (i, u)" using s2 build_other [OF b] by simp_all
  have tok: "ui_RefreshToken d = rr_RefreshToken r"
    using candidate_token [OF c assms(3)] fields_token [OF d] by simp
  show ?thesis
  proof (cases rb)
    case (Inl e)
    then show ?thesis
      using c d b preserve_token [OF _ assms(3) s3(1)] s3(2)
      by (auto simp: refresh_commit_def split: prod.splits)
  next
    case (Inr x)
    obtain n e where x: "x = (n, e)" by fastforce
    obtain re s4 where rep: "replaceContext w n s3 = (re, s4)" by fastforce
    have s4: "\<not> au_readOnly s4" "au_ui s4 = Some (i, u)" using s3 replace_other [OF rep] by simp_all
    have "ui_RefreshToken e = rr_RefreshToken r" using build_other [OF b] Inr x tok by simp
    moreover have "keeps s5 (persistDirtyCredentialBestEffortLocked w True s5)" for s5 by (rule best_effort_keeps)
    ultimately have "holds_token (rr_RefreshToken r) (persistDirtyCredentialBestEffortLocked w True
        ((markCredentialDirtyLocked s4)\<lparr>au_ui := Some (au_nextID s4, e), au_nextID := Suc (au_nextID s4)\<rparr>))"
      using s4 by (simp add: holds_token_def keepsD [OF best_effort_keeps] markCredentialDirtyLocked_def)
    then show ?thesis
      using c d b rep Inr x preserve_token [OF _ assms(3) s4(1)] s4(2)
      by (auto simp: refresh_commit_def split: prod.splits option.splits)
  qed
qed

text \<open>
  C22: a refresh token the server has rotated is never lost: when the refresh request was answered
  with a new refresh token, then however the refresh ends (runtime fields, context, file and
  network may all fail), the manager holds the new token afterwards, and it is on file or marked
  to be written.
\<close>

theorem rotation_kept:
  assumes "manager_state w s" "\<not> au_readOnly s" "\<not> au_closed s" "au_ui s = Some (i, u)" "ui_RefreshToken u \<noteq> []"
    and "refresh_call w (refresh_request (au_openapiBase s) (ui_RefreshToken u)) s = (Ok reply, s1)"
    and "rr_RefreshToken reply \<noteq> []" "refreshLocked w s = (result, s')"
  shows "\<exists>j v. au_ui s' = Some (j, v) \<and> ui_RefreshToken v = rr_RefreshToken reply \<and> (au_dirty s' \<or> on_file s' v)"
proof -
  have run: "refresh_commit w reply u s1 = (result, s')"
    using assms(2-6,8) by (simp add: refreshLocked_def closedStateError_def)
  have s1: "au_readOnly s1 = False" "au_ui s1 = Some (i, u)"
    using refresh_call_state [OF assms(6)] assms(2,4) by (auto simp: httpc_Do_def)
  have "holds_token (rr_RefreshToken reply) s'"
    using refresh_commit_token [of s1 i u reply w] s1 assms(7) run by simp
  moreover have "durable s'"
    using refresh_commit_durable [OF refresh_call_durable [OF assms(6) state_durable [OF assms(1)]], of w reply u] run
    by simp
  ultimately show ?thesis by (auto simp: holds_token_def durable_def)
qed

text \<open>In the example nothing can be written and no context can be made: every copy is short.\<close>

definition broken_world :: auth_world where
  "broken_world = calm_world\<lparr>aw_New := \<lambda>t c. if 3 < t then Err Canceled else Ok True, aw_Written := \<lambda>t. 0\<rparr>"

lemma broken_state: "manager_state broken_world (sample_loaded False)"
proof -
  have "newAuthManagerWithMode broken_world ''/a'' [] [] [] False (start sample_files) = (Ok (), sample_manager False)"
    by (simp add: sample_new(2) newAuthManagerWithMode_def loadOrCreateMachineID_def ReadFile_def fault_eq
        sample_paths sample_files_def broken_world_def calm_world_def start_def sample_trim Let_def base_or_def)
  then have "manager_state broken_world (sample_manager False)"
    using manager_state_new by (simp add: manager_reaches_def)
  moreover have "snd (load broken_world (sample_manager False)) = sample_loaded False"
    by (simp add: sample_load load_def sample_new(2) closedStateError_def ReadFile_def fault_eq start_def
      sample_files_def broken_world_def calm_world_def read_credential_def sample_trim HasPrefix_def sample_decode
      rebuildContextLocked_def buildContextForUserLocked_def ensure_fields_def sample_user_def
      factory_context_def replaceContext_def close_old_def clearCredentialDirtyLocked_def Let_def)
  ultimately show ?thesis using manager_state_step [OF _ step_load, of broken_world "sample_manager False"] by simp
qed

definition sample_reply :: refreshReply where
  "sample_reply = zero_refreshReply\<lparr>rr_Token := ''t'', rr_RefreshToken := ''r''\<rparr>"

lemma sample_reply_decode: \<open>decode_refresh ''{"token":"t","refresh_token":"r"}'' = Some sample_reply\<close>
  by (simp add: decode_refresh_def json_eval decode_eval refreshReply_fields_def sample_reply_def zero_refreshReply_def)

lemma rotation_kept_witness:
  "\<exists>j v. au_ui (snd (refreshLocked broken_world (sample_loaded False))) = Some (j, v) \<and> ui_RefreshToken v = ''r''"
proof -
  let ?s = "sample_loaded False"
  let ?q = "refresh_request (au_openapiBase ?s) (ui_RefreshToken sample_user)"
  obtain s1 where "refresh_call broken_world ?q ?s = (Ok sample_reply, s1)"
    by (simp add: refresh_call_def refresh_request_def httpc_Do_def sample_load sample_new(2) start_def
        broken_world_def calm_world_def sample_reply_decode pick_token_def sample_reply_def zero_refreshReply_def)
  moreover obtain r s' where r: "refreshLocked broken_world ?s = (r, s')" by fastforce
  ultimately have "\<exists>j v. au_ui s' = Some (j, v) \<and> ui_RefreshToken v = rr_RefreshToken sample_reply \<and>
      (au_dirty s' \<or> on_file s' v)"
    by (intro rotation_kept [OF broken_state, where i = 0 and u = sample_user])
      (simp_all add: sample_load sample_new(2) start_def sample_user_def sample_reply_def)
  then show ?thesis using r by (auto simp: sample_reply_def)
qed

section \<open>Polling ends\<close>

text \<open>
  The device login's polling ends: when the clock passes the deadline at some question and
  stays beyond it, the loop returns, with a token or an error, whatever the server answers.
\<close>

theorem device_poll_ends:
  assumes "\<And>t. T \<le> t \<Longrightarrow> deadline \<le> aw_Now w t"
  shows "\<exists>r s'. device_poll w url deadline s = Some (r, s')"
proof (induction "T - au_tick s" arbitrary: s rule: less_induct)
  case less
  show ?case
  proof (cases "aw_Now w (au_tick s) < deadline")
    case False
    then show ?thesis by (subst device_poll.simps) (simp add: now_def)
  next
    case True
    then have "au_tick s < T" using assms [of "au_tick s"] by (meson leD leI)
    let ?s1 = "s\<lparr>au_tick := Suc (au_tick s)\<rparr>"
    obtain answer s2 where d: "httpc_Do w (poll_request url) ?s1 = (answer, s2)" by fastforce
    then have "Suc (au_tick s) \<le> au_tick s2" by (auto simp: httpc_Do_def split: if_splits)
    then have "T - au_tick (s2\<lparr>au_tick := Suc (au_tick s2)\<rparr>) < T - au_tick s"
      using \<open>au_tick s < T\<close> by simp
    from less [OF this] show ?thesis
      using True d
      by (subst device_poll.simps) (auto simp: now_def fault_eq split: option.split sum.split)
  qed
qed

lemma device_poll_ends_witness:
  "\<exists>r s'. device_poll (calm_world\<lparr>aw_Do := \<lambda>t q. Err Canceled\<rparr>) ''u'' (300 * second) (start sample_files) = Some (r, s')"
  by (rule device_poll_ends [where T = 300]) (simp add: calm_world_def second_def)

section \<open>PKCE\<close>

lemma filter_last: "c \<notin> set xs \<Longrightarrow> filter (\<lambda>x. x \<noteq> c) (xs @ [c]) = xs"
  by (induction xs) auto

lemma encode_two_left:
  "length s mod 3 = 2 \<Longrightarrow> \<exists>r. b64_encode URLEncoding s = r @ [CHR ''=''] \<and> set r \<subseteq> set (alphabet URLEncoding)"
proof (induction s rule: triple_induct)
  case (two a b)
  then show ?case by (simp add: Let_def url.enc_char_in) (simp add: URLEncoding_def)
next
  case (more a b c s)
  then obtain r where "b64_encode URLEncoding s = r @ [CHR ''='']" "set r \<subseteq> set (alphabet URLEncoding)"
    by (auto simp: mod_Suc split: if_splits)
  then show ?case by (auto simp: Let_def url.enc_char_in)
qed simp_all

lemma raw_url_digest:
  assumes "length s mod 3 = 2"
  shows "b64_encode URLEncoding s = raw_url_encode s @ [CHR ''='']" "set (raw_url_encode s) \<subseteq> set (alphabet URLEncoding)"
proof -
  obtain r where r: "b64_encode URLEncoding s = r @ [CHR ''='']" "set r \<subseteq> set (alphabet URLEncoding)"
    using encode_two_left [OF assms] by blast
  then have "CHR ''='' \<notin> set r" by (auto simp: URLEncoding_def)
  from filter_last [OF this] have "raw_url_encode s = r" by (simp only: raw_url_encode_def r(1))
  with r show "b64_encode URLEncoding s = raw_url_encode s @ [CHR ''='']"
    "set (raw_url_encode s) \<subseteq> set (alphabet URLEncoding)" by simp_all
qed

text \<open>
  The pair of a device login is what RFC 7636 asks for: a verifier of 43 to 128 unreserved
  characters, and a challenge of 43 characters of the URL alphabet that decodes to the SHA-256
  digest of that verifier. \<open>crypto/rand\<close> is assumed to fill the slice it is given.
\<close>

theorem pkce_pair_valid:
  assumes "honest_random w" "pkcePair w s = ((verifier, challenge), s')"
  shows "valid_verifier verifier \<and> length challenge = 43 \<and> set challenge \<subseteq> set pkce_charset \<and>
    b64_decode URLEncoding (challenge @ ''='') = Some (sha256 verifier)"
proof -
  obtain b rb where v: "verifier = pkce_verifier rb" "challenge = raw_url_encode (sha256 verifier)"
    and len: "length rb = 43 + ord (hd b) mod 86"
    using assms by (auto simp: pkcePair_def random_def honest_random_def)
  have "ord (hd b) mod 86 \<le> 85" by (simp add: less_Suc_eq_le [symmetric])
  then have "valid_verifier verifier"
    using verifier_chars [of rb] len by (simp add: valid_verifier_def v(1) pkce_verifier_def)
  moreover have digest: "b64_encode URLEncoding (sha256 verifier) = challenge @ ''=''"
    "set challenge \<subseteq> set (alphabet URLEncoding)"
    using raw_url_digest [of "sha256 verifier"] v(2) by simp_all
  moreover have "length challenge = 43"
    using url.encode_length [of "sha256 verifier"] digest(1) by simp
  moreover have "set (alphabet URLEncoding) \<subseteq> set pkce_charset"
    by (simp add: URLEncoding_def pkce_charset_def)
  moreover have "b64_decode URLEncoding (challenge @ ''='') = Some (sha256 verifier)"
    using url.decode_encode [of "sha256 verifier"] digest(1) by simp
  ultimately show ?thesis by blast
qed

lemma pkce_pair_valid_witness:
  "\<exists>v c. fst (pkcePair calm_world (start sample_files)) = (v, c) \<and> valid_verifier v \<and> length c = 43"
proof -
  obtain v c s' where p: "pkcePair calm_world (start sample_files) = ((v, c), s')" by (metis prod.collapse)
  have "honest_random calm_world" by (simp add: honest_random_def calm_world_def)
  from pkce_pair_valid [OF this p] p show ?thesis by simp
qed

end
