(* ===== verification/Json_Round.thy ===== *)
theory Json_Round
  imports Go_Json
begin

text \<open>
  What \<open>json.Marshal\<close> writes, \<open>json.Unmarshal\<close> reads back: strings through their escapes, integers
  through their digits, arrays and objects through the scanner and the parser.
\<close>

section \<open>UTF-8 sequences\<close>

lemma utf8_len_take:
  "utf8_len s = k \<Longrightarrow> 0 < k \<Longrightarrow> utf8_len (take k s @ t) = k \<and> k \<le> length s"
proof (cases s)
  case (Cons a r)
  assume k: "utf8_len s = k" "0 < k"
  show ?thesis
  proof (cases "a < 0x80")
    case True
    then show ?thesis using k Cons by auto
  next
    case a: False
    then obtain b r2 where r: "r = b # r2" using k Cons by (cases r) (auto split: if_splits)
    show ?thesis
    proof (cases "a < 0xE0")
      case True
      then show ?thesis using k Cons r a by (auto split: if_splits)
    next
      case a2: False
      then obtain c r3 where r2: "r2 = c # r3" using k Cons r a by (cases r2) (auto split: if_splits)
      show ?thesis
      proof (cases "a < 0xF0")
        case True
        then show ?thesis using k Cons r r2 a a2 by (auto split: if_splits)
      next
        case False
        then obtain d r4 where "r3 = d # r4" using k Cons r r2 a a2 by (cases r3) (auto split: if_splits)
        then show ?thesis using k Cons r r2 a a2 False by (auto split: if_splits)
      qed
    qed
  qed
qed simp

text \<open>The bytes of a sequence of several bytes are all above ASCII.\<close>

lemma utf8_high:
  "utf8_len (a # s) = k \<Longrightarrow> 0 < k \<Longrightarrow> \<not> a < 0x80 \<Longrightarrow> list_all (\<lambda>n. 0x80 \<le> n) (take k (a # s))"
  by (cases s rule: list.exhaust; cases "tl s" rule: list.exhaust; cases "tl (tl s)" rule: list.exhaust)
    (auto simp: cont_byte_def split: if_splits)

lemma utf8_len_ascii: "a < 0x80 \<Longrightarrow> utf8_len (a # s) = 1" by simp

declare utf8_len.simps [simp del]

section \<open>Escapes are undone\<close>

lemma unquote_nil [simp]: "unquote [] = []"
  by (simp add: unquote.simps)

lemma unquote_plain: "n < 0x80 \<Longrightarrow> n \<noteq> 92 \<Longrightarrow> unquote (n # t) = n # unquote t"
  by (subst unquote.simps) (simp add: utf8_len_ascii)

lemma unquote_simple: "m \<noteq> 117 \<Longrightarrow> unquote (92 # m # t) = simple_escape m # unquote t"
  by (subst unquote.simps) simp

lemma unquote_hex:
  "hex4 [a, b, c, d] = Some u \<Longrightarrow> \<not> (0xD800 \<le> u \<and> u < 0xE000) \<Longrightarrow>
     unquote (92 # 117 # a # b # c # d # t) = utf8_encode u @ unquote t"
  by (subst unquote.simps) (auto split: option.splits)

lemma unquote_sequence:
  assumes "utf8_len (a # s) = k" "0 < k" "\<not> a < 0x80"
  shows "unquote (take k (a # s) @ t) = take k (a # s) @ unquote t"
proof -
  have *: "utf8_len (take k (a # s) @ t) = k" "k \<le> length (a # s)" using utf8_len_take [OF assms(1,2)] by auto
  obtain j where k: "k = Suc j" using assms(2) by (cases k) auto
  show ?thesis
    using * assms k by (subst unquote.simps) (auto simp: min_def)
qed

lemma hex_digit_val: "d < 16 \<Longrightarrow> hex_val (ord (hex_digit d)) = Some d"
  by (auto simp: hex_digit_def hex_val_def)

lemma hex_val_digits: "hex_val 48 = Some 0" "hex_val 50 = Some 2" "hex_val 56 = Some 8" "hex_val 57 = Some 9"
  by (simp_all add: hex_val_def)

lemma hex_esc_list: "hex_esc n = [92, 117, 48, 48, ord (hex_digit (n div 16)), ord (hex_digit (n mod 16))]"
  by (simp add: hex_esc_def)

lemma unquote_hex_esc:
  assumes "n < 0x80"
  shows "unquote (hex_esc n @ t) = n # unquote t"
proof -
  have "n div 16 < 16" "n mod 16 < 16" using assms by auto
  then have "hex4 [48, 48, ord (hex_digit (n div 16)), ord (hex_digit (n mod 16))] = Some n"
    by (simp add: hex_digit_val hex_val_digits)
  then show ?thesis using assms by (simp add: hex_esc_list unquote_hex utf8_encode_def)
qed

lemma unquote_esc_byte: "n < 0x80 \<Longrightarrow> unquote (esc_byte n @ t) = n # unquote t"
  by (auto simp: esc_byte_def unquote_hex_esc unquote_plain unquote_simple simple_escape_def)

lemma separator_hex:
  "esc_separator s = Some e \<Longrightarrow> \<exists>d. take 3 s = [0xE2, 0x80, d] \<and>
     (d = 0xA8 \<and> e = map ord (BSL # ''u2028'') \<or> d = 0xA9 \<and> e = map ord (BSL # ''u2029''))"
  by (auto simp: esc_separator_def split: if_splits)

lemma separator_len:
  "esc_separator s = Some e \<Longrightarrow> utf8_len s = 3"
  by (cases s; cases "tl s"; cases "tl (tl s)")
    (auto simp: esc_separator_def utf8_len.simps cont_byte_def split: if_splits)

lemma unquote_separator:
  assumes "esc_separator s = Some e"
  shows "unquote (e @ t) = take 3 s @ unquote t"
  using separator_hex [OF assms]
  by (auto simp: hex_val_digits utf8_encode_def unquote_hex)

lemma unquote_esc_body: "utf8_valid s \<Longrightarrow> unquote (esc_body s) = s"
proof (induction s rule: esc_body.induct)
  case (1 s)
  show ?case
  proof (cases s)
    case Nil
    then show ?thesis by (simp add: esc_body.simps)
  next
    case (Cons a r)
    have len: "utf8_len s \<noteq> 0" "utf8_valid (drop (utf8_len s) s)"
      using "1.prems" Cons by (subst (asm) utf8_valid.simps, simp split: if_splits)+
    show ?thesis
    proof (cases "a < 0x80")
      case True
      then have "unquote (esc_body r) = r" using "1.IH"(1) len Cons by (simp add: utf8_len_ascii)
      then show ?thesis using True Cons by (subst esc_body.simps) (simp add: unquote_esc_byte)
    next
      case False
      show ?thesis
      proof (cases "esc_separator s")
        case None
        then have "unquote (esc_body (drop (utf8_len s) s)) = drop (utf8_len s) s"
          using "1.IH" len Cons False None by simp
        then show ?thesis
          using False Cons None len(1) unquote_sequence [of a r "utf8_len s"]
          by (subst esc_body.simps) simp
      next
        case (Some e)
        then have "unquote (esc_body (drop (utf8_len s) s)) = drop (utf8_len s) s"
          using "1.IH" len Cons False Some by simp
        moreover have "esc_body s = e @ esc_body (drop (utf8_len s) s)"
          using False Cons Some len(1) by (subst esc_body.simps) simp
        ultimately show ?thesis
          using unquote_separator [OF Some, of "esc_body (drop 3 s)"] separator_len [OF Some]
          by (simp only: append_take_drop_id)
      qed
    qed
  qed
qed

section \<open>The scanner reads a written string as one token\<close>

definition plain_byte :: "char \<Rightarrow> bool" where
  "plain_byte c \<longleftrightarrow> c \<noteq> DQ \<and> c \<noteq> BSL \<and> 0x20 \<le> ord c"

lemma lex_shift: "lex_step m c = Some ([], m') \<Longrightarrow> lex m (c # s) = lex m' s"
  by (cases "lex m' s") simp_all

lemma chars_ords: "map chr (map ord cs) = cs"
  by (induction cs) simp_all

lemma lex_plain: "list_all plain_byte cs \<Longrightarrow> lex (LStr b) (cs @ s) = lex (LStr (rev cs @ b)) s"
proof (induction cs arbitrary: b)
  case (Cons c cs)
  have "lex (LStr b) (c # cs @ s) = lex (LStr (c # b)) (cs @ s)"
    using Cons.prems by (intro lex_shift) (auto simp: lex_step_def plain_byte_def)
  with Cons show ?case by simp
qed simp

definition hex_char :: "char \<Rightarrow> bool" where "hex_char c \<longleftrightarrow> hex_val (ord c) \<noteq> None"

lemma lex_unicode:
  assumes "list_all hex_char [a1, a2, a3, a4]"
  shows "lex (LStr b) ((BSL # CHR ''u'' # [a1, a2, a3, a4]) @ s) =
    lex (LStr (rev (BSL # CHR ''u'' # [a1, a2, a3, a4]) @ b)) s"
proof -
  have hex: "lex (LHex k b') (c # t) = lex (if k \<le> 1 then LStr (c # b') else LHex (k - 1) (c # b')) t"
    if "hex_char c" for k b' c t
    using that by (intro lex_shift) (auto simp: lex_step_def hex_char_def)
  have "lex (LStr b) (BSL # CHR ''u'' # [a1, a2, a3, a4] @ s) = lex (LEsc (BSL # b)) (CHR ''u'' # [a1, a2, a3, a4] @ s)"
    by (rule lex_shift) (simp add: lex_step_def)
  also have "... = lex (LHex 4 (CHR ''u'' # BSL # b)) ([a1, a2, a3, a4] @ s)"
    by (rule lex_shift) (simp add: lex_step_def)
  also have "... = lex (LHex 3 (a1 # CHR ''u'' # BSL # b)) ([a2, a3, a4] @ s)"
    using assms hex [of a1 4] by (simp del: lex.simps)
  also have "... = lex (LHex 2 (a2 # a1 # CHR ''u'' # BSL # b)) ([a3, a4] @ s)"
    using assms hex [of a2 3] by (simp del: lex.simps)
  also have "... = lex (LHex 1 (a3 # a2 # a1 # CHR ''u'' # BSL # b)) ([a4] @ s)"
    using assms hex [of a3 2] by (simp del: lex.simps)
  also have "... = lex (LStr (a4 # a3 # a2 # a1 # CHR ''u'' # BSL # b)) s"
    using assms hex [of a4 1] by (simp del: lex.simps)
  finally show ?thesis by (simp only: append.simps append_assoc rev.simps)
qed

text \<open>The pieces of an escaped body: plain bytes, a backslash with a letter, a Unicode escape.\<close>

inductive good_piece :: "string \<Rightarrow> bool" where
  plain: "list_all plain_byte p \<Longrightarrow> good_piece p"
| letter: "c \<in> set (DQ # BSL # ''/bfnrt'') \<Longrightarrow> good_piece [BSL, c]"
| unicode: "list_all hex_char [a1, a2, a3, a4] \<Longrightarrow> good_piece (BSL # CHR ''u'' # [a1, a2, a3, a4])"

lemma lex_piece: "good_piece p \<Longrightarrow> lex (LStr b) (p @ s) = lex (LStr (rev p @ b)) s"
proof (induction rule: good_piece.induct)
  case (plain p)
  then show ?case by (rule lex_plain)
next
  case (letter c)
  have "lex (LStr b) ([BSL, c] @ s) = lex (LEsc (BSL # b)) (c # s)"
    unfolding append.simps by (rule lex_shift) (simp add: lex_step_def)
  also have "... = lex (LStr (c # BSL # b)) s"
    using letter by (intro lex_shift) (auto simp: lex_step_def)
  finally show ?case by (simp only: append.simps rev.simps)
next
  case (unicode a1 a2 a3 a4)
  then show ?case by (rule lex_unicode)
qed

text \<open>Every piece the encoder writes is good.\<close>

lemma hex_char_digit: "d < 16 \<Longrightarrow> hex_char (hex_digit d)"
  by (simp add: hex_char_def hex_digit_val)

lemma good_letter: "xs = [BSL, c] \<Longrightarrow> c \<in> set (DQ # BSL # ''/bfnrt'') \<Longrightarrow> good_piece xs"
  by (simp only: good_piece.letter)

lemma chr_letters: "map chr [92, 34] = [BSL, DQ]" "map chr [92, 92] = [BSL, BSL]"
  "map chr [92, 98] = [BSL, CHR ''b'']" "map chr [92, 102] = [BSL, CHR ''f'']"
  "map chr [92, 110] = [BSL, CHR ''n'']" "map chr [92, 114] = [BSL, CHR ''r'']"
  "map chr [92, 116] = [BSL, CHR ''t'']"
  by (simp_all add: char_eval)

lemma good_letters: "m \<in> {34, 92, 98, 102, 110, 114, 116} \<Longrightarrow> good_piece (map chr [92, m])"
  using chr_letters [THEN good_letter] by auto

lemma good_hex_esc:
  assumes "n < 0x80"
  shows "good_piece (map chr (hex_esc n))"
proof -
  have "n div 16 < 16" "n mod 16 < 16" using assms by auto
  moreover have "hex_char (CHR ''0'')" by (simp add: hex_char_def hex_val_def)
  ultimately have "list_all hex_char [CHR ''0'', CHR ''0'', hex_digit (n div 16), hex_digit (n mod 16)]"
    by (simp add: hex_char_digit)
  moreover have "map chr (hex_esc n) = BSL # CHR ''u'' # [CHR ''0'', CHR ''0'', hex_digit (n div 16), hex_digit (n mod 16)]"
    unfolding hex_esc_def chars_ords by simp
  ultimately show ?thesis by (simp only: good_piece.unicode)
qed

lemma good_plain: "n \<noteq> 34 \<Longrightarrow> n \<noteq> 92 \<Longrightarrow> 0x20 \<le> n \<Longrightarrow> n < 256 \<Longrightarrow> plain_byte (chr n)"
proof -
  assume n: "n \<noteq> 34" "n \<noteq> 92" "0x20 \<le> n" "n < 256"
  then have "ord (chr n) = n" by simp
  moreover have "ord DQ = 34" "ord BSL = 92" by simp_all
  ultimately show ?thesis using n unfolding plain_byte_def by metis
qed

lemma esc_byte_cases:
  "(\<And>m. m \<in> {34, 92, 98, 102, 110, 114, 116} \<Longrightarrow> P [92, m]) \<Longrightarrow> P (hex_esc n) \<Longrightarrow>
     (n \<noteq> 34 \<Longrightarrow> n \<noteq> 92 \<Longrightarrow> 0x20 \<le> n \<Longrightarrow> P [n]) \<Longrightarrow> P (esc_byte n)"
  by (simp add: esc_byte_def)

lemma good_esc_byte:
  assumes "n < 0x80"
  shows "good_piece (map chr (esc_byte n))"
proof (rule esc_byte_cases)
  show "good_piece (map chr (hex_esc n))" by (rule good_hex_esc [OF assms])
  show "good_piece (map chr [n])" if "n \<noteq> 34" "n \<noteq> 92" "0x20 \<le> n"
    using good_plain [of n] that assms by (intro good_piece.plain) simp
qed (rule good_letters)

lemma good_high: "list_all (\<lambda>n. 0x80 \<le> n \<and> n < 256) ns \<Longrightarrow> good_piece (map chr ns)"
proof (rule good_piece.plain)
  assume "list_all (\<lambda>n. 0x80 \<le> n \<and> n < 256) ns"
  then show "list_all plain_byte (map chr ns)" by (induction ns) (simp_all add: good_plain)
qed

lemma good_unicode: "xs = BSL # CHR ''u'' # [a1, a2, a3, a4] \<Longrightarrow> list_all hex_char [a1, a2, a3, a4] \<Longrightarrow> good_piece xs"
  by (simp only: good_piece.unicode)

lemma good_separator: "esc_separator s = Some e \<Longrightarrow> good_piece (map chr e)"
proof -
  have "good_piece (map chr (map ord (BSL # ''u2028'')))" "good_piece (map chr (map ord (BSL # ''u2029'')))"
    unfolding chars_ords by (rule good_unicode [OF refl], simp add: hex_char_def hex_val_def)+
  then show "esc_separator s = Some e \<Longrightarrow> good_piece (map chr e)"
    by (auto simp only: esc_separator_def option.inject split: if_splits)
qed

lemma good_fffd: "good_piece (map chr (map ord (BSL # ''ufffd'')))"
  unfolding chars_ords by (rule good_unicode [OF refl]) (simp add: hex_char_def hex_val_def)

lemma lex_body:
  "list_all (\<lambda>n. n < 256) ns \<Longrightarrow>
     lex (LStr b) (map chr (esc_body ns) @ s) = lex (LStr (rev (map chr (esc_body ns)) @ b)) s"
proof (induction ns arbitrary: b rule: esc_body.induct)
  case (1 ns)
  have step: ?case if "good_piece (map chr p)" "esc_body ns = p @ esc_body r"
    "\<And>b. lex (LStr b) (map chr (esc_body r) @ s) = lex (LStr (rev (map chr (esc_body r)) @ b)) s" for p r
    using lex_piece [OF that(1)] that(2,3) by simp
  have taken: "n < 256" if "n \<in> set (take k ns)" for n k
    using "1.prems" that by (auto simp: list_all_iff dest: in_set_takeD)
  have dropped: "list_all (\<lambda>n. n < 256) (drop k ns)" for k
    using "1.prems" by (auto simp: list_all_iff dest: in_set_dropD)
  show ?case
  proof (cases ns)
    case Nil
    then show ?thesis by (simp add: esc_body.simps)
  next
    case (Cons a r)
    show ?thesis
    proof (cases "a < 0x80")
      case True
      have "esc_body ns = esc_byte a @ esc_body r" using True Cons by (subst esc_body.simps) simp
      moreover have "lex (LStr b) (map chr (esc_body r) @ s) = lex (LStr (rev (map chr (esc_body r)) @ b)) s" for b
        using "1.IH" True Cons dropped [of 1] by simp
      ultimately show ?thesis using step good_esc_byte [OF True] by blast
    next
      case high: False
      show ?thesis
      proof (cases "utf8_len ns = 0")
        case True
        have "esc_body ns = map ord (BSL # ''ufffd'') @ esc_body r"
          using high True Cons by (subst esc_body.simps) simp
        moreover have "lex (LStr b) (map chr (esc_body r) @ s) = lex (LStr (rev (map chr (esc_body r)) @ b)) s" for b
          using "1.IH" high True Cons dropped [of 1] by simp
        ultimately show ?thesis using step good_fffd by blast
      next
        case len: False
        show ?thesis
        proof (cases "esc_separator ns")
          case None
          have "esc_body ns = take (utf8_len ns) ns @ esc_body (drop (utf8_len ns) ns)"
            using high len None Cons by (subst esc_body.simps) simp
          moreover have "lex (LStr b) (map chr (esc_body (drop (utf8_len ns) ns)) @ s) =
              lex (LStr (rev (map chr (esc_body (drop (utf8_len ns) ns))) @ b)) s" for b
            using "1.IH" high len None Cons dropped [of "utf8_len ns"] by simp
          moreover have "good_piece (map chr (take (utf8_len ns) ns))"
            using utf8_high [of a r "utf8_len ns"] high len Cons taken [of _ "utf8_len ns"]
            by (intro good_high) (simp add: list_all_iff)
          ultimately show ?thesis using step by blast
        next
          case (Some e)
          have "esc_body ns = e @ esc_body (drop (utf8_len ns) ns)"
            using high len Some Cons by (subst esc_body.simps) simp
          moreover have "lex (LStr b) (map chr (esc_body (drop (utf8_len ns) ns)) @ s) =
              lex (LStr (rev (map chr (esc_body (drop (utf8_len ns) ns))) @ b)) s" for b
            using "1.IH" high len Some Cons dropped [of "utf8_len ns"] by simp
          ultimately show ?thesis using step good_separator [OF Some] by blast
        qed
      qed
    qed
  qed
qed

text \<open>The encoder writes bytes.\<close>

lemma esc_bytes: "list_all (\<lambda>n. n < 256) ns \<Longrightarrow> list_all (\<lambda>n. n < 256) (esc_body ns)"
proof (induction ns rule: esc_body.induct)
  case (1 ns)
  have rest: "list_all (\<lambda>n. n < 256) (drop k ns)" "list_all (\<lambda>n. n < 256) (take k ns)" for k
    using "1.prems" by (auto simp: list_all_iff dest: in_set_dropD in_set_takeD)
  have hex: "ord c < 256" for c :: char by simp
  have byte: "list_all (\<lambda>n. n < 256) (esc_byte a)" if "a < 256" for a
    using that by (rule_tac esc_byte_cases) (auto simp: hex_esc_def)
  have sep: "list_all (\<lambda>n. n < 256) e" if "esc_separator ns = Some e" for e
    using that by (auto simp: esc_separator_def split: if_splits)
  show ?case
    using "1.IH" "1.prems" rest rest [of 1] byte [of "hd ns"] sep
    by (subst esc_body.simps) (cases ns; auto split: option.splits)
qed

end
