(* ===== verification/Json_Documents.thy ===== *)
theory Json_Documents
  imports Json_Round
begin

text \<open>
  Whole documents: \<open>json_parse\<close> reads what \<open>marshal\<close> writes for the values built from null,
  booleans, integers, strings, arrays and structs, as the document \<open>doc_of\<close> gives.
\<close>

section \<open>The tokens of a written value\<close>

fun commas :: "tok list list \<Rightarrow> tok list" where
  "commas [] = []"
| "commas [x] = x"
| "commas (x # y # xs) = x @ TComma # commas (y # xs)"

fun toks :: "json \<Rightarrow> tok list" where
  "toks JNull = [TLit ''null'']"
| "toks (JBool b) = [TLit (if b then ''true'' else ''false'')]"
| "toks (JInt n) = [TNum (itoa n)]"
| "toks (JStr s) = [TStr (quote_str s) s]"
| "toks (JArr js) = TOpenArr # commas (map toks js) @ [TCloseArr]"
| "toks (JObj ms) = TOpenObj # commas (map (\<lambda>(k, ts). TStr (quote_str k) k # TColon # ts)
     (map (\<lambda>(k, v). (k, toks v)) ms)) @ [TCloseObj]"
| "toks _ = []"

text \<open>Values of that shape, with valid strings and at most \<open>d\<close> containers around a leaf.\<close>

fun simple_json :: "nat \<Rightarrow> json \<Rightarrow> bool" where
  "simple_json d JNull \<longleftrightarrow> True"
| "simple_json d (JBool b) \<longleftrightarrow> True"
| "simple_json d (JInt n) \<longleftrightarrow> True"
| "simple_json d (JStr s) \<longleftrightarrow> utf8_Valid s"
| "simple_json d (JArr js) \<longleftrightarrow> 0 < d \<and> list_all (simple_json (d - 1)) js"
| "simple_json d (JObj ms) \<longleftrightarrow> 0 < d \<and>
     list_all (\<lambda>(k, ok). utf8_Valid k \<and> ok) (map (\<lambda>(k, v). (k, simple_json (d - 1) v)) ms)"
| "simple_json d _ \<longleftrightarrow> False"

fun doc_of :: "json \<Rightarrow> jdoc" where
  "doc_of (JBool b) = DBool b"
| "doc_of (JInt n) = DNum (itoa n)"
| "doc_of (JStr s) = DStr (quote_str s) s"
| "doc_of (JArr js) = DArr (marshal (JArr js)) (map doc_of js)"
| "doc_of (JObj ms) = DObj (marshal (JObj ms)) (map (\<lambda>(k, v). (k, doc_of v)) ms)"
| "doc_of _ = DNull"

lemma doc_of_text: "simple_json d j \<Longrightarrow> doc_text (doc_of j) = marshal j"
  by (cases j) simp_all

section \<open>Scanning\<close>

text \<open>A value in a document is followed by nothing, a comma or a closing bracket.\<close>

definition ends :: "string \<Rightarrow> bool" where
  "ends s \<longleftrightarrow> s = [] \<or> hd s \<in> set '',]}''"

definition reads :: "string \<Rightarrow> tok list \<Rightarrow> bool" where
  "reads x ts \<longleftrightarrow> (\<forall>s. ends s \<longrightarrow> lex LPlain (x @ s) = map_option (\<lambda>us. ts @ us) (lex LPlain s))"

lemma readsD: "reads x ts \<Longrightarrow> ends s \<Longrightarrow> lex LPlain (x @ s) = map_option (\<lambda>us. ts @ us) (lex LPlain s)"
  by (simp add: reads_def)

lemma lex_emit: "lex_step m c = Some ([t], m') \<Longrightarrow> lex m (c # s) = map_option (\<lambda>us. t # us) (lex m' s)"
  by (cases "lex m' s") simp_all

lemma lex_quote:
  assumes "utf8_Valid k"
  shows "lex LPlain (quote_str k @ s) = map_option (\<lambda>us. TStr (quote_str k) k # us) (lex LPlain s)"
proof -
  let ?b = "map chr (esc_body (map ord k))"
  have bytes: "list_all (\<lambda>n. n < 256) (map ord k)" by (simp add: list_all_iff)
  have "map ord ?b = esc_body (map ord k)"
    using esc_bytes [OF bytes] by (simp add: list_all_iff map_idI)
  then have tok: "str_tok ?b = TStr (quote_str k) k"
    using assms by (simp add: str_tok_def quote_str_def unquote_esc_body utf8_Valid_def chars_ords)
  have "lex LPlain (quote_str k @ s) = lex (LStr []) (?b @ DQ # s)"
    unfolding quote_str_def append.simps append_assoc
    by (rule lex_shift) (simp add: lex_step_def start_mode_def)
  also have "... = lex (LStr (rev ?b)) (DQ # s)" using lex_body [OF bytes, of "[]"] by simp
  also have "... = map_option (\<lambda>us. TStr (quote_str k) k # us) (lex LPlain s)"
    by (rule lex_emit) (simp add: lex_step_def tok)
  finally show ?thesis .
qed

lemma lex_flush:
  assumes "ends s" "flush_mode m = Some [t]"
    and "\<And>c s'. s = c # s' \<Longrightarrow> lex_step m c = (case (flush_mode m, start_mode c) of
           (Some ts, Some (us, m')) \<Rightarrow> Some (ts @ us, m') | _ \<Rightarrow> None)"
  shows "lex m s = map_option (\<lambda>us. t # us) (lex LPlain s)"
proof (cases s)
  case Nil
  then show ?thesis using assms(2) by (simp add: flush_mode_def [of LPlain])
next
  case (Cons c s')
  then show ?thesis using assms(2) assms(3) [OF Cons]
    by (cases "start_mode c"; cases "lex (snd (the (start_mode c))) s'")
      (auto simp: lex_step_def [of LPlain])
qed

lemma ends_not: "ends (c # s) \<Longrightarrow> \<not> num_char c" "ends (c # s) \<Longrightarrow> \<not> lower_char c"
  by (auto simp: ends_def num_char_def is_digit_def lower_char_def)

lemma lex_lit: "list_all lower_char cs \<Longrightarrow> lex (LLit b) (cs @ s) = lex (LLit (rev cs @ b)) s"
proof (induction cs arbitrary: b)
  case (Cons c cs)
  have "lex (LLit b) (c # cs @ s) = lex (LLit (c # b)) (cs @ s)"
    using Cons.prems by (intro lex_shift) (simp add: lex_step_def)
  with Cons show ?case by simp
qed simp

lemma lex_num: "list_all num_char cs \<Longrightarrow> lex (LNum b) (cs @ s) = lex (LNum (rev cs @ b)) s"
proof (induction cs arbitrary: b)
  case (Cons c cs)
  have "lex (LNum b) (c # cs @ s) = lex (LNum (c # b)) (cs @ s)"
    using Cons.prems by (intro lex_shift) (simp add: lex_step_def)
  with Cons show ?case by simp
qed simp

lemma reads_lit:
  assumes "t \<in> {''true'', ''false'', ''null''}"
  shows "reads t [TLit t]"
  unfolding reads_def
proof (intro allI impI)
  fix s assume s: "ends s"
  obtain c cs where t: "t = c # cs" using assms by auto
  have low: "list_all lower_char t" using assms by (auto simp: lower_char_def)
  have "lex LPlain (t @ s) = lex (LLit [c]) (cs @ s)"
    using low unfolding t append.simps
    by (intro lex_shift) (auto simp: lex_step_def start_mode_def lower_char_def is_digit_def)
  also have "... = lex (LLit (rev t)) s" using lex_lit [of cs] low by (simp add: t)
  also have "... = map_option (\<lambda>us. TLit t # us) (lex LPlain s)"
  proof (rule lex_flush [OF s])
    show "flush_mode (LLit (rev t)) = Some [TLit t]" using assms by (simp only: flush_mode_def) simp
    show "lex_step (LLit (rev t)) c = (case (flush_mode (LLit (rev t)), start_mode c) of
        (Some ts, Some (us, m')) \<Rightarrow> Some (ts @ us, m') | _ \<Rightarrow> None)" if "s = c # s'" for c s'
      using ends_not(2) [of c s'] s that by (simp add: lex_step_def)
  qed
  finally show "lex LPlain (t @ s) = map_option (\<lambda>us. [TLit t] @ us) (lex LPlain s)" by simp
qed

lemma reads_num:
  assumes "valid_number t" "list_all num_char t" "is_digit (hd t) \<or> hd t = CHR ''-''"
  shows "reads t [TNum t]"
  unfolding reads_def
proof (intro allI impI)
  fix s assume s: "ends s"
  obtain c cs where t: "t = c # cs" using assms(1) by (cases t) auto
  have "lex LPlain (t @ s) = lex (LNum [c]) (cs @ s)"
    using assms(3) unfolding t append.simps
    by (intro lex_shift) (auto simp: lex_step_def start_mode_def is_digit_def)
  also have "... = lex (LNum (rev t)) s" using lex_num [of cs] assms(2) by (simp add: t)
  also have "... = map_option (\<lambda>us. TNum t # us) (lex LPlain s)"
  proof (rule lex_flush [OF s])
    show "flush_mode (LNum (rev t)) = Some [TNum t]"
      using assms(1) by (simp add: flush_mode_def del: valid_number.simps)
    show "lex_step (LNum (rev t)) c = (case (flush_mode (LNum (rev t)), start_mode c) of
        (Some ts, Some (us, m')) \<Rightarrow> Some (ts @ us, m') | _ \<Rightarrow> None)" if "s = c # s'" for c s'
      using ends_not(1) [of c s'] s that by (simp add: lex_step_def)
  qed
  finally show "lex LPlain (t @ s) = map_option (\<lambda>us. [TNum t] @ us) (lex LPlain s)" by simp
qed

section \<open>Integers\<close>

lemma digit_chr: "d < 10 \<Longrightarrow> is_digit (chr (48 + d)) \<and> ord (chr (48 + d)) = 48 + d"
  by (simp add: is_digit_def)

lemma digits_val_snoc: "digits_val a (s @ [c]) = digits_val a s * 10 + (ord c - 48)"
  by (induction s arbitrary: a) simp_all

lemma digits_of_val: "digits_val 0 (digits_of n) = n"
proof (induction n rule: digits_of.induct)
  case (1 n)
  show ?case
  proof (cases "n < 10")
    case True
    then show ?thesis using digit_chr [OF True] by (subst digits_of.simps) simp
  next
    case False
    then show ?thesis using "1.IH" digit_chr [of "n mod 10"]
      by (subst digits_of.simps) (simp add: digits_val_snoc)
  qed
qed

lemma digits_of_shape:
  "list_all is_digit (digits_of n) \<and> digits_of n \<noteq> [] \<and>
     (hd (digits_of n) = CHR ''0'' \<longrightarrow> n = 0)"
proof (induction n rule: digits_of.induct)
  case (1 n)
  show ?case
  proof (cases "n < 10")
    case True
    have "n = 0" if "chr (48 + n) = CHR ''0''"
    proof -
      have "ord (chr (48 + n)) = 48" unfolding that by simp
      then show ?thesis using digit_chr [OF True] by simp
    qed
    with True show ?thesis using digit_chr [OF True] by (subst (1 2 3) digits_of.simps) simp
  next
    case False
    then have "n div 10 \<noteq> 0" by simp
    then show ?thesis using False "1.IH" digit_chr [of "n mod 10"]
      by (subst (1 2 3) digits_of.simps) simp
  qed
qed

lemma digits_number: "valid_number (digits_of n) \<and> valid_number (CHR ''-'' # digits_of n)"
proof -
  let ?t = "digits_of n"
  have digits: "\<forall>x\<in>set ?t. is_digit x" using digits_of_shape [of n] by (simp add: list_all_iff)
  then have all: "takeWhile is_digit ?t = ?t" "dropWhile is_digit ?t = []"
    by (simp_all add: takeWhile_eq_all_conv)
  have "hd ?t \<noteq> CHR ''-''" using digits_of_shape [of n] by (cases ?t) (auto simp: is_digit_def)
  moreover have "hd ?t = CHR ''0'' \<longrightarrow> length ?t = 1"
  proof
    assume "hd ?t = CHR ''0''"
    then have "n = 0" using digits_of_shape [of n] by blast
    then show "length ?t = 1" by (subst digits_of.simps) simp
  qed
  ultimately show ?thesis using digits_of_shape [of n] unfolding valid_number.simps by (simp add: Let_def all del: dropWhile_eq_Nil_conv)
qed

lemma num_chars: "is_digit c \<Longrightarrow> num_char c" "num_char (CHR ''-'')"
  by (simp_all add: num_char_def)

lemma itoa_cases: "(\<And>m. P (digits_of m)) \<Longrightarrow> (\<And>m. P (CHR ''-'' # digits_of m)) \<Longrightarrow> P (itoa n)"
  by (simp add: itoa_def)

lemma reads_itoa: "reads (itoa n) [TNum (itoa n)]"
proof (rule reads_num)
  have "list_all num_char (digits_of m)" for m
    using digits_of_shape [of m] num_chars(1) by (simp add: list_all_iff)
  then show "list_all num_char (itoa n)" by (rule_tac itoa_cases) (simp_all add: num_chars)
  have "is_digit (hd (digits_of m))" for m using digits_of_shape [of m] by (cases "digits_of m") simp_all
  then show "is_digit (hd (itoa n)) \<or> hd (itoa n) = CHR ''-''" by (rule_tac itoa_cases) simp_all
  show "valid_number (itoa n)" by (rule itoa_cases) (simp_all only: digits_number)
qed

lemma parse_itoa: "int64_range n \<Longrightarrow> parse_int64 (itoa n) = Some n"
proof -
  assume n: "int64_range n"
  have "hd (digits_of m) \<noteq> CHR ''-''" for m
    using digits_of_shape [of m] by (cases "digits_of m") (auto simp: is_digit_def)
  then show ?thesis
    using n digits_of_shape [of "nat n"] digits_of_shape [of "nat (- n)"]
    by (auto simp: parse_int64_def itoa_def digits_of_val)
qed

section \<open>Scanning a document\<close>

lemma ends_simps [simp]: "ends (CHR '','' # s)" "ends (CHR '']'' # s)" "ends (CHR ''}'' # s)" "ends []"
  by (simp_all add: ends_def)

lemma lex_mark: "plain_tok c = Some t \<Longrightarrow> start_mode c = Some ([t], LPlain) \<Longrightarrow>
    lex LPlain (c # s) = map_option (\<lambda>us. t # us) (lex LPlain s)"
  by (rule lex_emit) (simp add: lex_step_def)

lemma lex_marks:
  "lex LPlain (CHR ''{'' # s) = map_option (\<lambda>us. TOpenObj # us) (lex LPlain s)"
  "lex LPlain (CHR ''}'' # s) = map_option (\<lambda>us. TCloseObj # us) (lex LPlain s)"
  "lex LPlain (CHR ''['' # s) = map_option (\<lambda>us. TOpenArr # us) (lex LPlain s)"
  "lex LPlain (CHR '']'' # s) = map_option (\<lambda>us. TCloseArr # us) (lex LPlain s)"
  "lex LPlain (CHR '':'' # s) = map_option (\<lambda>us. TColon # us) (lex LPlain s)"
  "lex LPlain (CHR '','' # s) = map_option (\<lambda>us. TComma # us) (lex LPlain s)"
  by (rule lex_mark; simp add: plain_tok_def start_mode_def is_digit_def lower_char_def)+

lemma reads_join:
  assumes "list_all2 reads xs ts" "ends s"
  shows "lex LPlain (Join xs '','' @ s) = map_option (\<lambda>us. commas ts @ us) (lex LPlain s)"
proof -
  have "lex LPlain (Join xs sep @ s) = map_option (\<lambda>us. commas ts @ us) (lex LPlain s)"
    if "sep = '',''" "list_all2 reads xs ts" for sep
    using that
  proof (induction xs sep arbitrary: ts rule: Join.induct)
    case (1 sep)
    then show ?case by (cases "lex LPlain s") simp_all
  next
    case (2 x sep)
    then show ?case using assms(2) by (auto simp: list_all2_Cons1 dest: readsD)
  next
    case (3 x y xs sep)
    then obtain t u us where ts: "ts = t # u # us" and t: "reads x t" and rest: "list_all2 reads (y # xs) (u # us)"
      by (auto simp: list_all2_Cons1)
    have "lex LPlain (Join (x # y # xs) sep @ s) = lex LPlain (x @ CHR '','' # (Join (y # xs) sep @ s))"
      using "3.prems" by simp
    also have "... = map_option (\<lambda>us. t @ us) (lex LPlain (CHR '','' # (Join (y # xs) sep @ s)))"
      by (rule readsD [OF t]) simp
    also have "... = map_option (\<lambda>us. commas ts @ us) (lex LPlain s)"
      using "3.IH" [OF "3.prems"(1) rest]
      by (simp only: ts commas.simps lex_marks option.map_comp comp_def append.simps append_assoc)
    finally show ?case .
  qed
  with assms(1) show ?thesis by blast
qed

lemma reads_member:
  assumes "utf8_Valid k" "reads x ts"
  shows "reads (quote_str k @ '':'' @ x) (TStr (quote_str k) k # TColon # ts)"
  unfolding reads_def
proof (intro allI impI)
  fix s assume "ends s"
  have "lex LPlain ((quote_str k @ '':'' @ x) @ s) = lex LPlain (quote_str k @ CHR '':'' # (x @ s))" by simp
  also have "... = map_option (\<lambda>us. (TStr (quote_str k) k # TColon # ts) @ us) (lex LPlain s)"
    using lex_quote [OF assms(1)] readsD [OF assms(2) \<open>ends s\<close>]
    by (simp only: lex_marks option.map_comp comp_def append.simps append_assoc)
  finally show "lex LPlain ((quote_str k @ '':'' @ x) @ s) =
    map_option (\<lambda>us. (TStr (quote_str k) k # TColon # ts) @ us) (lex LPlain s)" .
qed

lemma reads_closed:
  assumes "list_all2 reads xs ts"
  shows "reads (''['' @ Join xs '','' @ '']'') (TOpenArr # commas ts @ [TCloseArr])"
    and "reads (''{'' @ Join xs '','' @ ''}'') (TOpenObj # commas ts @ [TCloseObj])"
  unfolding reads_def append.simps append_assoc
  by (simp_all only: reads_join [OF assms] ends_simps lex_marks option.map_comp comp_def append.simps append_assoc)
    blast+

lemma reads_marshal: "simple_json d j \<Longrightarrow> reads (marshal j) (toks j)"
proof (induction j arbitrary: d)
  case (JStr s)
  then show ?case using lex_quote by (simp add: reads_def)
next
  case (JArr js)
  then have "list_all2 reads (map marshal js) (map toks js)"
    by (auto simp: list_all2_map1 list_all2_map2 list_all_iff intro!: list.rel_refl_strong)
  then show ?case by (simp only: marshal.simps toks.simps reads_closed)
next
  case (JObj ms)
  have "list_all2 reads (map (\<lambda>(k, v). quote_str k @ '':'' @ v) (map (\<lambda>(k, v). (k, marshal v)) ms))
      (map (\<lambda>(k, ts). TStr (quote_str k) k # TColon # ts) (map (\<lambda>(k, v). (k, toks v)) ms))"
    unfolding list_all2_map1 list_all2_map2
    by (rule list.rel_refl_strong) (use JObj in \<open>fastforce simp: list_all_iff intro: reads_member\<close>)
  then show ?case by (simp only: marshal.simps toks.simps reads_closed)
qed (simp_all add: reads_lit reads_itoa)

section \<open>Parsing a document\<close>

lemma parse_append: "parse_run p (ts @ us) = Option.bind (parse_run p ts) (\<lambda>p. parse_run p us)"
  by (induction ts arbitrary: p) (auto split: option.splits)

text \<open>The value \<open>j\<close> is read where a value is expected, whatever containers are open around it.\<close>

definition parses :: "nat \<Rightarrow> json \<Rightarrow> bool" where
  "parses d j \<longleftrightarrow> (\<forall>e fs r. at_value e \<longrightarrow> length fs + d \<le> max_depth \<longrightarrow>
     parse_run (e, fs, r) (toks j) = put_value (doc_of j) fs)"

lemma parsesD:
  "parses d j \<Longrightarrow> at_value e \<Longrightarrow> length fs + d \<le> max_depth \<Longrightarrow> parse_run (e, fs, r) (toks j) = put_value (doc_of j) fs"
  by (simp add: parses_def)

lemma at_valueI [simp]: "at_value EValue" "at_value EValueOrClose"
  by (simp_all add: at_value_def)

lemma parse_items:
  assumes "js \<noteq> []" "\<forall>j\<in>set js. parses d j \<and> doc_text (doc_of j) = marshal j" "length fs + Suc d \<le> max_depth" "at_value e"
  shows "parse_run (e, FArr u ds # fs, r) (commas (map toks js)) =
    Some (EAfter, FArr (u @ Join (map marshal js) '','') (ds @ map doc_of js) # fs, None)"
  using assms
proof (induction js arbitrary: e u ds r rule: induct_list012)
  case (2 j)
  then show ?case using parsesD [of d j e "FArr u ds # fs"] by simp
next
  case (3 j k js)
  then have "parse_run (e, FArr u ds # fs, r) (toks j) = Some (EAfter, FArr (u @ marshal j) (ds @ [doc_of j]) # fs, None)"
    using parsesD [of d j e "FArr u ds # fs"] by simp
  then show ?case using 3 by (simp add: parse_append)
qed simp

definition member_toks :: "string \<times> json \<Rightarrow> tok list" where
  "member_toks m = TStr (quote_str (fst m)) (fst m) # TColon # toks (snd m)"

definition member_text :: "string \<times> json \<Rightarrow> string" where
  "member_text m = quote_str (fst m) @ '':'' @ marshal (snd m)"

lemma toks_members: "toks (JObj ms) = TOpenObj # commas (map member_toks ms) @ [TCloseObj]"
  by (simp add: member_toks_def [abs_def] split_beta comp_def)

lemma marshal_members: "marshal (JObj ms) = ''{'' @ Join (map member_text ms) '','' @ ''}''"
  by (simp add: member_text_def [abs_def] split_beta comp_def)

lemma parse_member:
  assumes "parses d j" "doc_text (doc_of j) = marshal j" "length fs + Suc d \<le> max_depth" "e = EKey \<or> e = EKeyOrClose"
  shows "parse_run (e, FObj u ds None # fs, r) (member_toks (k, j)) =
      Some (EAfter, FObj (u @ member_text (k, j)) (ds @ [(k, doc_of j)]) None # fs, None)"
  using assms parsesD [of d j EValue "FObj (u @ quote_str k @ '':'') ds (Some k) # fs" None]
  by (auto simp: at_value_def member_toks_def member_text_def)

lemma parse_members:
  assumes "ms \<noteq> []" "\<forall>m\<in>set ms. parses d (snd m) \<and> doc_text (doc_of (snd m)) = marshal (snd m)"
    "length fs + Suc d \<le> max_depth" "e = EKey \<or> e = EKeyOrClose"
  shows "parse_run (e, FObj u ds None # fs, r) (commas (map member_toks ms)) =
    Some (EAfter, FObj (u @ Join (map member_text ms) '','')
      (ds @ map (\<lambda>(k, v). (k, doc_of v)) ms) None # fs, None)"
  using assms
proof (induction ms arbitrary: e u ds r rule: induct_list012)
  case (2 m)
  then show ?case using parse_member [of d "snd m" fs e u ds r "fst m"] by (simp add: split_beta)
next
  case (3 m n ms)
  then have "parse_run (e, FObj u ds None # fs, r) (member_toks m) =
      Some (EAfter, FObj (u @ member_text m) (ds @ [(fst m, doc_of (snd m))]) None # fs, None)"
    using parse_member [of d "snd m" fs e u ds r "fst m"] by simp
  then show ?case using 3 by (simp add: parse_append split_beta)
qed simp

lemma parses_toks: "simple_json d j \<Longrightarrow> parses d j"
proof (induction j arbitrary: d)
  case (JArr js)
  show ?case unfolding parses_def
  proof (intro allI impI)
    fix e and fs :: "frame list" and r
    assume e: "at_value e" and depth: "length fs + d \<le> max_depth"
    obtain c where d: "d = Suc c" using JArr.prems by (cases d) auto
    have items: "\<forall>j\<in>set js. parses c j \<and> doc_text (doc_of j) = marshal j"
      using JArr d by (auto simp: list_all_iff doc_of_text)
    show "parse_run (e, fs, r) (toks (JArr js)) = put_value (doc_of (JArr js)) fs"
      using parse_items [OF _ items, of fs EValueOrClose "''[''" "[]" None] e depth d
      by (cases "js = []") (simp_all add: open_frame_def parse_append split: option.split)
  qed
next
  case (JObj ms)
  show ?case unfolding parses_def
  proof (intro allI impI)
    fix e and fs :: "frame list" and r
    assume e: "at_value e" and depth: "length fs + d \<le> max_depth"
    obtain c where d: "d = Suc c" using JObj.prems by (cases d) auto
    have items: "\<forall>m\<in>set ms. parses c (snd m) \<and> doc_text (doc_of (snd m)) = marshal (snd m)"
    proof
      fix m assume m: "m \<in> set ms"
      then have "simple_json c (snd m)" using JObj.prems d by (auto simp: list_all_iff split_beta)
      then show "parses c (snd m) \<and> doc_text (doc_of (snd m)) = marshal (snd m)"
        using JObj.IH [OF m, of "snd m" c] doc_of_text by (cases m) simp
    qed
    show "parse_run (e, fs, r) (toks (JObj ms)) = put_value (doc_of (JObj ms)) fs"
      using parse_members [OF _ items, of fs EKeyOrClose "''{''" "[]" None] e depth d
      by (cases "ms = []")
        (simp_all add: open_frame_def parse_append toks_members marshal_members doc_of.simps(5)
          del: toks.simps marshal.simps split: option.split)
  qed
qed (auto simp: parses_def split: option.split)

theorem parse_marshal:
  assumes "simple_json max_depth j"
  shows "json_parse (marshal j) = Some (doc_of j)"
proof -
  have "lex LPlain (marshal j) = Some (toks j)"
    using readsD [OF reads_marshal [OF assms], of "[]"] by (simp add: flush_mode_def)
  moreover have "parse_run (EValue, [], None) (toks j) = Some (EAfter, [], Some (doc_of j))"
    using parsesD [OF parses_toks [OF assms], of EValue "[]"] by simp
  ultimately show ?thesis by (simp add: json_parse_def)
qed

section \<open>What is written is valid UTF-8\<close>

lemma utf8_nil [simp]: "utf8_valid []"
  by (simp add: utf8_valid.simps)

lemma utf8_step: "utf8_len (take k s @ t) = k \<Longrightarrow> 0 < k \<Longrightarrow> k \<le> length s \<Longrightarrow> utf8_valid (take k s @ t) = utf8_valid t"
  by (subst utf8_valid.simps) auto

lemma utf8_sequence: "utf8_len s = k \<Longrightarrow> 0 < k \<Longrightarrow> utf8_valid (take k s @ t) = utf8_valid t"
  using utf8_len_take [of s k t] utf8_step [of k s t] by simp

lemma utf8_ascii: "list_all (\<lambda>n. n < 0x80) xs \<Longrightarrow> utf8_valid (xs @ t) = utf8_valid t"
proof (induction xs)
  case (Cons a xs)
  then show ?case using utf8_sequence [of "a # xs @ t" 1 "xs @ t"] by (simp add: utf8_len_ascii)
qed simp

lemma utf8_append: "utf8_valid xs \<Longrightarrow> utf8_valid (xs @ t) = utf8_valid t"
proof (induction xs rule: utf8_valid.induct)
  case (1 xs)
  show ?case
  proof (cases "xs = []")
    case False
    then have len: "utf8_len xs \<noteq> 0" "utf8_valid (drop (utf8_len xs) xs)"
      using "1.prems" by (subst (asm) utf8_valid.simps, simp split: if_splits)+
    then have "utf8_valid (take (utf8_len xs) xs @ (drop (utf8_len xs) xs @ t)) = utf8_valid (drop (utf8_len xs) xs @ t)"
      by (intro utf8_sequence) simp_all
    then show ?thesis using "1.IH" len False by (simp flip: append_assoc)
  qed simp
qed

lemma ascii_escape: "n < 0x80 \<Longrightarrow> list_all (\<lambda>n. n < 0x80) (esc_byte n)"
proof (rule esc_byte_cases)
  assume n: "n < 0x80"
  have "ord (hex_digit d) < 128" if "d < 16" for d using that by (auto simp: hex_digit_def)
  moreover have "n div 16 < 16" using n by simp
  ultimately show "list_all (\<lambda>n. n < 0x80) (hex_esc n)" by (simp add: hex_esc_def)
qed auto

lemma utf8_esc_body: "utf8_valid (esc_body ns)"
proof (induction ns rule: esc_body.induct)
  case (1 s)
  show ?case
  proof (cases s)
    case Nil
    then show ?thesis by (simp add: esc_body.simps)
  next
    case (Cons a r)
    show ?thesis
    proof (cases "a < 0x80")
      case True
      then show ?thesis using "1.IH"(1) Cons utf8_ascii [OF ascii_escape [OF True]] by (subst esc_body.simps) simp
    next
      case high: False
      show ?thesis
      proof (cases "utf8_len s = 0")
        case True
        have "list_all (\<lambda>n. n < 0x80) (map ord (BSL # ''ufffd''))" by simp
        then show ?thesis using "1.IH"(2) True high Cons utf8_ascii by (subst esc_body.simps) (simp del: list.map)
      next
        case len: False
        show ?thesis
        proof (cases "esc_separator s")
          case None
          then show ?thesis using "1.IH" None high len Cons utf8_sequence [of s "utf8_len s"]
            by (subst esc_body.simps) simp
        next
          case (Some e)
          then have "list_all (\<lambda>n. n < 0x80) e" by (auto simp: esc_separator_def split: if_splits)
          then show ?thesis using "1.IH" Some high len Cons utf8_ascii by (subst esc_body.simps) simp
        qed
      qed
    qed
  qed
qed

lemma valid_append: "utf8_Valid s \<Longrightarrow> utf8_Valid (s @ t) = utf8_Valid t"
  by (simp add: utf8_Valid_def utf8_append)

lemma valid_ascii: "list_all (\<lambda>c. ord c < 0x80) s \<Longrightarrow> utf8_Valid (s @ t) = utf8_Valid t"
  using utf8_ascii [of "map ord s" "map ord t"] by (simp add: utf8_Valid_def list_all_iff)

lemma valid_cons: "ord c < 0x80 \<Longrightarrow> utf8_Valid (c # t) = utf8_Valid t"
  using valid_ascii [of "[c]" t] by simp

lemma valid_nil [simp]: "utf8_Valid []"
  by (simp add: utf8_Valid_def)

lemma valid_quote: "utf8_Valid (quote_str s)"
proof -
  have "list_all (\<lambda>n. n < 256) (esc_body (map ord s))" by (rule esc_bytes) (simp add: list_all_iff)
  then have "map ord (map chr (esc_body (map ord s))) = esc_body (map ord s)"
    by (simp add: list_all_iff map_idI)
  then have "utf8_Valid (map chr (esc_body (map ord s)))" by (simp add: utf8_Valid_def utf8_esc_body)
  then show ?thesis by (simp add: quote_str_def valid_cons valid_append)
qed

lemma valid_join: "list_all utf8_Valid xs \<Longrightarrow> utf8_Valid (Join xs '','')"
proof -
  have "utf8_Valid (Join xs sep)" if "list_all utf8_Valid xs" "sep = '',''" for sep
    using that by (induction xs sep rule: Join.induct) (simp_all add: valid_append valid_cons)
  then show "list_all utf8_Valid xs \<Longrightarrow> utf8_Valid (Join xs '','')" by blast
qed

lemma valid_itoa: "utf8_Valid (itoa n)"
proof -
  have digit: "ord c < 0x80" if "is_digit c" for c using that by (simp add: is_digit_def)
  have "utf8_Valid (digits_of m)" for m
    using valid_ascii [of "digits_of m" "[]"] digits_of_shape [of m] digit by (simp add: list_all_iff)
  then show ?thesis by (rule_tac itoa_cases) (simp_all add: valid_cons)
qed

theorem marshal_utf8: "simple_json d j \<Longrightarrow> utf8_Valid (marshal j)"
proof (induction j arbitrary: d)
  case (JBool b)
  show ?case by (simp add: valid_cons)
next
  case (JArr js)
  then have "list_all utf8_Valid (map marshal js)" by (auto simp: list_all_iff)
  then show ?case by (simp add: valid_cons valid_append valid_join)
next
  case (JObj ms)
  have "utf8_Valid (marshal (snd m))" if "m \<in> set ms" for m
  proof -
    have "simple_json (d - 1) (snd m)" using JObj.prems that by (auto simp: list_all_iff split_beta)
    then show ?thesis using JObj.IH [OF that, of "snd m" "d - 1"] by (cases m) simp
  qed
  then have "list_all utf8_Valid (map member_text ms)"
    by (simp add: list_all_iff member_text_def valid_append valid_quote valid_cons)
  then show ?case unfolding marshal_members by (simp add: valid_cons valid_append valid_join)
qed (simp_all add: valid_cons valid_quote valid_itoa)

end
