(* ===== verification/Auth_Restart.thy ===== *)
theory Auth_Restart
  imports Auth_Props Json_Documents
begin

text \<open>
  What a save leaves on disk is what the next process loads: the marshalled credentials parse back
  to the same record, the encrypted file decrypts to that text, and \<open>load\<close> puts it in memory.
\<close>

section \<open>The marshalled credentials are decoded to themselves\<close>

definition docs :: "(string \<times> json) list \<Rightarrow> (string \<times> jdoc) list" where
  "docs ms = map (\<lambda>(k, v). (k, doc_of v)) ms"

lemma docs_simps [simp]: "docs [] = []" "docs ((k, v) # ms) = (k, doc_of v) # docs ms" "docs (xs @ ys) = docs xs @ docs ys"
  by (simp_all add: docs_def)

lemma dec_members_append:
  "dec_members F r (xs @ ys) = Option.bind (dec_members F r xs) (\<lambda>r. dec_members F r ys)"
  by (induction xs arbitrary: r) (auto split: option.splits)

lemma dec_one: "find_field F k = Some (fld get upd dec) \<Longrightarrow> dec (get r) d = Some v \<Longrightarrow>
    dec_members F r [(k, d)] = Some (upd (\<lambda>_. v) r)"
  by (simp add: fld_def)

text \<open>A field left out of the text keeps the zero value it would have been given.\<close>

lemma dec_opt_str: "find_field F k = Some (fld get upd dec_string) \<Longrightarrow> upd (\<lambda>_. []) r = r \<Longrightarrow>
    dec_members F r (docs (opt_str k v)) = Some (upd (\<lambda>_. v) r)"
  by (auto simp: opt_str_def fld_def)

lemma dec_strings: "dec_list [] dec_string old (doc_of (JArr (map JStr xs))) = Some xs"
  by (induction xs) simp_all

definition storable :: "userInfo \<Rightarrow> bool" where
  "storable u \<longleftrightarrow> list_all utf8_Valid ([ui_UID u, ui_Name u, ui_Email u, ui_AvatarURL u, ui_OrgID u, ui_OrgName u,
     ui_SecurityOAuthToken u, ui_AccessToken u, ui_RefreshToken u, ui_LoginMethod u, ui_EncryptUserInfo u,
     ui_Key u, ui_PersonalAccessToken u] @ ui_OrgTags u) \<and>
     list_all int64_range [ui_ExpireTime u, ui_RefreshTokenExpireTime u, ui_LoginTimestamp u]"

lemma map_option_list_map: "map_option_list f (map g xs) = Some xs \<longleftrightarrow> (\<forall>x\<in>set xs. f (g x) = Some x)"
  by (induction xs) (auto split: option.splits)

lemma userInfo_finds:
  "find_field userInfo_fields ''uid'' = Some (fld ui_UID ui_UID_update dec_string)"
  "find_field userInfo_fields ''name'' = Some (fld ui_Name ui_Name_update dec_string)"
  "find_field userInfo_fields ''email'' = Some (fld ui_Email ui_Email_update dec_string)"
  "find_field userInfo_fields ''avatar_url'' = Some (fld ui_AvatarURL ui_AvatarURL_update dec_string)"
  "find_field userInfo_fields ''organization_id'' = Some (fld ui_OrgID ui_OrgID_update dec_string)"
  "find_field userInfo_fields ''organization_name'' = Some (fld ui_OrgName ui_OrgName_update dec_string)"
  "find_field userInfo_fields ''organization_tags'' = Some (fld ui_OrgTags ui_OrgTags_update (dec_list [] dec_string))"
  "find_field userInfo_fields ''data_policy_agreed'' = Some (fld ui_DataPolicyAgreed ui_DataPolicyAgreed_update dec_bool)"
  "find_field userInfo_fields ''is_data_policy_modifiable'' = Some (fld ui_IsDataPolicyModifiable ui_IsDataPolicyModifiable_update dec_bool)"
  "find_field userInfo_fields ''security_oauth_token'' = Some (fld ui_SecurityOAuthToken ui_SecurityOAuthToken_update dec_string)"
  "find_field userInfo_fields ''access_token'' = Some (fld ui_AccessToken ui_AccessToken_update dec_string)"
  "find_field userInfo_fields ''refresh_token'' = Some (fld ui_RefreshToken ui_RefreshToken_update dec_string)"
  "find_field userInfo_fields ''expire_time'' = Some (fld ui_ExpireTime ui_ExpireTime_update dec_int)"
  "find_field userInfo_fields ''refresh_token_expire_time'' = Some (fld ui_RefreshTokenExpireTime ui_RefreshTokenExpireTime_update dec_int)"
  "find_field userInfo_fields ''login_method'' = Some (fld ui_LoginMethod ui_LoginMethod_update dec_string)"
  "find_field userInfo_fields ''login_timestamp'' = Some (fld ui_LoginTimestamp ui_LoginTimestamp_update dec_int)"
  "find_field userInfo_fields ''encrypt_user_info'' = Some (fld ui_EncryptUserInfo ui_EncryptUserInfo_update dec_string)"
  "find_field userInfo_fields ''key'' = Some (fld ui_Key ui_Key_update dec_string)"
  "find_field userInfo_fields ''personal_access_token'' = Some (fld ui_PersonalAccessToken ui_PersonalAccessToken_update dec_string)"
  by (simp_all add: find_field_def userInfo_fields_def)

lemma simple_str: "list_all utf8_Valid xs \<Longrightarrow> list_all (simple_json d) (map JStr xs)"
  by (simp add: list_all_iff)

lemma opt_str_simple:
  "utf8_Valid k \<Longrightarrow> utf8_Valid v \<Longrightarrow> list_all (\<lambda>m. utf8_Valid (fst m) \<and> simple_json d (snd m)) (opt_str k v)"
  by (simp add: opt_str_def)

lemma storable_simple: "storable u \<Longrightarrow> simple_json (Suc (Suc d)) (userInfo_json u)"
proof -
  assume u: "storable u"
  have key: "list_all (\<lambda>c. ord c < 0x80) k \<Longrightarrow> utf8_Valid k" for k using valid_ascii [of k "[]"] by simp
  have members: "simple_json (Suc (Suc d)) (JObj ms) = list_all (\<lambda>m. utf8_Valid (fst m) \<and> simple_json (Suc d) (snd m)) ms" for ms
    by (auto simp: list_all_iff split_beta)
  show ?thesis
    using u unfolding userInfo_json_def members
    by (simp add: key opt_str_simple storable_def simple_str)
qed

lemma doc_of_userInfo:
  "doc_of (userInfo_json u) = DObj (marshal (userInfo_json u))
    (docs ([(''uid'', JStr (ui_UID u))] @ opt_str ''name'' (ui_Name u) @ opt_str ''email'' (ui_Email u) @
     opt_str ''avatar_url'' (ui_AvatarURL u) @ opt_str ''organization_id'' (ui_OrgID u) @
     opt_str ''organization_name'' (ui_OrgName u)) @
     docs (if ui_OrgTags u = [] then [] else [(''organization_tags'', JArr (map JStr (ui_OrgTags u)))]) @
     docs [(''data_policy_agreed'', JBool (ui_DataPolicyAgreed u))] @
     docs (if ui_IsDataPolicyModifiable u then [(''is_data_policy_modifiable'', JBool True)] else []) @
     docs [(''security_oauth_token'', JStr (ui_SecurityOAuthToken u)),
      (''access_token'', JStr (ui_AccessToken u)), (''refresh_token'', JStr (ui_RefreshToken u)),
      (''expire_time'', JInt (ui_ExpireTime u))] @
     docs (if ui_RefreshTokenExpireTime u = 0 then []
      else [(''refresh_token_expire_time'', JInt (ui_RefreshTokenExpireTime u))]) @
     docs [(''login_method'', JStr (ui_LoginMethod u)), (''login_timestamp'', JInt (ui_LoginTimestamp u)),
      (''encrypt_user_info'', JStr (ui_EncryptUserInfo u)), (''key'', JStr (ui_Key u))] @
     docs (opt_str ''personal_access_token'' (ui_PersonalAccessToken u)))"
  unfolding userInfo_json_def doc_of.simps docs_def [symmetric] by (simp only: docs_simps append_assoc)

text \<open>The fields that are left out when they hold their zero value.\<close>

lemma dec_opt_tags:
  "ui_OrgTags r = [] \<Longrightarrow> dec_members userInfo_fields r
     (docs (if xs = [] then [] else [(''organization_tags'', JArr (map JStr xs))])) = Some (r\<lparr>ui_OrgTags := xs\<rparr>)"
  using dec_strings [of "ui_OrgTags r" xs] by (auto simp: userInfo_finds fld_def)

lemma dec_opt_flag:
  "\<not> ui_IsDataPolicyModifiable r \<Longrightarrow> dec_members userInfo_fields r
     (docs (if b then [(''is_data_policy_modifiable'', JBool True)] else [])) = Some (r\<lparr>ui_IsDataPolicyModifiable := b\<rparr>)"
  by (auto simp: userInfo_finds fld_def)

lemma dec_opt_expiry:
  "ui_RefreshTokenExpireTime r = 0 \<Longrightarrow> int64_range n \<Longrightarrow> dec_members userInfo_fields r
     (docs (if n = 0 then [] else [(''refresh_token_expire_time'', JInt n)])) = Some (r\<lparr>ui_RefreshTokenExpireTime := n\<rparr>)"
  by (auto simp: userInfo_finds fld_def parse_itoa)

theorem decode_marshalled:
  assumes "storable u"
  shows "decode_userInfo (marshal (userInfo_json u)) = Some u"
proof -
  have "simple_json max_depth (userInfo_json u)"
    using storable_simple [OF assms, of 9998] by (simp add: max_depth_def)
  then have "decode_userInfo (marshal (userInfo_json u)) =
      dec_struct userInfo_fields zero_userInfo (doc_of (userInfo_json u))"
    by (simp add: decode_userInfo_def unmarshal_def parse_marshal)
  also have "... = Some u"
    using assms unfolding doc_of_userInfo
    by (simp add: dec_members_append dec_opt_str userInfo_finds dec_opt_tags dec_opt_flag dec_opt_expiry
        fld_def parse_itoa zero_userInfo_def storable_def del: if_split)
  finally show ?thesis .
qed

section \<open>The file is read back\<close>

text \<open>A text none of whose bytes can begin or end a space rune is its own trimming.\<close>

definition solid :: "char \<Rightarrow> bool" where
  "solid c \<longleftrightarrow> 0x21 \<le> ord c \<and> ord c < 0x80"

lemma strip_one_none: "\<forall>p\<in>set ps. p = [] \<or> hd p \<notin> set s \<Longrightarrow> strip_one ps s = None"
proof (induction ps)
  case (Cons p ps)
  have "take (length p) s \<noteq> p" if "p \<noteq> []"
  proof
    assume "take (length p) s = p"
    then have "hd p \<in> set s" using that by (metis hd_in_set in_set_takeD)
    then show False using Cons.prems that by auto
  qed
  with Cons show ?case by auto
qed simp

lemma space_ends: "p \<in> set space_runes \<Longrightarrow> \<not> solid (hd p) \<and> \<not> solid (last p)"
  by (auto simp: space_runes_def solid_def)

lemma TrimSpace_solid:
  assumes "list_all solid s"
  shows "TrimSpace s = s"
proof -
  have "hd p \<notin> set s" "last p \<notin> set s" if "p \<in> set space_runes" for p
    using space_ends [OF that] assms by (auto simp: list_all_iff)
  then have "strip_one space_runes s = None" "strip_one (map rev space_runes) (rev s) = None"
    by (auto intro!: strip_one_none simp: hd_rev)
  then show ?thesis by (simp add: TrimSpace_def strip_left.simps)
qed

lemma base64_solid: "list_all (\<lambda>c. solid c \<and> c \<noteq> CHR ''{'') (b64_encode StdEncoding s)"
proof -
  have "list_all (\<lambda>c. solid c \<and> c \<noteq> CHR ''{'') (CHR ''='' # std_alphabet)"
    by (simp add: std_alphabet_def solid_def)
  then show ?thesis using std.encode_chars [of s] by (auto simp: list_all_iff StdEncoding_def)
qed

lemma encoded_is_read:
  assumes "storable u" "encode_credential None m u = Ok blob" "length blob \<le> 2 ^ 63 - 1"
  shows "read_credential w None (s\<lparr>au_machineID := m\<rparr>) blob = Ok u"
proof -
  let ?p = "marshal (userInfo_json u)" and ?k = "machineCredentialKey m"
  have enc: "credential_encrypt None ?p ?k = Ok blob" using assms(2) by (simp add: encode_credential_def)
  then obtain c where "blob = b64_encode StdEncoding c" by (auto simp: credential_encrypt_iff)
  then have "list_all (\<lambda>c. solid c \<and> c \<noteq> CHR ''{'') blob" using base64_solid by simp
  then have "TrimSpace blob = blob" "\<not> HasPrefix blob ''{''"
    using TrimSpace_solid by (cases blob; auto simp: list_all_iff HasPrefix_def)+
  moreover have "utf8_Valid ?p" using marshal_utf8 [OF storable_simple [OF assms(1)]] .
  then have "credential_decrypt None blob ?k = Ok ?p"
    using decrypt_iff_encrypt [OF assms(3)] enc by blast
  ultimately show ?thesis by (simp add: read_credential_def Let_def decode_marshalled [OF assms(1)])
qed

section \<open>The next process\<close>

text \<open>The same login: only the derived runtime fields may differ.\<close>

definition same_login :: "userInfo \<Rightarrow> userInfo \<Rightarrow> bool" where
  "same_login u u' \<longleftrightarrow> u'\<lparr>ui_EncryptUserInfo := ui_EncryptUserInfo u, ui_Key := ui_Key u\<rparr> = u \<and>
     (ui_EncryptUserInfo u \<noteq> [] \<and> ui_Key u \<noteq> [] \<longrightarrow> u' = u)"

lemma same_login_refl [simp]: "same_login u u"
  by (simp add: same_login_def)

lemma replace_ui: "au_ui (snd (replaceContext w c s)) = au_ui s"
  by (auto simp: replaceContext_def close_old_def closeContext_def fault_def split: option.splits prod.splits if_splits)

lemma build_ui:
  assumes "buildContextForUserLocked w True (Some u) s = (r, s')" "au_ui s = Some (i, u)"
  shows "\<exists>u'. au_ui s' = Some (i, u') \<and> same_login u u'"
  using assms
  by (auto simp: buildContextForUserLocked_def ensure_fields_def factory_context_def same_login_def Let_def
      markCredentialDirtyLocked_def split: option.splits prod.splits sum.splits if_splits)

lemma rebuild_ui:
  assumes "au_ui s = Some (i, u)"
  shows "\<exists>u'. au_ui (snd (rebuildContextLocked w s)) = Some (i, u') \<and> same_login u u'"
proof -
  obtain r s' where b: "buildContextForUserLocked w True (Some u) s = (r, s')" by fastforce
  then obtain u' where "au_ui s' = Some (i, u')" "same_login u u'" using build_ui assms by blast
  then show ?thesis using b assms by (auto simp: rebuildContextLocked_def replace_ui split: sum.splits)
qed

text \<open>A later process on the same machine: the saved files, the same key, no fault while it reads.\<close>

definition restarted :: "auth_world \<Rightarrow> auth \<Rightarrow> auth \<Rightarrow> bool" where
  "restarted w s t \<longleftrightarrow> au_files t = au_files s \<and> au_authFile t = au_authFile s \<and>
     au_machineID t = au_machineID s \<and> \<not> au_closed t \<and>
     aw_Fault w (au_tick t) = None \<and> aw_Fault w (Suc (au_tick t)) = None"

text \<open>
  C12: credentials survive a restart. Once a save has succeeded, a later process with the same
  machine id that can read the file loads the very login that was saved: every field of it is
  equal, the derived runtime fields too when they were there. The file is assumed to be shorter
  than \<open>2 ^ 63\<close> bytes, and the strings and numbers of the login to be what Go can hold and
  JSON can carry.
\<close>

theorem credentials_survive_restart:
  assumes "saveLocked w s = (None, s')" "au_ui s = Some (i, u)" "storable u"
    and "\<forall>blob. au_files s' (au_authFile s') = Some blob \<longrightarrow> length blob \<le> 2 ^ 63 - 1"
    and "restarted w2 s' t"
  shows "\<exists>j u'. au_ui (snd (load w2 t)) = Some (j, u') \<and> same_login u u'"
proof -
  obtain blob where blob: "au_files s' (au_authFile s') = Some blob"
    "encode_credential None (au_machineID s') u = Ok blob"
    using saveLocked_result(2) [OF assms(1)] assms(2) by (auto simp: written_def)
  let ?t = "t\<lparr>au_tick := Suc (Suc (au_tick t))\<rparr>"
  have "?t\<lparr>au_machineID := au_machineID s'\<rparr> = ?t" using assms(5) by (simp add: restarted_def)
  then have "read_credential w2 None ?t blob = Ok u"
    using encoded_is_read [OF assms(3) blob(2), of w2 ?t] assms(4) blob(1) by metis
  then have "load w2 t = rebuildContextLocked w2 (clearCredentialDirtyLocked
      (?t\<lparr>au_ui := Some (au_nextID t, u), au_nextID := Suc (au_nextID t)\<rparr>))"
    using assms(5) blob(1)
    by (simp add: load_def ReadFile_def fault_def restarted_def closedStateError_def)
  then show ?thesis
    using rebuild_ui [of "clearCredentialDirtyLocked (?t\<lparr>au_ui := Some (au_nextID t, u), au_nextID := Suc (au_nextID t)\<rparr>)"
        "au_nextID t" u w2]
    by (auto simp: clearCredentialDirtyLocked_def)
qed

text \<open>The example: a machine id of sixteen bytes, and copies long enough for the blob.\<close>

definition saving_manager :: auth where
  "saving_manager = (sample_loaded False)\<lparr>au_machineID := ''0000-1111-2222-3''\<rparr>"

definition roomy_world :: "nat \<Rightarrow> auth_world" where
  "roomy_world n = calm_world\<lparr>aw_Written := \<lambda>t. n\<rparr>"

lemma sample_storable: "storable sample_user"
  by (simp add: storable_def sample_user_def zero_userInfo_def utf8_Valid_def utf8_valid.simps utf8_len.simps int64_range_def)

lemma sample_blob:
  "\<exists>blob. encode_credential None ''0000-1111-2222-3'' sample_user = Ok blob \<and> length blob \<le> 2 ^ 63 - 1"
proof -
  let ?p = "marshal (userInfo_json sample_user)" and ?key = "''0000-1111-2222-3''"
  have key: "aes_key ?key" "length ?key = block_size" by (simp_all add: aes_key_def block_size_def)
  have "length ?p \<le> 1000"
    by (simp add: userInfo_json_def sample_user_def zero_userInfo_def opt_str_def quote_str_def esc_body.simps
        esc_byte_def itoa_def digits_of.simps)
  moreover obtain c where c: "aesCBCEncryptPKCS7 ?p ?key ?key = Ok c"
    using encrypt_total [OF key, of ?p] calculation by (auto simp: max_int_def)
  ultimately have "length c \<le> 2000" using encrypt_length [OF key c] by simp
  then have "length (b64_encode StdEncoding c) \<le> 2 ^ 63 - 1" by (simp add: std.encode_length)
  moreover have "encode_credential None ?key sample_user = Ok (b64_encode StdEncoding c)"
    using c by (simp add: encode_credential_def credential_encrypt_iff machineCredentialKey_def)
  ultimately show ?thesis by blast
qed

lemma saving_succeeds:
  assumes "encode_credential None ''0000-1111-2222-3'' sample_user = Ok blob"
  shows "\<exists>s'. saveLocked (roomy_world (length blob)) saving_manager = (None, s') \<and>
    au_files s' ''/a/user'' = Some blob \<and> au_authFile s' = ''/a/user'' \<and> au_machineID s' = ''0000-1111-2222-3''"
  using assms
  by (simp add: saveLocked_def saving_manager_def sample_load sample_new(2) start_def closedStateError_def
      stageCredentialForUserLocked_def fault_eq roomy_world_def calm_world_def CreateTemp_def path_dir_def path_clean_def
      markCredentialDirtyLocked_def HasSuffix_def sample_files_def fill_temp_def and_then_def copy_into_def
      publish_def discard_def clearCredentialDirtyLocked_def Let_def)

lemma credentials_survive_restart_witness:
  "\<exists>t j u'. au_ui t = None \<and> au_ui (snd (load calm_world t)) = Some (j, u') \<and> same_login sample_user u'"
proof -
  obtain blob where b: "encode_credential None ''0000-1111-2222-3'' sample_user = Ok blob" "length blob \<le> 2 ^ 63 - 1"
    using sample_blob by blast
  obtain s' where s': "saveLocked (roomy_world (length blob)) saving_manager = (None, s')"
    "au_files s' ''/a/user'' = Some blob" "au_authFile s' = ''/a/user''" "au_machineID s' = ''0000-1111-2222-3''"
    using saving_succeeds [OF b(1)] by blast
  let ?t = "(start (au_files s'))\<lparr>au_authFile := ''/a/user'', au_machineID := ''0000-1111-2222-3''\<rparr>"
  have "restarted calm_world s' ?t" using s' by (simp add: restarted_def start_def calm_world_def)
  moreover have "au_ui saving_manager = Some (0, sample_user)" by (simp add: saving_manager_def sample_load)
  ultimately have "\<exists>j u'. au_ui (snd (load calm_world ?t)) = Some (j, u') \<and> same_login sample_user u'"
    using credentials_survive_restart [OF s'(1) _ sample_storable] s' b(2) by simp
  moreover have "au_ui ?t = None" by (simp add: start_def)
  ultimately show ?thesis by blast
qed

end
