(* ===== verification/Gateway.thy ===== *)
theory Gateway
  imports Auth_Props Model_Resolver
begin

text \<open>
  The upstream call with its parts put together: \<open>doUpstream\<close> of \<open>proxy.go\<close> prepares a request with
  the authentication manager and sends it, and \<open>callUpstream\<close> retries it, refreshing the token on
  the way. The loop of \<open>Retry\<close>, whose environment is given, is what this one refines.
\<close>

section \<open>One attempt\<close>

record gateway =
  gw_auth :: auth
  gw_sent :: "preparedRequest list"

text \<open>
  \<open>uw_parse\<close> is \<open>url.Parse\<close> with the scheme and the host name read off; \<open>uw_Do\<close> the client, asked with
  a counter; \<open>uw_sleep\<close> whether a wait runs to its end; \<open>uw_frac\<close> the float of \<open>ParseDuration\<close>.
\<close>

record upstream_world =
  uw_parse :: "string \<Rightarrow> string \<times> string"
  uw_Do :: "nat \<Rightarrow> preparedRequest \<Rightarrow> (go_error, response) result"
  uw_sleep :: "nat \<Rightarrow> bool"
  uw_frac :: "nat \<Rightarrow> nat \<Rightarrow> nat \<Rightarrow> nat"

definition approved :: "upstream_world \<Rightarrow> preparedRequest \<Rightarrow> bool" where
  "approved u ir \<longleftrightarrow> uw_parse u (pr_URL ir) = (''https'', ''gateway.qoder.com.cn'')"

definition rejected_body :: string where
  \<open>rejected_body = ''{"error":"Qoder upstream rejected this request"}''\<close>

definition infer_input :: "gateway \<Rightarrow> string \<Rightarrow> modelConfig \<Rightarrow> inferRequestInput" where
  "infer_input g body mc = \<lparr>ii_Endpoint = au_inferBase (gw_auth g), ii_Body = body,
     ii_ModelKey = mc_Key mc, ii_ModelSource = mc_Source mc\<rparr>"

definition send :: "upstream_world \<Rightarrow> preparedRequest \<Rightarrow> gateway \<Rightarrow> (go_error, response) result \<times> gateway" where
  "send u ir g =
     (uw_Do u (au_tick (gw_auth g)) ir,
      g\<lparr>gw_auth := (gw_auth g)\<lparr>au_tick := Suc (au_tick (gw_auth g))\<rparr>, gw_sent := gw_sent g @ [ir]\<rparr>)"

definition doUpstream ::
  "bool \<Rightarrow> auth_world \<Rightarrow> upstream_world \<Rightarrow> string \<Rightarrow> modelConfig \<Rightarrow> gateway \<Rightarrow> (go_error, response) result \<times> gateway" where
  "doUpstream locked w u body mc g =
     (case manager_Prepare w (infer_input g body mc) (gw_auth g) of
        (Err e, a) \<Rightarrow> (Err (Wrap ''prepareInferRequest'' e), g\<lparr>gw_auth := a\<rparr>)
      | (Ok ir, a) \<Rightarrow>
          (case aw_BadURL w (pr_URL ir) of
             Some e \<Rightarrow> (Err e, g\<lparr>gw_auth := a\<rparr>)
           | None \<Rightarrow>
               (if \<not> locked then send u ir (g\<lparr>gw_auth := a\<rparr>)
                else if \<not> approved u ir then (Err (Plain ''unapproved inference endpoint''), g\<lparr>gw_auth := a\<rparr>)
                else (case send u ir (g\<lparr>gw_auth := a\<rparr>) of
                        (Err e, g) \<Rightarrow> (Err e, g)
                      | (Ok r, g) \<Rightarrow>
                          (Ok (if re_status r \<noteq> 200 then r\<lparr>re_body := rejected_body\<rparr> else r), g)))))"

section \<open>The loop\<close>

definition outcome_text :: "(go_error, response) result \<Rightarrow> (string, response) result" where
  "outcome_text out = (case out of Err e \<Rightarrow> Err (error_text e) | Ok r \<Rightarrow> Ok r)"

text \<open>A token refresh is tried after the first attempt only, when it was answered 401.\<close>

definition wants_refresh :: "nat \<Rightarrow> (string, response) result \<Rightarrow> bool" where
  "wants_refresh k out \<longleftrightarrow> k = 1 \<and> (case out of Ok r \<Rightarrow> re_status r = 401 | Err m \<Rightarrow> False)"

definition try_refresh :: "auth_world \<Rightarrow> nat \<Rightarrow> (string, response) result \<Rightarrow> gateway \<Rightarrow> bool \<times> gateway" where
  "try_refresh w k out g =
     (if wants_refresh k out
      then (case forceRefresh w (gw_auth g) of (e, a) \<Rightarrow> (e = None, g\<lparr>gw_auth := a\<rparr>)) else (True, g))"

definition attempt_env :: "upstream_world \<Rightarrow> (nat \<Rightarrow> (string, response) result) \<Rightarrow> bool \<Rightarrow> environment" where
  "attempt_env u answers refreshed = \<lparr>env_call = answers, env_refresh = refreshed, env_sleep = uw_sleep u, env_frac = uw_frac u\<rparr>"

fun gateway_loop ::
  "bool \<Rightarrow> auth_world \<Rightarrow> upstream_world \<Rightarrow> string \<Rightarrow> modelConfig \<Rightarrow> nat list \<Rightarrow> gateway \<Rightarrow>
   (action list \<times> call_result) \<times> gateway" where
  "gateway_loop locked w u body mc [] g = (([], Unreachable), g)"
| "gateway_loop locked w u body mc (k # ks) g =
     (case doUpstream locked w u body mc g of (answer, g) \<Rightarrow>
       (let out = outcome_text answer
        in case try_refresh w k out g of (refreshed, g) \<Rightarrow>
          (case decide (attempt_env u (\<lambda>_. out) refreshed) k out of
             (acts, Stop res) \<Rightarrow> ((Attempt k # acts, res), g)
           | (acts, GoOn) \<Rightarrow>
               (case gateway_loop locked w u body mc ks g of
                  ((acts', res), g) \<Rightarrow> ((Attempt k # acts @ acts', res), g)))))"

definition gateway_call ::
  "bool \<Rightarrow> auth_world \<Rightarrow> upstream_world \<Rightarrow> string \<Rightarrow> modelConfig \<Rightarrow> gateway \<Rightarrow> (action list \<times> call_result) \<times> gateway" where
  "gateway_call locked w u body mc g = gateway_loop locked w u body mc [1..<maxAttempts + 1] g"

section \<open>It is the loop of \<open>Retry\<close>\<close>

text \<open>A decision looks at the environment's refresh only after a first answer of 401.\<close>

lemma decide_env:
  assumes "env_sleep e1 k = env_sleep e2 k" "env_frac e1 = env_frac e2" "wants_refresh k out \<Longrightarrow> env_refresh e1 = env_refresh e2"
  shows "decide e1 k out = decide e2 k out"
  using assms(1,3) unfolding decide_def assms(2) by (auto simp: wants_refresh_def Let_def split: sum.split)

lemma loop_cong:
  assumes "\<And>k. k \<in> set ks \<Longrightarrow> env_call e1 k = env_call e2 k" "env_sleep e1 = env_sleep e2" "env_frac e1 = env_frac e2"
    "1 \<in> set ks \<Longrightarrow> env_refresh e1 = env_refresh e2"
  shows "call_loop e1 ks = call_loop e2 ks"
  using assms
proof (induction ks)
  case (Cons k ks)
  have "decide e1 k (env_call e2 k) = decide e2 k (env_call e2 k)"
    using Cons.prems by (intro decide_env) (auto simp: wants_refresh_def)
  then show ?case using Cons by simp
qed simp

lemma loop_refines:
  assumes "distinct ks"
  shows "\<exists>answers refreshed. fst (gateway_loop locked w u body mc ks g) = call_loop (attempt_env u answers refreshed) ks"
  using assms
proof (induction ks arbitrary: g)
  case (Cons k ks)
  obtain answer g1 where d: "doUpstream locked w u body mc g = (answer, g1)" by fastforce
  define out where "out = outcome_text answer"
  obtain refreshed g2 where r: "try_refresh w k out g1 = (refreshed, g2)" by fastforce
  obtain answers refreshed' where rest:
    "fst (gateway_loop locked w u body mc ks g2) = call_loop (attempt_env u answers refreshed') ks"
    using Cons.IH Cons.prems by force
  define env where "env = attempt_env u (answers(k := out)) (if k = 1 then refreshed else refreshed')"
  have "env_call env k = out" by (simp add: env_def attempt_env_def)
  moreover have "decide (attempt_env u (\<lambda>_. out) refreshed) k out = decide env k out"
    by (rule decide_env) (simp_all add: env_def attempt_env_def wants_refresh_def)
  moreover have "call_loop env ks = call_loop (attempt_env u answers refreshed') ks"
    using Cons.prems by (intro loop_cong) (auto simp: env_def attempt_env_def)
  ultimately have "fst (gateway_loop locked w u body mc (k # ks) g) = call_loop env (k # ks)"
    using d r rest
    by (cases "gateway_loop locked w u body mc ks g2")
      (auto simp: out_def [symmetric] split: decision.split prod.split)
  then show ?case unfolding env_def by blast
qed simp

lemma decide_never_attempts: "decide env k out = (acts, d) \<Longrightarrow> attempts_of acts = []"
  by (auto simp: decide_def Let_def split: sum.splits if_splits)

lemma send_sent: "gw_sent (snd (send u ir g)) = gw_sent g @ [ir]"
  by (simp add: send_def)

lemma doUpstream_sent:
  assumes "doUpstream locked w u body mc g = (answer, g')"
  shows "gw_sent g' = gw_sent g \<or> (\<exists>ir. gw_sent g' = gw_sent g @ [ir] \<and> (locked \<longrightarrow> approved u ir))"
  using assms by (auto simp: doUpstream_def send_def split: prod.splits sum.splits option.splits if_splits)

lemma try_refresh_sent: "try_refresh w k out g = (b, g') \<Longrightarrow> gw_sent g' = gw_sent g"
  by (auto simp: try_refresh_def split: if_splits prod.splits)

lemma loop_sent:
  "\<exists>irs. gw_sent (snd (gateway_loop locked w u body mc ks g)) = gw_sent g @ irs \<and>
     length irs \<le> length (attempts_of (fst (fst (gateway_loop locked w u body mc ks g)))) \<and> (locked \<longrightarrow> list_all (approved u) irs)"
proof (induction ks arbitrary: g)
  case (Cons k ks)
  obtain answer g1 where d: "doUpstream locked w u body mc g = (answer, g1)" by fastforce
  define out where "out = outcome_text answer"
  obtain refreshed g2 where r: "try_refresh w k out g1 = (refreshed, g2)" by fastforce
  obtain acts dec where dec: "decide (attempt_env u (\<lambda>_. out) refreshed) k out = (acts, dec)" by fastforce
  obtain acts' res g3 where l: "gateway_loop locked w u body mc ks g2 = ((acts', res), g3)" by (metis prod.collapse)
  obtain first where f: "gw_sent g2 = gw_sent g @ first" "length first \<le> 1" "locked \<longrightarrow> list_all (approved u) first"
    using doUpstream_sent [OF d] try_refresh_sent [OF r] by (auto intro: that)
  obtain rest where rest: "gw_sent g3 = gw_sent g2 @ rest" "length rest \<le> length (attempts_of acts')"
    "locked \<longrightarrow> list_all (approved u) rest"
    using Cons.IH [of g2] l by auto
  note a = decide_never_attempts [OF dec]
  show ?case
  proof (cases dec)
    case (Stop x)
    then have "gateway_loop locked w u body mc (k # ks) g = ((Attempt k # acts, x), g2)"
      using d r dec by (simp add: out_def [symmetric])
    with f show ?thesis by auto
  next
    case GoOn
    then have "gateway_loop locked w u body mc (k # ks) g = ((Attempt k # acts @ acts', res), g3)"
      using d r dec l by (simp add: out_def [symmetric])
    with f rest a show ?thesis by (intro exI [of _ "first @ rest"]) auto
  qed
qed simp


text \<open>In the example the manager prepares a request and the server answers it at once.\<close>

definition sample_upstream :: upstream_world where
  "sample_upstream = \<lparr>uw_parse = (\<lambda>url. (''https'', ''gateway.qoder.com.cn'')),
     uw_Do = (\<lambda>t ir. Ok \<lparr>re_status = 200, re_retryAfter = [], re_body = []\<rparr>), uw_sleep = (\<lambda>k. True), uw_frac = (\<lambda>f s n. 0)\<rparr>"

definition ready_world :: auth_world where
  "ready_world = calm_world\<lparr>aw_Prepare := \<lambda>t c i. Ok \<lparr>pr_URL = ''u'', pr_Header = [], pr_Body = ii_Body i\<rparr>\<rparr>"

definition ready_gateway :: gateway where
  "ready_gateway = \<lparr>gw_auth = sample_loaded False, gw_sent = []\<rparr>"


end
