(* ===== verification/App_Config.thy ===== *)
theory App_Config
  imports Local_Guard Go_Path
begin

text \<open>
  The command line of \<open>app.go\<close>: what \<open>parseAppConfig\<close> uses of the \<open>flag\<close> package, the environment
  variables behind each flag, and what \<open>main\<close> (\<open>main.go\<close>) decides before it runs anything.
\<close>

section \<open>The flag package\<close>

datatype 'c flag = StringFlag "string \<Rightarrow> 'c \<Rightarrow> 'c" | BoolFlag "bool \<Rightarrow> 'c \<Rightarrow> 'c"

datatype flag_error =
    ErrHelp
  | BadSyntax string
  | Undefined string
  | NeedsArgument string
  | InvalidBoolean string string

text \<open>\<open>strconv.ParseBool\<close>.\<close>

definition ParseBool :: "string \<Rightarrow> bool option" where
  "ParseBool s =
     (if s \<in> {''1'', ''t'', ''T'', ''TRUE'', ''true'', ''True''} then Some True
      else if s \<in> {''0'', ''f'', ''F'', ''FALSE'', ''false'', ''False''} then Some False else None)"

text \<open>The name of a flag argument (one or two dashes), and its value when there is an equals sign.\<close>

definition flag_body :: "string \<Rightarrow> string" where
  "flag_body s = (if s ! 1 = CHR ''-'' then drop 2 s else drop 1 s)"

definition flag_name :: "string \<Rightarrow> string" where
  "flag_name body = hd body # takeWhile (\<lambda>c. c \<noteq> CHR ''='') (tl body)"

definition flag_value :: "string \<Rightarrow> string option" where
  "flag_value body = (case dropWhile (\<lambda>c. c \<noteq> CHR ''='') (tl body) of [] \<Rightarrow> None | c # v \<Rightarrow> Some v)"

text \<open>\<open>FlagSet.Parse\<close>: flags until the first argument that is none, or \<open>--\<close>.\<close>

fun parse_flags :: "(string \<times> 'c flag) list \<Rightarrow> string list \<Rightarrow> 'c \<Rightarrow> (flag_error, 'c) result" where
  "parse_flags flags [] c = Ok c"
| "parse_flags flags (s # args) c =
     (if length s < 2 \<or> hd s \<noteq> CHR ''-'' \<or> s = ''--'' then Ok c
      else (let body = flag_body s; name = flag_name body
        in if body = [] \<or> hd body = CHR ''-'' \<or> hd body = CHR ''='' then Err (BadSyntax s)
           else (case map_of flags name of
               None \<Rightarrow> Err (if name = ''help'' \<or> name = ''h'' then ErrHelp else Undefined name)
             | Some (BoolFlag f) \<Rightarrow>
                 (case flag_value body of
                    None \<Rightarrow> parse_flags flags args (f True c)
                  | Some v \<Rightarrow> (case ParseBool v of
                                None \<Rightarrow> Err (InvalidBoolean v name)
                              | Some b \<Rightarrow> parse_flags flags args (f b c)))
             | Some (StringFlag f) \<Rightarrow>
                 (case flag_value body of
                    Some v \<Rightarrow> parse_flags flags args (f v c)
                  | None \<Rightarrow> (case args of [] \<Rightarrow> Err (NeedsArgument name)
                             | v # rest \<Rightarrow> parse_flags flags rest (f v c))))))"

section \<open>The configuration\<close>

record trackedString =
  ts_value :: string
  ts_set :: bool

definition trackedString_Set :: "string \<Rightarrow> trackedString \<Rightarrow> trackedString" where
  "trackedString_Set v t = t\<lparr>ts_value := v, ts_set := True\<rparr>"

text \<open>The environment; \<open>None\<close> is a nil \<open>lookupEnv\<close>.\<close>

type_synonym env = "(string \<Rightarrow> string option) option"

definition lookupEnvOr :: "env \<Rightarrow> string \<Rightarrow> string \<Rightarrow> string" where
  "lookupEnvOr lookupEnv key fallback =
     (case lookupEnv of None \<Rightarrow> fallback
      | Some f \<Rightarrow> (case f key of None \<Rightarrow> fallback | Some v \<Rightarrow> if v = [] then fallback else v))"

text \<open>\<open>homeDir\<close>: the answer of \<open>os.UserHomeDir\<close>, or a tilde.\<close>

definition homeDir :: "string option \<Rightarrow> string" where
  "homeDir home = (case home of None \<Rightarrow> ''~'' | Some h \<Rightarrow> h)"

text \<open>What the flags start from.\<close>

definition env_config :: "env \<Rightarrow> string option \<Rightarrow> appConfig" where
  "env_config e home =
     \<lparr>cfg_addr = lookupEnvOr e ''QODER2API_ADDR'' '':8377'',
      cfg_sk = [],
      cfg_authDir = lookupEnvOr e ''QODER2API_AUTH_DIR'' (path_join [homeDir home, ''.qoder'', ''.auth'']),
      cfg_inferEndpoint = lookupEnvOr e ''QODER2API_INFER_ENDPOINT'' [],
      cfg_openapiEndpoint = lookupEnvOr e ''QODER2API_OPENAPI_ENDPOINT'' [],
      cfg_webEndpoint = lookupEnvOr e ''QODER2API_WEB_ENDPOINT'' [],
      cfg_modelMapJSON = lookupEnvOr e ''QODER2API_MODEL_MAP'' [],
      cfg_defaultModel = lookupEnvOr e ''QODER2API_DEFAULT_MODEL'' ''auto'',
      cfg_oneMModel = lookupEnvOr e ''QODER2API_MODEL_1M'' ''ultimate'',
      cfg_catalogPath = lookupEnvOr e ''QODER2API_CATALOG'' [],
      cfg_dumpDir = lookupEnvOr e ''QODER2API_DUMP_DIR'' [],
      cfg_login = False, cfg_loginPAT = [], cfg_readOnlyAuth = False,
      cfg_contextPrefsJSON = lookupEnvOr e ''QODER2API_CONTEXT_PREFERENCES'' [],
      cfg_verbose = (lookupEnvOr e ''QODER2API_LOG'' [] = ''debug'')\<rparr>"

definition cfg_string :: "((string \<Rightarrow> string) \<Rightarrow> appConfig \<Rightarrow> appConfig) \<Rightarrow> (appConfig \<times> trackedString) flag" where
  "cfg_string upd = StringFlag (\<lambda>v (c, t). (upd (\<lambda>_. v) c, t))"

definition cfg_bool :: "((bool \<Rightarrow> bool) \<Rightarrow> appConfig \<Rightarrow> appConfig) \<Rightarrow> (appConfig \<times> trackedString) flag" where
  "cfg_bool upd = BoolFlag (\<lambda>b (c, t). (upd (\<lambda>_. b) c, t))"

definition app_flags :: "(string \<times> (appConfig \<times> trackedString) flag) list" where
  "app_flags =
     [(''addr'', cfg_string cfg_addr_update), (''sk'', StringFlag (\<lambda>v (c, t). (c, trackedString_Set v t))),
      (''auth-dir'', cfg_string cfg_authDir_update), (''endpoint'', cfg_string cfg_inferEndpoint_update),
      (''openapi-endpoint'', cfg_string cfg_openapiEndpoint_update),
      (''web-endpoint'', cfg_string cfg_webEndpoint_update), (''model-map'', cfg_string cfg_modelMapJSON_update),
      (''default-model'', cfg_string cfg_defaultModel_update), (''model-1m'', cfg_string cfg_oneMModel_update),
      (''catalog'', cfg_string cfg_catalogPath_update), (''dump-dir'', cfg_string cfg_dumpDir_update),
      (''login'', cfg_bool cfg_login_update), (''login-pat'', cfg_string cfg_loginPAT_update),
      (''read-only-auth'', cfg_bool cfg_readOnlyAuth_update),
      (''context-preferences'', cfg_string cfg_contextPrefsJSON_update), (''v'', cfg_bool cfg_verbose_update)]"

definition parseAppConfig :: "string list \<Rightarrow> env \<Rightarrow> string option \<Rightarrow> (flag_error, appConfig) result" where
  "parseAppConfig args lookupEnv home =
     (case parse_flags app_flags args (env_config lookupEnv home, \<lparr>ts_value = [], ts_set = False\<rparr>) of
        Err e \<Rightarrow> Err e
      | Ok (cfg, sk) \<Rightarrow>
          Ok (cfg\<lparr>cfg_sk := if ts_set sk then ts_value sk else lookupEnvOr lookupEnv ''QODER2API_SK'' []\<rparr>))"

section \<open>Starting\<close>

text \<open>
  What \<open>main\<close> does: it returns for a request for help, exits with 2, dies with a message, or runs
  a configuration. It sets the lock-down variable first, so the check is the locked one.
\<close>

datatype main_action = MainReturn | MainExit int | MainFatal config_error | MainRun appConfig

definition main_start :: "string list \<Rightarrow> env \<Rightarrow> string option \<Rightarrow> main_action" where
  "main_start args lookupEnv home =
     (case parseAppConfig args lookupEnv home of
        Err e \<Rightarrow> if e = ErrHelp then MainReturn else MainExit 2
      | Ok cfg \<Rightarrow> (case validateLocalNativeConfig True cfg of
                    Some e \<Rightarrow> MainFatal e | None \<Rightarrow> MainRun cfg))"

section \<open>Every configuration can be written as arguments\<close>

definition assign :: "string \<Rightarrow> string \<Rightarrow> string" where
  "assign name v = ''-'' @ name @ ''='' @ v"

definition bool_text :: "bool \<Rightarrow> string" where
  "bool_text b = (if b then ''true'' else ''false'')"

definition config_args :: "appConfig \<Rightarrow> string list" where
  "config_args c =
     [assign ''addr'' (cfg_addr c), assign ''sk'' (cfg_sk c), assign ''auth-dir'' (cfg_authDir c),
      assign ''endpoint'' (cfg_inferEndpoint c), assign ''openapi-endpoint'' (cfg_openapiEndpoint c),
      assign ''web-endpoint'' (cfg_webEndpoint c), assign ''model-map'' (cfg_modelMapJSON c),
      assign ''default-model'' (cfg_defaultModel c), assign ''model-1m'' (cfg_oneMModel c),
      assign ''catalog'' (cfg_catalogPath c), assign ''dump-dir'' (cfg_dumpDir c),
      assign ''login'' (bool_text (cfg_login c)), assign ''login-pat'' (cfg_loginPAT c),
      assign ''read-only-auth'' (bool_text (cfg_readOnlyAuth c)),
      assign ''context-preferences'' (cfg_contextPrefsJSON c), assign ''v'' (bool_text (cfg_verbose c))]"

text \<open>A proper name: no equals sign in it and no dash at its head.\<close>

definition flag_word :: "string \<Rightarrow> bool" where
  "flag_word n \<longleftrightarrow> n \<noteq> [] \<and> hd n \<noteq> CHR ''-'' \<and> CHR ''='' \<notin> set n"

lemma assign_parts:
  assumes "flag_word n"
  shows "flag_body (assign n v) = n @ ''='' @ v" "flag_name (n @ ''='' @ v) = n" "flag_value (n @ ''='' @ v) = Some v"
proof -
  obtain c m where n: "n = c # m" "c \<noteq> CHR ''-''" "CHR ''='' \<notin> set m"
    using assms by (cases n) (auto simp: flag_word_def)
  then show "flag_body (assign n v) = n @ ''='' @ v" by (simp add: flag_body_def assign_def)
  have "takeWhile (\<lambda>c. c \<noteq> CHR ''='') (m @ CHR ''='' # v) = m" "dropWhile (\<lambda>c. c \<noteq> CHR ''='') (m @ CHR ''='' # v) = CHR ''='' # v"
    using n(3) by (induction m) auto
  then show "flag_name (n @ ''='' @ v) = n" "flag_value (n @ ''='' @ v) = Some v"
    by (simp_all add: flag_name_def flag_value_def n(1))
qed

lemma parse_assign:
  assumes "flag_word n"
  shows "map_of flags n = Some (StringFlag f) \<Longrightarrow> parse_flags flags (assign n v # args) c = parse_flags flags args (f v c)"
    and "map_of flags n = Some (BoolFlag g) \<Longrightarrow>
      parse_flags flags (assign n (bool_text b) # args) c = parse_flags flags args (g b c)"
proof -
  obtain x m where n: "n = x # m" "x \<noteq> CHR ''-''" "x \<noteq> CHR ''=''"
    using assms by (cases n) (auto simp: flag_word_def)
  have s: "\<not> (length (assign n u) < 2 \<or> hd (assign n u) \<noteq> CHR ''-'' \<or> assign n u = ''--'')"
    "\<not> (n @ ''='' @ u = [] \<or> hd (n @ ''='' @ u) = CHR ''-'' \<or> hd (n @ ''='' @ u) = CHR ''='')" for u
    by (simp_all add: assign_def n)
  show "map_of flags n = Some (StringFlag f) \<Longrightarrow> parse_flags flags (assign n v # args) c = parse_flags flags args (f v c)"
    unfolding parse_flags.simps(2) if_not_P [OF s(1)] Let_def assign_parts [OF assms] if_not_P [OF s(2)] by simp
  have "ParseBool (bool_text b) = Some b" by (simp add: ParseBool_def bool_text_def)
  then show "map_of flags n = Some (BoolFlag g) \<Longrightarrow>
      parse_flags flags (assign n (bool_text b) # args) c = parse_flags flags args (g b c)"
    unfolding parse_flags.simps(2) if_not_P [OF s(1)] Let_def assign_parts [OF assms] if_not_P [OF s(2)] by simp
qed

section \<open>Properties\<close>

text \<open>
  C20: the command line has the last word and can say everything: the sixteen assignments of a
  configuration, whatever values the strings hold (equals signs, dashes, nothing at all), are parsed
  back to exactly that configuration, in every environment; an empty \<open>-sk\<close> given by flag is not
  replaced by the variable.
\<close>

theorem arguments_determine_config: "parseAppConfig (config_args cfg) lookupEnv home = Ok cfg"
proof -
  have words: "flag_word ''addr''" "flag_word ''sk''" "flag_word ''auth-dir''" "flag_word ''endpoint''"
    "flag_word ''openapi-endpoint''" "flag_word ''web-endpoint''" "flag_word ''model-map''"
    "flag_word ''default-model''" "flag_word ''model-1m''" "flag_word ''catalog''" "flag_word ''dump-dir''"
    "flag_word ''login''" "flag_word ''login-pat''" "flag_word ''read-only-auth''"
    "flag_word ''context-preferences''" "flag_word ''v''"
    by (simp_all add: flag_word_def)
  show ?thesis
    unfolding parseAppConfig_def config_args_def
    by (simp add: parse_assign words app_flags_def cfg_string_def cfg_bool_def trackedString_Set_def
        del: parse_flags.simps(2))
qed

text \<open>
  C19: the binary runs nothing but the local, read-only profile: whatever arguments and environment
  it is started with, a configuration it runs listens on the IPv4 loopback address, asks for a key
  of at least 32 bytes, never writes credentials, keeps no dumps and talks to the three verified
  endpoints.
\<close>

theorem main_runs_local_profile:
  assumes "main_start args lookupEnv home = MainRun cfg"
  shows "(\<exists>port. SplitHostPort (cfg_addr cfg) = Some (''127.0.0.1'', port)) \<and> 32 \<le> length (cfg_sk cfg) \<and>
    cfg_readOnlyAuth cfg \<and> cfg_dumpDir cfg = [] \<and> \<not> cfg_verbose cfg \<and>
    cfg_inferEndpoint cfg = ''https://gateway.qoder.com.cn'' \<and>
    cfg_openapiEndpoint cfg = ''https://openapi.qoder.com.cn'' \<and> cfg_webEndpoint cfg = ''https://qoder.cn''"
proof -
  have "validateLocalNativeConfig True cfg = None"
    using assms by (auto simp: main_start_def split: sum.splits option.splits if_splits)
  then show ?thesis by (simp add: config_check_iff)
qed

definition local_config :: appConfig where
  "local_config = (env_config None None)\<lparr>cfg_addr := ''127.0.0.1:8377'', cfg_sk := replicate 32 (CHR ''k''),
     cfg_readOnlyAuth := True, cfg_inferEndpoint := ''https://gateway.qoder.com.cn'',
     cfg_openapiEndpoint := ''https://openapi.qoder.com.cn'', cfg_webEndpoint := ''https://qoder.cn''\<rparr>"

lemma local_args:
  "parse_flags app_flags [''-addr'', ''127.0.0.1:8377'', ''--sk='' @ replicate 32 (CHR ''k''), ''-read-only-auth'',
      ''-endpoint=https://gateway.qoder.com.cn'', ''-openapi-endpoint=https://openapi.qoder.com.cn'',
      ''-web-endpoint=https://qoder.cn'', ''rest''] (c, t) =
    Ok (c\<lparr>cfg_addr := ''127.0.0.1:8377'', cfg_readOnlyAuth := True, cfg_inferEndpoint := ''https://gateway.qoder.com.cn'',
      cfg_openapiEndpoint := ''https://openapi.qoder.com.cn'', cfg_webEndpoint := ''https://qoder.cn''\<rparr>,
      \<lparr>ts_value = replicate 32 (CHR ''k''), ts_set = True\<rparr>)"
  by (simp add: flag_body_def flag_name_def flag_value_def Let_def app_flags_def cfg_string_def cfg_bool_def
      trackedString_Set_def numeral_eq_Suc)

lemma main_runs_local_profile_witness: "32 \<le> length (cfg_sk local_config) \<and> cfg_readOnlyAuth local_config"
proof -
  let ?args = "[''-addr'', ''127.0.0.1:8377'', ''--sk='' @ replicate 32 (CHR ''k''), ''-read-only-auth'',
      ''-endpoint=https://gateway.qoder.com.cn'', ''-openapi-endpoint=https://openapi.qoder.com.cn'',
      ''-web-endpoint=https://qoder.cn'', ''rest'']"
  have "parseAppConfig ?args None None = Ok local_config"
    unfolding parseAppConfig_def local_args by (simp add: local_config_def)
  moreover have "validateLocalNativeConfig True local_config = None"
    by (simp add: validateLocalNativeConfig_def local_config_def env_config_def SplitHostPort_def last_colon_def lookupEnvOr_def)
  ultimately have "main_start ?args None None = MainRun local_config" by (simp add: main_start_def)
  from main_runs_local_profile [OF this] show ?thesis by blast
qed

end
