(* ===== verification/Protocol_Services.thy ===== *)
theory Protocol_Services
  imports Protocol_Types
begin

text \<open>
  \<open>protocol_services.go\<close>: the bundle of native services, its validation, and its \<open>Close\<close>, which
  runs once. Also the errors of \<open>app.go\<close> that show one text and keep a cause.
\<close>

section \<open>Errors with a public text\<close>

text \<open>
  \<open>protocolServiceCloseError\<close> and \<open>appCleanupError\<close> show a text and unwrap to their cause; what
  \<open>run\<close> returns joins them with an ordinary error.
\<close>

datatype run_error = Cause go_error | Cleanup string run_error | Combined "run_error list"

fun run_error_text :: "run_error \<Rightarrow> string" where
  "run_error_text (Cause e) = error_text e"
| "run_error_text (Cleanup public cause) = public"
| "run_error_text (Combined es) = Join (map run_error_text es) [LF]"

definition safeCleanupError :: "string \<Rightarrow> run_error option \<Rightarrow> run_error option" where
  "safeCleanupError public err = map_option (Cleanup public) err"

text \<open>\<open>errors.Join(err, late)\<close>.\<close>

definition run_join :: "run_error option \<Rightarrow> run_error option \<Rightarrow> run_error option" where
  "run_join err late = (case opt_list err @ opt_list late of [] \<Rightarrow> None | es \<Rightarrow> Some (Combined es))"

section \<open>The services\<close>

text \<open>
  Which capabilities are there, how \<open>closeFn\<close> answers its \<open>n\<close>-th call (if there is one), and how
  often it has been called; \<open>closeErr\<close> is \<open>None\<close> until \<open>closeOnce\<close> has run.
\<close>

record protocolServices =
  ps_credentials :: bool
  ps_runtimeFields :: bool
  ps_modelCache :: bool
  ps_contextFactory :: bool
  ps_closeFn :: "(nat \<Rightarrow> go_error option) option"
  ps_calls :: nat
  ps_closeErr :: "run_error option option"

definition missing_capability :: "protocolServices option \<Rightarrow> string option" where
  "missing_capability s =
     (case s of None \<Rightarrow> Some ''services''
      | Some p \<Rightarrow>
          if \<not> ps_credentials p then Some ''credentials''
          else if \<not> ps_runtimeFields p then Some ''runtime-fields''
          else if \<not> ps_modelCache p then Some ''model-cache''
          else if \<not> ps_contextFactory p then Some ''context-factory'' else None)"

definition validateProtocolServices :: "protocolServices option \<Rightarrow> go_error option" where
  "validateProtocolServices s =
     map_option (\<lambda>m. Protocol BackendFailure ''protocol services are incomplete''
       (Some (Plain (''required protocol capability '' @ m @ '' is unavailable'')))) (missing_capability s)"

definition newNativeProtocolServices :: "protocolHostDeps \<Rightarrow> (go_error, protocolServices) result" where
  "newNativeProtocolServices host =
     (if hd_Clock host = None \<or> hd_Entropy host = None
      then Err (Protocol InvalidInput ''native protocol host dependencies are invalid''
             (Some (Plain ''native protocol services require clock and entropy dependencies'')))
      else Ok \<lparr>ps_credentials = True, ps_runtimeFields = True, ps_modelCache = True, ps_contextFactory = True,
             ps_closeFn = None, ps_calls = 0, ps_closeErr = None\<rparr>)"

definition newProtocolServices :: "protocolHostDeps \<Rightarrow> (go_error, protocolServices) result" where
  "newProtocolServices host =
     (case newNativeProtocolServices host of
        Err e \<Rightarrow> Err e
      | Ok s \<Rightarrow> (case validateProtocolServices (Some s) of Some e \<Rightarrow> Err e | None \<Rightarrow> Ok s))"

definition services_Close :: "protocolServices option \<Rightarrow> run_error option \<times> protocolServices option" where
  "services_Close s =
     (case s of None \<Rightarrow> (None, None)
      | Some p \<Rightarrow>
          (case ps_closeErr p of
             Some e \<Rightarrow> (e, Some p)
           | None \<Rightarrow>
               (case ps_closeFn p of
                  None \<Rightarrow> (None, Some (p\<lparr>ps_closeErr := Some None\<rparr>))
                | Some f \<Rightarrow>
                    (let e = map_option (\<lambda>c. Cleanup ''close protocol service failed'' (Cause c)) (f (ps_calls p))
                     in (e, Some (p\<lparr>ps_calls := Suc (ps_calls p), ps_closeErr := Some e\<rparr>))))))"

fun close_times :: "nat \<Rightarrow> protocolServices option \<Rightarrow> run_error option list \<times> protocolServices option" where
  "close_times 0 s = ([], s)"
| "close_times (Suc n) s = (case services_Close s of (e, s) \<Rightarrow> (case close_times n s of (es, s) \<Rightarrow> (e # es, s)))"

lemma run_join_None [simp]: "run_join a b = None \<longleftrightarrow> a = None \<and> b = None"
  by (cases a; cases b) (simp_all add: run_join_def)

lemma safeCleanup_None [simp]: "safeCleanupError public e = None \<longleftrightarrow> e = None"
  by (simp add: safeCleanupError_def)

lemma closed_again: "ps_closeErr p = Some e \<Longrightarrow> close_times n (Some p) = (replicate n e, Some p)"
  by (induction n) (simp_all add: services_Close_def)

text \<open>
  Closing the services any number of times calls the close function once, if there is one, and
  every call returns the answer of the first; the text shown never contains the cause.
\<close>

theorem services_close_once:
  assumes "ps_closeErr p = None" "0 < n"
  shows "\<exists>e p'. close_times n (Some p) = (replicate n e, Some p') \<and>
    ps_calls p' = ps_calls p + (if ps_closeFn p = None then 0 else 1) \<and>
    (e = None \<or> map_option run_error_text e = Some ''close protocol service failed'')"
proof -
  obtain m where n: "n = Suc m" using assms(2) by (cases n) auto
  obtain e p' where c: "services_Close (Some p) = (e, Some p')" "ps_closeErr p' = Some e"
    "ps_calls p' = ps_calls p + (if ps_closeFn p = None then 0 else 1)"
    "e = None \<or> map_option run_error_text e = Some ''close protocol service failed''"
  proof (cases "ps_closeFn p")
    case None
    then show ?thesis using assms(1) that by (simp add: services_Close_def)
  next
    case (Some f)
    then show ?thesis using assms(1) that by (cases "f (ps_calls p)") (simp_all add: services_Close_def Let_def)
  qed
  have "close_times n (Some p) = (replicate n e, Some p')" using c(1) closed_again [OF c(2)] n by simp
  with c show ?thesis by blast
qed

lemma services_close_once_witness:
  "\<exists>e p'. close_times 2 (Some \<lparr>ps_credentials = True, ps_runtimeFields = True, ps_modelCache = True,
      ps_contextFactory = True, ps_closeFn = Some (\<lambda>n. Some Canceled), ps_calls = 0, ps_closeErr = None\<rparr>) =
    (replicate 2 e, Some p') \<and> ps_calls p' = 1"
  using services_close_once [of "\<lparr>ps_credentials = True, ps_runtimeFields = True, ps_modelCache = True,
      ps_contextFactory = True, ps_closeFn = Some (\<lambda>n. Some Canceled), ps_calls = 0, ps_closeErr = None\<rparr>" 2]
  by auto

end
