(* ===== verification/App_Run.thy ===== *)
theory App_Run
  imports App_Config Protocol_Services Auth_Props Model_Resolver Model_Cache
begin

text \<open>
  \<open>run\<close> of \<open>app.go\<close>: making the services and the manager, logging in or loading, then serving with
  a ticker goroutine, a shutdown goroutine and handlers beside the main one, and the deferred
  clean-up. The sequential part is a function; from the moment the ticker starts the goroutines
  interleave, and the life of the process is a step relation.
\<close>

section \<open>Before anything runs concurrently\<close>

text \<open>What the sequential part comes to: the process ends, or it has credentials and goes on.\<close>

datatype begun = Ends "run_error option" | Runs

text \<open>
  The deferred clean-up when no goroutine was started: \<open>manager\<close> says whether there is a manager to
  close, \<open>services\<close> are those made.
\<close>

definition deferred_close ::
  "auth_world \<Rightarrow> bool \<Rightarrow> protocolServices option \<Rightarrow> run_error option \<Rightarrow> auth \<Rightarrow> run_error option \<times> auth" where
  "deferred_close w manager services err s =
     (case (if manager then (case manager_Close w s of (e, s) \<Rightarrow>
              (run_join err (safeCleanupError ''close auth context failed'' (map_option Cause e)), s))
            else (err, s)) of (err, s) \<Rightarrow>
       (case services of None \<Rightarrow> (err, s)
        | Some p \<Rightarrow> (run_join err (safeCleanupError ''close protocol services failed'' (fst (services_Close (Some p)))), s)))"

definition no_credentials :: "string \<Rightarrow> go_error \<Rightarrow> go_error" where
  "no_credentials dir e = Plain (''no usable credentials in '' @ dir @ '' ('' @ error_text e @
     ''). Run with -login to authenticate first.'')"

text \<open>\<open>-login\<close>, \<open>-login-pat\<close>, or the stored credentials. \<open>None\<close>: the polling of a login never ends.\<close>

definition run_manager :: "auth_world \<Rightarrow> appConfig \<Rightarrow> auth \<Rightarrow> (begun \<times> auth) option" where
  "run_manager w cfg s =
     (if cfg_login cfg
      then map_option (\<lambda>(e, s). (Ends (map_option (\<lambda>x. Cause (Wrap ''login'' x)) e), s)) (deviceLogin w s)
      else if cfg_loginPAT cfg \<noteq> []
      then (case patLogin w (cfg_loginPAT cfg) s of (e, s) \<Rightarrow>
              Some (Ends (map_option (\<lambda>x. Cause (Wrap ''pat login'' x)) e), s))
      else (case load w s of
              (Some e, s) \<Rightarrow> Some (Ends (Some (Cause (no_credentials (cfg_authDir cfg) e))), s)
            | (None, s) \<Rightarrow> Some (Runs, snd (ensureFresh w s))))"

definition read_only_check :: "auth_world \<Rightarrow> appConfig \<Rightarrow> auth \<Rightarrow> go_error option \<times> auth" where
  "read_only_check w cfg s =
     (if \<not> cfg_readOnlyAuth cfg then (None, s)
      else if cfg_login cfg \<or> cfg_loginPAT cfg \<noteq> [] then (Some readOnlyAuthError, s)
      else (case readExistingAuthFiles w (cfg_authDir cfg) s of
              (Err e, s) \<Rightarrow> (Some e, s) | (Ok m, s) \<Rightarrow> (None, s)))"

definition run_begin :: "auth_world \<Rightarrow> protocolHostDeps \<Rightarrow> appConfig \<Rightarrow> auth \<Rightarrow> (begun \<times> auth) option" where
  "run_begin w host cfg s =
     (case read_only_check w cfg s of
        (Some e, s) \<Rightarrow> Some (Ends (Some (Cause e)), s)
      | (None, s) \<Rightarrow>
          (case newProtocolServices host of
             Err e \<Rightarrow> Some (Ends (Some (Cause (Wrap ''init protocol services'' e))), s)
           | Ok services \<Rightarrow>
               (case newAuthManagerWithMode w (cfg_authDir cfg) (cfg_openapiEndpoint cfg) (cfg_inferEndpoint cfg)
                       (cfg_webEndpoint cfg) (cfg_readOnlyAuth cfg) s of
                  (Err e, s) \<Rightarrow>
                    (case deferred_close w False (Some services) (Some (Cause (Wrap ''init auth'' e))) s of
                       (r, s) \<Rightarrow> Some (Ends r, s))
                | (Ok _, s) \<Rightarrow>
                    (case run_manager w cfg (s\<lparr>au_readOnly := cfg_readOnlyAuth cfg\<rparr>) of
                       None \<Rightarrow> None
                     | Some (Runs, s) \<Rightarrow> Some (Runs, s)
                     | Some (Ends e, s) \<Rightarrow>
                         (case deferred_close w True (Some services) e s of (r, s) \<Rightarrow> Some (Ends r, s))))))"

section \<open>The configuration of the server\<close>

text \<open>
  The text of the catalogue: the file of \<open>-catalog\<close>, of which a failed read may give a part, or the
  command line tool's model cache of this user, decrypted; nothing when that fails, which is only
  logged.
\<close>

definition read_catalog :: "auth_world \<Rightarrow> string \<Rightarrow> string \<Rightarrow> string \<Rightarrow> auth \<Rightarrow> string \<times> auth" where
  "read_catalog w authFile uid catalogPath s =
     (if catalogPath \<noteq> []
      then (case fault w s of
              (e, s) \<Rightarrow> ((case au_files s catalogPath of None \<Rightarrow> []
                          | Some c \<Rightarrow> if e = None then c else take (aw_Written w (au_tick s)) c), s))
      else (case ReadFile w (path_join [path_dir authFile, ''..'', ''.models'', uid, ''catalog-v6'']) s of
              (Err e, s) \<Rightarrow> ([], s)
            | (Ok blob, s) \<Rightarrow>
                (case fault w s of (ctx, s) \<Rightarrow>
                  (case model_cache_decrypt ctx (TrimSpace blob) uid of Err e \<Rightarrow> ([], s) | Ok raw \<Rightarrow> (raw, s)))))"

text \<open>\<open>json.Unmarshal\<close> into a made map; \<open>null\<close> sets it to nil.\<close>

definition model_mapping :: "auth_world \<Rightarrow> string \<Rightarrow> (go_error, (string \<times> string) list option) result" where
  "model_mapping w raw =
     (if raw = [] then Ok (Some [])
      else (case json_parse raw of
              None \<Rightarrow> Err (Wrap ''invalid -model-map JSON'' (aw_JsonErr w raw))
            | Some d \<Rightarrow>
                if d = DNull then Ok None
                else (case dec_map [] dec_string [] d of
                        None \<Rightarrow> Err (Wrap ''invalid -model-map JSON'' (aw_JsonErr w raw))
                      | Some m \<Rightarrow> Ok (Some m))))"

definition preference_go_error :: "auth_world \<Rightarrow> string \<Rightarrow> preference_error \<Rightarrow> go_error" where
  "preference_go_error w raw e =
     (case e of InvalidPreferencesJSON \<Rightarrow> Wrap ''invalid context preferences JSON'' (aw_JsonErr w raw)
      | InvalidPreference \<Rightarrow> Plain ''invalid context preference'')"

definition configure :: "bool \<Rightarrow> auth_world \<Rightarrow> appConfig \<Rightarrow> auth \<Rightarrow> (go_error, modelResolver) result \<times> auth" where
  "configure locked w cfg s =
     (case model_mapping w (cfg_modelMapJSON cfg) of
        Err e \<Rightarrow> (Err e, s)
      | Ok mapping \<Rightarrow>
          (case read_catalog w (au_authFile s) (case au_ui s of None \<Rightarrow> [] | Some (i, u) \<Rightarrow> ui_UID u)
                  (cfg_catalogPath cfg) s of (raw, s) \<Rightarrow>
            (case parseContextPreferences (cfg_contextPrefsJSON cfg) of
               Err e \<Rightarrow> (Err (preference_go_error w (cfg_contextPrefsJSON cfg) e), s)
             | Ok prefs \<Rightarrow>
                 (Ok (newModelResolver (map (applyPreference prefs) (loadCatalog locked raw)) mapping
                        (cfg_defaultModel cfg) (cfg_oneMModel cfg)), s))))"

end
