(* ===== verification/App_Life.thy ===== *)
theory App_Life
  imports App_Run
begin

text \<open>
  The life of the process once it has credentials (\<open>run\<close>, \<open>app.go\<close>): the main goroutine, the
  refresh ticker, the shutdown goroutine and the handlers interleave. A step is what one of them
  does between two points where it may wait: every access to shared state in the code is under a
  mutex, an atomic of the wait group, or a channel operation.
\<close>

section \<open>State and steps\<close>

datatype main_phase =
    Configuring
  | Listening modelResolver            \<comment> \<open>in \<open>ListenAndServe\<close>\<close>
  | Leaving "run_error option"         \<comment> \<open>about to run the deferred function, which calls \<open>cancel\<close>\<close>
  | Waiting "run_error option"         \<comment> \<open>in \<open>wg.Wait\<close>\<close>
  | Closing "run_error option"
  | Returned "run_error option"

datatype shut_phase = NoShutdown | AwaitDone | ShuttingDown | ForceClosing | Draining | ShutDone

record lifecycle =
  lc_auth :: auth
  lc_done :: bool                      \<comment> \<open>the context is cancelled\<close>
  lc_gate :: gateState
  lc_main :: main_phase
  lc_ticker :: bool                    \<comment> \<open>the ticker goroutine runs\<close>
  lc_shut :: shut_phase
  lc_cleanup :: "run_error list"

datatype life_event =
    Cancel                             \<comment> \<open>a signal, or the shutdown endpoint\<close>
  | Tick | TickerStop
  | Configured
  | Arrival
  | Prepare inferRequestInput | Force | Finish
  | ShutdownBegins | ShutdownReturns "go_error option" | ForceReturns "go_error option" | Drained
  | ListenReturns "go_error option"
  | DeferCancel | GoroutinesDone | ManagerClosed

definition ErrServerClosed :: go_error where
  "ErrServerClosed = Plain ''http: Server closed''"

definition listen_error :: "go_error option \<Rightarrow> run_error option" where
  "listen_error e =
     (case e of None \<Rightarrow> None
      | Some x \<Rightarrow> if errors_Is x ErrServerClosed then None else Some (Cause (Wrap ''server'' x)))"

definition after_configure :: "(go_error, modelResolver) result \<Rightarrow> main_phase \<times> shut_phase" where
  "after_configure r =
     (case r of Err e \<Rightarrow> (Leaving (Some (Cause e)), NoShutdown) | Ok m \<Rightarrow> (Listening m, AwaitDone))"

definition join_cleanups :: "run_error option \<Rightarrow> run_error list \<Rightarrow> run_error option" where
  "join_cleanups err es = fold (\<lambda>e err. run_join err (Some e)) es err"

inductive life_step ::
  "bool \<Rightarrow> auth_world \<Rightarrow> appConfig \<Rightarrow> protocolServices \<Rightarrow> lifecycle \<Rightarrow> life_event \<Rightarrow> lifecycle \<Rightarrow> bool"
  for locked w cfg services where
  cancel: "life_step locked w cfg services s Cancel (s\<lparr>lc_done := True\<rparr>)"
| tick: "lc_ticker s \<Longrightarrow>
    life_step locked w cfg services s Tick (s\<lparr>lc_auth := snd (ensureFresh w (lc_auth s))\<rparr>)"
| ticker_stop: "lc_ticker s \<Longrightarrow> lc_done s \<Longrightarrow> life_step locked w cfg services s TickerStop (s\<lparr>lc_ticker := False\<rparr>)"
| configured: "lc_main s = Configuring \<Longrightarrow> configure locked w cfg (lc_auth s) = (r, a) \<Longrightarrow>
    life_step locked w cfg services s Configured
      (s\<lparr>lc_auth := a, lc_main := fst (after_configure r), lc_shut := snd (after_configure r)\<rparr>)"
| arrival: "lc_shut s \<noteq> NoShutdown \<Longrightarrow>
    life_step locked w cfg services s Arrival (s\<lparr>lc_gate := fst (gate_step Enter (lc_gate s))\<rparr>)"
| prepare: "0 < ga_active (lc_gate s) \<Longrightarrow>
    life_step locked w cfg services s (Prepare input) (s\<lparr>lc_auth := snd (manager_Prepare w input (lc_auth s))\<rparr>)"
| force: "0 < ga_active (lc_gate s) \<Longrightarrow>
    life_step locked w cfg services s Force (s\<lparr>lc_auth := snd (forceRefresh w (lc_auth s))\<rparr>)"
| finish: "0 < ga_active (lc_gate s) \<Longrightarrow>
    life_step locked w cfg services s Finish (s\<lparr>lc_gate := fst (gate_step Leave (lc_gate s))\<rparr>)"
| shutdown_begins: "lc_shut s = AwaitDone \<Longrightarrow> lc_done s \<Longrightarrow>
    life_step locked w cfg services s ShutdownBegins
      (s\<lparr>lc_gate := fst (gate_step CloseAdmission (lc_gate s)), lc_shut := ShuttingDown\<rparr>)"
| shutdown_returns: "lc_shut s = ShuttingDown \<Longrightarrow>
    life_step locked w cfg services s (ShutdownReturns e)
      (case e of None \<Rightarrow> s\<lparr>lc_shut := Draining\<rparr>
       | Some x \<Rightarrow> s\<lparr>lc_shut := ForceClosing, lc_cleanup := lc_cleanup s @ [Cleanup ''shutdown HTTP server failed'' (Cause x)]\<rparr>)"
| force_returns: "lc_shut s = ForceClosing \<Longrightarrow>
    life_step locked w cfg services s (ForceReturns e)
      (s\<lparr>lc_shut := Draining, lc_cleanup := lc_cleanup s @
           (case e of None \<Rightarrow> [] | Some x \<Rightarrow> [Cleanup ''force close HTTP server failed'' (Cause x)])\<rparr>)"
| drained: "lc_shut s = Draining \<Longrightarrow> gate_quiet (lc_gate s) \<Longrightarrow>
    life_step locked w cfg services s Drained (s\<lparr>lc_shut := ShutDone\<rparr>)"
| listen_returns: "lc_main s = Listening m \<Longrightarrow>
    life_step locked w cfg services s (ListenReturns e) (s\<lparr>lc_main := Leaving (listen_error e)\<rparr>)"
| defer_cancel: "lc_main s = Leaving err \<Longrightarrow>
    life_step locked w cfg services s DeferCancel (s\<lparr>lc_done := True, lc_main := Waiting err\<rparr>)"
| goroutines_done: "lc_main s = Waiting err \<Longrightarrow> \<not> lc_ticker s \<Longrightarrow> lc_shut s = NoShutdown \<or> lc_shut s = ShutDone \<Longrightarrow>
    life_step locked w cfg services s GoroutinesDone (s\<lparr>lc_main := Closing (join_cleanups err (lc_cleanup s))\<rparr>)"
| manager_closed: "lc_main s = Closing err \<Longrightarrow> deferred_close w True (Some services) err (lc_auth s) = (result, a) \<Longrightarrow>
    life_step locked w cfg services s ManagerClosed (s\<lparr>lc_auth := a, lc_main := Returned result\<rparr>)"

inductive_cases life_stepE: "life_step locked w cfg services s ev s'"

definition life_start :: "auth \<Rightarrow> lifecycle" where
  "life_start a = \<lparr>lc_auth = a, lc_done = False, lc_gate = \<lparr>ga_closing = False, ga_active = 0\<rparr>,
     lc_main = Configuring, lc_ticker = True, lc_shut = NoShutdown, lc_cleanup = []\<rparr>"

text \<open>The states a run passes through; its services are those \<open>newProtocolServices\<close> made.\<close>

inductive life_reach ::
  "bool \<Rightarrow> auth_world \<Rightarrow> appConfig \<Rightarrow> protocolServices \<Rightarrow> auth \<Rightarrow> lifecycle \<Rightarrow> bool"
  for locked w cfg services a where
  started: "life_reach locked w cfg services a (life_start a)"
| stepped: "life_reach locked w cfg services a s \<Longrightarrow> life_step locked w cfg services s ev s' \<Longrightarrow>
    life_reach locked w cfg services a s'"

section \<open>Order\<close>

text \<open>What the phases say about each other in every reachable state.\<close>

definition orderly :: "lifecycle \<Rightarrow> bool" where
  "orderly s \<longleftrightarrow>
     (lc_shut s = NoShutdown \<longrightarrow> ga_active (lc_gate s) = 0) \<and>
     (lc_main s = Configuring \<longrightarrow> lc_shut s = NoShutdown) \<and>
     (ga_closing (lc_gate s) \<longleftrightarrow> lc_shut s \<notin> {NoShutdown, AwaitDone}) \<and>
     (lc_shut s = ShutDone \<longrightarrow> ga_active (lc_gate s) = 0) \<and>
     (lc_shut s \<notin> {NoShutdown, AwaitDone} \<longrightarrow> lc_done s) \<and>
     (\<not> lc_ticker s \<longrightarrow> lc_done s) \<and>
     (\<forall>e. lc_main s = Waiting e \<longrightarrow> lc_done s) \<and>
     (\<forall>e. lc_main s = Closing e \<or> lc_main s = Returned e \<longrightarrow>
        lc_done s \<and> \<not> lc_ticker s \<and> lc_shut s \<in> {NoShutdown, ShutDone})"

lemma start_orderly: "orderly (life_start a)"
  by (simp add: orderly_def life_start_def)

lemma step_orderly: "life_step locked w cfg services s ev s' \<Longrightarrow> orderly s \<Longrightarrow> orderly s'"
  by (induction rule: life_step.induct)
    (auto simp: orderly_def gate_step_def gate_quiet_def after_configure_def split: option.splits sum.splits)

lemma reach_orderly: "life_reach locked w cfg services a s \<Longrightarrow> orderly s"
  by (induction rule: life_reach.induct) (auto intro: start_orderly step_orderly)

end
