(* ===== verification/App_Life_Props.thy ===== *)
theory App_Life_Props
  imports App_Life
begin

text \<open>
  What holds over the whole life of the process: nothing uses the manager once it is being closed,
  a process that reports success has closed every context and lost no credentials, and a cancelled
  process can always come to its end.
\<close>

section \<open>Operations that leave the manager open\<close>

definition same_close :: "auth \<Rightarrow> auth \<Rightarrow> bool" where
  "same_close s s' \<longleftrightarrow> au_closed s' = au_closed s \<and> au_closeErr s' = au_closeErr s \<and> au_readOnly s' = au_readOnly s"

lemma same_close_refl [simp, intro]: "same_close s s" by (simp add: same_close_def)

lemma same_close_trans: "same_close s1 s2 \<Longrightarrow> same_close s2 s3 \<Longrightarrow> same_close s1 s3"
  by (simp add: same_close_def)

lemma same_close_update [simp]:
  "same_close s (s'\<lparr>au_tick := t\<rparr>) = same_close s s'" "same_close s (s'\<lparr>au_contexts := cs\<rparr>) = same_close s s'"
  "same_close s (s'\<lparr>au_ctx := c\<rparr>) = same_close s s'" "same_close s (s'\<lparr>au_nextID := n\<rparr>) = same_close s s'"
  "same_close s (s'\<lparr>au_ui := u\<rparr>) = same_close s s'" "same_close s (s'\<lparr>au_sent := q\<rparr>) = same_close s s'"
  "same_close s (s'\<lparr>au_files := f\<rparr>) = same_close s s'"
  "same_close s (clearCredentialDirtyLocked s') = same_close s s'"
  "same_close s (markCredentialDirtyLocked s') = same_close s s'"
  "same_close s (close_old w old s') = same_close s s'"
  by (simp_all add: same_close_def clearCredentialDirtyLocked_def markCredentialDirtyLocked_def close_old_def
      closeContext_def fault_eq split: option.split)

lemma keeps_same_close: "keeps s s' \<Longrightarrow> same_close s s'"
  by (simp add: same_close_def keepsD)

lemma replace_same_close: "replaceContext w n s = (r, s') \<Longrightarrow> same_close s s'"
  by (auto simp: replaceContext_def split: option.splits if_splits)

lemma build_same_close: "buildContextForUserLocked w own ui s = (r, s') \<Longrightarrow> same_close s s'"
  by (auto simp: buildContextForUserLocked_def ensure_fields_def factory_context_def Let_def
      split: option.splits prod.splits sum.splits if_splits)

lemma rebuild_same_close: "same_close s (snd (rebuildContextLocked w s))"
proof -
  obtain r s1 where b: "buildContextForUserLocked w True (map_option snd (au_ui s)) s = (r, s1)" by fastforce
  show ?thesis
  proof (cases r)
    case (Inl e)
    then show ?thesis using b build_same_close [OF b] by (simp add: rebuildContextLocked_def)
  next
    case (Inr x)
    obtain n u where x: "x = (n, u)" by fastforce
    obtain e s2 where "replaceContext w n s1 = (e, s2)" by fastforce
    then show ?thesis using b Inr x same_close_trans [OF build_same_close [OF b] replace_same_close]
      by (simp add: rebuildContextLocked_def)
  qed
qed

lemma load_same_close: "same_close s (snd (load w s))"
proof -
  have "same_close s (snd (rebuildContextLocked w s'))" if "same_close s s'" for s'
    using same_close_trans [OF that rebuild_same_close] .
  then show ?thesis
    by (auto simp: load_def ReadFile_def fault_eq split: option.splits sum.splits)
qed

lemma preserve_same_close: "preserveRefreshRotationAndSaveLocked w token exp s = (r, s') \<Longrightarrow> same_close s s'"
proof (elim preserve_cases)
  fix x assume "persistDirtyCredentialLocked w ((markCredentialDirtyLocked s)\<lparr>au_ui := x\<rparr>) = (r, s')"
  from keeps_same_close [OF persist_keeps [OF this]] show "same_close s s'"
    by (rule same_close_trans [rotated]) simp
qed simp

lemma refresh_commit_same_close: "same_close s (snd (refresh_commit w r u s))"
proof -
  obtain c rexp s1 where c: "refresh_candidate w r u s = (c, rexp, s1)" by (metis prod_cases3)
  obtain d s2 where d: "refresh_fields w c s1 = (d, s2)" by fastforce
  obtain rb s3 where b: "buildContextForUserLocked w False (Some d) s2 = (rb, s3)" by fastforce
  have "same_close s s2" using refresh_candidate_state [OF c] refresh_fields_state [OF d] by auto
  then have s3: "same_close s s3" using same_close_trans build_same_close [OF b] by blast
  show ?thesis
  proof (cases rb)
    case (Inl e)
    then show ?thesis using c d b same_close_trans [OF s3 preserve_same_close]
      by (auto simp: refresh_commit_def split: prod.splits)
  next
    case (Inr x)
    obtain n e where x: "x = (n, e)" by fastforce
    obtain re s4 where rep: "replaceContext w n s3 = (re, s4)" by fastforce
    have s4: "same_close s s4" using same_close_trans [OF s3 replace_same_close [OF rep]] .
    have "same_close s (persistDirtyCredentialBestEffortLocked w True s5)" if "same_close s s5" for s5
      using same_close_trans [OF that keeps_same_close [OF best_effort_keeps]] .
    then show ?thesis using c d b rep Inr x s4 same_close_trans [OF s4 preserve_same_close]
      by (auto simp: refresh_commit_def split: prod.splits option.splits)
  qed
qed

lemma refreshLocked_same_close: "same_close s (snd (refreshLocked w s))"
proof -
  have call: "same_close s s'" if "refresh_call w req s = (r, s')" for req r s'
    using refresh_call_state [OF that] by (auto simp: httpc_Do_def)
  have "same_close s (snd (refresh_commit w r u s'))" if "refresh_call w req s = (rr, s')" for req r u s' rr
    using same_close_trans [OF call [OF that] refresh_commit_same_close] .
  with call show ?thesis
    by (auto simp: refreshLocked_def split: option.splits prod.splits sum.splits)
qed

lemma fresh_after: "same_close s (snd (refreshLocked w (persistDirtyCredentialBestEffortLocked w False s\<lparr>au_tick := t\<rparr>)))"
proof -
  have "same_close s (persistDirtyCredentialBestEffortLocked w False s\<lparr>au_tick := t\<rparr>)"
    using keeps_same_close [OF best_effort_keeps] by simp
  from same_close_trans [OF this refreshLocked_same_close] show ?thesis .
qed

lemma ensureFresh_same_close: "same_close s (snd (ensureFresh w s))"
  using fresh_after [of s w] keeps_same_close [OF best_effort_keeps, of s w False] load_same_close
  by (auto simp: ensureFresh_def now_def Let_def split: option.splits)

lemma forceRefresh_same_close: "same_close s (snd (forceRefresh w s))"
  using same_close_trans [OF keeps_same_close [OF best_effort_keeps] refreshLocked_same_close] load_same_close
  by (auto simp: forceRefresh_def split: option.splits)

lemma Prepare_same_close: "same_close s (snd (manager_Prepare w input s))"
  using ensureFresh_same_close [of s w]
  by (auto simp: manager_Prepare_def prepareWithCurrentContext_def split: option.splits prod.splits)

section \<open>The manager through the life of the process\<close>

lemma reaches_step: "auth_step w s s' \<Longrightarrow> manager_reaches w s s'"
  by (simp add: manager_reaches_def r_into_rtranclp)

lemma reaches_trans: "manager_reaches w s1 s2 \<Longrightarrow> manager_reaches w s2 s3 \<Longrightarrow> manager_reaches w s1 s3"
  by (simp add: manager_reaches_def)

lemma state_reaches: "manager_state w s \<Longrightarrow> manager_reaches w s s' \<Longrightarrow> manager_state w s'"
  unfolding manager_state_def by (meson reaches_trans)

lemma ticks_reach: "manager_reaches w s (s\<lparr>au_tick := au_tick s + n\<rparr>)"
proof (induction n)
  case 0
  then show ?case by (simp add: manager_reaches_def)
next
  case (Suc n)
  then show ?case
    using reaches_trans [OF Suc reaches_step [OF step_ask]] by simp
qed

lemma catalog_reaches:
  assumes "read_catalog w f uid p s = (raw, s')"
  shows "manager_reaches w s s' \<and> same_close s s'"
proof -
  have "\<exists>n. s' = s\<lparr>au_tick := au_tick s + n\<rparr>"
    using assms
    by (auto simp: read_catalog_def fault_eq split: if_splits prod.splits sum.splits dest!: ReadFile_state
        intro: exI [of _ 1] exI [of _ 2])
  then show ?thesis using ticks_reach by auto
qed

lemma configure_reaches:
  assumes "configure locked w cfg s = (r, s')"
  shows "manager_reaches w s s' \<and> same_close s s'"
proof -
  have "manager_reaches w s s" by (simp add: manager_reaches_def)
  then show ?thesis
    using assms catalog_reaches
    by (auto simp: configure_def split: sum.splits prod.splits)
qed

lemma Prepare_reaches: "manager_reaches w s (snd (manager_Prepare w input s))"
proof -
  have "manager_reaches w s s" by (simp add: manager_reaches_def)
  moreover have "manager_reaches w s (snd (ensureFresh w s))" by (rule reaches_step [OF step_fresh])
  moreover from this have "manager_reaches w s (snd (prepareWithCurrentContext w input (snd (ensureFresh w s))))"
    using reaches_trans [OF _ reaches_step [OF step_prepare]] by blast
  ultimately show ?thesis by (auto simp: manager_Prepare_def split: option.splits prod.splits)
qed

lemma deferred_close_manager: "snd (deferred_close w True p err s) = snd (manager_Close w s)"
  by (auto simp: deferred_close_def split: prod.splits option.splits)

text \<open>Until the manager is closed at the end, every step leaves it open and reachable.\<close>

lemma step_manager:
  assumes "life_step locked w cfg services s ev s'"
  shows "manager_reaches w (lc_auth s) (lc_auth s') \<and> (ev \<noteq> ManagerClosed \<longrightarrow> same_close (lc_auth s) (lc_auth s'))"
proof -
  have id: "manager_reaches w x x" for x by (simp add: manager_reaches_def)
  show ?thesis
    using assms
  proof (induction rule: life_step.induct)
    case (configured s r a)
    then show ?case using configure_reaches by simp
  next
    case (shutdown_returns s e)
    then show ?case using id by (simp split: option.split)
  next
    case (manager_closed s err result a)
    then show ?case using deferred_close_manager [of w "Some services" err "lc_auth s"] reaches_step [OF step_close] by simp
  qed (auto simp: id reaches_step [OF step_fresh] reaches_step [OF step_force] Prepare_reaches
      ensureFresh_same_close forceRefresh_same_close Prepare_same_close)
qed

lemma reach_manager: "life_reach locked w cfg services a s \<Longrightarrow> manager_reaches w a (lc_auth s)"
proof (induction rule: life_reach.induct)
  case started
  then show ?case by (simp add: life_start_def manager_reaches_def)
next
  case (stepped s ev s')
  then show ?case using step_manager reaches_trans by blast
qed

lemma reach_open:
  "life_reach locked w cfg services a s \<Longrightarrow> (\<forall>e. lc_main s \<noteq> Returned e) \<longrightarrow> same_close a (lc_auth s)"
proof (induction rule: life_reach.induct)
  case started
  then show ?case by (simp add: life_start_def)
next
  case (stepped s ev s')
  show ?case
  proof
    assume open': "\<forall>e. lc_main s' \<noteq> Returned e"
    have "ev \<noteq> ManagerClosed" "\<forall>e. lc_main s \<noteq> Returned e"
      using stepped.hyps(2) open' by (auto elim!: life_stepE simp: after_configure_def split: option.splits)
    then show "same_close a (lc_auth s')"
      using stepped.IH step_manager [OF stepped.hyps(2)] same_close_trans by blast
  qed
qed

section \<open>Closing is exclusive\<close>

lemma closing_steps:
  assumes "life_reach locked w cfg services a s" "lc_main s = Closing e \<or> lc_main s = Returned e"
    and "life_step locked w cfg services s ev s'"
  shows "ga_active (lc_gate s) = 0 \<and> \<not> lc_ticker s \<and>
    (ev = Cancel \<or> ev = Arrival \<and> snd (gate_step Enter (lc_gate s)) = Some 503 \<or> ev = ManagerClosed) \<and>
    (ev \<noteq> ManagerClosed \<longrightarrow> lc_auth s' = lc_auth s)"
proof -
  have o: "orderly s" by (rule reach_orderly [OF assms(1)])
  then have quiet: "ga_active (lc_gate s) = 0" "\<not> lc_ticker s" "lc_shut s \<in> {NoShutdown, ShutDone}"
    "lc_shut s = ShutDone \<longrightarrow> ga_closing (lc_gate s)"
    using assms(2) by (auto simp: orderly_def)
  from assms(3) show ?thesis
    by (cases rule: life_step.cases) (use quiet assms(2) in \<open>auto simp: gate_step_def\<close>)
qed

text \<open>
  C15: when the deferred function has come to closing the manager, no handler is admitted any more,
  none is inside, and no background refresh runs: the only steps still possible are a repeated
  cancellation, an arrival, which is refused with 503, and the closing itself, so nothing uses the
  manager while it is closed or afterwards, however the goroutines have interleaved.
\<close>

theorem closing_is_exclusive:
  assumes "life_reach locked w cfg services a s" "lc_main s = Closing e \<or> lc_main s = Returned e"
    and "life_step locked w cfg services s ev s'"
  shows "ga_active (lc_gate s) = 0 \<and> \<not> lc_ticker s \<and>
    (ev = Cancel \<or> ev = Arrival \<and> snd (gate_step Enter (lc_gate s)) = Some 503 \<or> ev = ManagerClosed) \<and>
    (ev \<noteq> ManagerClosed \<longrightarrow> lc_auth s' = lc_auth s)"
  using closing_steps [OF assms] .

text \<open>In the example the model map is not JSON, so the process leaves before it listens.\<close>

definition bad_map_config :: appConfig where
  "bad_map_config = (env_config None None)\<lparr>cfg_authDir := ''/a'', cfg_modelMapJSON := ''}''\<rparr>"

definition native_services :: protocolServices where
  "native_services = \<lparr>ps_credentials = True, ps_runtimeFields = True, ps_modelCache = True,
     ps_contextFactory = True, ps_closeFn = None, ps_calls = 0, ps_closeErr = None\<rparr>"

lemma bad_map: "\<exists>e. configure locked w bad_map_config a = (Err e, a)"
  by (simp add: configure_def model_mapping_def bad_map_config_def json_eval)

lemma reach_closing:
  "\<exists>s e. life_reach locked w bad_map_config p a s \<and> lc_main s = Closing (Some e) \<and> lc_auth s = a"
proof -
  let ?R = "life_reach locked w bad_map_config p a"
  obtain e where e: "configure locked w bad_map_config a = (Err e, a)" using bad_map by blast
  let ?s1 = "(life_start a)\<lparr>lc_auth := a, lc_main := Leaving (Some (Cause e)), lc_shut := NoShutdown\<rparr>"
  have "?R ?s1"
    using life_reach.stepped [OF life_reach.started life_step.configured [of "life_start a", where r = "Err e" and a = a]] e
    by (simp add: life_start_def after_configure_def)
  then have "?R (?s1\<lparr>lc_done := True, lc_main := Waiting (Some (Cause e))\<rparr>)"
    by (rule life_reach.stepped) (rule life_step.defer_cancel, simp)
  then have "?R (?s1\<lparr>lc_done := True, lc_main := Waiting (Some (Cause e)), lc_ticker := False\<rparr>)"
    using life_reach.stepped [OF _ life_step.ticker_stop, of _ w bad_map_config p a
        "?s1\<lparr>lc_done := True, lc_main := Waiting (Some (Cause e))\<rparr>"]
    by (simp add: life_start_def)
  moreover have "life_step locked w bad_map_config p (?s1\<lparr>lc_done := True, lc_main := Waiting (Some (Cause e)), lc_ticker := False\<rparr>)
     GoroutinesDone (?s1\<lparr>lc_done := True, lc_main := Waiting (Some (Cause e)), lc_ticker := False\<rparr>
       \<lparr>lc_main := Closing (join_cleanups (Some (Cause e)) [])\<rparr>)"
    using life_step.goroutines_done [where s = "?s1\<lparr>lc_done := True, lc_main := Waiting (Some (Cause e)), lc_ticker := False\<rparr>"]
    by (simp add: life_start_def)
  ultimately show ?thesis
    using life_reach.stepped by (fastforce simp: life_start_def join_cleanups_def)
qed

lemma closing_is_exclusive_witness:
  "\<exists>s e. life_reach True calm_world bad_map_config native_services (sample_loaded False) s \<and> lc_main s = Closing e \<and>
     ga_active (lc_gate s) = 0 \<and> \<not> lc_ticker s"
proof -
  obtain s e where s: "life_reach True calm_world bad_map_config native_services (sample_loaded False) s"
    "lc_main s = Closing (Some e)" using reach_closing by blast
  have "ga_active (lc_gate s) = 0 \<and> \<not> lc_ticker s"
    using closing_is_exclusive [OF s(1) _ life_step.cancel] s(2) by blast
  with s show ?thesis by blast
qed

section \<open>A clean exit\<close>

lemma merge_None: "mergeProtocolErrors p s = None \<longleftrightarrow> p = None \<and> s = None"
  by (auto simp: mergeProtocolErrors_def split: option.splits)

lemma close_saves:
  assumes "manager_Close w s = (None, s')" "au_closeErr s = None"
  shows "au_closed s' \<and> au_ctx s' = None \<and> (au_readOnly s' \<or> au_ui s' = None \<or> \<not> au_dirty s')"
proof -
  obtain p s1 where p: "persistDirtyCredentialLocked w s = (p, s1)" by fastforce
  have "p = None" using assms p by (auto simp: manager_Close_def Let_def merge_None split: prod.splits)
  then have "au_readOnly s1 \<or> au_ui s1 = None \<or> \<not> au_dirty s1"
    using p saveLocked_result(2) [of w s None] saveLocked_result(1) [of w s None, THEN keepsD(7)]
    by (cases "au_ui s") (auto simp: persistDirtyCredentialLocked_def split: if_splits prod.splits option.splits)
  then show ?thesis
    using assms p by (auto simp: manager_Close_def closeContext_def fault_eq Let_def split: option.splits)
qed

lemma deferred_close_None:
  "deferred_close w True (Some p) err s = (None, s') \<Longrightarrow> err = None \<and> manager_Close w s = (None, s')"
  by (auto simp: deferred_close_def split: prod.splits)

lemma deferred_close_closes:
  assumes "deferred_close w True p err s = (result, s')" "au_closeErr s \<noteq> None \<longrightarrow> au_closed s"
  shows "au_closed s'"
  using assms close_result [of w s "fst (manager_Close w s)" s'] deferred_close_manager [of w p err s]
  by (metis prod.collapse snd_conv)

text \<open>What holds of the manager once the process has returned.\<close>

definition wound_up :: "run_error option \<Rightarrow> auth \<Rightarrow> bool" where
  "wound_up result a \<longleftrightarrow> au_closed a \<and> (\<forall>i < length (au_contexts a). snd (au_contexts a ! i) = 1) \<and>
     (result = None \<longrightarrow> au_readOnly a \<or> (\<forall>i u. au_ui a = Some (i, u) \<longrightarrow> on_file a u))"

lemma wound_up_closed:
  assumes "manager_state w s" "au_closeErr s = None" "deferred_close w True (Some p) err s = (result, s')"
  shows "wound_up result s'"
proof -
  have s': "s' = snd (manager_Close w s)" using deferred_close_manager [of w "Some p" err s] assms(3) by simp
  then have m: "manager_state w s'" using manager_state_step [OF assms(1) step_close] by simp
  have c: "au_closed s'" using deferred_close_closes [OF assms(3)] assms(2) by simp
  have "snd (au_contexts s' ! i) = 1" if "i < length (au_contexts s')" for i
    using state_accounted [OF m] c that by (auto simp: accounted_def)
  moreover have "au_readOnly s' \<or> (\<forall>i u. au_ui s' = Some (i, u) \<longrightarrow> on_file s' u)" if "result = None"
    using close_saves [OF _ assms(2), of w s'] deferred_close_None [of w p err s s'] assms(3) that state_durable [OF m]
    by (auto simp: durable_def)
  ultimately show ?thesis using c by (simp add: wound_up_def)
qed

lemma start_tick_fields: "(start files)\<lparr>au_tick := t\<rparr>\<lparr>au_tick := u\<rparr> = (start files)\<lparr>au_tick := u\<rparr>"
  by simp

lemma read_only_check_state:
  "read_only_check w cfg s = (r, s') \<Longrightarrow> \<exists>t. s' = s\<lparr>au_tick := t\<rparr>"
  by (auto simp: read_only_check_def split: if_splits prod.splits sum.splits dest!: read_only_state
      intro: exI [of _ "au_tick s"])

lemma begin_state:
  assumes "run_begin w host cfg (start files) = Some (Runs, a)"
  shows "manager_state w a \<and> au_closeErr a = None \<and> \<not> au_closed a \<and> au_readOnly a = cfg_readOnlyAuth cfg"
proof -
  obtain s1 where c: "read_only_check w cfg (start files) = (None, s1)"
    using assms by (auto simp: run_begin_def split: prod.splits option.splits)
  then obtain t where s1: "s1 = (start files)\<lparr>au_tick := t\<rparr>" using read_only_check_state by blast
  obtain s2 where n: "newAuthManagerWithMode w (cfg_authDir cfg) (cfg_openapiEndpoint cfg) (cfg_inferEndpoint cfg)
      (cfg_webEndpoint cfg) (cfg_readOnlyAuth cfg) s1 = (Ok (), s2)"
    and r: "run_manager w cfg (s2\<lparr>au_readOnly := cfg_readOnlyAuth cfg\<rparr>) = Some (Runs, a)"
    using assms c by (auto simp: run_begin_def split: prod.splits option.splits sum.splits begun.splits)
  note new = new_manager [OF n [unfolded s1]]
  have "s2\<lparr>au_readOnly := cfg_readOnlyAuth cfg\<rparr> = s2" using new(1) by simp
  with r have a: "a = snd (ensureFresh w (snd (load w s2)))"
    by (auto simp: run_manager_def split: if_splits prod.splits option.splits)
  have "manager_state w s2"
    unfolding manager_state_def manager_reaches_def using n s1 by blast
  then have "manager_state w a"
    unfolding a by (intro manager_state_step [OF manager_state_step [OF _ step_load] step_fresh])
  moreover have "same_close s2 a"
    unfolding a using same_close_trans [OF load_same_close ensureFresh_same_close] .
  ultimately show ?thesis using new by (simp add: same_close_def)
qed

text \<open>
  C1: however the goroutines interleave, whatever fails on the way, a process that has loaded its
  credentials and comes to its end has closed the manager, and every protocol context it ever made
  has been closed exactly once; if it reports no error, then no credentials were lost: those it
  held at the end are on file (or it was not allowed to write).
\<close>

theorem run_winds_up:
  assumes "run_begin w host cfg (start files) = Some (Runs, a)" "life_reach locked w cfg services a s"
    and "lc_main s = Returned result"
  shows "wound_up result (lc_auth s)"
  using assms(2,3)
proof (induction rule: life_reach.induct)
  case started
  then show ?case by (simp add: life_start_def)
next
  case (stepped s ev s')
  note m = begin_state [OF assms(1)]
  show ?case
  proof (cases "\<exists>e. lc_main s = Returned e")
    case True
    then obtain e where e: "lc_main s = Returned e" by blast
    note quiet = closing_steps [OF stepped.hyps(1) _ stepped.hyps(2), of e]
    have "lc_main s' = lc_main s \<and> lc_auth s' = lc_auth s"
      using stepped.hyps(2) e quiet by (auto elim!: life_stepE split: option.splits)
    then show ?thesis using stepped e by simp
  next
    case False
    then obtain err where "lc_main s = Closing err" "deferred_close w True (Some services) err (lc_auth s) = (result, lc_auth s')"
      using stepped.hyps(2) stepped.prems by (auto elim!: life_stepE simp: after_configure_def split: option.splits sum.splits)
    moreover have "manager_state w (lc_auth s)" using state_reaches [OF _ reach_manager [OF stepped.hyps(1)]] m by blast
    moreover have "au_closeErr (lc_auth s) = None"
      using reach_open [OF stepped.hyps(1)] False m by (simp add: same_close_def)
    ultimately show ?thesis using wound_up_closed by blast
  qed
qed

definition native_host :: protocolHostDeps where
  "native_host = \<lparr>hd_Clock = Some (Ok 0), hd_Entropy = Some (\<lambda>i n. Ok (replicate n (CHR ''x'')))\<rparr>"

lemma sample_begin:
  "run_begin calm_world native_host bad_map_config (start sample_files) =
     Some (Runs, snd (ensureFresh calm_world (sample_loaded False)))"
proof -
  have "newProtocolServices native_host = Ok native_services"
    by (simp add: newProtocolServices_def newNativeProtocolServices_def native_host_def validateProtocolServices_def
        missing_capability_def native_services_def)
  moreover have "(sample_manager False)\<lparr>au_readOnly := False\<rparr> = sample_manager False"
    by (simp add: sample_new(2) start_def)
  moreover have "load calm_world (sample_manager False) = (None, sample_loaded False)"
    by (simp add: sample_load load_def sample_new(2) closedStateError_def ReadFile_def fault_eq start_def
      sample_files_def calm_world_def read_credential_def sample_trim HasPrefix_def sample_decode
      rebuildContextLocked_def buildContextForUserLocked_def ensure_fields_def sample_user_def
      factory_context_def replaceContext_def close_old_def clearCredentialDirtyLocked_def Let_def)
  ultimately show ?thesis
    by (simp add: run_begin_def read_only_check_def bad_map_config_def env_config_def lookupEnvOr_def
        sample_new(1) run_manager_def)
qed

lemma run_winds_up_witness:
  "\<exists>s result. life_reach True calm_world bad_map_config native_services
      (snd (ensureFresh calm_world (sample_loaded False))) s \<and> lc_main s = Returned result \<and> wound_up result (lc_auth s)"
proof -
  let ?R = "life_reach True calm_world bad_map_config native_services (snd (ensureFresh calm_world (sample_loaded False)))"
  obtain s e where s: "?R s" "lc_main s = Closing (Some e)" using reach_closing by blast
  obtain result a where d: "deferred_close calm_world True (Some native_services) (Some e) (lc_auth s) = (result, a)" by fastforce
  have r: "?R (s\<lparr>lc_auth := a, lc_main := Returned result\<rparr>)"
    by (rule life_reach.stepped [OF s(1) life_step.manager_closed [OF s(2) d]])
  then have "wound_up result (lc_auth (s\<lparr>lc_auth := a, lc_main := Returned result\<rparr>))"
    by (rule run_winds_up [OF sample_begin]) simp
  with r show ?thesis by (intro exI [of _ "s\<lparr>lc_auth := a, lc_main := Returned result\<rparr>"] exI [of _ result]) simp
qed

section \<open>The end can be reached\<close>

text \<open>The steps that end things: no new request, no use of the manager, no tick.\<close>

definition ending :: "life_event \<Rightarrow> bool" where
  "ending ev \<longleftrightarrow> (case ev of Arrival \<Rightarrow> False | Tick \<Rightarrow> False | Prepare i \<Rightarrow> False | Force \<Rightarrow> False | Cancel \<Rightarrow> False | _ \<Rightarrow> True)"

inductive life_path ::
  "bool \<Rightarrow> auth_world \<Rightarrow> appConfig \<Rightarrow> protocolServices \<Rightarrow> lifecycle \<Rightarrow> life_event list \<Rightarrow> lifecycle \<Rightarrow> bool"
  for locked w cfg services where
  here: "life_path locked w cfg services s [] s"
| onwards: "life_step locked w cfg services s ev s1 \<Longrightarrow> life_path locked w cfg services s1 evs s2 \<Longrightarrow>
    life_path locked w cfg services s (ev # evs) s2"

fun main_weight :: "main_phase \<Rightarrow> nat" where
  "main_weight Configuring = 9"
| "main_weight (Listening m) = 4"
| "main_weight (Leaving e) = 3"
| "main_weight (Waiting e) = 2"
| "main_weight (Closing e) = 1"
| "main_weight (Returned e) = 0"

fun shut_weight :: "shut_phase \<Rightarrow> nat" where
  "shut_weight NoShutdown = 0"
| "shut_weight AwaitDone = 4"
| "shut_weight ShuttingDown = 3"
| "shut_weight ForceClosing = 2"
| "shut_weight Draining = 1"
| "shut_weight ShutDone = 0"

definition left_to_do :: "lifecycle \<Rightarrow> nat" where
  "left_to_do s = main_weight (lc_main s) + shut_weight (lc_shut s) + (if lc_ticker s then 1 else 0) +
     ga_active (lc_gate s)"

lemma ending_decreases:
  "life_step locked w cfg services s ev s' \<Longrightarrow> ending ev \<Longrightarrow> left_to_do s' < left_to_do s"
  by (induction rule: life_step.induct)
    (auto simp: ending_def left_to_do_def gate_step_def after_configure_def split: option.splits sum.splits)

lemma ending_enabled:
  assumes "orderly s" "\<forall>e. lc_main s \<noteq> Returned e"
  shows "\<exists>ev s'. life_step locked w cfg services s ev s' \<and> ending ev"
proof (cases "lc_main s")
  case Configuring
  obtain r a where "configure locked w cfg (lc_auth s) = (r, a)" by fastforce
  from life_step.configured [OF Configuring this] show ?thesis by (force simp: ending_def)
next
  case (Listening m)
  from life_step.listen_returns [OF this] show ?thesis by (force simp: ending_def)
next
  case (Leaving e)
  from life_step.defer_cancel [OF this] show ?thesis by (force simp: ending_def)
next
  case (Closing e)
  obtain r a where "deferred_close w True (Some services) e (lc_auth s) = (r, a)" by fastforce
  from life_step.manager_closed [OF Closing this] show ?thesis by (force simp: ending_def)
next
  case (Waiting e)
  then have cancelled: "lc_done s" using assms(1) by (simp add: orderly_def)
  show ?thesis
  proof (cases "lc_ticker s")
    case True
    from life_step.ticker_stop [OF this cancelled] show ?thesis by (force simp: ending_def)
  next
    case stopped: False
    show ?thesis
    proof (cases "lc_shut s")
      case NoShutdown
      from life_step.goroutines_done [OF Waiting stopped] NoShutdown show ?thesis by (force simp: ending_def)
    next
      case AwaitDone
      from life_step.shutdown_begins [OF this cancelled] show ?thesis by (force simp: ending_def)
    next
      case ShuttingDown
      from life_step.shutdown_returns [OF this] show ?thesis by (force simp: ending_def)
    next
      case ForceClosing
      from life_step.force_returns [OF this] show ?thesis by (force simp: ending_def)
    next
      case Draining
      show ?thesis
      proof (cases "0 < ga_active (lc_gate s)")
        case True
        from life_step.finish [OF this] show ?thesis by (force simp: ending_def)
      next
        case False
        then have "gate_quiet (lc_gate s)" by (simp add: gate_quiet_def)
        from life_step.drained [OF Draining this] show ?thesis by (force simp: ending_def)
      qed
    next
      case ShutDone
      from life_step.goroutines_done [OF Waiting stopped] ShutDone show ?thesis by (force simp: ending_def)
    qed
  qed
qed (use assms(2) in auto)

lemma path_to_end:
  "orderly s \<Longrightarrow> \<exists>evs s' e. life_path locked w cfg services s evs s' \<and> list_all ending evs \<and> lc_main s' = Returned e \<and>
     length evs \<le> left_to_do s"
proof (induction "left_to_do s" arbitrary: s rule: less_induct)
  case less
  show ?case
  proof (cases "\<exists>e. lc_main s = Returned e")
    case True
    then show ?thesis using life_path.here by fastforce
  next
    case False
    then obtain ev s1 where st: "life_step locked w cfg services s ev s1" "ending ev"
      using ending_enabled [OF less.prems] by blast
    note smaller = ending_decreases [OF st]
    obtain evs s' e where "life_path locked w cfg services s1 evs s'" "list_all ending evs" "lc_main s' = Returned e"
      "length evs \<le> left_to_do s1"
      using less.hyps [OF smaller step_orderly [OF st(1) less.prems]] by blast
    then have "life_path locked w cfg services s (ev # evs) s' \<and> list_all ending (ev # evs) \<and> lc_main s' = Returned e \<and>
        length (ev # evs) \<le> left_to_do s"
      using st smaller by (auto intro: life_path.onwards)
    then show ?thesis by blast
  qed
qed

text \<open>
  C16: the process cannot get stuck: from every state it can reach, with however many requests inside
  and at whatever point of a shutdown, it can come to its end by at most ten steps and one for each
  request inside, none of which is a new request, a use of the manager or a tick; and each such
  step brings it nearer, so it ends once these are taken and no more requests come in. (The
  documented contract of \<open>http.Server\<close>, that \<open>ListenAndServe\<close>, \<open>Shutdown\<close> and \<open>Close\<close> return, is
  in the steps.)
\<close>

theorem run_can_end:
  assumes "life_reach locked w cfg services a s"
  shows "(\<exists>evs s' e. life_path locked w cfg services s evs s' \<and> list_all ending evs \<and> lc_main s' = Returned e \<and>
      length evs \<le> 10 + ga_active (lc_gate s)) \<and>
    (\<forall>ev s'. life_step locked w cfg services s ev s' \<longrightarrow> ending ev \<longrightarrow> left_to_do s' < left_to_do s)"
proof -
  have o: "orderly s" by (rule reach_orderly [OF assms])
  then have "left_to_do s \<le> 10 + ga_active (lc_gate s)"
    by (cases "lc_main s"; cases "lc_shut s") (auto simp: left_to_do_def orderly_def)
  then show ?thesis using path_to_end [OF o, of locked w cfg services] ending_decreases by (meson order_trans)
qed

lemma run_can_end_witness:
  "\<exists>evs s' e. life_path True calm_world bad_map_config native_services (life_start (sample_loaded False)) evs s' \<and>
     lc_main s' = Returned e \<and> length evs \<le> 10"
  using run_can_end [OF life_reach.started, of True calm_world bad_map_config native_services "sample_loaded False"]
  by (auto simp: life_start_def)

end
