(* ===== verification/Upstream_Requests.thy ===== *)
theory Upstream_Requests
  imports Gateway App_Life_Props Native_Context
begin

text \<open>
  A request on its way through the parts together: the retry loop of \<open>Gateway\<close> asks the manager of
  \<open>auth.go\<close>, the manager its current context, the context of \<open>native_context.go\<close> prepares the
  request, and its receiver can check what was sent.
\<close>

section \<open>A manager of native contexts\<close>

text \<open>The context the factory makes from a configuration when no preparer is injected.\<close>

definition made_context :: "protocolHostDeps \<Rightarrow> protocolContextConfig \<Rightarrow> nativeProtocolContext" where
  "made_context host config = \<lparr>nc_host = host, nc_machineID = cc_MachineID config, nc_version = cc_Version config,
     nc_user = cc_User config, nc_scene = cc_Scene config, nc_prepare = Some default_prepare,
     nc_closed = False, nc_closeErr = None\<rparr>"

lemma factory_makes:
  "factory_New (Some f) ctx config = Some (Ok c) \<Longrightarrow> nf_prepare f = None \<Longrightarrow> c = made_context (nf_host f) config"
  by (auto simp: factory_New_def Let_def made_context_def bind_Ok_iff split: option.splits)

text \<open>A world in which the manager's contexts are those of the native factory.\<close>

definition prepares_natively :: "auth_world \<Rightarrow> bool" where
  "prepares_natively w \<longleftrightarrow> (\<forall>t config input. \<exists>host ctx.
     aw_Prepare w t config input = PrepareInferRequest (Some (made_context host config)) ctx input)"

lemma prepared_verifiable:
  assumes "prepares_natively w" "aw_Prepare w t config input = Ok ir"
  shows "verifiable (ii_Body input) (cc_User config) (cc_Version config) ir"
proof -
  obtain host ctx where p: "PrepareInferRequest (Some (made_context host config)) ctx input = Ok ir"
    using assms unfolding prepares_natively_def by metis
  then have "prepareNativeInferRequest (asked ctx) (snapshot_of (made_context host config)) input = Ok ir"
    by (auto simp: PrepareInferRequest_def made_context_def default_prepare_def bind_Ok_iff split: option.splits sum.splits)
  from prepare_verifiable [OF this] show ?thesis
    by (simp add: snapshot_of_def made_context_def)
qed

section \<open>Through the manager\<close>

text \<open>A request comes from the current context of a reachable manager, which has not been closed.\<close>

definition prepared_by_open :: "auth_world \<Rightarrow> string \<Rightarrow> preparedRequest \<Rightarrow> bool" where
  "prepared_by_open w body ir \<longleftrightarrow>
     (\<exists>s i. manager_state w s \<and> au_ctx s = Some i \<and> snd (au_contexts s ! i) = 0 \<and>
        (let config = fst (au_contexts s ! i) in verifiable body (cc_User config) (cc_Version config) ir))"

lemma Prepare_verifiable:
  assumes "prepares_natively w" "manager_state w s" "manager_Prepare w input s = (Ok ir, s')"
  shows "prepared_by_open w (ii_Body input) ir"
proof -
  let ?s = "snd (ensureFresh w s)"
  have m: "manager_state w ?s" by (rule manager_state_step [OF assms(2) step_fresh])
  have "fst (prepareWithCurrentContext w input ?s) = Ok ir"
    using assms(3) by (auto simp: manager_Prepare_def split: option.splits prod.splits if_splits)
  then obtain i where i: "au_ctx ?s = Some i" "aw_Prepare w (au_tick ?s) (fst (au_contexts ?s ! i)) input = Ok ir"
    by (auto simp: prepareWithCurrentContext_def split: if_splits option.splits)
  moreover have "snd (au_contexts ?s ! i) = 0"
    using state_accounted [OF m] i(1) by (auto simp: accounted_def)
  ultimately show ?thesis
    using m prepared_verifiable [OF assms(1) i(2)] unfolding prepared_by_open_def Let_def by blast
qed

section \<open>Through the loop\<close>

lemma send_state:
  "manager_state w (gw_auth g) \<Longrightarrow> send u ir g = (r, g') \<Longrightarrow> manager_state w (gw_auth g')"
  using manager_state_step [OF _ step_ask] by (auto simp: send_def)

lemma doUpstream_verifiable:
  assumes "prepares_natively w" "manager_state w (gw_auth g)" "doUpstream locked w u body mc g = (answer, g')"
  shows "manager_state w (gw_auth g') \<and>
    (\<exists>irs. gw_sent g' = gw_sent g @ irs \<and> list_all (prepared_by_open w body) irs)"
proof -
  obtain r a where p: "manager_Prepare w (infer_input g body mc) (gw_auth g) = (r, a)" by fastforce
  then have a: "manager_state w a"
    using state_reaches [OF assms(2) Prepare_reaches] by (metis snd_conv)
  show ?thesis
  proof (cases r)
    case (Inl e)
    then have "g' = g\<lparr>gw_auth := a\<rparr>" using assms(3) p by (simp add: doUpstream_def)
    with a show ?thesis by simp
  next
    case (Inr ir)
    have v: "prepared_by_open w body ir"
      using Prepare_verifiable [OF assms(1,2)] p Inr by (fastforce simp: infer_input_def)
    have "g' = g\<lparr>gw_auth := a\<rparr> \<or> (\<exists>x. send u ir (g\<lparr>gw_auth := a\<rparr>) = (x, g'))"
      using assms(3) p Inr by (auto simp: doUpstream_def split: option.splits if_splits prod.splits sum.splits)
    then show ?thesis
    proof
      assume "g' = g\<lparr>gw_auth := a\<rparr>"
      with a show ?thesis by simp
    next
      assume "\<exists>x. send u ir (g\<lparr>gw_auth := a\<rparr>) = (x, g')"
      then obtain x where s: "send u ir (g\<lparr>gw_auth := a\<rparr>) = (x, g')" ..
      then have "gw_sent g' = gw_sent g @ [ir]" by (auto simp: send_def)
      with send_state [OF _ s] a v show ?thesis by simp
    qed
  qed
qed

lemma try_refresh_state:
  "manager_state w (gw_auth g) \<Longrightarrow> try_refresh w k out g = (b, g') \<Longrightarrow> manager_state w (gw_auth g')"
  using manager_state_step [OF _ step_force, of w "gw_auth g"]
  by (auto simp: try_refresh_def split: if_splits prod.splits)

lemma loop_verifiable:
  assumes "prepares_natively w"
  shows "manager_state w (gw_auth g) \<Longrightarrow> gateway_loop locked w u body mc ks g = (run, g') \<Longrightarrow>
    \<exists>irs. gw_sent g' = gw_sent g @ irs \<and> list_all (prepared_by_open w body) irs"
proof (induction ks arbitrary: g run)
  case (Cons k ks)
  obtain answer g1 where d: "doUpstream locked w u body mc g = (answer, g1)" by fastforce
  define out where "out = outcome_text answer"
  obtain refreshed g2 where r: "try_refresh w k out g1 = (refreshed, g2)" by fastforce
  note v = doUpstream_verifiable [OF assms Cons.prems(1) d]
  obtain irs where i: "gw_sent g2 = gw_sent g @ irs" "list_all (prepared_by_open w body) irs"
    using v try_refresh_sent [OF r] by auto
  have m: "manager_state w (gw_auth g2)" using try_refresh_state [OF _ r] v by blast
  obtain acts dec where dec: "decide (attempt_env u (\<lambda>_. out) refreshed) k out = (acts, dec)" by fastforce
  show ?case
  proof (cases dec)
    case (Stop x)
    then have "g' = g2" using Cons.prems(2) d r dec by (simp add: out_def [symmetric])
    with i show ?thesis by auto
  next
    case GoOn
    then obtain run' where "gateway_loop locked w u body mc ks g2 = (run', g')"
      using Cons.prems(2) d r dec by (auto simp: out_def [symmetric] split: prod.splits)
    then obtain rest where "gw_sent g' = gw_sent g2 @ rest" "list_all (prepared_by_open w body) rest"
      using Cons.IH [OF m] by blast
    with i show ?thesis by (intro exI [of _ "irs @ rest"]) simp
  qed
qed simp

text \<open>
  C14: with native contexts, every request a call sends upstream, on whichever attempt, carries the
  body of the call and an authorization that its receiver can check, made by the context that was
  current in a reachable state of the manager and not closed.
\<close>

theorem upstream_requests_verifiable:
  assumes "prepares_natively w" "manager_state w (gw_auth g)" "gateway_call locked w u body mc g = (run, g')"
  shows "\<exists>irs. gw_sent g' = gw_sent g @ irs \<and> list_all (prepared_by_open w body) irs"
  using loop_verifiable [OF assms(1,2)] assms(3) unfolding gateway_call_def by blast

text \<open>The example of \<open>Gateway\<close> with a native context.\<close>

definition native_world :: auth_world where
  "native_world = calm_world\<lparr>aw_Prepare := \<lambda>t config input.
     PrepareInferRequest (Some (made_context native_host config)) \<lparr>cx_Err = (\<lambda>i. None), cx_Deps = None\<rparr> input\<rparr>"

lemma native_prepares: "prepares_natively native_world"
  unfolding prepares_natively_def native_world_def by auto

lemma native_state: "manager_state native_world (sample_loaded False)"
proof -
  have "newAuthManagerWithMode native_world ''/a'' [] [] [] False (start sample_files) = (Ok (), sample_manager False)"
    by (simp add: sample_new(2) newAuthManagerWithMode_def readExistingAuthFiles_def
      loadOrCreateMachineID_def ReadFile_def fault_eq sample_paths sample_files_def native_world_def calm_world_def start_def
      sample_trim Let_def base_or_def)
  from manager_state_new [OF this, of "sample_manager False"]
  have "manager_state native_world (sample_manager False)" by (simp add: manager_reaches_def)
  moreover have "load native_world (sample_manager False) = (None, sample_loaded False)"
    by (simp add: sample_load load_def sample_new(2) closedStateError_def ReadFile_def fault_eq start_def
      sample_files_def native_world_def calm_world_def read_credential_def sample_trim HasPrefix_def sample_decode
      rebuildContextLocked_def buildContextForUserLocked_def ensure_fields_def sample_user_def
      factory_context_def replaceContext_def close_old_def clearCredentialDirtyLocked_def Let_def)
  ultimately show ?thesis using manager_state_step [OF _ step_load, of native_world "sample_manager False"] by simp
qed

text \<open>The call of the example: one request, prepared and answered.\<close>

lemma upstream_requests_verifiable_witness:
  "\<exists>run g ir. gateway_call False native_world sample_upstream ''body''
       (builtin_model (''auto'', ''Auto'', False, 180000)) ready_gateway = (run, g) \<and>
     gw_sent g = [ir] \<and> prepared_by_open native_world ''body'' ir"
proof -
  let ?mc = "builtin_model (''auto'', ''Auto'', False, 180000)"
  let ?ctx = "\<lparr>cx_Err = (\<lambda>i. None), cx_Deps = None\<rparr>"
  let ?config = "contextConfigForLocked ''m'' (Some sample_user)"
  have "maxAttempts + 1 = Suc (Suc (Suc (Suc (Suc 0))))" by (simp add: maxAttempts_def)
  then have ks: "[1..<maxAttempts + 1] = 1 # [2..<maxAttempts + 1]" by (simp add: upt_rec)
  obtain ir where ir: "PrepareInferRequest (Some (made_context native_host ?config)) ?ctx
      (infer_input ready_gateway ''body'' ?mc) = Ok ir"
    by (simp add: PrepareInferRequest_def made_context_def default_prepare_def asked_def snapshot_of_def
        prepareNativeInferRequest_def native_host_def protocolHostDepsFor_def Let_def contextConfigForLocked_def
        sample_user_def zero_userInfo_def validateNativeInferPreparation_def nativeInferRequestID_def)
  then obtain run g where c: "gateway_call False native_world sample_upstream ''body'' ?mc ready_gateway = (run, g)"
    "gw_sent g = [ir]"
    unfolding gateway_call_def ks
    by (simp add: doUpstream_def manager_Prepare_def ensureFresh_def closedStateError_def ready_gateway_def
        sample_load sample_new(2) start_def persistDirtyCredentialBestEffortLocked_def now_def Let_def
        sample_user_def zero_userInfo_def prepareWithCurrentContext_def native_world_def calm_world_def
        approved_def sample_upstream_def send_def outcome_text_def try_refresh_def wants_refresh_def decide_def)
  have "manager_state native_world (gw_auth ready_gateway)" by (simp add: ready_gateway_def native_state)
  from upstream_requests_verifiable [OF native_prepares this c(1)]
  have "prepared_by_open native_world ''body'' ir" using c(2) by (auto simp: ready_gateway_def)
  with c show ?thesis by blast
qed

end
