(* ===== verification/Server.thy ===== *)
theory Server
  imports Anthropic_Stream Anthropic_Collect Openai Responses Responses_Stream Model_Resolver Local_Guard Retry Go_Path
begin

text \<open>
  The HTTP handlers of \<open>proxy.go\<close>, \<open>openai.go\<close> and \<open>responses.go\<close>, end to end: the API key, the body,
  the model, the upstream call and the answer, and the routes with the guard before them.
\<close>

section \<open>A request and the server\<close>

record httpIn =
  hi_method :: string
  hi_guard :: request                   \<comment> \<open>Host, Origin and path\<close>
  hi_xApiKey :: string
  hi_authorization :: string
  hi_body :: string
  hi_readErr :: "string option"         \<comment> \<open>the error at which reading the body ends, if any\<close>

definition hi_path :: "httpIn \<Rightarrow> string" where "hi_path r = rq_path (hi_guard r)"

text \<open>
  Of the server the handlers change the session table. \<open>sv_calls\<close> records the bodies given to
  \<open>callUpstream\<close>, and its length numbers the calls.
\<close>

record server =
  sv_sk :: string
  sv_models :: modelResolver
  sv_sessions :: "(string \<times> string) list"
  sv_calls :: "json list"

text \<open>
  For each request: the results of \<open>newUUID\<close>, what the upstream calls meet, how reading the answer
  ends, the clock (milliseconds, seconds), the texts of library errors, whether the response
  writer flushes and whether the manager is logged in.
\<close>

record server_world =
  sw_ids :: "nat \<Rightarrow> string"
  sw_upstream :: environment
  sw_bodyEnd :: body_end
  sw_millis :: int
  sw_seconds :: int
  sw_jsonErr :: "string \<Rightarrow> string"
  sw_convertErr :: "convert_error \<Rightarrow> string"
  sw_inputErr :: "string \<Rightarrow> string"
  sw_ctxErr :: string
  sw_flushes :: bool
  sw_loggedIn :: bool
  sw_instance :: string
  sw_canShutdown :: bool

datatype answer =
    AJson reply
  | AText int string
  | AAnthropic "event list"
  | AChat "oaiLine list"
  | AResponses "(int \<times> respEvent) list"
  | AModels "modelListItem list"
  | AShutdown

section \<open>Parts the handlers share\<close>

definition allowed :: "server \<Rightarrow> httpIn \<Rightarrow> bool" where
  "allowed s r = authOK (sv_sk s) (hi_xApiKey r) (hi_authorization r)"

text \<open>
  The body a handler sees: at most 32 MiB of it; behind the guard's slots a body over 8 MiB makes
  the reader fail.
\<close>

definition read_all :: "bool \<Rightarrow> httpIn \<Rightarrow> (string, string) result" where
  "read_all locked r =
     (if locked \<and> 8388608 < length (hi_body r) then Err ''http: request body too large''
      else if length (hi_body r) < 33554432 \<and> hi_readErr r \<noteq> None then Err (the (hi_readErr r))
      else Ok (take 33554432 (hi_body r)))"

definition unavailable_text :: string where
  "unavailable_text = ''The exact requested Qoder model is unavailable''"

definition anthropic_error :: "bool \<Rightarrow> int \<Rightarrow> string \<Rightarrow> string \<Rightarrow> answer" where
  "anthropic_error locked status kind msg = AJson (writeAnthropicError locked status kind msg)"

definition oai_error :: "bool \<Rightarrow> int \<Rightarrow> string \<Rightarrow> string \<Rightarrow> answer" where
  "oai_error locked status kind msg = AJson (writeOAIError locked status kind [] msg)"

text \<open>
  After the upstream call: a failed call, a final status other than 200, or the body to \<open>serve\<close>.
\<close>

definition after_call ::
  "server_world \<Rightarrow> (int \<Rightarrow> string \<Rightarrow> string \<Rightarrow> answer) \<Rightarrow> (string \<Rightarrow> answer) \<Rightarrow> answer" where
  "after_call w err serve =
     (case snd (callUpstream (sw_upstream w)) of
        TransportError m \<Rightarrow> err 502 ''api_error'' (''upstream request failed: '' @ m)
      | Cancelled \<Rightarrow> err 502 ''api_error'' (''upstream request failed: '' @ sw_ctxErr w)
      | Unreachable \<Rightarrow> err 502 ''api_error'' ''upstream request failed: unreachable''
      | Answered r \<Rightarrow>
          (if re_status r \<noteq> 200
           then err (re_status r) ''api_error'' (''upstream status '' @ itoa (re_status r) @ '': '' @
                  truncate_str (take 4096 (re_body r)) 300)
           else serve (re_body r)))"

definition use_session :: "server_world \<Rightarrow> string \<Rightarrow> server \<Rightarrow> string \<times> server" where
  "use_session w model s =
     (case sessionFor (sw_ids w 1) model (sv_sessions s) of (sid, ss) \<Rightarrow> (sid, s\<lparr>sv_sessions := ss\<rparr>))"

definition call_with :: "json \<Rightarrow> server \<Rightarrow> server" where
  "call_with body s = s\<lparr>sv_calls := sv_calls s @ [body]\<rparr>"

section \<open>Handlers\<close>

definition default_max_tokens :: "anthropicRequest \<Rightarrow> anthropicRequest" where
  "default_max_tokens areq = (if ar_MaxTokens areq = 0 then areq\<lparr>ar_MaxTokens := 32000\<rparr> else areq)"

definition messages_answer :: "bool \<Rightarrow> server_world \<Rightarrow> anthropicRequest \<Rightarrow> string \<Rightarrow> answer" where
  "messages_answer locked w areq body =
     (if ar_Stream areq
      then (case streamAnthropic (sw_flushes w) locked body (sw_bodyEnd w) (ar_Model areq) (sw_ids w 0) of
              StreamingUnsupported \<Rightarrow> anthropic_error locked 500 ''api_error'' ''streaming unsupported''
            | Streamed es \<Rightarrow> AAnthropic es)
      else AJson (collectAnthropic locked body (sw_bodyEnd w) (ar_Model areq) (sw_ids w 0)))"

definition messages_decoded :: "bool \<Rightarrow> server_world \<Rightarrow> anthropicRequest \<Rightarrow> server \<Rightarrow> answer \<times> server" where
  "messages_decoded locked w areq s =
     (if ar_Model areq = [] then (anthropic_error locked 400 ''invalid_request_error'' ''model is required'', s)
      else (case resolve locked (sv_models s) (ar_Model areq) of
              None \<Rightarrow> (anthropic_error locked 404 ''not_found_error'' unavailable_text, s)
            | Some mc \<Rightarrow>
                (case use_session w (ar_Model areq) s of (sid, s) \<Rightarrow>
                  (case buildUpstreamBody (default_max_tokens areq) mc sid (sw_ids w 0) (sw_ids w 2) (sw_millis w) of
                     Err e \<Rightarrow> (anthropic_error locked 400 ''invalid_request_error'' (sw_convertErr w e), s)
                   | Ok body \<Rightarrow>
                       (after_call w (anthropic_error locked) (messages_answer locked w (default_max_tokens areq)),
                        call_with body s)))))"

definition handleMessages :: "bool \<Rightarrow> server_world \<Rightarrow> httpIn \<Rightarrow> server \<Rightarrow> answer \<times> server" where
  "handleMessages locked w r s =
     (if \<not> allowed s r
      then (anthropic_error locked 401 ''authentication_error'' ''invalid or missing api key'', s)
      else (case read_all locked r of
              Err m \<Rightarrow> (anthropic_error locked 400 ''invalid_request_error'' m, s)
            | Ok raw \<Rightarrow>
                (case decode_anthropicRequest raw of
                   None \<Rightarrow> (anthropic_error locked 400 ''invalid_request_error'' (''invalid JSON: '' @ sw_jsonErr w raw), s)
                 | Some areq \<Rightarrow> messages_decoded locked w areq s)))"

definition chat_answer :: "bool \<Rightarrow> server_world \<Rightarrow> oaiRequest \<Rightarrow> string \<Rightarrow> answer" where
  "chat_answer locked w req body =
     (let ch = upstreamChunks body (sw_bodyEnd w)
      in if or_Stream req
         then (if \<not> sw_flushes w then oai_error locked 500 ''api_error'' ''streaming unsupported''
               else AChat (streamOAI (or_Model req) ch))
         else AJson (collectOAI locked (or_Model req) (sw_ids w 0) (sw_seconds w) ch))"

definition chat_decoded :: "bool \<Rightarrow> server_world \<Rightarrow> oaiRequest \<Rightarrow> server \<Rightarrow> answer \<times> server" where
  "chat_decoded locked w req s =
     (if or_Model req = [] then (oai_error locked 400 ''invalid_request_error'' ''model is required'', s)
      else (case resolve locked (sv_models s) (or_Model req) of
              None \<Rightarrow> (oai_error locked 404 ''not_found_error'' unavailable_text, s)
            | Some mc \<Rightarrow>
                (case use_session w (or_Model req) s of (sid, s) \<Rightarrow>
                  (after_call w (oai_error locked) (chat_answer locked w req),
                   call_with (oai_body req mc sid (sw_ids w 0) (sw_ids w 2) (sw_millis w)) s))))"

definition invalid_key :: "bool \<Rightarrow> answer" where
  "invalid_key locked =
     AJson (writeOAIError locked 401 ''authentication_error'' ''invalid_api_key'' ''invalid or missing api key'')"

definition handleChatCompletions :: "bool \<Rightarrow> server_world \<Rightarrow> httpIn \<Rightarrow> server \<Rightarrow> answer \<times> server" where
  "handleChatCompletions locked w r s =
     (if \<not> allowed s r then (invalid_key locked, s)
      else (case read_all locked r of
              Err m \<Rightarrow> (oai_error locked 400 ''invalid_request_error'' m, s)
            | Ok raw \<Rightarrow>
                (case decode_oaiRequest raw of
                   None \<Rightarrow> (oai_error locked 400 ''invalid_request_error'' (''invalid JSON: '' @ sw_jsonErr w raw), s)
                 | Some req \<Rightarrow> chat_decoded locked w req s)))"

definition responses_answer :: "bool \<Rightarrow> server_world \<Rightarrow> respRequest \<Rightarrow> string \<Rightarrow> answer" where
  "responses_answer locked w req body =
     (let ch = upstreamChunks body (sw_bodyEnd w)
      in if rr_Stream req
         then (if \<not> sw_flushes w then oai_error locked 500 ''api_error'' ''streaming unsupported''
               else AResponses (streamResponses (sw_ids w) 3 (rr_Model req) ch))
         else AJson (collectResponses locked (sw_ids w) 3 (rr_Model req) (sw_seconds w) ch))"

text \<open>Here the input is converted before the session is looked up.\<close>

definition responses_decoded :: "bool \<Rightarrow> server_world \<Rightarrow> respRequest \<Rightarrow> server \<Rightarrow> answer \<times> server" where
  "responses_decoded locked w req s =
     (if rr_Model req = [] then (oai_error locked 400 ''invalid_request_error'' ''model is required'', s)
      else (case resolve locked (sv_models s) (rr_Model req) of
              None \<Rightarrow> (oai_error locked 404 ''not_found_error'' unavailable_text, s)
            | Some mc \<Rightarrow>
                (case respToUpstream (rr_Instructions req) (rr_Input req) of
                   Err e \<Rightarrow> (oai_error locked 400 ''invalid_request_error'' (sw_inputErr w (rr_Model req)), s)
                 | Ok _ \<Rightarrow>
                     (case use_session w (rr_Model req) s of (sid, s) \<Rightarrow>
                       (case resp_body req mc sid (sw_ids w 0) (sw_ids w 2) (sw_millis w) of
                          Err e \<Rightarrow> (oai_error locked 400 ''invalid_request_error'' (sw_inputErr w (rr_Model req)), s)
                        | Ok body \<Rightarrow>
                            (after_call w (oai_error locked) (responses_answer locked w req), call_with body s))))))"

definition handleResponses :: "bool \<Rightarrow> server_world \<Rightarrow> httpIn \<Rightarrow> server \<Rightarrow> answer \<times> server" where
  "handleResponses locked w r s =
     (if \<not> allowed s r then (invalid_key locked, s)
      else (case read_all locked r of
              Err m \<Rightarrow> (oai_error locked 400 ''invalid_request_error'' m, s)
            | Ok raw \<Rightarrow>
                (case decode_respRequest raw of
                   None \<Rightarrow> (oai_error locked 400 ''invalid_request_error'' (''invalid JSON: '' @ sw_jsonErr w raw), s)
                 | Some req \<Rightarrow> responses_decoded locked w req s)))"

definition handleCountTokens :: "bool \<Rightarrow> httpIn \<Rightarrow> server \<Rightarrow> answer" where
  "handleCountTokens locked r s =
     (if \<not> allowed s r then anthropic_error locked 401 ''authentication_error'' ''invalid or missing api key''
      else (case read_all locked r of
              Err m \<Rightarrow> anthropic_error locked 400 ''invalid_request_error'' m
            | Ok raw \<Rightarrow> AJson (json_reply 200 (JMap [(''input_tokens'', JInt (int (length raw div 4)))]))))"

definition models_answer :: "bool \<Rightarrow> httpIn \<Rightarrow> server \<Rightarrow> answer" where
  "models_answer locked r s =
     (if \<not> allowed s r then anthropic_error locked 401 ''authentication_error'' ''invalid or missing api key''
      else AModels (handleModels locked (sv_models s)))"

definition health_answer :: "bool \<Rightarrow> server_world \<Rightarrow> answer" where
  "health_answer locked w =
     AJson (json_reply 200 (if locked
       then JMap [(''ok'', JBool True), (''status'', JStr ''ok''), (''authenticated'', JBool (sw_loggedIn w)),
              (''service'', JStr ''qoder-model-gateway''), (''mode'', JStr ''model-only''),
              (''instanceId'', JStr (sw_instance w))]
       else JObj [(''ok'', JBool True), (''authenticated'', JBool (sw_loggedIn w))]))"

definition shutdown_answer :: "bool \<Rightarrow> server_world \<Rightarrow> httpIn \<Rightarrow> server \<Rightarrow> answer" where
  "shutdown_answer locked w r s =
     (if \<not> allowed s r then anthropic_error locked 401 ''authentication_error'' ''invalid local credential''
      else if \<not> sw_canShutdown w then AText 503 ''shutdown unavailable'' else AShutdown)"

section \<open>Routes and guard\<close>

datatype endpoint = Messages | CountTokens | ChatCompletions | ResponsesAPI | Models | Health | Shutdown

definition route_table :: "(string \<times> string \<times> endpoint) list" where
  "route_table =
    [(''POST'', ''/v1/messages'', Messages), (''POST'', ''/v1/messages/count_tokens'', CountTokens),
     (''POST'', ''/v1/chat/completions'', ChatCompletions), (''POST'', ''/v1/responses'', ResponsesAPI),
     (''GET'', ''/v1/models'', Models), (''GET'', ''/health'', Health), (''POST'', ''/_qoder/shutdown'', Shutdown)]"

text \<open>A \<open>GET\<close> pattern of the multiplexer also takes \<open>HEAD\<close>; all patterns are literal paths.\<close>

definition pattern_method :: "string \<Rightarrow> string \<Rightarrow> bool" where
  "pattern_method pattern m \<longleftrightarrow> m = pattern \<or> (pattern = ''GET'' \<and> m = ''HEAD'')"

definition route :: "httpIn \<Rightarrow> endpoint option" where
  "route r = map_option (\<lambda>(_, _, e). e)
     (find (\<lambda>(m, p, _). pattern_method m (hi_method r) \<and> p = hi_path r) route_table)"

text \<open>
  The multiplexer redirects a path that is not clean before it looks for a pattern; a path it knows
  under another method is answered 405.
\<close>

definition mux_path :: "string \<Rightarrow> string" where
  "mux_path p =
     (let q = (if p = [] \<or> hd p \<noteq> CHR ''/'' then CHR ''/'' # p else p); np = path_clean q
      in if last q = CHR ''/'' \<and> np \<noteq> ''/'' then np @ ''/'' else np)"

definition not_routed :: "httpIn \<Rightarrow> answer" where
  "not_routed r =
     (if mux_path (hi_path r) \<noteq> hi_path r then AText 301 ''Moved Permanently''
      else if list_ex (\<lambda>(m, p, _). p = hi_path r) route_table then AText 405 ''Method Not Allowed''
      else AText 404 ''404 page not found'')"

definition routes :: "bool \<Rightarrow> server_world \<Rightarrow> httpIn \<Rightarrow> server \<Rightarrow> answer \<times> server" where
  "routes locked w r s =
     (case route r of
        None \<Rightarrow> (not_routed r, s)
      | Some Messages \<Rightarrow> handleMessages locked w r s
      | Some CountTokens \<Rightarrow> (handleCountTokens locked r s, s)
      | Some ChatCompletions \<Rightarrow> handleChatCompletions locked w r s
      | Some ResponsesAPI \<Rightarrow> handleResponses locked w r s
      | Some Models \<Rightarrow> (models_answer locked r s, s)
      | Some Health \<Rightarrow> (health_answer locked w, s)
      | Some Shutdown \<Rightarrow> (shutdown_answer locked w r s, s))"

text \<open>\<open>handler\<close>: the guard, which knows how many slots are taken, and the routes behind it.\<close>

definition refused_text :: "request \<Rightarrow> string" where
  "refused_text g =
     (if (case SplitHostPort (rq_host g) of None \<Rightarrow> True | Some (h, p) \<Rightarrow> \<not> localHost h)
      then ''loopback host required'' else ''local origin required'')"

definition serve ::
  "bool \<Rightarrow> (string \<Rightarrow> string option) \<Rightarrow> nat \<Rightarrow> server_world \<Rightarrow> httpIn \<Rightarrow> server \<Rightarrow> answer \<times> server" where
  "serve locked originHost taken w r s =
     (case guard_verdict locked originHost (hi_guard r) of
        Refuse code \<Rightarrow> (AText code (refused_text (hi_guard r)), s)
      | Direct \<Rightarrow> routes locked w r s
      | NeedsSlot \<Rightarrow> (if taken < max_slots then routes locked w r s else (AText 429 ''local inference concurrency limit'', s)))"

end
