(* ===== verification/Server_Props.thy ===== *)
theory Server_Props
  imports Server
begin

text \<open>
  What holds of every request to the server: who reaches the upstream, and what a client is told
  when the upstream fails.
\<close>

section \<open>Who reaches the upstream\<close>

lemma use_session_calls: "use_session w m s = (sid, s') \<Longrightarrow> sv_calls s' = sv_calls s \<and> sv_sk s' = sv_sk s"
  by (auto simp: use_session_def split: prod.splits)

text \<open>A handler either leaves the record of calls alone or adds one body to it.\<close>

definition grows :: "server \<Rightarrow> server \<Rightarrow> bool" where
  "grows s s' \<longleftrightarrow> sv_calls s' = sv_calls s \<or> (\<exists>body. sv_calls s' = sv_calls s @ [body])"

lemma grows_refl [simp]: "grows s s" by (simp add: grows_def)

lemma grows_session: "use_session w m s = (sid, s') \<Longrightarrow> grows s s' \<and> grows s (call_with body s')"
  by (auto simp: grows_def call_with_def dest: use_session_calls)

lemma decoded_grows:
  "grows s (snd (messages_decoded locked w q1 s))" "grows s (snd (chat_decoded locked w q2 s))"
  "grows s (snd (responses_decoded locked w q3 s))"
    apply (simp add: messages_decoded_def grows_session split: option.split sum.split prod.split)
   apply (simp add: chat_decoded_def grows_session split: option.split sum.split prod.split)
  apply (simp add: responses_decoded_def grows_session split: option.split sum.split prod.split)
  done

lemma handler_calls:
  assumes "h \<in> {handleMessages locked w r s, handleChatCompletions locked w r s, handleResponses locked w r s}"
    "sv_calls (snd h) \<noteq> sv_calls s"
  shows "allowed s r \<and> (\<exists>body. sv_calls (snd h) = sv_calls s @ [body])"
proof -
  have "allowed s r"
    using assms by (auto simp: handleMessages_def handleChatCompletions_def handleResponses_def split: if_splits)
  moreover have "grows s (snd h)"
    using assms(1) decoded_grows
    by (auto simp: handleMessages_def handleChatCompletions_def handleResponses_def split: sum.split option.split)
  ultimately show ?thesis using assms(2) by (auto simp: grows_def)
qed

definition inference_paths :: "string set" where
  "inference_paths = {''/v1/messages'', ''/v1/chat/completions'', ''/v1/responses''}"

lemma route_inference:
  "route r = Some e \<Longrightarrow> e \<in> {Messages, ChatCompletions, ResponsesAPI} \<Longrightarrow>
     hi_method r = ''POST'' \<and> hi_path r \<in> inference_paths"
  by (auto simp: route_def route_table_def pattern_method_def inference_paths_def split: if_splits)

lemma routes_calls:
  assumes "sv_calls (snd (routes locked w r s)) \<noteq> sv_calls s"
  shows "allowed s r \<and> hi_method r = ''POST'' \<and> hi_path r \<in> inference_paths \<and>
    (\<exists>body. sv_calls (snd (routes locked w r s)) = sv_calls s @ [body])"
proof -
  from assms obtain e where e: "route r = Some e" "e \<in> {Messages, ChatCompletions, ResponsesAPI}"
    by (cases "route r") (auto simp: routes_def split: endpoint.splits)
  then have "routes locked w r s \<in> {handleMessages locked w r s, handleChatCompletions locked w r s,
      handleResponses locked w r s}"
    by (auto simp: routes_def)
  from handler_calls [OF this assms] route_inference [OF e] show ?thesis by simp
qed

text \<open>
  C17: an upstream call is made only for a \<open>POST\<close> to one of the three inference paths that carries
  the API key, and at most one per request; with the guard on, only for a local Host, an absent or
  local Origin, and while fewer than four such requests are being served.
\<close>

theorem upstream_only_for_allowed:
  assumes "serve locked originHost taken w r s = (a, s')" "sv_calls s' \<noteq> sv_calls s"
  shows "authOK (sv_sk s) (hi_xApiKey r) (hi_authorization r) \<and> hi_method r = ''POST'' \<and>
    hi_path r \<in> inference_paths \<and> (\<exists>body. sv_calls s' = sv_calls s @ [body]) \<and>
    (\<not> locked \<or> (\<exists>h p. SplitHostPort (rq_host (hi_guard r)) = Some (h, p) \<and> localHost h) \<and>
       (rq_origin (hi_guard r) = [] \<or> (\<exists>h. originHost (rq_origin (hi_guard r)) = Some h \<and> localHost h)) \<and> taken < 4)"
proof -
  have call: "sv_calls (snd (routes locked w r s)) \<noteq> sv_calls s" and s': "s' = snd (routes locked w r s)"
    and v: "guard_verdict locked originHost (hi_guard r) = Direct \<or>
      guard_verdict locked originHost (hi_guard r) = NeedsSlot \<and> taken < max_slots"
    using assms by (auto simp: serve_def split: verdict.splits if_splits)
  note r = routes_calls [OF call]
  have "\<not> open_path (hi_path r)" using r by (auto simp: open_path_def inference_paths_def)
  then have "\<not> locked \<or> (\<exists>h p. SplitHostPort (rq_host (hi_guard r)) = Some (h, p) \<and> localHost h) \<and>
       (rq_origin (hi_guard r) = [] \<or> (\<exists>h. originHost (rq_origin (hi_guard r)) = Some h \<and> localHost h)) \<and> taken < 4"
    using v by (auto simp: guard_verdict_def hi_path_def max_slots_def split: if_splits option.splits)
  then show ?thesis using r s' by (simp add: allowed_def)
qed

section \<open>What a client learns of a failure\<close>

text \<open>The status with which a failed upstream call is reported.\<close>

definition failure_status :: "server_world \<Rightarrow> int option" where
  "failure_status w =
     (case snd (callUpstream (sw_upstream w)) of
        Answered r \<Rightarrow> if re_status r = 200 then None else Some (re_status r)
      | _ \<Rightarrow> Some 502)"

lemma after_call_hides:
  assumes "failure_status w = Some st" "\<And>m. err st ''api_error'' m = c"
  shows "after_call w err srv = c"
  using assms by (auto simp: failure_status_def after_call_def split: call_result.splits if_splits)

lemma anthropic_hides: "anthropic_error True st ''api_error'' m = anthropic_error True st ''api_error'' []"
  by (simp add: anthropic_error_def locked_api_error_hides(1) [of st m "[]"])

lemma oai_hides: "oai_error True st ''api_error'' m = oai_error True st ''api_error'' []"
  by (simp add: oai_error_def locked_api_error_hides(2) [of st "[]" m "[]"])

lemmas hides = anthropic_hides oai_hides

text \<open>
  C18: in the locked mode a client learns nothing of an upstream failure but its status: whatever
  the upstream answered, said in its error text, or failed with, the whole answer is the same for
  all failures reported with one status.
\<close>

theorem locked_failure_opaque:
  assumes "failure_status w = Some st" "failure_status (w\<lparr>sw_upstream := env\<rparr>) = Some st"
  shows "serve True originHost taken (w\<lparr>sw_upstream := env\<rparr>) r s = serve True originHost taken w r s"
proof -
  let ?w = "w\<lparr>sw_upstream := env\<rparr>"
  have a: "after_call ?w (anthropic_error True) f = after_call w (anthropic_error True) g" for f g
    using after_call_hides [OF assms(1), of "anthropic_error True"] after_call_hides [OF assms(2), of "anthropic_error True"]
      anthropic_hides by metis
  have o': "after_call ?w (oai_error True) f = after_call w (oai_error True) g" for f g
    using after_call_hides [OF assms(1), of "oai_error True"] after_call_hides [OF assms(2), of "oai_error True"]
      oai_hides by metis
  have u: "use_session ?w m s = use_session w m s" for m s by (simp add: use_session_def)
  have eqs [simp]:
    "after_call ?w (anthropic_error True) (messages_answer True ?w q1) =
       after_call w (anthropic_error True) (messages_answer True w q1)"
    "after_call ?w (oai_error True) (chat_answer True ?w q2) = after_call w (oai_error True) (chat_answer True w q2)"
    "after_call ?w (oai_error True) (responses_answer True ?w q3) =
       after_call w (oai_error True) (responses_answer True w q3)" for q1 q2 q3
    by (rule a, rule o', rule o')
  have "messages_decoded True ?w q1 s = messages_decoded True w q1 s" "chat_decoded True ?w q2 s = chat_decoded True w q2 s"
    "responses_decoded True ?w q3 s = responses_decoded True w q3 s" for q1 q2 q3
    unfolding messages_decoded_def chat_decoded_def responses_decoded_def u
    by (simp_all split: option.split sum.split prod.split)
  then have h: "handleMessages True ?w r s = handleMessages True w r s"
    "handleChatCompletions True ?w r s = handleChatCompletions True w r s"
    "handleResponses True ?w r s = handleResponses True w r s"
    unfolding handleMessages_def handleChatCompletions_def handleResponses_def
    by (simp_all split: option.split sum.split)
  have other: "health_answer True ?w = health_answer True w" "shutdown_answer True ?w r s = shutdown_answer True w r s"
    by (simp_all add: health_answer_def shutdown_answer_def)
  have "routes True ?w r s = routes True w r s" unfolding routes_def h other ..
  then show ?thesis by (simp only: serve_def)
qed

section \<open>Examples\<close>

definition refusing :: "string \<Rightarrow> environment" where
  "refusing text = \<lparr>env_call = (\<lambda>k. Ok \<lparr>re_status = 403, re_retryAfter = [], re_body = text\<rparr>), env_refresh = True,
     env_sleep = (\<lambda>k. True), env_frac = (\<lambda>f s u. 0)\<rparr>"

definition sample_world :: "string \<Rightarrow> server_world" where
  "sample_world text = \<lparr>sw_ids = (\<lambda>n. ''id''), sw_upstream = refusing text, sw_bodyEnd = AtEOF, sw_millis = 0,
     sw_seconds = 0, sw_jsonErr = id, sw_convertErr = (\<lambda>e. []), sw_inputErr = id, sw_ctxErr = [],
     sw_flushes = True, sw_loggedIn = True, sw_instance = [], sw_canShutdown = False\<rparr>"

definition sample_server :: server where
  "sample_server = \<lparr>sv_sk = ''key'', sv_models = newModelResolver [builtin_model (''auto'', ''Auto'', False, 180000)] None [] [],
     sv_sessions = [], sv_calls = []\<rparr>"

definition sample_in :: httpIn where
  \<open>sample_in = \<lparr>hi_method = ''POST'',
     hi_guard = \<lparr>rq_host = ''localhost:1'', rq_origin = [], rq_path = ''/v1/chat/completions''\<rparr>,
     hi_xApiKey = ''key'', hi_authorization = [], hi_body = ''{"model":"auto"}'', hi_readErr = None\<rparr>\<close>

lemma sample_decode_chat: \<open>decode_oaiRequest ''{"model":"auto"}'' = Some (zero_oaiRequest\<lparr>or_Model := ''auto''\<rparr>)\<close>
  by (simp add: decode_oaiRequest_def json_eval decode_eval oaiRequest_fields_def zero_oaiRequest_def)

lemma sample_resolves: "\<exists>mc. resolve True (sv_models sample_server) ''auto'' = Some mc"
  by (simp add: sample_server_def resolve_def client_name_def newModelResolver_def modelByIdentifier_def
      by_key_def builtin_model_def TrimPrefix_def HasPrefix_def HasSuffix_def Let_def)

lemma sample_served:
  "\<exists>a s body. serve True (\<lambda>o'. None) 3 (sample_world text) sample_in sample_server = (a, s) \<and> sv_calls s = [body]"
proof -
  obtain mc where mc: "resolve True (sv_models sample_server) ''auto'' = Some mc" using sample_resolves by blast
  have v: "guard_verdict True (\<lambda>o'. None) (hi_guard sample_in) = NeedsSlot"
    by (simp add: sample_in_def guard_verdict_def SplitHostPort_def last_colon_def localHost_def open_path_def)
  have rt: "route sample_in = Some ChatCompletions"
    by (simp add: sample_in_def route_def route_table_def pattern_method_def hi_path_def)
  have al: "allowed sample_server sample_in" by (simp add: allowed_def sample_server_def sample_in_def authOK_def)
  have rd: \<open>read_all True sample_in = Ok ''{"model":"auto"}''\<close> by (simp add: read_all_def sample_in_def)
  show ?thesis
    using mc
    by (simp add: serve_def v max_slots_def routes_def rt handleChatCompletions_def al rd sample_decode_chat
        chat_decoded_def use_session_def call_with_def split: prod.split)
      (simp add: sample_server_def)
qed

lemma upstream_only_for_allowed_witness:
  "authOK (sv_sk sample_server) (hi_xApiKey sample_in) [] \<and> hi_path sample_in \<in> inference_paths"
proof -
  obtain a s body where "serve True (\<lambda>o'. None) 3 (sample_world []) sample_in sample_server = (a, s)" "sv_calls s = [body]"
    using sample_served by blast
  moreover have "sv_calls sample_server = []" by (simp add: sample_server_def)
  ultimately show ?thesis
    using upstream_only_for_allowed [of True "\<lambda>o'. None" 3 "sample_world []" sample_in sample_server a s]
    by (simp add: sample_in_def)
qed

lemma refused_once: "json_parse text = None \<Longrightarrow> length text < 8192 \<Longrightarrow> failure_status (sample_world text) = Some 403"
  by (simp add: failure_status_def sample_world_def refusing_def callUpstream_def maxAttempts_def upt_rec decide_def
      queueWait_def unmarshal_def retryableStatus_def errorResponse_def Let_def)

lemma locked_failure_opaque_witness:
  "serve True (\<lambda>o'. None) 0 (sample_world ''secret'') sample_in sample_server =
   serve True (\<lambda>o'. None) 0 (sample_world ''other'') sample_in sample_server"
proof -
  have "failure_status (sample_world ''other'') = Some 403" "failure_status (sample_world ''secret'') = Some 403"
    by (rule refused_once; simp add: json_eval)+
  moreover have "sample_world ''secret'' = (sample_world ''other'')\<lparr>sw_upstream := refusing ''secret''\<rparr>"
    by (simp add: sample_world_def)
  ultimately show ?thesis
    using locked_failure_opaque [of "sample_world ''other''" 403 "refusing ''secret''"] by simp
qed

end
