(* ===== verification/Oracle_Replay.thy ===== *)
theory Oracle_Replay
  imports Go_Strings
begin

text \<open>
  \<open>tools/wasm_oracle/replay.go\<close>: while the fixture tool runs the vendor's WebAssembly module, the
  clock and the entropy source the module asks for are a recorded transcript, answered only if the
  module asks in the recorded order; and \<open>oracleError\<close> of \<open>fixture.go\<close>, whose value is its category.
\<close>

section \<open>Transcripts\<close>

type_synonym category = string

record entropyRead =
  er_Length :: int
  er_Bytes :: bytes

text \<open>\<open>None\<close> is a nil slice, which is written as \<open>null\<close>.\<close>

record transcript =
  tr_UnixMilli :: "int list option"
  tr_EntropyReads :: "entropyRead list option"

fun slice_items :: "'a list option \<Rightarrow> 'a list" where
  "slice_items None = []"
| "slice_items (Some xs) = xs"

abbreviation clocks :: "transcript \<Rightarrow> int list" where "clocks t \<equiv> slice_items (tr_UnixMilli t)"
abbreviation entropy_reads :: "transcript \<Rightarrow> entropyRead list" where "entropy_reads t \<equiv> slice_items (tr_EntropyReads t)"

datatype hostCallKind = HostClock | HostEntropy

record hostCall =
  hc_Kind :: hostCallKind
  hc_Length :: int

record orderedReplay =
  or_transcript :: transcript
  or_expected :: "hostCall list"
  or_orderCursor :: nat
  or_timeCursor :: nat
  or_entropyCursor :: nat

definition newOrderedReplay :: "transcript \<Rightarrow> hostCall list \<Rightarrow> orderedReplay" where
  "newOrderedReplay value expected = \<lparr>or_transcript = value, or_expected = expected,
     or_orderCursor = 0, or_timeCursor = 0, or_entropyCursor = 0\<rparr>"

section \<open>Operations\<close>

definition replay_expect :: "hostCall \<Rightarrow> orderedReplay \<Rightarrow> category option \<times> orderedReplay" where
  "replay_expect call r =
     (if or_orderCursor r \<ge> length (or_expected r) then (Some ''transcript-order-exhausted'', r)
      else if or_expected r ! or_orderCursor r \<noteq> call then (Some ''transcript-order'', r)
      else (None, r\<lparr>or_orderCursor := or_orderCursor r + 1\<rparr>))"

definition clock_call :: hostCall where "clock_call = \<lparr>hc_Kind = HostClock, hc_Length = 0\<rparr>"

definition entropy_call :: "int \<Rightarrow> hostCall" where
  "entropy_call n = \<lparr>hc_Kind = HostEntropy, hc_Length = n\<rparr>"

definition replay_Now :: "orderedReplay \<Rightarrow> (category, int) result \<times> orderedReplay" where
  "replay_Now r =
     (case replay_expect clock_call r of
        (Some e, r) \<Rightarrow> (Err e, r)
      | (None, r) \<Rightarrow>
          (if or_timeCursor r \<ge> length (clocks (or_transcript r)) then (Err ''transcript-clock-exhausted'', r)
           else (Ok (clocks (or_transcript r) ! or_timeCursor r), r\<lparr>or_timeCursor := or_timeCursor r + 1\<rparr>)))"

text \<open>\<open>copy(dst, src)\<close>: as many bytes as both have.\<close>

definition copied :: "bytes \<Rightarrow> bytes \<Rightarrow> bytes" where
  "copied dst src = take (length dst) src @ drop (length src) dst"

definition replay_Read :: "bytes \<Rightarrow> orderedReplay \<Rightarrow> (category, bytes) result \<times> orderedReplay" where
  "replay_Read dst r =
     (case replay_expect (entropy_call (int (length dst))) r of
        (Some e, r) \<Rightarrow> (Err e, r)
      | (None, r) \<Rightarrow>
          (if or_entropyCursor r \<ge> length (entropy_reads (or_transcript r)) then (Err ''transcript-entropy-exhausted'', r)
           else (let rd = entropy_reads (or_transcript r) ! or_entropyCursor r;
                     r = r\<lparr>or_entropyCursor := or_entropyCursor r + 1\<rparr>
                 in if er_Length rd \<noteq> int (length dst) then (Err ''transcript-entropy-length'', r)
                    else (Ok (copied dst (er_Bytes rd)), r))))"

definition Exhausted :: "orderedReplay \<Rightarrow> category option" where
  "Exhausted r =
     (if or_orderCursor r \<noteq> length (or_expected r) then Some ''transcript-order-unconsumed''
      else if or_timeCursor r \<noteq> length (clocks (or_transcript r)) then Some ''transcript-clock-unconsumed''
      else if or_entropyCursor r \<noteq> length (entropy_reads (or_transcript r)) then Some ''transcript-entropy-unconsumed''
      else None)"

definition entropyCalls :: "transcript \<Rightarrow> hostCall list" where
  "entropyCalls value = map (\<lambda>read. entropy_call (er_Length read)) (entropy_reads value)"

definition transcriptShape :: "transcript \<Rightarrow> string" where
  "transcriptShape value =
     ''clock:'' @ itoa (int (length (clocks value))) @ '',entropy:'' @
     (if entropy_reads value \<noteq> [] then Join (map (\<lambda>read. itoa (er_Length read)) (entropy_reads value)) '','' else ''none'')"

section \<open>A run of host calls\<close>

text \<open>What a module asks of the host: the time, or bytes into a buffer of a length.\<close>

datatype question = AskNow | AskBytes nat

fun question_call :: "question \<Rightarrow> hostCall" where
  "question_call AskNow = clock_call"
| "question_call (AskBytes n) = entropy_call (int n)"

datatype answered = Time int | Filled bytes | Refused category

fun replay_ask :: "question \<Rightarrow> orderedReplay \<Rightarrow> answered \<times> orderedReplay" where
  "replay_ask AskNow r =
     (case replay_Now r of (Ok t, r) \<Rightarrow> (Time t, r) | (Err e, r) \<Rightarrow> (Refused e, r))"
| "replay_ask (AskBytes n) r =
     (case replay_Read (replicate n (chr 0)) r of (Ok b, r) \<Rightarrow> (Filled b, r) | (Err e, r) \<Rightarrow> (Refused e, r))"

fun replay_run :: "question list \<Rightarrow> orderedReplay \<Rightarrow> answered list \<times> orderedReplay" where
  "replay_run [] r = ([], r)"
| "replay_run (q # qs) r =
     (case replay_ask q r of (a, r) \<Rightarrow> (case replay_run qs r of (as, r) \<Rightarrow> (a # as, r)))"

fun refused :: "answered \<Rightarrow> bool" where
  "refused (Refused e) \<longleftrightarrow> True"
| "refused _ \<longleftrightarrow> False"

text \<open>A run is accepted: no question was refused, and nothing recorded is left over.\<close>

definition accepted :: "answered list \<times> orderedReplay \<Rightarrow> bool" where
  "accepted run \<longleftrightarrow> \<not> list_ex refused (fst run) \<and> Exhausted (snd run) = None"

text \<open>The answers a transcript has for questions asked in order.\<close>

fun recorded :: "question list \<Rightarrow> int list \<Rightarrow> entropyRead list \<Rightarrow> answered list" where
  "recorded (AskNow # qs) (t # ts) es = Time t # recorded qs ts es"
| "recorded (AskBytes n # qs) ts (e # es) = Filled (copied (replicate n (chr 0)) (er_Bytes e)) # recorded qs ts es"
| "recorded _ _ _ = []"

text \<open>Questions and transcript agree: one time for each question of the time, and reads of the lengths asked.\<close>

fun agree :: "question list \<Rightarrow> int list \<Rightarrow> entropyRead list \<Rightarrow> bool" where
  "agree [] ts es \<longleftrightarrow> ts = [] \<and> es = []"
| "agree (AskNow # qs) ts es \<longleftrightarrow> ts \<noteq> [] \<and> agree qs (tl ts) es"
| "agree (AskBytes n # qs) ts es \<longleftrightarrow> es \<noteq> [] \<and> er_Length (hd es) = int n \<and> agree qs ts (tl es)"

text \<open>What a replay still has to give: a cursor leaves the rest of its list.\<close>

definition left_of :: "nat \<Rightarrow> 'a list \<Rightarrow> 'a list \<Rightarrow> bool" where
  "left_of k xs ys \<longleftrightarrow> k \<le> length xs \<and> drop k xs = ys"

lemma left_of_Nil: "left_of k xs [] \<longleftrightarrow> k = length xs"
  by (auto simp: left_of_def)

lemma left_of_Cons: "left_of k xs (y # ys) \<longleftrightarrow> k < length xs \<and> xs ! k = y \<and> left_of (Suc k) xs ys"
  by (cases "k < length xs") (auto simp: left_of_def Cons_nth_drop_Suc [symmetric])

definition at_rest :: "hostCall list \<Rightarrow> int list \<Rightarrow> entropyRead list \<Rightarrow> orderedReplay \<Rightarrow> bool" where
  "at_rest cs ts es r \<longleftrightarrow> left_of (or_orderCursor r) (or_expected r) cs \<and>
     left_of (or_timeCursor r) (clocks (or_transcript r)) ts \<and>
     left_of (or_entropyCursor r) (entropy_reads (or_transcript r)) es"

lemma new_at_rest: "at_rest calls (clocks t) (entropy_reads t) (newOrderedReplay t calls)"
  by (simp add: at_rest_def newOrderedReplay_def left_of_def)

lemma Exhausted_at_rest: "at_rest cs ts es r \<Longrightarrow> Exhausted r = None \<longleftrightarrow> cs = [] \<and> ts = [] \<and> es = []"
  by (cases cs; cases ts; cases es) (auto simp: at_rest_def Exhausted_def left_of_Nil left_of_Cons)

lemma expect_at_rest:
  assumes "at_rest cs ts es r"
  obtains (fits) r' where "cs = c # tl cs" "replay_expect c r = (None, r')" "at_rest (tl cs) ts es r'"
  | (other) e where "cs = [] \<or> hd cs \<noteq> c" "replay_expect c r = (Some e, r)"
proof (cases "cs = [] \<or> hd cs \<noteq> c")
  case True
  then have "\<exists>e. replay_expect c r = (Some e, r)"
    using assms by (cases cs) (auto simp: at_rest_def replay_expect_def left_of_Nil left_of_Cons)
  then show ?thesis using True other by blast
next
  case False
  then have "replay_expect c r = (None, r\<lparr>or_orderCursor := Suc (or_orderCursor r)\<rparr>)"
    "at_rest (tl cs) ts es (r\<lparr>or_orderCursor := Suc (or_orderCursor r)\<rparr>)"
    using assms by (cases cs; simp add: at_rest_def replay_expect_def left_of_Cons)+
  moreover have "cs = c # tl cs" using False by (cases cs) auto
  ultimately show ?thesis by (rule fits [rotated 1])
qed

text \<open>One question gets the next thing recorded if it is the next expected call, and is refused otherwise.\<close>

fun answerable :: "question \<Rightarrow> hostCall list \<Rightarrow> int list \<Rightarrow> entropyRead list \<Rightarrow> bool" where
  "answerable AskNow cs ts es \<longleftrightarrow> ts \<noteq> [] \<and> (\<exists>cs'. cs = clock_call # cs')"
| "answerable (AskBytes n) cs ts es \<longleftrightarrow> es \<noteq> [] \<and> er_Length (hd es) = int n \<and> (\<exists>cs'. cs = entropy_call (int n) # cs')"

lemma ask_now:
  assumes "at_rest (clock_call # cs) (t # ts) es r"
  obtains r' where "replay_ask AskNow r = (Time t, r')" "at_rest cs ts es r'"
  using assms by (auto simp: replay_Now_def at_rest_def replay_expect_def left_of_Cons)

lemma ask_bytes:
  assumes "at_rest (entropy_call (int n) # cs) ts (e # es) r" "er_Length e = int n"
  obtains r' where "replay_ask (AskBytes n) r = (Filled (copied (replicate n (chr 0)) (er_Bytes e)), r')"
    "at_rest cs ts es r'"
  using assms by (auto simp: replay_Read_def at_rest_def replay_expect_def left_of_Cons Let_def)

lemma ask_refused:
  assumes "at_rest cs ts es r" "\<not> answerable q cs ts es"
  shows "refused (fst (replay_ask q r))"
  using assms(1)
proof (cases rule: expect_at_rest [where c = "question_call q"])
  case (fits r')
  then show ?thesis using assms(2)
    by (cases q; cases ts; cases es) (auto simp: replay_Now_def replay_Read_def at_rest_def Let_def left_of_Nil left_of_Cons)
next
  case (other e)
  then show ?thesis by (cases q) (simp_all add: replay_Now_def replay_Read_def)
qed

lemma accepted_Cons:
  "accepted (replay_run (q # qs) r) \<longleftrightarrow>
     \<not> refused (fst (replay_ask q r)) \<and> accepted (replay_run qs (snd (replay_ask q r)))"
  by (auto simp: accepted_def split: prod.splits)

lemma run_accepted:
  "at_rest cs ts es r \<Longrightarrow> accepted (replay_run qs r) \<longleftrightarrow> map question_call qs = cs \<and> agree qs ts es"
proof (induction qs arbitrary: cs ts es r)
  case Nil
  then show ?case using Exhausted_at_rest [OF Nil] by (auto simp: accepted_def)
next
  case (Cons q qs)
  show ?case
  proof (cases "answerable q cs ts es")
    case False
    then have "refused (fst (replay_ask q r))" by (rule ask_refused [OF Cons.prems])
    then have "\<not> accepted (replay_run (q # qs) r)" by (simp only: accepted_Cons) simp
    moreover have "\<not> (map question_call (q # qs) = cs \<and> agree (q # qs) ts es)" using False by (cases q) auto
    ultimately show ?thesis by blast
  next
    case True
    show ?thesis
    proof (cases q)
      case AskNow
      with True obtain cs' t ts' where c: "cs = clock_call # cs'" "ts = t # ts'" by (cases ts) auto
      with Cons.prems obtain r' where "replay_ask AskNow r = (Time t, r')" "at_rest cs' ts' es r'"
        by (blast elim: ask_now)
      with Cons.IH AskNow c show ?thesis by (simp only: accepted_Cons) simp
    next
      case (AskBytes n)
      with True obtain cs' e es' where c: "cs = entropy_call (int n) # cs'" "es = e # es'" "er_Length e = int n"
        by (cases es) auto
      with Cons.prems obtain r' where
        "replay_ask (AskBytes n) r = (Filled (copied (replicate n (chr 0)) (er_Bytes e)), r')" "at_rest cs' ts es' r'"
        by (blast elim: ask_bytes)
      with Cons.IH AskBytes c show ?thesis by (simp only: accepted_Cons) simp
    qed
  qed
qed

lemma fst_run_Cons: "fst (replay_run (q # qs) r) = fst (replay_ask q r) # fst (replay_run qs (snd (replay_ask q r)))"
  by (simp split: prod.splits)

lemma run_recorded:
  "at_rest (map question_call qs) ts es r \<Longrightarrow> agree qs ts es \<Longrightarrow> fst (replay_run qs r) = recorded qs ts es"
proof (induction qs ts es arbitrary: r rule: agree.induct)
  case (1 ts es)
  then show ?case by simp
next
  case (2 qs ts es)
  from "2.prems" obtain t ts' where t: "ts = t # ts'" "agree qs ts' es" by (cases ts) auto
  with "2.prems" obtain r' where "replay_ask AskNow r = (Time t, r')" "at_rest (map question_call qs) ts' es r'"
    by (auto elim: ask_now)
  with "2.IH" t show ?case by (simp only: fst_run_Cons) simp
next
  case (3 n qs ts es)
  from "3.prems" obtain e es' where e: "es = e # es'" "er_Length e = int n" "agree qs ts es'" by (cases es) auto
  with "3.prems" obtain r' where
    "replay_ask (AskBytes n) r = (Filled (copied (replicate n (chr 0)) (er_Bytes e)), r')"
    "at_rest (map question_call qs) ts es' r'" by (auto elim: ask_bytes)
  with "3.IH" e show ?case by (simp only: fst_run_Cons) simp
qed

text \<open>
  C39: a run of clock and entropy questions against a replay is accepted exactly when the questions
  are the expected calls in their order and the transcript has one time for every question of the
  time and a read of the very length for every question of bytes, with nothing left over.
\<close>

theorem replay_accepts_exactly:
  "accepted (replay_run qs (newOrderedReplay t calls)) \<longleftrightarrow>
     map question_call qs = calls \<and> agree qs (clocks t) (entropy_reads t)"
  by (rule run_accepted [OF new_at_rest])

lemma accepted_recorded:
  "accepted (replay_run qs (newOrderedReplay t calls)) \<Longrightarrow>
     fst (replay_run qs (newOrderedReplay t calls)) = recorded qs (clocks t) (entropy_reads t)"
  using run_accepted [OF new_at_rest] run_recorded new_at_rest by metis

end
