(* ===== verification/Oracle_Host.thy ===== *)
theory Oracle_Host
  imports Oracle_Replay
begin

text \<open>
  \<open>tools/wasm_oracle/host.go\<close> and the handle table of \<open>backend.go\<close>: the functions the fixture tool
  gives the vendor's WebAssembly module, whose glue expects a JavaScript host. Values live in a
  table of handles threaded by a free list; byte arrays and maps are references, so that a handle
  and its clone are the same object.

  The module and the runtime that runs it (wazero) are outside: \<open>guest\<close> is what the tool sees of
  them, over an unknown state \<open>'m\<close> of an instance with its memory.
\<close>

section \<open>State\<close>

text \<open>\<open>NextFree\<close> is the \<open>uint64\<close> a free slot holds; Go's nil interface is \<open>Undefined\<close>.\<close>

datatype jsval =
    Undefined | NullValue | Boolean bool | StringValue string
  | MapRef nat | VersionsMap | ArrayRef nat
  | GlobalValue | CryptoValue | ProcessValue | ErrorValue
  | NextFree nat

text \<open>A byte array of its own, or a view of the module's memory.\<close>

record fakeU8 =
  fu_n :: nat
  fu_buf :: bytes
  fu_ptr :: nat
  fu_memBack :: bool

record freeAccounting =
  fa_ResultStrings :: nat
  fa_Contexts :: nat
  fa_RequestResults :: nat

text \<open>What a module hands out to be given back: a frame of its stack, and what its results point to.\<close>

datatype resource = StackFrame | ResultString nat nat | Context nat | RequestResult nat

text \<open>\<open>wb_taken\<close> and \<open>wb_freed\<close> record what was handed out and what was given back, in order.\<close>

record 'm wasmBackend =
  wb_mem :: 'm
  wb_heap :: "jsval list"
  wb_heapNext :: nat
  wb_maps :: "(string \<times> string) list list"
  wb_arrays :: "fakeU8 list"
  wb_replay :: "orderedReplay option"
  wb_hostFail :: "category option"
  wb_accounting :: freeAccounting
  wb_taken :: "resource list"
  wb_freed :: "resource list"

text \<open>
  What runs in the module between two points where the host acts: it returns, with \<open>None\<close> for a
  trap, or it calls a function of the host and goes on with the results.
\<close>

datatype 'm activity =
    Returns "nat list option" 'm
  | Imports string "nat list" 'm "nat list \<Rightarrow> 'm \<Rightarrow> 'm activity"

record 'm guest =
  gu_compiles :: "bytes \<Rightarrow> bool"
  gu_hosts :: bool
  gu_instantiate :: "bytes \<Rightarrow> 'm option"
  gu_memory :: "'m \<Rightarrow> bool"
  gu_exports :: "'m \<Rightarrow> string \<Rightarrow> bool"
  gu_read :: "'m \<Rightarrow> nat \<Rightarrow> nat \<Rightarrow> bytes option"
  gu_write :: "'m \<Rightarrow> nat \<Rightarrow> bytes \<Rightarrow> 'm option"
  gu_call :: "string \<Rightarrow> nat list \<Rightarrow> 'm \<Rightarrow> 'm activity"

definition uint32 :: "nat \<Rightarrow> nat" where "uint32 n = n mod 2 ^ 32"

section \<open>Handles\<close>

definition first_handle :: nat where "first_handle = 1028"

definition initial_heap :: "jsval list" where
  "initial_heap = replicate 1024 Undefined @ [Undefined, NullValue, Boolean True, Boolean False]"

definition heap_get :: "jsval list \<Rightarrow> nat \<Rightarrow> jsval" where
  "heap_get h i = (if i < length h then h ! i else Undefined)"

text \<open>
  The index is in range after the first step (\<open>add_in_range\<close>), so the padding in the middle, which
  is the code's loop, adds nothing.
\<close>

definition heap_add :: "jsval \<Rightarrow> jsval list \<times> nat \<Rightarrow> nat \<times> jsval list \<times> nat" where
  "heap_add v hn =
     (case hn of (h, next_free) \<Rightarrow>
        (let h = (if next_free = uint32 (length h) then h @ [NextFree (length h + 1)] else h);
             index = next_free;
             next_free = (case heap_get h index of NextFree n \<Rightarrow> uint32 n | _ \<Rightarrow> uint32 (length h));
             h = h @ replicate (index + 1 - length h) Undefined
         in (index, h[index := v], next_free)))"

definition heap_drop :: "nat \<Rightarrow> jsval list \<times> nat \<Rightarrow> jsval list \<times> nat" where
  "heap_drop index hn =
     (case hn of (h, next_free) \<Rightarrow>
        (if index < first_handle \<or> index \<ge> uint32 (length h) then (h, next_free)
         else (h[index := NextFree next_free], index)))"

definition on_heap :: "(jsval list \<times> nat \<Rightarrow> jsval list \<times> nat) \<Rightarrow> 'm wasmBackend \<Rightarrow> 'm wasmBackend" where
  "on_heap f w = (case f (wb_heap w, wb_heapNext w) of (h, n) \<Rightarrow> w\<lparr>wb_heap := h, wb_heapNext := n\<rparr>)"

definition add :: "jsval \<Rightarrow> 'm wasmBackend \<Rightarrow> nat \<times> 'm wasmBackend" where
  "add v w =
     (case heap_add v (wb_heap w, wb_heapNext w) of (i, h, n) \<Rightarrow> (i, w\<lparr>wb_heap := h, wb_heapNext := n\<rparr>))"

definition drop_handle :: "nat \<Rightarrow> 'm wasmBackend \<Rightarrow> 'm wasmBackend" where
  "drop_handle index = on_heap (heap_drop index)"

definition get_handle :: "nat \<Rightarrow> 'm wasmBackend \<Rightarrow> jsval" where
  "get_handle index w = (if index < uint32 (length (wb_heap w)) then wb_heap w ! index else Undefined)"

definition take_handle :: "nat \<Rightarrow> 'm wasmBackend \<Rightarrow> jsval \<times> 'm wasmBackend" where
  "take_handle index w = (get_handle index w, drop_handle index w)"

definition fail_host :: "category \<Rightarrow> 'm wasmBackend \<Rightarrow> 'm wasmBackend" where
  "fail_host e w = w\<lparr>wb_hostFail := Some e\<rparr>"

definition setReplay :: "orderedReplay \<Rightarrow> 'm wasmBackend \<Rightarrow> 'm wasmBackend" where
  "setReplay replay w = w\<lparr>wb_replay := Some replay, wb_hostFail := None\<rparr>"

definition readString :: "'m guest \<Rightarrow> nat \<Rightarrow> nat \<Rightarrow> 'm wasmBackend \<Rightarrow> string \<times> 'm wasmBackend" where
  "readString g ptr len w =
     (case gu_read g (wb_mem w) ptr len of None \<Rightarrow> ([], fail_host ''host-memory'' w) | Some d \<Rightarrow> (d, w))"

section \<open>Byte arrays\<close>

definition array_read :: "'m guest \<Rightarrow> fakeU8 \<Rightarrow> 'm wasmBackend \<Rightarrow> bytes" where
  "array_read g f w =
     (if fu_memBack f then (case gu_read g (wb_mem w) (fu_ptr f) (uint32 (fu_n f)) of None \<Rightarrow> [] | Some d \<Rightarrow> d)
      else fu_buf f)"

definition memory_write :: "'m guest \<Rightarrow> nat \<Rightarrow> bytes \<Rightarrow> 'm wasmBackend \<Rightarrow> bool \<times> 'm wasmBackend" where
  "memory_write g ptr data w =
     (case gu_write g (wb_mem w) ptr data of None \<Rightarrow> (False, w) | Some m \<Rightarrow> (True, w\<lparr>wb_mem := m\<rparr>))"

definition array_write :: "'m guest \<Rightarrow> nat \<Rightarrow> bytes \<Rightarrow> 'm wasmBackend \<Rightarrow> bool \<times> 'm wasmBackend" where
  "array_write g a data w =
     (let f = wb_arrays w ! a
      in if length data \<noteq> fu_n f then (False, w)
         else if fu_memBack f then memory_write g (fu_ptr f) data w
         else (True, w\<lparr>wb_arrays := (wb_arrays w)[a := f\<lparr>fu_buf := copied (fu_buf f) data\<rparr>]\<rparr>))"

definition new_array :: "fakeU8 \<Rightarrow> 'm wasmBackend \<Rightarrow> nat \<times> 'm wasmBackend" where
  "new_array f w = add (ArrayRef (length (wb_arrays w))) (w\<lparr>wb_arrays := wb_arrays w @ [f]\<rparr>)"

definition array_at :: "nat \<Rightarrow> 'm wasmBackend \<Rightarrow> nat option" where
  "array_at index w = (case get_handle index w of ArrayRef a \<Rightarrow> Some a | _ \<Rightarrow> None)"

definition empty_array :: fakeU8 where
  "empty_array = \<lparr>fu_n = 0, fu_buf = [], fu_ptr = 0, fu_memBack = False\<rparr>"

section \<open>Entropy\<close>

text \<open>
  The bytes of one entropy call: those of the replay, or ones, if the replay refuses, or if an
  earlier function of the same call has failed.
\<close>

definition replay_bytes :: "nat \<Rightarrow> 'm wasmBackend \<Rightarrow> bytes \<times> 'm wasmBackend" where
  "replay_bytes n w =
     (case (case wb_replay w of
              None \<Rightarrow> (replicate n (chr 0), fail_host ''transcript-missing'' w)
            | Some r \<Rightarrow>
                (case replay_Read (replicate n (chr 0)) r of
                   (Err e, r) \<Rightarrow> (replicate n (chr 0), fail_host e (w\<lparr>wb_replay := Some r\<rparr>))
                 | (Ok b, r) \<Rightarrow> (b, w\<lparr>wb_replay := Some r\<rparr>))) of
        (b, w) \<Rightarrow> (if wb_hostFail w \<noteq> None then replicate n (chr 1) else b, w))"

definition writeEntropy :: "'m guest \<Rightarrow> nat \<Rightarrow> nat \<Rightarrow> 'm wasmBackend \<Rightarrow> 'm wasmBackend" where
  "writeEntropy g ptr len w =
     (case replay_bytes len w of (buf, w) \<Rightarrow>
        (case memory_write g ptr buf w of (ok, w) \<Rightarrow> (if ok then w else fail_host ''host-memory'' w)))"

definition fillArray :: "'m guest \<Rightarrow> nat \<Rightarrow> 'm wasmBackend \<Rightarrow> 'm wasmBackend" where
  "fillArray g index w =
     (case array_at index w of
        None \<Rightarrow> fail_host ''host-array'' w
      | Some a \<Rightarrow>
          (case replay_bytes (fu_n (wb_arrays w ! a)) w of (buf, w) \<Rightarrow>
             (case array_write g a buf w of (ok, w) \<Rightarrow> (if ok then w else fail_host ''host-array'' w))))"

end
