(* ===== verification/Oracle_Imports.thy ===== *)
theory Oracle_Imports
  imports Oracle_Host
begin

text \<open>
  \<open>instantiateHost\<close> of \<open>tools/wasm_oracle/host.go\<close>: the table of functions the module imports, and
  the running of the module between them.
\<close>

section \<open>Numbers and strings as the host sees them\<close>

text \<open>
  The bits of \<open>float64(v)\<close>: the fraction is rounded to 52 bits, half to even; a carry out of it
  goes into the exponent.
\<close>

fun binary_log :: "nat \<Rightarrow> nat" where
  "binary_log n = (if n < 2 then 0 else binary_log (n div 2) + 1)"

declare binary_log.simps [simp del]

definition round_half_even :: "nat \<Rightarrow> nat \<Rightarrow> nat" where
  "round_half_even m d =
     (let q = m div d; r = m mod d in if 2 * r > d \<or> (2 * r = d \<and> odd q) then q + 1 else q)"

definition float64_bits :: "int \<Rightarrow> nat" where
  "float64_bits v =
     (let m = nat \<bar>v\<bar>; e = binary_log m;
          q = (if e \<le> 52 then m * 2 ^ (52 - e) else round_half_even m (2 ^ (e - 52)))
      in (if v < 0 then 2 ^ 63 else 0) + (if m = 0 then 0 else (e + 1023) * 2 ^ 52 + (q - 2 ^ 52)))"

text \<open>The length of a string in UTF-16: a rune of four bytes takes two units, an invalid byte is one rune.\<close>

function utf16_length :: "nat list \<Rightarrow> nat" where
  "utf16_length s =
     (if s = [] then 0
      else if utf8_len s = 4 then 2 + utf16_length (drop 4 s)
      else 1 + utf16_length (drop (max 1 (utf8_len s)) s))"
  by pat_completeness auto
termination
  by (relation "measure length") (auto simp: max_def)

declare utf16_length.simps [simp del]

section \<open>The functions\<close>

text \<open>A function gets its arguments from the value stack and leaves its results there.\<close>

type_synonym 'm host_function = "nat list \<Rightarrow> 'm wasmBackend \<Rightarrow> nat list \<times> 'm wasmBackend"

definition stack_arg :: "nat list \<Rightarrow> nat \<Rightarrow> nat" where
  "stack_arg s i = (if i < length s then uint32 (s ! i) else 0)"

definition quiet :: "'m wasmBackend \<Rightarrow> nat list \<times> 'm wasmBackend" where
  "quiet w = ([], w)"

definition handle :: "nat \<times> 'm wasmBackend \<Rightarrow> nat list \<times> 'm wasmBackend" where
  "handle r = (case r of (i, w) \<Rightarrow> ([i], w))"

definition gives :: "jsval \<Rightarrow> 'm host_function" where
  "gives v s w = handle (add v w)"

definition test :: "(jsval \<Rightarrow> bool) \<Rightarrow> 'm host_function" where
  "test P s w = ([if P (get_handle (stack_arg s 0) w) then 1 else 0], w)"

fun text_of :: "jsval \<Rightarrow> string" where
  "text_of (StringValue t) = t"
| "text_of _ = []"

fun is_object :: "jsval \<Rightarrow> bool" where
  "is_object (MapRef m) \<longleftrightarrow> True"
| "is_object (ArrayRef a) \<longleftrightarrow> True"
| "is_object GlobalValue \<longleftrightarrow> True"
| "is_object CryptoValue \<longleftrightarrow> True"
| "is_object ProcessValue \<longleftrightarrow> True"
| "is_object VersionsMap \<longleftrightarrow> True"
| "is_object _ \<longleftrightarrow> False"

fun is_string :: "jsval \<Rightarrow> bool" where
  "is_string (StringValue t) \<longleftrightarrow> True"
| "is_string _ \<longleftrightarrow> False"

definition map_set_host :: "'m host_function" where
  "map_set_host s w =
     (let m = stack_arg s 0; k = get_handle (stack_arg s 1) w; v = get_handle (stack_arg s 2) w;
          w = (case get_handle m w of
                 MapRef i \<Rightarrow> w\<lparr>wb_maps := (wb_maps w)[i := map_set (text_of k) (text_of v) (wb_maps w ! i)]\<rparr>
               | _ \<Rightarrow> w)
      in handle (add (get_handle m w) w))"

definition new_map_host :: "'m host_function" where
  "new_map_host s w = handle (add (MapRef (length (wb_maps w))) (w\<lparr>wb_maps := wb_maps w @ [[]]\<rparr>))"

definition length_host :: "'m host_function" where
  "length_host s w =
     ([case get_handle (stack_arg s 0) w of
         ArrayRef a \<Rightarrow> fu_n (wb_arrays w ! a)
       | StringValue t \<Rightarrow> utf16_length (map ord t)
       | _ \<Rightarrow> 0], w)"

definition set_call_host :: "'m guest \<Rightarrow> 'm host_function" where
  "set_call_host g s w = quiet
     (case array_at (stack_arg s 2) w of
        None \<Rightarrow> fail_host ''host-array'' w
      | Some a \<Rightarrow>
          (let f = wb_arrays w ! a
           in if fu_n f \<noteq> stack_arg s 1 then fail_host ''host-array'' w
              else (case memory_write g (stack_arg s 0) (array_read g f w) w of
                      (ok, w) \<Rightarrow> (if ok then w else fail_host ''host-array'' w))))"

text \<open>A part of a view is a view; a part of an array of its own is a copy.\<close>

definition subarray_host :: "'m guest \<Rightarrow> 'm host_function" where
  "subarray_host g s w =
     (let begin = stack_arg s 1; stop = stack_arg s 2
      in case array_at (stack_arg s 0) w of
           None \<Rightarrow> handle (new_array empty_array (fail_host ''host-subarray'' w))
         | Some a \<Rightarrow>
             (let f = wb_arrays w ! a
              in if stop < begin \<or> stop > uint32 (fu_n f)
                 then handle (new_array empty_array (fail_host ''host-subarray'' w))
                 else if fu_memBack f
                 then handle (new_array \<lparr>fu_n = stop - begin, fu_buf = [], fu_ptr = uint32 (fu_ptr f + begin), fu_memBack = True\<rparr> w)
                 else handle (new_array \<lparr>fu_n = stop - begin, fu_buf = take (stop - begin) (drop begin (array_read g f w)),
                                         fu_ptr = 0, fu_memBack = False\<rparr> w)))"

definition now_host :: "'m host_function" where
  "now_host s w =
     (case wb_replay w of
        None \<Rightarrow> ([float64_bits 0], fail_host ''transcript-missing'' w)
      | Some r \<Rightarrow>
          (case replay_Now r of
             (Err e, r) \<Rightarrow> ([float64_bits 0], fail_host e (w\<lparr>wb_replay := Some r\<rparr>))
           | (Ok t, r) \<Rightarrow> ([float64_bits t], w\<lparr>wb_replay := Some r\<rparr>)))"

definition call_host :: "'m guest \<Rightarrow> 'm host_function" where
  "call_host g s w =
     ([0], if get_handle (stack_arg s 0) w = StringValue ''getRandomValues'' then fillArray g (stack_arg s 2) w else w)"

definition host_functions :: "'m guest \<Rightarrow> (string \<times> 'm host_function) list" where
  "host_functions g =
     [(''__wbindgen_object_drop_ref'', \<lambda>s w. quiet (drop_handle (stack_arg s 0) w)),
      (''__wbg_set_08463b1df38a7e29'', map_set_host),
      (''__wbg_getRandomValues_d49329ff89a07af1'', \<lambda>s w. quiet (writeEntropy g (stack_arg s 0) (stack_arg s 1) w)),
      (''__wbg_getRandomValues_c44a50d8cfdaebeb'', \<lambda>s w. quiet (fillArray g (stack_arg s 1) w)),
      (''__wbg_crypto_38df2bab126b63dc'', gives CryptoValue),
      (''__wbg_process_44c7a14e11e9f69e'', gives ProcessValue),
      (''__wbg_versions_276b2795b1c6a219'', gives VersionsMap),
      (''__wbg_node_84ea875411254db1'', gives (StringValue ''24.3.0'')),
      (''__wbg_require_b4edbdcf3e2a1ef0'', gives CryptoValue),
      (''__wbg_msCrypto_bd5a034af96bcba6'', gives CryptoValue),
      (''__wbg_randomFillSync_6c25eac9869eb53c'',
         \<lambda>s w. quiet (drop_handle (stack_arg s 1) (fillArray g (stack_arg s 1) w))),
      (''__wbg_call_d578befcc3145dee'', call_host g),
      (''__wbindgen_object_clone_ref'', \<lambda>s w. handle (add (get_handle (stack_arg s 0) w) w)),
      (''__wbg_new_with_length_9cedd08484b73942'',
         \<lambda>s w. handle (new_array \<lparr>fu_n = stack_arg s 0, fu_buf = replicate (stack_arg s 0) (chr 0),
                                    fu_ptr = 0, fu_memBack = False\<rparr> w)),
      (''__wbg_length_0c32cb8543c8e4c8'', length_host),
      (''__wbg_prototypesetcall_3e05eb9545565046'', set_call_host g),
      (''__wbg_subarray_0f98d3fb634508ad'', subarray_host g),
      (''__wbg_new_99cabae501c0a8a0'', new_map_host),
      (''__wbg_now_88621c9c9a4f3ffc'', now_host),
      (''__wbg_static_accessor_GLOBAL_THIS_a1248013d790bf5f'', gives GlobalValue),
      (''__wbg_static_accessor_SELF_24f78b6d23f286ea'', gives GlobalValue),
      (''__wbg_static_accessor_GLOBAL_f2e0f995a21329ff'', gives GlobalValue),
      (''__wbg_static_accessor_WINDOW_59fd959c540fe405'', \<lambda>s w. ([0], w)),
      (''__wbg___wbindgen_throw_81fc77679af83bc6'', \<lambda>s w. quiet (fail_host ''wasm-throw'' w)),
      (''__wbg_Error_2e59b1b37a9a34c3'', gives ErrorValue),
      (''__wbg___wbindgen_is_object_40c5a80572e8f9d3'', test is_object),
      (''__wbg___wbindgen_is_string_b29b5c5a8065ba1a'', test is_string),
      (''__wbg___wbindgen_is_function_49868bde5eb1e745'', test (\<lambda>v. False)),
      (''__wbg___wbindgen_is_undefined_c0cca72b82b86f4d'', test (\<lambda>v. v = Undefined)),
      (''__wbindgen_cast_0000000000000001'',
         \<lambda>s w. handle (new_array \<lparr>fu_n = stack_arg s 1, fu_buf = [], fu_ptr = stack_arg s 0, fu_memBack = True\<rparr> w)),
      (''__wbindgen_cast_0000000000000002'',
         \<lambda>s w. (case readString g (stack_arg s 0) (stack_arg s 1) w of (t, w) \<Rightarrow> handle (add (StringValue t) w)))]"

section \<open>Running the module\<close>

text \<open>
  A module that imports a name not in the table cannot be instantiated, so the trap for one is only
  there to make the function total.
\<close>

primrec run_activity :: "'m guest \<Rightarrow> 'm activity \<Rightarrow> 'm wasmBackend \<Rightarrow> nat list option \<times> 'm wasmBackend" where
  "run_activity g (Returns r m) w = (r, w\<lparr>wb_mem := m\<rparr>)"
| "run_activity g (Imports name args m k) w =
     (case map_of (host_functions g) name of
        None \<Rightarrow> (None, w\<lparr>wb_mem := m\<rparr>)
      | Some f \<Rightarrow> (case f args (w\<lparr>wb_mem := m\<rparr>) of (res, w) \<Rightarrow> run_activity g (k res (wb_mem w)) w))"

definition call_export :: "'m guest \<Rightarrow> string \<Rightarrow> nat list \<Rightarrow> 'm wasmBackend \<Rightarrow> nat list option \<times> 'm wasmBackend" where
  "call_export g name args w = run_activity g (gu_call g name args (wb_mem w)) w"

section \<open>What the host leaves alone\<close>

text \<open>Only the tool's own calls take or give back what the module hands out.\<close>

definition books :: "'m wasmBackend \<Rightarrow> freeAccounting \<times> resource list \<times> resource list" where
  "books w = (wb_accounting w, wb_taken w, wb_freed w)"

named_theorems host_simps \<open>the books after an operation of the host\<close>

lemma books_update [simp]:
  "books (w\<lparr>wb_mem := m\<rparr>) = books w" "books (w\<lparr>wb_maps := a\<rparr>) = books w"
  "books (w\<lparr>wb_arrays := b\<rparr>) = books w" "books (w\<lparr>wb_replay := r\<rparr>) = books w"
  "books (w\<lparr>wb_hostFail := h\<rparr>) = books w" "books (fail_host e w) = books w"
  "books (w\<lparr>wb_heap := x\<rparr>) = books w" "books (w\<lparr>wb_heapNext := n\<rparr>) = books w"
  by (simp_all add: books_def fail_host_def)

lemma books_handles [host_simps]:
  "books (snd (add v w)) = books w" "books (drop_handle i w) = books w" "books (snd (take_handle i w)) = books w"
  by (simp_all add: add_def drop_handle_def on_heap_def take_handle_def split: prod.splits)

lemma books_bytes [host_simps]: "books (snd (replay_bytes n w)) = books w"
  by (simp add: replay_bytes_def split: option.splits prod.splits sum.splits)

lemma books_memory [host_simps]: "books (snd (memory_write g ptr d w)) = books w"
  by (simp add: memory_write_def split: option.splits)

lemma books_arrays [host_simps]:
  "books (snd (array_write g a d w)) = books w" "books (snd (new_array f w)) = books w"
  by (simp_all add: array_write_def new_array_def Let_def host_simps)

lemma books_entropy [host_simps]: "books (writeEntropy g ptr n w) = books w" "books (fillArray g i w) = books w"
  by (simp_all add: writeEntropy_def fillArray_def split_beta host_simps split: option.split)

lemma books_string [host_simps]: "books (snd (readString g ptr n w)) = books w"
  by (simp add: readString_def split: option.split)

lemma books_host:
  assumes "map_of (host_functions g) name = Some f"
  shows "books (snd (f s w)) = books w"
proof -
  have "(name, f) \<in> set (host_functions g)" using assms by (rule map_of_SomeD)
  then show ?thesis
    by (auto simp: host_functions_def host_simps quiet_def handle_def gives_def test_def split_beta
        map_set_host_def new_map_host_def length_host_def set_call_host_def subarray_host_def now_host_def
        call_host_def Let_def split: option.split jsval.split sum.split)
qed

lemma books_run [host_simps]: "books (snd (run_activity g a w)) = books w"
proof (induction a arbitrary: w)
  case (Imports name args m k)
  then show ?case by (simp add: split_beta books_host split: option.split) (metis books_host books_update(1) rangeI)
qed simp

lemma books_call [host_simps]: "books (snd (call_export g name args w)) = books w"
  by (simp add: call_export_def host_simps)

end
