(* ===== verification/Oracle_Handles.thy ===== *)
theory Oracle_Handles
  imports Oracle_Host
begin

text \<open>
  The handle table of \<open>tools/wasm_oracle/backend.go\<close> as an allocator: the contract its users rely
  on, that the free list meets it, and what follows for a module that gives back only handles it
  holds.
\<close>

section \<open>The contract\<close>

locale handle_table =
  fixes sound :: "'t \<Rightarrow> bool" and live :: "'t \<Rightarrow> nat \<Rightarrow> 'v option"
    and insert_value :: "'v \<Rightarrow> 't \<Rightarrow> nat \<times> 't" and remove :: "nat \<Rightarrow> 't \<Rightarrow> 't"
    and room :: "'t \<Rightarrow> bool" and storable :: "'v \<Rightarrow> bool" and removable :: "nat \<Rightarrow> bool"
  assumes insert_fresh: "sound t \<Longrightarrow> room t \<Longrightarrow> storable v \<Longrightarrow> insert_value v t = (i, t') \<Longrightarrow>
      sound t' \<and> removable i \<and> live t i = None \<and> live t' = (live t)(i \<mapsto> v)"
    and remove_live: "sound t \<Longrightarrow> removable i \<Longrightarrow> live t i \<noteq> None \<Longrightarrow>
      sound (remove i t) \<and> live (remove i t) = (live t)(i := None)"
begin

text \<open>What a user holds: it got the handles from the table and gives back only what it holds.\<close>

inductive holds :: "'t \<Rightarrow> 't \<Rightarrow> (nat \<rightharpoonup> 'v) \<Rightarrow> bool" for t0 where
  nothing: "holds t0 t0 Map.empty"
| inserted: "holds t0 t held \<Longrightarrow> room t \<Longrightarrow> storable v \<Longrightarrow> insert_value v t = (i, t') \<Longrightarrow>
    holds t0 t' (held(i \<mapsto> v))"
| removed: "holds t0 t held \<Longrightarrow> held i \<noteq> None \<Longrightarrow> holds t0 (remove i t) (held(i := None))"

lemma holds_sound:
  assumes "holds t0 t held" "sound t0"
  shows "sound t \<and> held \<subseteq>\<^sub>m live t \<and> (\<forall>i. held i \<noteq> None \<longrightarrow> removable i)"
  using assms
proof (induction rule: holds.induct)
  case nothing
  then show ?case by (simp add: map_le_def)
next
  case (inserted t held v i t')
  then show ?case using insert_fresh [of t v i t'] by (auto simp: map_le_def dom_def)
next
  case (removed t held i)
  then have "live t i \<noteq> None" by (auto simp: map_le_def dom_def)
  with removed show ?case using remove_live [of t i] by (auto simp: map_le_def dom_def)
qed

lemma held_reads: "holds t0 t held \<Longrightarrow> sound t0 \<Longrightarrow> held i = Some v \<Longrightarrow> live t i = Some v"
  using holds_sound [of t0 t held] by (auto simp: map_le_def dom_def)

lemma inserted_not_held:
  assumes "holds t0 t held" "sound t0" "room t" "storable v" "insert_value v t = (i, t')"
  shows "held i = None"
proof (rule ccontr)
  assume "held i \<noteq> None"
  then have "live t i \<noteq> None" using held_reads [OF assms(1,2)] by auto
  then show False using insert_fresh [OF _ assms(3-5)] holds_sound [OF assms(1,2)] by simp
qed

end

section \<open>The free list\<close>

text \<open>The free slots from \<open>i\<close> on, ending at the end of the table.\<close>

fun free_path :: "jsval list \<Rightarrow> nat \<Rightarrow> nat list \<Rightarrow> bool" where
  "free_path h i [] \<longleftrightarrow> i = length h"
| "free_path h i (f # fs) \<longleftrightarrow> f = i \<and> first_handle \<le> i \<and> i < length h \<and> (\<exists>n. h ! i = NextFree n \<and> free_path h n fs)"

fun is_free :: "jsval \<Rightarrow> bool" where
  "is_free (NextFree n) \<longleftrightarrow> True"
| "is_free _ \<longleftrightarrow> False"

definition slab :: "jsval list \<times> nat \<Rightarrow> bool" where
  "slab hn \<longleftrightarrow> first_handle \<le> length (fst hn) \<and> length (fst hn) < 2 ^ 32 \<and>
     (\<exists>fs. free_path (fst hn) (snd hn) fs \<and> distinct fs \<and> (\<forall>i < length (fst hn). is_free (fst hn ! i) \<longrightarrow> i \<in> set fs))"

definition live_handles :: "jsval list \<times> nat \<Rightarrow> nat \<Rightarrow> jsval option" where
  "live_handles hn i = (if i < length (fst hn) \<and> \<not> is_free (fst hn ! i) then Some (fst hn ! i) else None)"

definition heap_room :: "jsval list \<times> nat \<Rightarrow> bool" where
  "heap_room hn \<longleftrightarrow> length (fst hn) + 1 < 2 ^ 32"

lemma path_update: "free_path h i fs \<Longrightarrow> k \<notin> set fs \<Longrightarrow> free_path (h[k := v]) i fs"
  by (induction fs arbitrary: i) auto

lemma path_grow: "free_path h i fs \<Longrightarrow> free_path (h @ [NextFree (Suc (length h))]) i (fs @ [length h])"
  if "first_handle \<le> length h"
  using that by (induction fs arbitrary: i) (auto simp: nth_append)

lemma path_head: "free_path h i fs \<Longrightarrow> i \<le> length h \<and> (i < length h \<longrightarrow> fs \<noteq> [])"
  by (cases fs) auto

lemma path_free: "free_path h i fs \<Longrightarrow> j \<in> set fs \<Longrightarrow> j < length h \<and> is_free (h ! j)"
  by (induction fs arbitrary: i) auto

lemma initial_slab: "slab (initial_heap, first_handle)"
proof -
  have "\<not> is_free (initial_heap ! i)" if "i < length initial_heap" for i
  proof -
    have "initial_heap ! i \<in> set initial_heap" using that by (rule nth_mem)
    then show ?thesis by (auto simp: initial_heap_def)
  qed
  moreover have "length initial_heap = first_handle" by (simp add: initial_heap_def first_handle_def)
  ultimately show ?thesis unfolding slab_def by (auto intro!: exI [of _ "[]"] simp: first_handle_def)
qed

text \<open>Taking the first free slot of a table that has one.\<close>

lemma add_at_free:
  assumes "free_path h i (f # fs)" "distinct (f # fs)" "length h < 2 ^ 32" "first_handle \<le> length h"
    and "\<forall>j < length h. is_free (h ! j) \<longrightarrow> j \<in> set (f # fs)" and "\<not> is_free v"
    and "heap_add v (h, i) = (k, t')"
  shows "k = i \<and> is_free (h ! i) \<and> first_handle \<le> i \<and> slab t' \<and> fst t' = h[i := v]"
proof -
  obtain n where n: "h ! i = NextFree n" "free_path h n fs" "i < length h" "first_handle \<le> i" "f = i"
    using assms(1) by auto
  moreover have "n \<le> length h" using path_head n(2) by blast
  ultimately have t: "k = i" "t' = (h[i := v], n)"
    using assms(3,7) by (auto simp: heap_add_def heap_get_def uint32_def Let_def)
  have "free_path (h[i := v]) n fs" using n assms(2) path_update by auto
  then show ?thesis
    using n t assms by (auto simp: slab_def nth_list_update split: if_splits intro!: exI [of _ fs])
qed

lemma add_slab:
  assumes "slab t" "heap_room t" "\<not> is_free v" "heap_add v t = (k, t')"
  shows "slab t' \<and> first_handle \<le> k \<and> live_handles t k = None \<and> live_handles t' = (live_handles t)(k \<mapsto> v)"
proof -
  obtain h i where t: "t = (h, i)" by (cases t)
  obtain fs where fs: "free_path h i fs" "distinct fs" "\<forall>j < length h. is_free (h ! j) \<longrightarrow> j \<in> set fs"
    and l: "first_handle \<le> length h" "length h + 1 < 2 ^ 32"
    using assms(1,2) by (auto simp: slab_def heap_room_def t)
  show ?thesis
  proof (cases fs)
    case (Cons f fs')
    then have i: "i < length h" using fs(1) by auto
    have "k = i \<and> is_free (h ! i) \<and> first_handle \<le> i \<and> slab t' \<and> fst t' = h[i := v]"
      using add_at_free [of h i f fs' v k t'] fs l assms Cons t by auto
    with i show ?thesis using assms(3) by (auto simp: live_handles_def t fun_eq_iff nth_list_update)
  next
    case Nil
    let ?h = "h @ [NextFree (Suc (length h))]"
    have i: "i = length h" using fs(1) Nil by simp
    have "heap_add v (h, i) = heap_add v (?h, i)" using l i by (simp add: heap_add_def uint32_def)
    moreover have "free_path ?h i [i]" using l i by (simp add: nth_append)
    moreover have "\<forall>j < length ?h. is_free (?h ! j) \<longrightarrow> j \<in> set [i]"
      using fs(3) Nil i by (auto simp: nth_append less_Suc_eq)
    ultimately have "k = i \<and> slab t' \<and> first_handle \<le> i \<and> fst t' = ?h[i := v]"
      using add_at_free [of ?h i i "[]" v k t'] l assms t by auto
    with i show ?thesis using assms(3) by (auto simp: live_handles_def t fun_eq_iff nth_list_update nth_append)
  qed
qed

lemma drop_slab:
  assumes "slab t" "first_handle \<le> i" "live_handles t i \<noteq> None"
  shows "slab (heap_drop i t) \<and> live_handles (heap_drop i t) = (live_handles t)(i := None)"
proof -
  obtain h n where t: "t = (h, n)" by (cases t)
  have i: "i < length h" "\<not> is_free (h ! i)" using assms(3) by (auto simp: live_handles_def t split: if_splits)
  obtain fs where fs: "free_path h n fs" "distinct fs" "\<forall>j < length h. is_free (h ! j) \<longrightarrow> j \<in> set fs"
    and l: "first_handle \<le> length h" "length h < 2 ^ 32"
    using assms(1) by (auto simp: slab_def t)
  have d: "heap_drop i t = (h[i := NextFree n], i)" using i l assms(2) by (simp add: heap_drop_def t uint32_def)
  have "i \<notin> set fs" using path_free [OF fs(1)] i by blast
  then have "free_path (h[i := NextFree n]) i (i # fs)" "distinct (i # fs)"
    using fs path_update i assms(2) by auto
  then have "slab (heap_drop i t)"
    using fs(3) l unfolding d slab_def by (auto simp: nth_list_update split: if_splits intro!: exI [of _ "i # fs"])
  then show ?thesis using i d by (auto simp: live_handles_def t fun_eq_iff nth_list_update)
qed

interpretation heap: handle_table slab live_handles heap_add heap_drop heap_room "\<lambda>v. \<not> is_free v" "\<lambda>i. first_handle \<le> i"
  by unfold_locales ((rule add_slab | rule drop_slab); assumption)+

text \<open>The code indexes the table at the slot it is about to use without asking whether it is there.\<close>

lemma add_in_range:
  assumes "slab t" "heap_room t" "\<not> is_free v" "heap_add v t = (k, t')"
  shows "k < length (fst t')"
proof -
  have "live_handles t' k = Some v" using add_slab [OF assms] by simp
  then show ?thesis by (simp add: live_handles_def split: if_splits)
qed

text \<open>
  C40: a module that gives back only handles it holds is never given a handle it already holds, and
  every handle it holds still stands for the value it was made for, whatever was made and given
  back in between.
\<close>

theorem handles_stay_apart:
  assumes "heap.holds (initial_heap, first_handle) t held"
    and "heap_room t" "\<not> is_free v" "heap_add v t = (k, t')"
  shows "held k = None \<and> (\<forall>i. held i = None \<or> held i = Some (heap_get (fst t') i))"
proof -
  note s = heap.holds_sound [OF assms(1) initial_slab]
  have k: "held k = None" by (rule heap.inserted_not_held [OF assms(1) initial_slab assms(2-4)])
  have live: "live_handles t' i = held i" if "held i \<noteq> None" for i
    using add_slab [OF _ assms(2-4)] s k that by (auto simp: map_le_def dom_def)
  have "held i = None \<or> held i = Some (heap_get (fst t') i)" for i
    using live [of i] by (cases "held i") (simp_all add: live_handles_def heap_get_def split: if_splits)
  then show ?thesis using k by blast
qed

text \<open>The first handle given out, given back, and the next one: the same number, and nobody holds it.\<close>

lemma length_initial: "length initial_heap = 1028"
  by (simp add: initial_heap_def)

lemma first_add: "heap_add v (initial_heap, first_handle) = (1028, initial_heap @ [v], 1029)"
  by (simp add: heap_add_def length_initial uint32_def first_handle_def heap_get_def nth_append Let_def list_update_append)

lemma first_back: "heap_drop 1028 (initial_heap @ [v], 1029) = (initial_heap @ [NextFree 1029], 1028)"
  by (simp add: heap_drop_def length_initial uint32_def first_handle_def list_update_append)

lemma second_add: "heap_add v (initial_heap @ [NextFree 1029], 1028) = (1028, initial_heap @ [v], 1029)"
  by (simp add: heap_add_def length_initial uint32_def heap_get_def nth_append Let_def list_update_append)

lemma handles_stay_apart_witness:
  "\<exists>held. heap.holds (initial_heap, first_handle) (initial_heap @ [NextFree 1029], 1028) held \<and>
     held 1028 = None \<and> heap_get (initial_heap @ [CryptoValue]) 1028 = CryptoValue"
proof -
  have "heap.holds (initial_heap, first_handle) (initial_heap @ [ErrorValue], 1029) (Map.empty(1028 \<mapsto> ErrorValue))"
    by (rule heap.inserted [OF heap.nothing _ _ first_add]) (simp_all add: heap_room_def length_initial)
  from heap.removed [OF this, of 1028]
  have "heap.holds (initial_heap, first_handle) (initial_heap @ [NextFree 1029], 1028)
      ((Map.empty(1028 \<mapsto> ErrorValue))(1028 := None))"
    by (simp add: first_back)
  with handles_stay_apart [OF this _ _ second_add, of CryptoValue]
  show ?thesis by (auto simp: heap_room_def length_initial heap_get_def nth_append)
qed

end
