(* ===== verification/Oracle_Json.thy ===== *)
theory Oracle_Json
  imports Oracle_Replay Go_Json Go_Base64
begin

text \<open>
  \<open>tools/wasm_oracle/fixture.go\<close> and \<open>policy.go\<close>, reading JSON: the strict decoder of
  \<open>DisallowUnknownFields\<close>, \<open>json.MarshalIndent\<close>, the canonical form a fixture file has to be in,
  and the documents themselves.
\<close>

section \<open>Strict decoding\<close>

text \<open>\<open>DisallowUnknownFields\<close>: a member without a field is an error.\<close>

definition strict_struct :: "(string \<times> 'r decoder) list \<Rightarrow> 'r decoder" where
  "strict_struct fs r d =
     (case d of
        DObj t ms \<Rightarrow> if list_all (\<lambda>(k, v). find_field fs k \<noteq> None) ms then dec_struct fs r d else None
      | _ \<Rightarrow> dec_struct fs r d)"

text \<open>A slice that may be nil, and a map that may be nil.\<close>

definition dec_slice :: "'a \<Rightarrow> 'a decoder \<Rightarrow> 'a list option decoder" where
  "dec_slice zero dec old d = (if d = DNull then Some None else map_option Some (dec_list zero dec [] d))"

definition dec_nil_map :: "'a \<Rightarrow> 'a decoder \<Rightarrow> (string \<times> 'a) list option decoder" where
  "dec_nil_map zero dec old d =
     (if d = DNull then Some None
      else map_option Some (dec_map zero dec (case old of None \<Rightarrow> [] | Some m \<Rightarrow> m) d))"

definition mustDecode :: "'a \<Rightarrow> 'a decoder \<Rightarrow> raw_message \<Rightarrow> (category, 'a) result" where
  "mustDecode zero dec raw =
     (case raw of None \<Rightarrow> Err ''fixture-schema''
      | Some d \<Rightarrow> (case dec zero d of None \<Rightarrow> Err ''fixture-schema'' | Some v \<Rightarrow> Ok v))"

text \<open>The value of a decode whose error is ignored: members that cannot be decoded are skipped.\<close>

definition decoded_anyway :: "'r \<Rightarrow> (string \<times> 'r decoder) list \<Rightarrow> raw_message \<Rightarrow> 'r" where
  "decoded_anyway zero fs raw =
     (case raw of Some (DObj t ms) \<Rightarrow> dec_members_lenient fs zero ms | _ \<Rightarrow> zero)"

text \<open>
  Numbers keep their literal here, where Go would format the float again; the users and scenes this
  is applied to have none.
\<close>

definition compactJSON :: "raw_message \<Rightarrow> (category, string) result" where
  "compactJSON raw =
     (case mustDecode JNull dec_any raw of Err e \<Rightarrow> Err e | Ok v \<Rightarrow> Ok (marshal v))"

definition decodeStrictValue :: "'a \<Rightarrow> 'a decoder \<Rightarrow> string \<Rightarrow> (category, 'a) result" where
  "decodeStrictValue zero dec data =
     (case unmarshal zero dec data of None \<Rightarrow> Err ''fixture-synthetic-schema'' | Some v \<Rightarrow> Ok v)"

text \<open>The same for a value that is part of a document read before; nil has no value.\<close>

definition strict_raw :: "'a \<Rightarrow> 'a decoder \<Rightarrow> raw_message \<Rightarrow> (category, 'a) result" where
  "strict_raw zero dec raw =
     (case raw of None \<Rightarrow> Err ''fixture-synthetic-schema''
      | Some d \<Rightarrow> (case dec zero d of None \<Rightarrow> Err ''fixture-synthetic-schema'' | Some v \<Rightarrow> Ok v))"

text \<open>
  An object with exactly the named members, before it is decoded; of members with equal names the
  last counts.
\<close>

definition decodeStrictObject :: "'a \<Rightarrow> 'a decoder \<Rightarrow> string list \<Rightarrow> jdoc \<Rightarrow> 'a option" where
  "decodeStrictObject zero dec keys d =
     (case d of
        DObj t ms \<Rightarrow>
          (if length (remdups (map fst ms)) \<noteq> length keys \<or> \<not> list_all (\<lambda>k. k \<in> set (map fst ms)) keys then None
           else dec zero d)
      | _ \<Rightarrow> if d = DNull \<and> keys = [] then dec zero d else None)"

section \<open>Indenting\<close>

definition new_line :: "nat \<Rightarrow> string" where
  "new_line depth = LF # replicate (2 * depth) SP"

abbreviation open_brace :: "char \<Rightarrow> bool" where "open_brace c \<equiv> c = CHR ''{'' \<or> c = CHR ''[''"
abbreviation close_brace :: "char \<Rightarrow> bool" where "close_brace c \<equiv> c = CHR ''}'' \<or> c = CHR '']''"

text \<open>
  \<open>json.Indent\<close> on compact text: the depth, whether an opening brace waits for its first member,
  and the mode of \<open>compact_mode\<close>.
\<close>

fun indent_text :: "nat \<Rightarrow> bool \<Rightarrow> nat \<Rightarrow> string \<Rightarrow> string" where
  "indent_text depth waits m [] = []"
| "indent_text depth waits m (c # s) =
     (let m' = compact_mode m (ord c)
      in if m \<noteq> 0 then c # indent_text depth waits m' s
         else if close_brace c
         then (if waits then c # indent_text depth False m' s
               else new_line (depth - 1) @ c # indent_text (depth - 1) False m' s)
         else let depth' = (if waits then depth + 1 else depth); start = (if waits then new_line depth' else [])
              in start @
                 (if open_brace c then c # indent_text depth' True m' s
                  else if c = CHR '','' then c # new_line depth' @ indent_text depth' False m' s
                  else if c = CHR '':'' then c # SP # indent_text depth' False m' s
                  else c # indent_text depth' False m' s))"

definition MarshalIndent :: "json \<Rightarrow> string" where
  "MarshalIndent j = indent_text 0 False 0 (marshal j)"

definition decodeCanonicalJSON :: "'a \<Rightarrow> 'a decoder \<Rightarrow> ('a \<Rightarrow> json) \<Rightarrow> string \<Rightarrow> (category, 'a) result" where
  "decodeCanonicalJSON zero dec enc data =
     (if data = [] \<or> last data \<noteq> LF \<or> CR \<in> set data \<or> HasSuffix data [LF, LF] then Err ''fixture-canonical-json''
      else (case unmarshal zero dec data of
              None \<Rightarrow> Err ''fixture-canonical-json''
            | Some v \<Rightarrow> if data \<noteq> MarshalIndent (enc v) @ [LF] then Err ''fixture-canonical-json'' else Ok v))"

section \<open>Documents\<close>

record oracleIdentity =
  oi_Version :: string
  oi_Size :: int
  oi_SHA256 :: string

record fixtureManifest =
  fm_Version :: string
  fm_Size :: int
  fm_SHA256 :: string
  fm_Documents :: "(string \<times> string) list option"

record fixtureDocument =
  fd_Oracle :: oracleIdentity
  fd_Input :: raw_message
  fd_Transcript :: transcript
  fd_Expected :: raw_message

definition entropyRead_fields :: "(string \<times> entropyRead decoder) list" where
  "entropyRead_fields = [(''length'', fld er_Length er_Length_update dec_int),
     (''bytes'', fld er_Bytes er_Bytes_update dec_string)]"

text \<open>The bytes are in strict base64, of which there is one text, and as many as the length says.\<close>

definition entropyRead_Unmarshal :: "entropyRead decoder" where
  "entropyRead_Unmarshal old d =
     (case decodeStrictObject \<lparr>er_Length = 0, er_Bytes = []\<rparr> (dec_struct entropyRead_fields) [''length'', ''bytes''] d of
        None \<Rightarrow> None
      | Some wire \<Rightarrow>
          (if er_Length wire < 0 then None
           else (case b64_decode StdStrict (er_Bytes wire) of
                   None \<Rightarrow> None
                 | Some decoded \<Rightarrow>
                     (if int (length decoded) \<noteq> er_Length wire \<or> b64_encode StdEncoding decoded \<noteq> er_Bytes wire then None
                      else Some \<lparr>er_Length = er_Length wire, er_Bytes = decoded\<rparr>))))"

definition entropyRead_Marshal :: "entropyRead \<Rightarrow> json" where
  "entropyRead_Marshal r =
     JObj [(''length'', JInt (er_Length r)), (''bytes'', JStr (b64_encode StdEncoding (er_Bytes r)))]"

fun slice_json :: "('a \<Rightarrow> json) \<Rightarrow> 'a list option \<Rightarrow> json" where
  "slice_json f None = JNull"
| "slice_json f (Some xs) = JArr (map f xs)"

definition dec_transcript :: "transcript decoder" where
  "dec_transcript = strict_struct
     [(''unix_milli'', fld tr_UnixMilli tr_UnixMilli_update (dec_slice 0 dec_int)),
      (''entropy_reads'', fld tr_EntropyReads tr_EntropyReads_update
         (dec_slice \<lparr>er_Length = 0, er_Bytes = []\<rparr> entropyRead_Unmarshal))]"

definition transcript_json :: "transcript \<Rightarrow> json" where
  "transcript_json t = JObj [(''unix_milli'', slice_json JInt (tr_UnixMilli t)),
     (''entropy_reads'', slice_json entropyRead_Marshal (tr_EntropyReads t))]"

definition zero_identity :: oracleIdentity where
  "zero_identity = \<lparr>oi_Version = [], oi_Size = 0, oi_SHA256 = []\<rparr>"

definition dec_identity :: "oracleIdentity decoder" where
  "dec_identity = strict_struct [(''version'', fld oi_Version oi_Version_update dec_string),
     (''size'', fld oi_Size oi_Size_update dec_int), (''sha256'', fld oi_SHA256 oi_SHA256_update dec_string)]"

definition identity_members :: "oracleIdentity \<Rightarrow> (string \<times> json) list" where
  "identity_members i = [(''version'', JStr (oi_Version i)), (''size'', JInt (oi_Size i)), (''sha256'', JStr (oi_SHA256 i))]"

definition zero_manifest :: fixtureManifest where
  "zero_manifest = \<lparr>fm_Version = [], fm_Size = 0, fm_SHA256 = [], fm_Documents = None\<rparr>"

definition dec_manifest :: "fixtureManifest decoder" where
  "dec_manifest = strict_struct [(''version'', fld fm_Version fm_Version_update dec_string),
     (''size'', fld fm_Size fm_Size_update dec_int), (''sha256'', fld fm_SHA256 fm_SHA256_update dec_string),
     (''documents'', fld fm_Documents fm_Documents_update (dec_nil_map [] dec_string))]"

definition manifest_json :: "fixtureManifest \<Rightarrow> json" where
  "manifest_json m = JObj [(''version'', JStr (fm_Version m)), (''size'', JInt (fm_Size m)),
     (''sha256'', JStr (fm_SHA256 m)),
     (''documents'', case fm_Documents m of None \<Rightarrow> JNull | Some ds \<Rightarrow> JMap (map (\<lambda>(k, v). (k, JStr v)) ds))]"

definition zero_document :: fixtureDocument where
  "zero_document = \<lparr>fd_Oracle = zero_identity, fd_Input = None,
     fd_Transcript = \<lparr>tr_UnixMilli = None, tr_EntropyReads = None\<rparr>, fd_Expected = None\<rparr>"

definition dec_document :: "fixtureDocument decoder" where
  "dec_document = strict_struct [(''oracle'', fld fd_Oracle fd_Oracle_update dec_identity),
     (''input'', fld fd_Input fd_Input_update dec_raw),
     (''transcript'', fld fd_Transcript fd_Transcript_update dec_transcript),
     (''expected'', fld fd_Expected fd_Expected_update dec_raw)]"

definition raw_json :: "raw_message \<Rightarrow> json" where
  "raw_json r = (case r of None \<Rightarrow> JNull | Some d \<Rightarrow> JRaw d)"

definition document_json :: "fixtureDocument \<Rightarrow> json" where
  "document_json f = JObj [(''oracle'', JObj (identity_members (fd_Oracle f))), (''input'', raw_json (fd_Input f)),
     (''transcript'', transcript_json (fd_Transcript f)), (''expected'', raw_json (fd_Expected f))]"

end
