(* ===== verification/Oracle_Policy.thy ===== *)
theory Oracle_Policy
  imports Oracle_Json Hashes Go_Path
begin

text \<open>
  \<open>tools/wasm_oracle/policy.go\<close>: what a fixture may contain. Everything that is not a result of the
  vendor's code has to be the synthetic value written here, and the results are pinned by their
  hashes, so that no real credential can get into the repository.
\<close>

section \<open>Constants\<close>

definition syntheticUID :: string where "syntheticUID = ''synthetic-user-0001''"
definition syntheticOrg :: string where "syntheticOrg = ''synthetic-org-0001''"
definition syntheticMachineID :: string where "syntheticMachineID = ''00000000-1111-4222-8333-444444444444''"
definition syntheticMachineKey :: string where "syntheticMachineKey = ''00000000-1111-42''"
definition syntheticEndpoint :: string where "syntheticEndpoint = ''https://example.invalid/base''"
definition syntheticUnixMilli :: int where "syntheticUnixMilli = 1781000123456"
definition noOrgCallerInfo :: string where "noOrgCallerInfo = ''synthetic-caller-info-not-effective''"
definition noOrgCallerKey :: string where "noOrgCallerKey = ''synthetic-caller-key-not-effective''"
definition pinnedVersion :: string where "pinnedVersion = ''1.1.34''"

definition credentialPlain :: string where
  \<open>credentialPlain = ''{"uid":"synthetic-user-0001","organization_id":"synthetic-org-0001","access_token":"synthetic-access-token-0001"}''\<close>

definition runtimePlain :: string where
  \<open>runtimePlain = ''{"uid":"synthetic-user-0001","organization_id":"synthetic-org-0001","organization_tags":["synthetic-a","b"],"data_policy_agreed":true}''\<close>

definition modelCachePlain :: string where
  \<open>modelCachePlain = ''{"models":[{"id":"synthetic-model-0001"}]}''\<close>

definition credentialEncryptedHash :: string where
  "credentialEncryptedHash = ''a0e4deb360797432176c394c52f217c7d02aae3264295ca5cfd54b177ea088a8''"
definition runtimeInfoHash :: string where
  "runtimeInfoHash = ''bc0fab36a0cc8df0676966ec3dd6fec41a80413237593cc056ab2b1d1a6296e5''"
definition runtimeKeyHash :: string where
  "runtimeKeyHash = ''5a898f95266409233c74ee7c69df167412b0cdf6df8aac6df77b3f13e153c140''"
definition runtimeRawHash :: string where
  "runtimeRawHash = ''4367b54de3dd237fb6ecb87154b3ffc2240f36f1c378a89eaf0543fe5e56a4f0''"
definition modelEncryptedHash :: string where
  "modelEncryptedHash = ''2e1a24e5a6642ba6c93b2fdfc153eac7ca1c1903304d482b725870c9280d190b''"
definition inferBodyRawHash :: string where
  "inferBodyRawHash = ''2ba9677dfcb2f7ddc399a5f15ff4f398a35f5da2b84d58d5bee6c7af3f0c5076''"
definition inferBodyHash :: string where
  "inferBodyHash = ''fa5e0fe9f1b4288e9a552542d9066613bf6cbf6ed72a3d4acb4e09a54fbb097f''"
definition inferAuthorizationHash :: string where
  "inferAuthorizationHash = ''0a3e0f29b2aaf2ee237cddde7118a3b04ef9751eade4da4e2f9916d9fd6295c4''"

section \<open>Documents inside the fixtures\<close>

record credentialInput =
  ci_MachineKey :: string
  ci_Plain :: string

record credentialExpected =
  ce_Decrypted :: string
  ce_Encrypted :: string

record runtimeInput =
  ri_Raw :: string

record runtimeExpected =
  re_Raw :: string
  re_EncryptUserInfo :: string
  re_Key :: string

record modelInput =
  mi_Plain :: string
  mi_UID :: string

record modelExpected =
  me_Decrypted :: string
  me_Encrypted :: string

record runtimePlainObject =
  rp_UID :: string
  rp_OrganizationID :: string
  rp_OrganizationTags :: "string list option"
  rp_DataPolicyAgreed :: bool

record credentialPlainObject =
  cp_UID :: string
  cp_OrganizationID :: string
  cp_AccessToken :: string

record inferUser =
  iu_UID :: string
  iu_EncryptUserInfo :: string
  iu_Key :: string
  iu_OrganizationID :: string
  iu_OrganizationTags :: "string list option"
  iu_DataPolicyAgreed :: bool

record inferScene =
  is_ClientType :: string
  is_BusinessProduct :: string
  is_BusinessType :: string
  is_Scene :: string

record inferFixtureInputPolicy =
  ip_MachineID :: string
  ip_Version :: string
  ip_User :: inferUser
  ip_Scene :: inferScene
  ip_Endpoint :: string
  ip_BodyRaw :: string
  ip_ModelKey :: string
  ip_ModelSource :: string

type_synonym fixture_header = "(string \<times> string list) list"

record inferExpected =
  ie_URL :: string
  ie_Header :: fixture_header
  ie_BodyString :: string
  ie_BodyBytes :: string

record inferAuthorizationPayloadPolicy =
  ap_Version :: string
  ap_RequestID :: string
  ap_Info :: string
  ap_CosyVersion :: string
  ap_IDEVersion :: string

record remoteBusiness =
  rb_BeginAt :: int
  rb_ID :: string
  rb_Name :: string
  rb_Product :: string
  rb_Stage :: string
  rb_Type :: string
  rb_Version :: string

record remoteContent =
  rc_Type :: string
  rc_Text :: string

record remoteMessage =
  rg_Role :: string
  rg_Content :: string
  rg_Contents :: "remoteContent list"

record remoteModel =
  rm_Key :: string
  rm_Format :: string
  rm_Source :: string
  rm_Enable :: bool
  rm_DisplayName :: string
  rm_IsVL :: bool
  rm_IsReasoning :: bool
  rm_MaxInputTokens :: int

text \<open>A \<open>float64\<close> is kept as the literal it was read from.\<close>

record remoteParams =
  rq_MaxTokens :: int
  rq_Temperature :: string
  rq_TopP :: string

record remoteToolParams =
  rt_Properties :: "(string \<times> string) list"      \<comment> \<open>\<open>remoteProperty\<close> has one field, its type\<close>
  rt_Required :: "string list"
  rt_Type :: string

record remoteFunction =
  rf_Description :: string
  rf_Name :: string
  rf_Parameters :: remoteToolParams

record remoteTool =
  ro_Function :: remoteFunction
  ro_Type :: string

record remoteBody =
  bd_AgentID :: string
  bd_AliyunUserType :: string
  bd_Business :: remoteBusiness
  bd_ChatContext :: raw_message
  bd_ChatRecordID :: string
  bd_ChatTask :: string
  bd_CustomModel :: raw_message
  bd_IsReply :: bool
  bd_IsRetry :: bool
  bd_Messages :: "remoteMessage list"
  bd_ModelConfig :: remoteModel
  bd_Parameters :: remoteParams
  bd_RequestID :: string
  bd_RequestSetID :: string
  bd_SessionID :: string
  bd_SessionType :: string
  bd_Source :: int
  bd_Stream :: bool
  bd_System :: string
  bd_TaskID :: string
  bd_Tools :: "remoteTool list"
  bd_Version :: string

section \<open>Decoders\<close>

definition credentialInput_fields :: "(string \<times> credentialInput decoder) list" where
  "credentialInput_fields = [(''machine_key'', fld ci_MachineKey ci_MachineKey_update dec_string),
     (''plain'', fld ci_Plain ci_Plain_update dec_string)]"

definition credentialExpected_fields :: "(string \<times> credentialExpected decoder) list" where
  "credentialExpected_fields = [(''decrypted'', fld ce_Decrypted ce_Decrypted_update dec_string),
     (''encrypted'', fld ce_Encrypted ce_Encrypted_update dec_string)]"

definition runtimeInput_fields :: "(string \<times> runtimeInput decoder) list" where
  "runtimeInput_fields = [(''raw'', fld ri_Raw ri_Raw_update dec_string)]"

definition runtimeExpected_fields :: "(string \<times> runtimeExpected decoder) list" where
  "runtimeExpected_fields = [(''raw'', fld re_Raw re_Raw_update dec_string),
     (''encrypt_user_info'', fld re_EncryptUserInfo re_EncryptUserInfo_update dec_string),
     (''key'', fld re_Key re_Key_update dec_string)]"

definition modelInput_fields :: "(string \<times> modelInput decoder) list" where
  "modelInput_fields = [(''plain'', fld mi_Plain mi_Plain_update dec_string), (''uid'', fld mi_UID mi_UID_update dec_string)]"

definition modelExpected_fields :: "(string \<times> modelExpected decoder) list" where
  "modelExpected_fields = [(''decrypted'', fld me_Decrypted me_Decrypted_update dec_string),
     (''encrypted'', fld me_Encrypted me_Encrypted_update dec_string)]"

definition runtimePlain_fields :: "(string \<times> runtimePlainObject decoder) list" where
  "runtimePlain_fields = [(''uid'', fld rp_UID rp_UID_update dec_string),
     (''organization_id'', fld rp_OrganizationID rp_OrganizationID_update dec_string),
     (''organization_tags'', fld rp_OrganizationTags rp_OrganizationTags_update (dec_slice [] dec_string)),
     (''data_policy_agreed'', fld rp_DataPolicyAgreed rp_DataPolicyAgreed_update dec_bool)]"

definition credentialPlain_fields :: "(string \<times> credentialPlainObject decoder) list" where
  "credentialPlain_fields = [(''uid'', fld cp_UID cp_UID_update dec_string),
     (''organization_id'', fld cp_OrganizationID cp_OrganizationID_update dec_string),
     (''access_token'', fld cp_AccessToken cp_AccessToken_update dec_string)]"

text \<open>The identifiers of \<open>modelPlainObject\<close>.\<close>

definition dec_modelPlain :: "string list decoder" where
  "dec_modelPlain = strict_struct
     [(''models'', dec_list [] (strict_struct [(''id'', dec_string)]))]"

definition inferUser_fields :: "(string \<times> inferUser decoder) list" where
  "inferUser_fields = [(''uid'', fld iu_UID iu_UID_update dec_string),
     (''encrypt_user_info'', fld iu_EncryptUserInfo iu_EncryptUserInfo_update dec_string),
     (''key'', fld iu_Key iu_Key_update dec_string),
     (''organization_id'', fld iu_OrganizationID iu_OrganizationID_update dec_string),
     (''organization_tags'', fld iu_OrganizationTags iu_OrganizationTags_update (dec_slice [] dec_string)),
     (''data_policy_agreed'', fld iu_DataPolicyAgreed iu_DataPolicyAgreed_update dec_bool)]"

definition inferScene_fields :: "(string \<times> inferScene decoder) list" where
  "inferScene_fields = [(''client_type'', fld is_ClientType is_ClientType_update dec_string),
     (''business_product'', fld is_BusinessProduct is_BusinessProduct_update dec_string),
     (''business_type'', fld is_BusinessType is_BusinessType_update dec_string),
     (''scene'', fld is_Scene is_Scene_update dec_string)]"

definition inferInput_fields :: "(string \<times> inferFixtureInputPolicy decoder) list" where
  "inferInput_fields = [(''machine_id'', fld ip_MachineID ip_MachineID_update dec_string),
     (''version'', fld ip_Version ip_Version_update dec_string),
     (''user'', fld ip_User ip_User_update (strict_struct inferUser_fields)),
     (''scene'', fld ip_Scene ip_Scene_update (strict_struct inferScene_fields)),
     (''endpoint'', fld ip_Endpoint ip_Endpoint_update dec_string),
     (''body_raw'', fld ip_BodyRaw ip_BodyRaw_update dec_string),
     (''model_key'', fld ip_ModelKey ip_ModelKey_update dec_string),
     (''model_source'', fld ip_ModelSource ip_ModelSource_update dec_string)]"

definition inferExpected_fields :: "(string \<times> inferExpected decoder) list" where
  "inferExpected_fields = [(''url'', fld ie_URL ie_URL_update dec_string),
     (''header'', fld ie_Header ie_Header_update (dec_map [] (dec_list [] dec_string))),
     (''body_string'', fld ie_BodyString ie_BodyString_update dec_string),
     (''body_bytes'', fld ie_BodyBytes ie_BodyBytes_update dec_string)]"

definition payload_fields :: "(string \<times> inferAuthorizationPayloadPolicy decoder) list" where
  "payload_fields = [(''version'', fld ap_Version ap_Version_update dec_string),
     (''requestId'', fld ap_RequestID ap_RequestID_update dec_string), (''info'', fld ap_Info ap_Info_update dec_string),
     (''cosyVersion'', fld ap_CosyVersion ap_CosyVersion_update dec_string),
     (''ideVersion'', fld ap_IDEVersion ap_IDEVersion_update dec_string)]"

definition remoteBusiness_fields :: "(string \<times> remoteBusiness decoder) list" where
  "remoteBusiness_fields = [(''begin_at'', fld rb_BeginAt rb_BeginAt_update dec_int), (''id'', fld rb_ID rb_ID_update dec_string),
     (''name'', fld rb_Name rb_Name_update dec_string), (''product'', fld rb_Product rb_Product_update dec_string),
     (''stage'', fld rb_Stage rb_Stage_update dec_string), (''type'', fld rb_Type rb_Type_update dec_string),
     (''version'', fld rb_Version rb_Version_update dec_string)]"

definition remoteContent_fields :: "(string \<times> remoteContent decoder) list" where
  "remoteContent_fields = [(''type'', fld rc_Type rc_Type_update dec_string), (''text'', fld rc_Text rc_Text_update dec_string)]"

definition remoteMessage_fields :: "(string \<times> remoteMessage decoder) list" where
  "remoteMessage_fields = [(''role'', fld rg_Role rg_Role_update dec_string),
     (''content'', fld rg_Content rg_Content_update dec_string),
     (''contents'', fld rg_Contents rg_Contents_update
        (dec_list \<lparr>rc_Type = [], rc_Text = []\<rparr> (strict_struct remoteContent_fields)))]"

definition remoteModel_fields :: "(string \<times> remoteModel decoder) list" where
  "remoteModel_fields = [(''key'', fld rm_Key rm_Key_update dec_string), (''format'', fld rm_Format rm_Format_update dec_string),
     (''source'', fld rm_Source rm_Source_update dec_string), (''enable'', fld rm_Enable rm_Enable_update dec_bool),
     (''display_name'', fld rm_DisplayName rm_DisplayName_update dec_string),
     (''is_vl'', fld rm_IsVL rm_IsVL_update dec_bool), (''is_reasoning'', fld rm_IsReasoning rm_IsReasoning_update dec_bool),
     (''max_input_tokens'', fld rm_MaxInputTokens rm_MaxInputTokens_update dec_int)]"

definition remoteParams_fields :: "(string \<times> remoteParams decoder) list" where
  "remoteParams_fields = [(''max_tokens'', fld rq_MaxTokens rq_MaxTokens_update dec_int),
     (''temperature'', fld rq_Temperature rq_Temperature_update dec_float),
     (''top_p'', fld rq_TopP rq_TopP_update dec_float)]"

definition remoteToolParams_fields :: "(string \<times> remoteToolParams decoder) list" where
  "remoteToolParams_fields = [(''properties'', fld rt_Properties rt_Properties_update
        (dec_map [] (strict_struct [(''type'', dec_string)]))),
     (''required'', fld rt_Required rt_Required_update (dec_list [] dec_string)),
     (''type'', fld rt_Type rt_Type_update dec_string)]"

definition remoteFunction_fields :: "(string \<times> remoteFunction decoder) list" where
  "remoteFunction_fields = [(''description'', fld rf_Description rf_Description_update dec_string),
     (''name'', fld rf_Name rf_Name_update dec_string),
     (''parameters'', fld rf_Parameters rf_Parameters_update (strict_struct remoteToolParams_fields))]"

definition remoteTool_fields :: "(string \<times> remoteTool decoder) list" where
  "remoteTool_fields = [(''function'', fld ro_Function ro_Function_update (strict_struct remoteFunction_fields)),
     (''type'', fld ro_Type ro_Type_update dec_string)]"

definition zero_remoteTool :: remoteTool where
  "zero_remoteTool = \<lparr>ro_Function = \<lparr>rf_Description = [], rf_Name = [],
     rf_Parameters = \<lparr>rt_Properties = [], rt_Required = [], rt_Type = []\<rparr>\<rparr>, ro_Type = []\<rparr>"

definition remoteBody_fields :: "(string \<times> remoteBody decoder) list" where
  "remoteBody_fields = [(''agent_id'', fld bd_AgentID bd_AgentID_update dec_string),
     (''aliyun_user_type'', fld bd_AliyunUserType bd_AliyunUserType_update dec_string),
     (''business'', fld bd_Business bd_Business_update (strict_struct remoteBusiness_fields)),
     (''chat_context'', fld bd_ChatContext bd_ChatContext_update dec_raw),
     (''chat_record_id'', fld bd_ChatRecordID bd_ChatRecordID_update dec_string),
     (''chat_task'', fld bd_ChatTask bd_ChatTask_update dec_string),
     (''custom_model'', fld bd_CustomModel bd_CustomModel_update dec_raw),
     (''is_reply'', fld bd_IsReply bd_IsReply_update dec_bool), (''is_retry'', fld bd_IsRetry bd_IsRetry_update dec_bool),
     (''messages'', fld bd_Messages bd_Messages_update
        (dec_list \<lparr>rg_Role = [], rg_Content = [], rg_Contents = []\<rparr> (strict_struct remoteMessage_fields))),
     (''model_config'', fld bd_ModelConfig bd_ModelConfig_update (strict_struct remoteModel_fields)),
     (''parameters'', fld bd_Parameters bd_Parameters_update (strict_struct remoteParams_fields)),
     (''request_id'', fld bd_RequestID bd_RequestID_update dec_string),
     (''request_set_id'', fld bd_RequestSetID bd_RequestSetID_update dec_string),
     (''session_id'', fld bd_SessionID bd_SessionID_update dec_string),
     (''session_type'', fld bd_SessionType bd_SessionType_update dec_string),
     (''source'', fld bd_Source bd_Source_update dec_int), (''stream'', fld bd_Stream bd_Stream_update dec_bool),
     (''system'', fld bd_System bd_System_update dec_string), (''task_id'', fld bd_TaskID bd_TaskID_update dec_string),
     (''tools'', fld bd_Tools bd_Tools_update (dec_list zero_remoteTool (strict_struct remoteTool_fields))),
     (''version'', fld bd_Version bd_Version_update dec_string)]"

text \<open>The zero values.\<close>

definition zero_inferUser :: inferUser where
  "zero_inferUser = \<lparr>iu_UID = [], iu_EncryptUserInfo = [], iu_Key = [], iu_OrganizationID = [],
     iu_OrganizationTags = None, iu_DataPolicyAgreed = False\<rparr>"

definition zero_inferInput :: inferFixtureInputPolicy where
  "zero_inferInput = \<lparr>ip_MachineID = [], ip_Version = [], ip_User = zero_inferUser,
     ip_Scene = \<lparr>is_ClientType = [], is_BusinessProduct = [], is_BusinessType = [], is_Scene = []\<rparr>,
     ip_Endpoint = [], ip_BodyRaw = [], ip_ModelKey = [], ip_ModelSource = []\<rparr>"

definition zero_inferExpected :: inferExpected where
  "zero_inferExpected = \<lparr>ie_URL = [], ie_Header = [], ie_BodyString = [], ie_BodyBytes = []\<rparr>"

definition zero_payload :: inferAuthorizationPayloadPolicy where
  "zero_payload = \<lparr>ap_Version = [], ap_RequestID = [], ap_Info = [], ap_CosyVersion = [], ap_IDEVersion = []\<rparr>"

definition zero_body :: remoteBody where
  "zero_body = \<lparr>bd_AgentID = [], bd_AliyunUserType = [],
     bd_Business = \<lparr>rb_BeginAt = 0, rb_ID = [], rb_Name = [], rb_Product = [], rb_Stage = [], rb_Type = [], rb_Version = []\<rparr>,
     bd_ChatContext = None, bd_ChatRecordID = [], bd_ChatTask = [], bd_CustomModel = None, bd_IsReply = False,
     bd_IsRetry = False, bd_Messages = [],
     bd_ModelConfig = \<lparr>rm_Key = [], rm_Format = [], rm_Source = [], rm_Enable = False, rm_DisplayName = [],
       rm_IsVL = False, rm_IsReasoning = False, rm_MaxInputTokens = 0\<rparr>,
     bd_Parameters = \<lparr>rq_MaxTokens = 0, rq_Temperature = ''0'', rq_TopP = ''0''\<rparr>,
     bd_RequestID = [], bd_RequestSetID = [], bd_SessionID = [], bd_SessionType = [], bd_Source = 0,
     bd_Stream = False, bd_System = [], bd_TaskID = [], bd_Tools = [], bd_Version = []\<rparr>"

definition decode_credentialInput :: "raw_message \<Rightarrow> (category, credentialInput) result" where
  "decode_credentialInput = strict_raw \<lparr>ci_MachineKey = [], ci_Plain = []\<rparr> (strict_struct credentialInput_fields)"

definition decode_credentialExpected :: "raw_message \<Rightarrow> (category, credentialExpected) result" where
  "decode_credentialExpected = strict_raw \<lparr>ce_Decrypted = [], ce_Encrypted = []\<rparr> (strict_struct credentialExpected_fields)"

definition decode_runtimeExpected :: "raw_message \<Rightarrow> (category, runtimeExpected) result" where
  "decode_runtimeExpected = strict_raw \<lparr>re_Raw = [], re_EncryptUserInfo = [], re_Key = []\<rparr> (strict_struct runtimeExpected_fields)"

definition decode_inferInput :: "raw_message \<Rightarrow> (category, inferFixtureInputPolicy) result" where
  "decode_inferInput = strict_raw zero_inferInput (strict_struct inferInput_fields)"

definition decode_inferExpected :: "raw_message \<Rightarrow> (category, inferExpected) result" where
  "decode_inferExpected = strict_raw zero_inferExpected (strict_struct inferExpected_fields)"

end
