(* ===== verification/Oracle_Backend.thy ===== *)
theory Oracle_Backend
  imports Oracle_Imports Oracle_Handles Oracle_Fixture
begin

text \<open>
  \<open>tools/wasm_oracle/abi.go\<close> and \<open>backend.go\<close>: calling the module's exports. Strings are copied into
  its memory, results come back through a frame of its stack, and what a result points to has to
  be given back.
\<close>

section \<open>The ABI\<close>

text \<open>Go's \<open>binary.LittleEndian.Uint32\<close> at an offset.\<close>

definition le_uint32 :: "bytes \<Rightarrow> nat \<Rightarrow> nat" where
  "le_uint32 data i = ord (data ! i) + 256 * ord (data ! (i + 1)) + 65536 * ord (data ! (i + 2)) + 16777216 * ord (data ! (i + 3))"

record stringResult =
  sr_ptr :: nat
  sr_length :: nat
  sr_errorRef :: nat
  sr_errorFlag :: nat

record objectResult =
  ob_ptr :: nat
  ob_errorRef :: nat
  ob_errorFlag :: nat

definition objectResultOffset :: nat where "objectResultOffset = 12"

definition decodeStringResult :: "bytes \<Rightarrow> (category, stringResult) result" where
  "decodeStringResult data =
     (if length data < 16 then Err ''abi-string-result-length''
      else Ok \<lparr>sr_ptr = le_uint32 data 0, sr_length = le_uint32 data 4,
               sr_errorRef = le_uint32 data 8, sr_errorFlag = le_uint32 data 12\<rparr>)"

definition decodeObjectResult :: "bytes \<Rightarrow> (category, objectResult) result" where
  "decodeObjectResult data =
     (if length data < objectResultOffset then Err ''abi-object-result-length''
      else Ok \<lparr>ob_ptr = le_uint32 data 0, ob_errorRef = le_uint32 data 4, ob_errorFlag = le_uint32 data 8\<rparr>)"

section \<open>Taking and giving back\<close>

definition took :: "resource \<Rightarrow> 'm wasmBackend \<Rightarrow> 'm wasmBackend" where
  "took r w = w\<lparr>wb_taken := wb_taken w @ [r]\<rparr>"

definition gave_back :: "resource \<Rightarrow> 'm wasmBackend \<Rightarrow> 'm wasmBackend" where
  "gave_back r w = w\<lparr>wb_freed := wb_freed w @ [r]\<rparr>"

text \<open>A null pointer is nothing to give back, though the code may pass one to a free function.\<close>

definition if_object :: "nat \<Rightarrow> ('m wasmBackend \<Rightarrow> 'm wasmBackend) \<Rightarrow> 'm wasmBackend \<Rightarrow> 'm wasmBackend" where
  "if_object ptr f w = (if ptr = 0 then w else f w)"

text \<open>A deferred clean-up whose error counts only when there is no other.\<close>

definition cleaning ::
  "('m wasmBackend \<Rightarrow> category option \<times> 'm wasmBackend) \<Rightarrow> (category, 'a) result \<times> 'm wasmBackend \<Rightarrow>
   (category, 'a) result \<times> 'm wasmBackend" where
  "cleaning clean result =
     (case result of (r, w) \<Rightarrow>
        (case clean w of (c, w) \<Rightarrow>
           ((case r of Err e \<Rightarrow> Err e | Ok v \<Rightarrow> (case c of None \<Rightarrow> Ok v | Some e \<Rightarrow> Err e)), w)))"

definition stack_export :: string where "stack_export = ''__wbindgen_add_to_stack_pointer''"
definition malloc_export :: string where "malloc_export = ''__wbindgen_export2''"
definition free_export :: string where "free_export = ''__wbindgen_export4''"

definition stackAlloc :: "'m guest \<Rightarrow> 'm wasmBackend \<Rightarrow> (category, nat) result \<times> 'm wasmBackend" where
  "stackAlloc g w =
     (case call_export g stack_export [2 ^ 64 - 16] w of
        (Some [p], w) \<Rightarrow> (Ok (uint32 p), took StackFrame w)
      | (_, w) \<Rightarrow> (Err ''wasm-abi'', w))"

definition stackFree :: "'m guest \<Rightarrow> 'm wasmBackend \<Rightarrow> category option \<times> 'm wasmBackend" where
  "stackFree g w =
     (case call_export g stack_export [16] (gave_back StackFrame w) of
        (None, w) \<Rightarrow> (Some ''wasm-cleanup'', w) | (Some _, w) \<Rightarrow> (None, w))"

definition freeString :: "'m guest \<Rightarrow> nat \<Rightarrow> nat \<Rightarrow> 'm wasmBackend \<Rightarrow> category option \<times> 'm wasmBackend" where
  "freeString g ptr len w =
     (case call_export g free_export [ptr, len, 1] (gave_back (ResultString ptr len) w) of
        (None, w) \<Rightarrow> (Some ''wasm-cleanup'', w)
      | (Some _, w) \<Rightarrow>
          (None, w\<lparr>wb_accounting := (wb_accounting w)\<lparr>fa_ResultStrings := fa_ResultStrings (wb_accounting w) + 1\<rparr>\<rparr>))"

definition freeContext :: "'m guest \<Rightarrow> nat \<Rightarrow> 'm wasmBackend \<Rightarrow> category option \<times> 'm wasmBackend" where
  "freeContext g ptr w =
     (case call_export g ''__wbg_qodercontext_free'' [ptr, 0] (if_object ptr (gave_back (Context ptr)) w) of
        (None, w) \<Rightarrow> (Some ''wasm-cleanup'', w)
      | (Some _, w) \<Rightarrow>
          (None, w\<lparr>wb_accounting := (wb_accounting w)\<lparr>fa_Contexts := fa_Contexts (wb_accounting w) + 1\<rparr>\<rparr>))"

definition freeRequestResult :: "'m guest \<Rightarrow> nat \<Rightarrow> 'm wasmBackend \<Rightarrow> category option \<times> 'm wasmBackend" where
  "freeRequestResult g ptr w =
     (case call_export g ''__wbg_requestresult_free'' [ptr, 0] (if_object ptr (gave_back (RequestResult ptr)) w) of
        (None, w) \<Rightarrow> (Some ''wasm-cleanup'', w)
      | (Some _, w) \<Rightarrow>
          (None, w\<lparr>wb_accounting := (wb_accounting w)\<lparr>fa_RequestResults := fa_RequestResults (wb_accounting w) + 1\<rparr>\<rparr>))"

section \<open>Calls\<close>

definition passString :: "'m guest \<Rightarrow> string \<Rightarrow> 'm wasmBackend \<Rightarrow> (category, nat \<times> nat) result \<times> 'm wasmBackend" where
  "passString g s w =
     (case call_export g malloc_export [length s, 1] w of
        (Some [p], w) \<Rightarrow>
          (case memory_write g (uint32 p) s w of
             (ok, w) \<Rightarrow> ((if ok then Ok (uint32 p, uint32 (length s)) else Err ''wasm-abi''), w))
      | (_, w) \<Rightarrow> (Err ''wasm-abi'', w))"

fun pass_strings ::
  "'m guest \<Rightarrow> string list \<Rightarrow> nat list \<Rightarrow> 'm wasmBackend \<Rightarrow> (category, nat list) result \<times> 'm wasmBackend" where
  "pass_strings g [] args w = (Ok args, w)"
| "pass_strings g (s # ss) args w =
     (case passString g s w of
        (Err e, w) \<Rightarrow> (Err e, w)
      | (Ok (p, n), w) \<Rightarrow> pass_strings g ss (args @ [p, n]) w)"

definition with_frame ::
  "'m guest \<Rightarrow> (nat \<Rightarrow> 'm wasmBackend \<Rightarrow> (category, 'a) result \<times> 'm wasmBackend) \<Rightarrow> 'm wasmBackend \<Rightarrow>
   (category, 'a) result \<times> 'm wasmBackend" where
  "with_frame g body w =
     (case stackAlloc g w of
        (Err e, w) \<Rightarrow> (Err e, w)
      | (Ok retptr, w) \<Rightarrow> cleaning (stackFree g) (body retptr w))"

text \<open>Calls an export that leaves its result in the frame, and entropy_reads that many bytes of it.\<close>

definition call_frame ::
  "'m guest \<Rightarrow> string \<Rightarrow> nat list \<Rightarrow> nat \<Rightarrow> nat \<Rightarrow> 'm wasmBackend \<Rightarrow> (category, bytes) result \<times> 'm wasmBackend" where
  "call_frame g name args retptr n w =
     (case call_export g name args w of
        (None, w) \<Rightarrow> (Err ''wasm-call'', w)
      | (Some _, w) \<Rightarrow>
          (case gu_read g (wb_mem w) retptr n of None \<Rightarrow> (Err ''wasm-abi'', w) | Some d \<Rightarrow> (Ok d, w)))"

definition read_text ::
  "'m guest \<Rightarrow> nat \<Rightarrow> nat \<Rightarrow> 'm wasmBackend \<Rightarrow> (category, string) result \<times> 'm wasmBackend" where
  "read_text g ptr len w =
     (case gu_read g (wb_mem w) ptr len of None \<Rightarrow> (Err ''wasm-abi'', w) | Some d \<Rightarrow> (Ok d, w))"

text \<open>Goes on unless a function of the host has failed during the call.\<close>

definition unless_failed ::
  "('m wasmBackend \<Rightarrow> (category, 'a) result \<times> 'm wasmBackend) \<Rightarrow> 'm wasmBackend \<Rightarrow> (category, 'a) result \<times> 'm wasmBackend" where
  "unless_failed f w = (case wb_hostFail w of Some e \<Rightarrow> (Err e, w) | None \<Rightarrow> f w)"

definition string_result ::
  "'m guest \<Rightarrow> stringResult \<Rightarrow> 'm wasmBackend \<Rightarrow> (category, string) result \<times> 'm wasmBackend" where
  "string_result g r w =
     (if sr_errorFlag r \<noteq> 0 then (Err ''wasm-result'', snd (take_handle (sr_errorRef r) w))
      else if sr_ptr r = 0 then
        (if sr_length r \<noteq> 0 then (Err ''wasm-abi'', w) else unless_failed (\<lambda>w. (Ok [], w)) w)
      else cleaning (freeString g (sr_ptr r) (sr_length r))
             (unless_failed (read_text g (sr_ptr r) (sr_length r)) (took (ResultString (sr_ptr r) (sr_length r)) w)))"

definition callString ::
  "'m guest \<Rightarrow> string \<Rightarrow> string list \<Rightarrow> 'm wasmBackend \<Rightarrow> (category, string) result \<times> 'm wasmBackend" where
  "callString g name values w =
     with_frame g (\<lambda>retptr w.
       (case pass_strings g values [retptr] w of
          (Err e, w) \<Rightarrow> (Err e, w)
        | (Ok args, w) \<Rightarrow>
            (case call_frame g name args retptr 16 w of
               (Err e, w) \<Rightarrow> (Err e, w)
             | (Ok data, w) \<Rightarrow>
                 (case decodeStringResult data of Err e \<Rightarrow> (Err e, w) | Ok r \<Rightarrow> string_result g r w))))
       (w\<lparr>wb_hostFail := None\<rparr>)"

definition object_result ::
  "'m guest \<Rightarrow> string \<Rightarrow> nat list \<Rightarrow> string list \<Rightarrow> nat \<Rightarrow> (nat \<Rightarrow> resource) \<Rightarrow> 'm wasmBackend \<Rightarrow>
   (category, nat) result \<times> 'm wasmBackend" where
  "object_result g name args values retptr made w =
     (case pass_strings g values (retptr # args) w of
        (Err e, w) \<Rightarrow> (Err e, w)
      | (Ok args, w) \<Rightarrow>
          (case call_frame g name args retptr objectResultOffset w of
             (Err e, w) \<Rightarrow> (Err e, w)
           | (Ok data, w) \<Rightarrow>
               (case decodeObjectResult data of
                  Err e \<Rightarrow> (Err e, w)
                | Ok r \<Rightarrow>
                    (if ob_errorFlag r \<noteq> 0 then (Err ''wasm-result'', snd (take_handle (ob_errorRef r) w))
                     else (Ok (ob_ptr r), if_object (ob_ptr r) (took (made (ob_ptr r))) w)))))"

definition newContext ::
  "'m guest \<Rightarrow> string \<Rightarrow> string \<Rightarrow> string \<Rightarrow> string \<Rightarrow> 'm wasmBackend \<Rightarrow> (category, nat) result \<times> 'm wasmBackend" where
  "newContext g machineID version user scene w =
     with_frame g (\<lambda>retptr w.
       (case object_result g ''qodercontext_new'' [] [machineID, version, user, scene] retptr Context w of
          (Err e, w) \<Rightarrow> (Err e, w)
        | (Ok ptr, w) \<Rightarrow>
            (case wb_hostFail w of
               Some e \<Rightarrow> (Err e, if ptr \<noteq> 0 then snd (freeContext g ptr w) else w)
             | None \<Rightarrow> (Ok ptr, w))))
       (w\<lparr>wb_hostFail := None\<rparr>)"

definition resultString ::
  "'m guest \<Rightarrow> string \<Rightarrow> nat \<Rightarrow> 'm wasmBackend \<Rightarrow> (category, string) result \<times> 'm wasmBackend" where
  "resultString g name resultPtr w =
     with_frame g (\<lambda>retptr w.
       (case call_frame g name [retptr, resultPtr] retptr 8 w of
          (Err e, w) \<Rightarrow> (Err e, w)
        | (Ok data, w) \<Rightarrow>
            (let ptr = le_uint32 data 0; len = le_uint32 data 4
             in if ptr = 0 then ((if len \<noteq> 0 then Err ''wasm-abi'' else Ok []), w)
                else cleaning (freeString g ptr len) (read_text g ptr len (took (ResultString ptr len) w))))) w"

record inferOutput =
  io_URL :: string
  io_Headers :: "(string \<times> string) list"
  io_Body :: string

text \<open>The headers are a map of the host the module has filled; its handle is given back at the end.\<close>

definition headers_of_result ::
  "'m guest \<Rightarrow> nat \<Rightarrow> string \<Rightarrow> nat \<Rightarrow> 'm wasmBackend \<Rightarrow> (category, inferOutput) result \<times> 'm wasmBackend" where
  "headers_of_result g rptr url index w =
     cleaning (\<lambda>w. (None, drop_handle index w))
       (case get_handle index w of
          MapRef i \<Rightarrow>
            (let headers = wb_maps w ! i
             in case resultString g ''requestresult_body'' rptr w of
                  (Err e, w) \<Rightarrow> (Err e, w)
                | (Ok body, w) \<Rightarrow> (Ok \<lparr>io_URL = url, io_Headers = headers, io_Body = body\<rparr>, w))
        | _ \<Rightarrow> (Err ''wasm-abi'', w))"

definition infer_result ::
  "'m guest \<Rightarrow> nat \<Rightarrow> 'm wasmBackend \<Rightarrow> (category, inferOutput) result \<times> 'm wasmBackend" where
  "infer_result g rptr w =
     (case resultString g ''requestresult_url'' rptr w of
        (Err e, w) \<Rightarrow> (Err e, w)
      | (Ok url, w) \<Rightarrow>
          (case call_export g ''requestresult_headers'' [rptr] w of
             (Some [i], w) \<Rightarrow> headers_of_result g rptr url (uint32 i) w
           | (_, w) \<Rightarrow> (Err ''wasm-abi'', w)))"

definition prepareInfer ::
  "'m guest \<Rightarrow> nat \<Rightarrow> string \<Rightarrow> string \<Rightarrow> string \<Rightarrow> string \<Rightarrow> 'm wasmBackend \<Rightarrow>
   (category, inferOutput) result \<times> 'm wasmBackend" where
  "prepareInfer g contextPtr endpoint body modelKey modelSource w =
     with_frame g (\<lambda>retptr w.
       (case object_result g ''qodercontext_prepareInferRequest'' [contextPtr] [endpoint, body, modelKey, modelSource]
               retptr RequestResult w of
          (Err e, w) \<Rightarrow> (Err e, w)
        | (Ok rptr, w) \<Rightarrow> cleaning (freeRequestResult g rptr) (unless_failed (infer_result g rptr) w)))
       (w\<lparr>wb_hostFail := None\<rparr>)"

section \<open>Making one\<close>

definition validateWASM :: "bytes \<Rightarrow> category option" where
  "validateWASM data =
     (if length data \<noteq> pinnedWASMSize then Some ''wasm-identity-size''
      else if stringHash data \<noteq> pinnedWASMHash then Some ''wasm-identity-sha256'' else None)"

definition exports :: "string list" where
  "exports = [malloc_export, free_export, stack_export,
     ''credential_storage_encrypt'', ''credential_storage_decrypt'', ''generate_runtime_auth_fields'',
     ''model_cache_encrypt'', ''model_cache_decrypt'', ''qodercontext_new'', ''qodercontext_prepareInferRequest'',
     ''requestresult_url'', ''requestresult_headers'', ''requestresult_body'', ''__wbg_qodercontext_free'',
     ''__wbg_requestresult_free'']"

definition newWASMBackend :: "'m guest \<Rightarrow> bytes \<Rightarrow> (category, 'm wasmBackend) result" where
  "newWASMBackend g source =
     (case validateWASM source of Some e \<Rightarrow> Err e
      | None \<Rightarrow>
          (if \<not> gu_compiles g source then Err ''wasm-compile''
           else if \<not> gu_hosts g then Err ''wasm-host''
           else (case gu_instantiate g source of
                   None \<Rightarrow> Err ''wasm-instantiate''
                 | Some m \<Rightarrow>
                     (if \<not> gu_memory g m \<or> \<not> list_all (gu_exports g m) exports then Err ''wasm-abi''
                      else Ok \<lparr>wb_mem = m, wb_heap = initial_heap, wb_heapNext = first_handle, wb_maps = [],
                               wb_arrays = [], wb_replay = None, wb_hostFail = None,
                               wb_accounting = \<lparr>fa_ResultStrings = 0, fa_Contexts = 0, fa_RequestResults = 0\<rparr>,
                               wb_taken = [], wb_freed = []\<rparr>))))"

end
