(* ===== verification/Oracle_Verify.thy ===== *)
theory Oracle_Verify
  imports Oracle_Backend
begin

text \<open>
  \<open>tools/wasm_oracle/verify.go\<close> and \<open>main.go\<close>: the recorded operations are run again in the vendor's
  module and have to give the recorded results; and the command itself.
\<close>

section \<open>Output\<close>

record statusLine =
  sl_Operation :: string
  sl_Transcript :: string
  sl_Result :: string
  sl_Category :: string

definition status_json :: "statusLine \<Rightarrow> json" where
  "status_json l = JObj ([(''operation'', JStr (sl_Operation l)), (''transcript'', JStr (sl_Transcript l)),
     (''result'', JStr (sl_Result l))] @ (if sl_Category l = [] then [] else [(''category'', JStr (sl_Category l))]))"

definition emitStatus :: "string \<Rightarrow> statusLine \<Rightarrow> string" where
  "emitStatus out l = out @ marshal (status_json l) @ [LF]"

definition passed :: "string \<Rightarrow> string \<Rightarrow> statusLine" where
  "passed operation shape = \<lparr>sl_Operation = operation, sl_Transcript = shape, sl_Result = ''PASS'', sl_Category = []\<rparr>"

definition failed :: "string \<Rightarrow> category \<Rightarrow> statusLine" where
  "failed operation e = \<lparr>sl_Operation = operation, sl_Transcript = ''unavailable'', sl_Result = ''FAIL'', sl_Category = e\<rparr>"

section \<open>Steps\<close>

text \<open>A step of the verification: it fails, or writes a line and goes on.\<close>

type_synonym 'm verification = "'m wasmBackend \<times> string"

type_synonym 'm step = "'m verification \<Rightarrow> category option \<times> 'm verification"

fun run_steps :: "'m step list \<Rightarrow> 'm step" where
  "run_steps [] v = (None, v)"
| "run_steps (f # fs) v = (case f v of (Some e, v) \<Rightarrow> (Some e, v) | (None, v) \<Rightarrow> run_steps fs v)"

definition replay_left :: "'m wasmBackend \<Rightarrow> category option" where
  "replay_left w = (case wb_replay w of None \<Rightarrow> None | Some r \<Rightarrow> Exhausted r)"

text \<open>The end of a step: the replay is used up, the results are the recorded ones.\<close>

definition conclude :: "bool \<Rightarrow> category \<Rightarrow> statusLine \<Rightarrow> 'm step" where
  "conclude same e line v =
     (case v of (w, out) \<Rightarrow>
        (case replay_left w of
           Some x \<Rightarrow> (Some x, v)
         | None \<Rightarrow> if same then (None, (w, emitStatus out line)) else (Some e, v)))"

definition verify_credential :: "'m guest \<Rightarrow> fixtureDocument \<Rightarrow> 'm step" where
  "verify_credential g f v =
     (case v of (w, out) \<Rightarrow>
       (case mustDecode \<lparr>ci_MachineKey = [], ci_Plain = []\<rparr> (dec_struct credentialInput_fields) (fd_Input f) of
          Err e \<Rightarrow> (Some e, v)
        | Ok c \<Rightarrow>
            (let want = decoded_anyway \<lparr>ce_Decrypted = [], ce_Encrypted = []\<rparr> credentialExpected_fields (fd_Expected f)
             in case callString g ''credential_storage_encrypt'' [ci_Plain c, ci_MachineKey c]
                       (setReplay (newOrderedReplay (fd_Transcript f) []) w) of
                  (Err e, w) \<Rightarrow> (Some e, (w, out))
                | (Ok enc, w) \<Rightarrow>
                    (case callString g ''credential_storage_decrypt'' [enc, ci_MachineKey c] w of
                       (Err e, w) \<Rightarrow> (Some e, (w, out))
                     | (Ok dec, w) \<Rightarrow>
                         conclude (enc = ce_Encrypted want \<and> dec = ce_Decrypted want) ''credential-output''
                           (passed ''credential'' (transcriptShape (fd_Transcript f))) (w, out)))))"

definition verify_runtime :: "'m guest \<Rightarrow> fixtureDocument \<Rightarrow> 'm step" where
  "verify_runtime g f v =
     (case v of (w, out) \<Rightarrow>
       (case mustDecode \<lparr>ri_Raw = []\<rparr> (dec_struct runtimeInput_fields) (fd_Input f) of
          Err e \<Rightarrow> (Some e, v)
        | Ok r \<Rightarrow>
            (let want = decoded_anyway \<lparr>re_Raw = [], re_EncryptUserInfo = [], re_Key = []\<rparr> runtimeExpected_fields (fd_Expected f);
                 t = fd_Transcript f
             in case callString g ''generate_runtime_auth_fields'' [ri_Raw r] (setReplay (newOrderedReplay t (entropyCalls t)) w) of
                  (Err e, w) \<Rightarrow> (Some e, (w, out))
                | (Ok raw, w) \<Rightarrow>
                    conclude (raw = re_Raw want) ''runtime-output'' (passed ''runtime'' (transcriptShape t)) (w, out))))"

definition verify_model :: "'m guest \<Rightarrow> fixtureDocument \<Rightarrow> 'm step" where
  "verify_model g f v =
     (case v of (w, out) \<Rightarrow>
       (case mustDecode \<lparr>mi_Plain = [], mi_UID = []\<rparr> (dec_struct modelInput_fields) (fd_Input f) of
          Err e \<Rightarrow> (Some e, v)
        | Ok m \<Rightarrow>
            (let want = decoded_anyway \<lparr>me_Decrypted = [], me_Encrypted = []\<rparr> modelExpected_fields (fd_Expected f);
                 t = fd_Transcript f
             in case callString g ''model_cache_encrypt'' [mi_Plain m, mi_UID m] (setReplay (newOrderedReplay t (entropyCalls t)) w) of
                  (Err e, w) \<Rightarrow> (Some e, (w, out))
                | (Ok enc, w) \<Rightarrow>
                    (case callString g ''model_cache_decrypt'' [enc, mi_UID m] w of
                       (Err e, w) \<Rightarrow> (Some e, (w, out))
                     | (Ok dec, w) \<Rightarrow>
                         conclude (enc = me_Encrypted want \<and> dec = me_Decrypted want) ''model-cache-output''
                           (passed ''model-cache'' (transcriptShape t)) (w, out)))))"

section \<open>Inference\<close>

record inferInput =
  vi_MachineID :: string
  vi_Version :: string
  vi_User :: raw_message
  vi_Scene :: raw_message
  vi_Endpoint :: string
  vi_BodyRaw :: string
  vi_ModelKey :: string
  vi_ModelSource :: string

definition verify_input_fields :: "(string \<times> inferInput decoder) list" where
  "verify_input_fields = [(''machine_id'', fld vi_MachineID vi_MachineID_update dec_string),
     (''version'', fld vi_Version vi_Version_update dec_string), (''user'', fld vi_User vi_User_update dec_raw),
     (''scene'', fld vi_Scene vi_Scene_update dec_raw), (''endpoint'', fld vi_Endpoint vi_Endpoint_update dec_string),
     (''body_raw'', fld vi_BodyRaw vi_BodyRaw_update dec_string),
     (''model_key'', fld vi_ModelKey vi_ModelKey_update dec_string),
     (''model_source'', fld vi_ModelSource vi_ModelSource_update dec_string)]"

definition zero_verifyInput :: inferInput where
  "zero_verifyInput = \<lparr>vi_MachineID = [], vi_Version = [], vi_User = None, vi_Scene = None, vi_Endpoint = [],
     vi_BodyRaw = [], vi_ModelKey = [], vi_ModelSource = []\<rparr>"

definition equalHeaders :: "fixtureWorld \<Rightarrow> (string \<times> string) list \<Rightarrow> fixture_header \<Rightarrow> bool" where
  "equalHeaders fw actual expected \<longleftrightarrow>
     length actual = length expected \<and>
     (let normalized = fold (\<lambda>(key, value) m. m(fw_lower fw key \<mapsto> value)) (fw_range fw actual) Map.empty
      in list_all (\<lambda>(key, values). length values = 1 \<and>
           (case normalized (fw_lower fw key) of None \<Rightarrow> [] | Some v \<Rightarrow> v) = hd values) expected)"

definition infer_calls :: "entropyRead list \<Rightarrow> hostCall list" where
  "infer_calls es = [entropy_call (er_Length (es ! 0)), entropy_call (er_Length (es ! 1)), clock_call,
     entropy_call (er_Length (es ! 2))]"

definition infer_shape :: "entropyRead list \<Rightarrow> string" where
  "infer_shape es = ''new[clock:0,entropy:'' @ itoa (er_Length (es ! 0)) @ '','' @ itoa (er_Length (es ! 1)) @
     ''],prepare[clock:1,entropy:'' @ itoa (er_Length (es ! 2)) @ '']''"

text \<open>
  With a context: the request is prepared and compared, then the context is freed, and freed again
  by the deferred function if that failed, or if the step did not come so far.
\<close>

definition infer_compared ::
  "'m guest \<Rightarrow> fixtureWorld \<Rightarrow> inferInput \<Rightarrow> inferExpected \<Rightarrow> nat \<Rightarrow> 'm wasmBackend \<Rightarrow> category option \<times> 'm wasmBackend" where
  "infer_compared g fw i want ctx w =
     (case prepareInfer g ctx (vi_Endpoint i) (vi_BodyRaw i) (vi_ModelKey i) (vi_ModelSource i) w of
        (Err e, w) \<Rightarrow> (Some e, w)
      | (Ok p, w) \<Rightarrow>
          (case replay_left w of
             Some e \<Rightarrow> (Some e, w)
           | None \<Rightarrow>
               (if io_URL p \<noteq> ie_URL want \<or> io_Body p \<noteq> ie_BodyString want \<or>
                   \<not> equalHeaders fw (io_Headers p) (ie_Header want)
                then (Some ''infer-output'', w) else (None, w))))"

definition infer_with_context ::
  "'m guest \<Rightarrow> fixtureWorld \<Rightarrow> inferInput \<Rightarrow> inferExpected \<Rightarrow> nat \<Rightarrow> 'm wasmBackend \<Rightarrow> category option \<times> 'm wasmBackend" where
  "infer_with_context g fw i want ctx w =
     (case (case infer_compared g fw i want ctx w of
              (Some e, w) \<Rightarrow> (Some e, w) | (None, w) \<Rightarrow> freeContext g ctx w) of
        (None, w) \<Rightarrow> (None, w)
      | (Some e, w) \<Rightarrow> (Some e, if ctx \<noteq> 0 then snd (freeContext g ctx w) else w))"

definition infer_begun ::
  "'m guest \<Rightarrow> fixtureWorld \<Rightarrow> inferInput \<Rightarrow> inferExpected \<Rightarrow> string \<Rightarrow> string \<Rightarrow> 'm wasmBackend \<Rightarrow>
   category option \<times> 'm wasmBackend" where
  "infer_begun g fw i want user scene w =
     (case newContext g (vi_MachineID i) (vi_Version i) user scene w of
        (Err e, w) \<Rightarrow> (Some e, w)
      | (Ok ctx, w) \<Rightarrow> infer_with_context g fw i want ctx w)"

text \<open>The two documents of a fixture, and the compact texts of the user and the scene.\<close>

definition infer_documents ::
  "fixtureDocument \<Rightarrow> (category, inferInput \<times> inferExpected \<times> string \<times> string) result" where
  "infer_documents f =
     (case mustDecode zero_verifyInput (dec_struct verify_input_fields) (fd_Input f) of Err e \<Rightarrow> Err e
      | Ok i \<Rightarrow>
          (case mustDecode zero_inferExpected (dec_struct inferExpected_fields) (fd_Expected f) of Err e \<Rightarrow> Err e
           | Ok want \<Rightarrow>
               (case compactJSON (vi_User i) of Err e \<Rightarrow> Err e
                | Ok user \<Rightarrow> (case compactJSON (vi_Scene i) of Err e \<Rightarrow> Err e | Ok scene \<Rightarrow> Ok (i, want, user, scene)))))"

definition verifyInferFixture :: "'m guest \<Rightarrow> fixtureWorld \<Rightarrow> fixtureDocument \<Rightarrow> string \<Rightarrow> 'm step" where
  "verifyInferFixture g fw f operation v =
     (case v of (w, out) \<Rightarrow>
       (case infer_documents f of
          Err e \<Rightarrow> (Some e, v)
        | Ok (i, want, user, scene) \<Rightarrow>
            (let t = fd_Transcript f; es = entropy_reads t
             in if length es \<noteq> 3 \<or> length (clocks t) \<noteq> 1 then (Some ''infer-transcript-shape'', v)
                else (case infer_begun g fw i want user scene (setReplay (newOrderedReplay t (infer_calls es)) w) of
                        (Some e, w) \<Rightarrow> (Some e, (w, out))
                      | (None, w) \<Rightarrow> (None, (w, emitStatus out (passed operation (infer_shape es))))))))"

definition check_accounting :: "'m step" where
  "check_accounting v =
     (if wb_accounting (fst v) = \<lparr>fa_ResultStrings = 9, fa_Contexts = 2, fa_RequestResults = 2\<rparr> then (None, v)
      else (Some ''free-accounting'', v))"

definition verify_steps :: "'m guest \<Rightarrow> fixtureWorld \<Rightarrow> fixtureSet \<Rightarrow> 'm step list" where
  "verify_steps g fw fs =
     [verify_credential g (fixture fs ''credential.json''), verify_runtime g (fixture fs ''runtime-fields.json''),
      verify_model g (fixture fs ''model-cache.json''),
      verifyInferFixture g fw (fixture fs ''infer-user.json'') ''infer'',
      verifyInferFixture g fw (fixture fs ''infer-user-no-org.json'') ''infer-no-org'', check_accounting]"

definition verifyFixtures :: "'m guest \<Rightarrow> fixtureWorld \<Rightarrow> bytes \<Rightarrow> fixtureSet \<Rightarrow> string \<Rightarrow> category option \<times> string" where
  "verifyFixtures g fw source fs out =
     (case newWASMBackend g source of
        Err e \<Rightarrow> (Some e, out)
      | Ok w \<Rightarrow> (case run_steps (verify_steps g fw fs) (w, out) of (r, v) \<Rightarrow> (r, snd v)))"

section \<open>The command\<close>

record commandArgs =
  ca_wasmPath :: string
  ca_fixturePath :: string
  ca_command :: string

definition is_command :: "string \<Rightarrow> bool" where
  "is_command a \<longleftrightarrow> a = ''verify-fixtures'' \<or> a = ''validate-fixtures''"

fun parse_options :: "string list \<Rightarrow> commandArgs \<Rightarrow> (category, commandArgs \<times> string list) result" where
  "parse_options [] r = Ok (r, [])"
| "parse_options [a] r = (if is_command a then Ok (r, [a]) else Err ''arguments'')"
| "parse_options (a # v # args) r =
     (if is_command a then Ok (r, a # v # args)
      else if a = ''--wasm'' then parse_options args (r\<lparr>ca_wasmPath := v\<rparr>)
      else if a = ''--fixtures'' then parse_options args (r\<lparr>ca_fixturePath := v\<rparr>)
      else Err ''arguments'')"

definition parseArgs :: "string list \<Rightarrow> (category, commandArgs) result" where
  "parseArgs args =
     (case parse_options args \<lparr>ca_wasmPath = [], ca_fixturePath = [], ca_command = []\<rparr> of
        Err e \<Rightarrow> Err e
      | Ok (r, rest) \<Rightarrow>
          (case rest of
             [c] \<Rightarrow>
               (if ca_fixturePath r = [] then Err ''arguments''
                else if c = ''verify-fixtures'' \<and> ca_wasmPath r = [] then Err ''arguments''
                else if c = ''validate-fixtures'' \<and> ca_wasmPath r \<noteq> [] then Err ''arguments''
                else Ok (r\<lparr>ca_command := c\<rparr>))
           | _ \<Rightarrow> Err ''arguments''))"

definition oracle_run :: "'m guest \<Rightarrow> fixtureWorld \<Rightarrow> string list \<Rightarrow> string \<Rightarrow> nat \<times> string" where
  "oracle_run g fw args out =
     (case parseArgs args of
        Err e \<Rightarrow> (2, emitStatus out (failed ''verify-fixtures'' e))
      | Ok p \<Rightarrow>
          (case validateFixtureSet fw (ca_fixturePath p) pinnedPolicy of
             Err e \<Rightarrow> (1, emitStatus out (failed (ca_command p) e))
           | Ok fs \<Rightarrow>
               (if ca_command p = ''validate-fixtures'' then (0, emitStatus out (passed ''validate-fixtures'' ''static''))
                else (case readBoundedRegularFile fw (ca_wasmPath p) pinnedWASMSize ''wasm-read'' of
                        Err e \<Rightarrow> (1, emitStatus out (failed ''verify-fixtures'' e))
                      | Ok source \<Rightarrow>
                          (case validateWASM source of
                             Some e \<Rightarrow> (1, emitStatus out (failed ''verify-fixtures'' e))
                           | None \<Rightarrow>
                               (case verifyFixtures g fw source fs out of
                                  (Some e, out) \<Rightarrow> (1, emitStatus out (failed ''verify-fixtures'' e))
                                | (None, out) \<Rightarrow> (0, out)))))))"

text \<open>
  The command with what it wrote and its status, or no status when it panicked, and what its caller
  makes of that.
\<close>

definition guarded :: "string \<times> nat option \<Rightarrow> nat \<times> string" where
  "guarded action =
     (case action of
        (out, Some status) \<Rightarrow> (status, out)
      | (out, None) \<Rightarrow> (1, emitStatus out (failed ''verify-fixtures'' ''internal'')))"

end
