(* ===== verification/Oracle_Props.thy ===== *)
theory Oracle_Props
  imports Oracle_Verify
begin

text \<open>
  What the fixture tool gives back: whatever the module does, traps and wrong results included,
  every stack frame, string, result and context it hands out is given back exactly once.
\<close>

section \<open>Debts\<close>

definition owed :: "'m wasmBackend \<Rightarrow> resource \<Rightarrow> int" where
  "owed w r = int (count_list (wb_taken w) r) - int (count_list (wb_freed w) r)"

definition one :: "resource \<Rightarrow> resource \<Rightarrow> int" where
  "one r r' = (if r = r' then 1 else 0)"

definition one_object :: "nat \<Rightarrow> resource \<Rightarrow> resource \<Rightarrow> int" where
  "one_object ptr r r' = (if ptr = 0 then 0 else one r r')"

named_theorems owed_simps \<open>what is owed after an operation\<close>

lemma owed_books: "books w' = books w \<Longrightarrow> owed w' = owed w"
  by (simp add: books_def owed_def fun_eq_iff)

lemma owed_update [simp]:
  "owed (w\<lparr>wb_mem := m\<rparr>) = owed w" "owed (w\<lparr>wb_hostFail := h\<rparr>) = owed w" "owed (w\<lparr>wb_accounting := a\<rparr>) = owed w"
  "owed (setReplay p w) = owed w"
  by (simp_all add: owed_def fun_eq_iff setReplay_def)

lemma owed_host [owed_simps]:
  "owed (snd (call_export g name args w)) = owed w" "owed (snd (memory_write g p d w)) = owed w"
  "owed (snd (take_handle i w)) = owed w" "owed (drop_handle i w) = owed w"
  by (rule owed_books, simp add: host_simps)+

lemma owed_took [owed_simps]:
  "owed (took r w) = (\<lambda>r'. owed w r' + one r r')" "owed (gave_back r w) = (\<lambda>r'. owed w r' - one r r')"
  "owed (if_object p (took r) w) = (\<lambda>r'. owed w r' + one_object p r r')"
  "owed (if_object p (gave_back r) w) = (\<lambda>r'. owed w r' - one_object p r r')"
  by (simp_all add: fun_eq_iff owed_def took_def gave_back_def if_object_def one_object_def one_def)

lemma call_owed: "call_export g name args w = (r, w') \<Longrightarrow> owed w' = owed w"
  using owed_host(1) [of g name args w] by simp

lemma owed_stackAlloc:
  "owed (snd (stackAlloc g w)) r = owed w r + (case fst (stackAlloc g w) of Err e \<Rightarrow> 0 | Ok p \<Rightarrow> one StackFrame r)"
  by (auto simp: stackAlloc_def owed_simps dest: call_owed split: prod.split option.split list.split)

lemma owed_stackFree [owed_simps]: "owed (snd (stackFree g w)) = (\<lambda>r. owed w r - one StackFrame r)"
  by (auto simp: stackFree_def owed_simps dest!: call_owed split: prod.split option.split)

lemma owed_freeString [owed_simps]: "owed (snd (freeString g p n w)) = (\<lambda>r. owed w r - one (ResultString p n) r)"
  by (auto simp: freeString_def owed_simps dest!: call_owed split: prod.split option.split)

lemma owed_freeContext [owed_simps]: "owed (snd (freeContext g p w)) = (\<lambda>r. owed w r - one_object p (Context p) r)"
  by (auto simp: freeContext_def owed_simps dest!: call_owed split: prod.split option.split)

lemma owed_freeRequestResult [owed_simps]:
  "owed (snd (freeRequestResult g p w)) = (\<lambda>r. owed w r - one_object p (RequestResult p) r)"
  by (auto simp: freeRequestResult_def owed_simps dest!: call_owed split: prod.split option.split)

lemma owed_cleaning [owed_simps]: "owed (snd (cleaning clean q)) = owed (snd (clean (snd q)))"
  by (simp add: cleaning_def split_beta)

section \<open>Calls\<close>

lemma owed_passString [owed_simps]: "owed (snd (passString g s w)) = owed w"
  by (simp add: passString_def split_beta owed_simps split: option.split list.split)

lemma owed_pass_strings [owed_simps]: "owed (snd (pass_strings g ss args w)) = owed w"
  by (induction ss arbitrary: args w) (simp_all add: split_beta owed_simps split: sum.split)

lemma owed_call_frame [owed_simps]: "owed (snd (call_frame g name args p n w)) = owed w"
  by (simp add: call_frame_def split_beta owed_simps split: option.split)

lemma owed_read_text [owed_simps]: "owed (snd (read_text g p n w)) = owed w"
  by (simp add: read_text_def split: option.split)

lemma owed_unless_failed [owed_simps]:
  "(\<And>w. owed (snd (f w)) = owed w) \<Longrightarrow> owed (snd (unless_failed f w)) = owed w"
  by (simp add: unless_failed_def split: option.split)

lemma owed_with_frame:
  assumes "\<And>p w. owed (snd (body p w)) = owed w"
  shows "owed (snd (with_frame g body w)) = owed w"
proof
  fix r
  show "owed (snd (with_frame g body w)) r = owed w r"
    using owed_stackAlloc [of g w r]
    by (simp add: with_frame_def split_beta owed_simps assms split: sum.split)
qed

lemma owed_string_result [owed_simps]: "owed (snd (string_result g r w)) = owed w"
  by (simp add: string_result_def owed_simps)

lemma owed_callString [owed_simps]: "owed (snd (callString g name vs w)) = owed w"
  unfolding callString_def
  by (subst owed_with_frame) (simp_all add: split_beta owed_simps split: sum.split)

lemma owed_resultString [owed_simps]: "owed (snd (resultString g name p w)) = owed w"
  unfolding resultString_def
  by (rule owed_with_frame) (simp add: split_beta Let_def owed_simps split: sum.split)

lemma owed_object_result:
  "owed (snd (object_result g name args vs p made w)) r =
     owed w r + (case fst (object_result g name args vs p made w) of Err e \<Rightarrow> 0 | Ok q \<Rightarrow> one_object q (made q) r)"
  by (simp add: object_result_def split_beta owed_simps split: sum.split)

lemma owed_infer_result: "owed (snd (infer_result g p w)) = owed w"
  by (simp add: infer_result_def headers_of_result_def split_beta Let_def owed_simps split: sum.split option.split list.split jsval.split)

lemma owed_prepareInfer [owed_simps]: "owed (snd (prepareInfer g ctx e b k m w)) = owed w"
proof -
  have "owed (snd (case object_result g n [ctx] vs p RequestResult w of (Err e, w) \<Rightarrow> (Err e, w)
      | (Ok q, w) \<Rightarrow> cleaning (freeRequestResult g q) (unless_failed (infer_result g q) w))) r = owed w r" for n vs p w r
    using owed_object_result [of g n "[ctx]" vs p RequestResult w r]
    by (simp add: split_beta owed_simps owed_infer_result split: sum.split)
  then show ?thesis unfolding prepareInfer_def by (subst owed_with_frame) (simp_all add: fun_eq_iff)
qed

section \<open>The verification\<close>

text \<open>An export that never traps.\<close>

definition always_returns :: "'m guest \<Rightarrow> string \<Rightarrow> nat list \<Rightarrow> bool" where
  "always_returns g name args \<longleftrightarrow> (\<forall>w. fst (call_export g name args w) \<noteq> None)"

lemma stackFree_None: "always_returns g stack_export [16] \<Longrightarrow> fst (stackFree g w) = None"
  by (simp add: stackFree_def split_beta always_returns_def split: option.split)

lemma freeContext_None: "always_returns g ''__wbg_qodercontext_free'' [p, 0] \<Longrightarrow> fst (freeContext g p w) = None"
  by (simp add: freeContext_def split_beta always_returns_def split: option.split)

lemma owed_frame_result:
  assumes "always_returns g stack_export [16]"
    and "\<And>p w. owed (snd (body p w)) = (\<lambda>r. owed w r + (case fst (body p w) of Err e \<Rightarrow> 0 | Ok v \<Rightarrow> debt v r))"
  shows "owed (snd (with_frame g body w)) =
    (\<lambda>r. owed w r + (case fst (with_frame g body w) of Err e \<Rightarrow> 0 | Ok v \<Rightarrow> debt v r))"
proof
  fix r
  show "owed (snd (with_frame g body w)) r =
      owed w r + (case fst (with_frame g body w) of Err e \<Rightarrow> 0 | Ok v \<Rightarrow> debt v r)"
    using owed_stackAlloc [of g w r] assms(2)
    by (simp add: with_frame_def cleaning_def split_beta owed_simps stackFree_None [OF assms(1)] split: sum.split)
qed

lemma owed_newContext:
  assumes "always_returns g stack_export [16]"
  shows "owed (snd (newContext g i v u sc w)) =
    (\<lambda>r. owed w r + (case fst (newContext g i v u sc w) of Err e \<Rightarrow> 0 | Ok p \<Rightarrow> one_object p (Context p) r))"
  unfolding newContext_def
proof (subst owed_frame_result [OF assms, where debt = "\<lambda>p. one_object p (Context p)"])
  fix p w
  show "owed (snd (case object_result g ''qodercontext_new'' [] [i, v, u, sc] p Context w of (Err e, w) \<Rightarrow> (Err e, w)
        | (Ok q, w) \<Rightarrow> (case wb_hostFail w of Some e \<Rightarrow> (Err e, if q \<noteq> 0 then snd (freeContext g q w) else w) | None \<Rightarrow> (Ok q, w)))) =
      (\<lambda>r. owed w r + (case fst (case object_result g ''qodercontext_new'' [] [i, v, u, sc] p Context w of (Err e, w) \<Rightarrow> (Err e, w)
        | (Ok q, w) \<Rightarrow> (case wb_hostFail w of Some e \<Rightarrow> (Err e, if q \<noteq> 0 then snd (freeContext g q w) else w) | None \<Rightarrow> (Ok q, w))) of
          Err e \<Rightarrow> 0 | Ok q \<Rightarrow> one_object q (Context q) r))"
    using owed_object_result [of g "''qodercontext_new''" "[]" "[i, v, u, sc]" p Context w]
    by (auto simp: fun_eq_iff split_beta owed_simps one_object_def split: sum.split option.split)
qed simp

lemma owed_compared [owed_simps]: "owed (snd (infer_compared g fw i want ctx w)) = owed w"
  by (simp add: infer_compared_def split_beta owed_simps split: sum.split option.split)

lemma owed_with_context:
  assumes "\<And>p. always_returns g ''__wbg_qodercontext_free'' [p, 0]"
  shows "owed (snd (infer_with_context g fw i want ctx w)) = (\<lambda>r. owed w r - one_object ctx (Context ctx) r)"
  by (simp add: infer_with_context_def split_beta owed_simps freeContext_None [OF assms] one_object_def split: option.split)

lemma owed_begun:
  assumes "always_returns g stack_export [16]" "\<And>p. always_returns g ''__wbg_qodercontext_free'' [p, 0]"
  shows "owed (snd (infer_begun g fw i want user scene w)) = owed w"
  by (simp add: infer_begun_def split_beta owed_newContext [OF assms(1)] owed_with_context [OF assms(2)] split: sum.split)

lemma owed_conclude: "owed (fst (snd (conclude same e line v))) = owed (fst v)"
  by (simp add: conclude_def split_beta split: option.split)

lemma owed_steps:
  "(\<And>f v. f \<in> set fs \<Longrightarrow> owed (fst (snd (f v))) = owed (fst v)) \<Longrightarrow> owed (fst (snd (run_steps fs v))) = owed (fst v)"
  by (induction fs arbitrary: v) (simp_all add: split_beta split: option.split)

lemma owed_strings:
  "owed (fst (snd (verify_credential g f v))) = owed (fst v)" "owed (fst (snd (verify_runtime g f v))) = owed (fst v)"
  "owed (fst (snd (verify_model g f v))) = owed (fst v)"
  by (simp_all add: verify_credential_def verify_runtime_def verify_model_def split_beta Let_def owed_conclude owed_simps
      split: sum.split)

lemma owed_infer:
  assumes "always_returns g stack_export [16]" "\<And>p. always_returns g ''__wbg_qodercontext_free'' [p, 0]"
  shows "owed (fst (snd (verifyInferFixture g fw f n v))) = owed (fst v)"
  by (simp add: verifyInferFixture_def split_beta Let_def owed_begun [OF assms] split: sum.split option.split)


text \<open>A module of which nothing else works: the first string passed to it ends the verification.\<close>

definition broken_guest :: "unit guest" where
  "broken_guest = \<lparr>gu_compiles = (\<lambda>s. True), gu_hosts = True, gu_instantiate = (\<lambda>s. Some ()), gu_memory = (\<lambda>m. True),
     gu_exports = (\<lambda>m n. True), gu_read = (\<lambda>m p n. None), gu_write = (\<lambda>m p d. Some m),
     gu_call = (\<lambda>name args m. Returns
        (if name = stack_export \<or> name = ''__wbg_qodercontext_free'' then Some [64] else None) m)\<rparr>"

definition empty_backend :: "unit wasmBackend" where
  "empty_backend = \<lparr>wb_mem = (), wb_heap = initial_heap, wb_heapNext = first_handle, wb_maps = [], wb_arrays = [],
     wb_replay = None, wb_hostFail = None,
     wb_accounting = \<lparr>fa_ResultStrings = 0, fa_Contexts = 0, fa_RequestResults = 0\<rparr>, wb_taken = [], wb_freed = []\<rparr>"

definition plain_fixture :: fixtureDocument where
  "plain_fixture = zero_document\<lparr>fd_Input := Some (DObj [] [])\<rparr>"

definition sample_fixtures :: fixtureSet where
  "sample_fixtures = [(''credential.json'', plain_fixture)]"

definition plain_world :: fixtureWorld where
  "plain_world = \<lparr>fw_Lstat = (\<lambda>p. None), fw_ReadDir = (\<lambda>p. None), fw_Open = (\<lambda>p. None), fw_order = id,
     fw_range = id, fw_lower = id\<rparr>"

lemma broken_returns:
  "always_returns broken_guest stack_export [16]" "always_returns broken_guest ''__wbg_qodercontext_free'' [p, 0]"
  by (simp_all add: always_returns_def call_export_def broken_guest_def stack_export_def)


section \<open>Comparing headers\<close>

text \<open>
  The comparison looks an expected name up among the actual ones and takes a missing one for the
  empty string, so a header that was not sent passes for one expected to be empty.
\<close>

lemma missing_header_accepted:
  "equalHeaders plain_world [(''X-Sent'', ''value'')] [(''X-Expected'', [[]])]"
  by (simp add: equalHeaders_def plain_world_def)

end
