(* ===== verification/Spec2Isabelle.thy ===== *)
theory Spec2Isabelle
  imports Convert_Props Anthropic_Agree Model_Resolver_Props Openai_Props Responses_Props Retry Local_Guard Native_Context Runtime_Fields_Props Credential Model_Cache Auth_Props
    Auth_Restart Gateway Upstream_Requests Server_Props App_Life_Props Oracle_Props
begin

text \<open>
  Verification of the Qoder model gateway.

  The program. The gateway is a local HTTP server that speaks three client protocols (Anthropic
  messages, OpenAI chat completions, OpenAI responses) and turns every request into one streaming
  request to the Qoder service. Its parts, and how they meet:

  A request comes through the guard of the local mode (\<open>native_local.go\<close>), the admission gate
  (\<open>app.go\<close>) and the API key check to its handler (\<open>proxy.go\<close>, \<open>openai.go\<close>, \<open>responses.go\<close>). The
  handler resolves the model name against the catalogue (\<open>main.go\<close>, \<open>proxy.go\<close>,
  \<open>model_context.go\<close>), converts the request (\<open>convert.go\<close>, \<open>responses.go\<close>), builds the upstream
  body and calls the upstream with retries (\<open>proxy.go\<close>). A call is prepared by the manager of
  \<open>auth.go\<close>, which holds the credentials, keeps their token fresh, stores them encrypted, and owns
  one protocol context (\<open>native_context.go\<close>) that signs and encodes the request
  (\<open>native_infer.go\<close>, \<open>native_body_codec.go\<close>, \<open>native_runtime_fields.go\<close>, \<open>native_uuid.go\<close>). The
  answer is a stream of server-sent events, read by \<open>readSSE\<close> and handed chunk by chunk either to
  the streaming writer of the protocol or to its collector. \<open>run\<close> (\<open>app.go\<close>) starts and ends all
  of it.

  Conventions. A Go string or byte slice is an Isabelle \<open>string\<close>, a list of bytes. A struct is a
  record whose selectors carry a two-letter prefix, a nil-able pointer an option, an \<open>int64\<close> that
  may overflow an \<open>int\<close> passed through \<open>wrap64\<close>, a word of a cipher or hash a \<open>w word\<close>. A function
  that may fail returns \<open>Ok\<close> or \<open>Err\<close> (\<open>Prelude\<close>), or the pair of an error and the new state where
  the code changes state before it fails. Errors are the trees of \<open>Protocol_Error\<close>, so that what
  \<open>errors.Is\<close> and \<open>errors.Join\<close> do to them is computed.

  What is outside. The outside is an argument, never an axiom. \<open>auth_world\<close> (fields \<open>aw_\<close>) answers for
  the file system, the clock, the network and the entropy the manager meets, each call numbered by
  a counter in the state so that two calls may be answered differently; \<open>server_world\<close> (\<open>sw_\<close>) and
  \<open>upstream_world\<close> (\<open>uw_\<close>) answer for what the handlers and the upstream call meet: the upstream's
  body and where it breaks off, fresh identifiers, whether a wait is cancelled, \<open>url.Parse\<close>, error
  texts of \<open>encoding/json\<close>, the float arithmetic of \<open>time.ParseDuration\<close>. Properties hold for every such world;
  where one needs an honest answer it says so as a hypothesis, and a witness instantiates it.

  Of the standard library the source uses, these parts are modelled, and the models were compared
  with the recorded protocol fixtures (\<open>src/testdata/protocol/1.1.34\<close>) by evaluation:
    \<open>Go_Strings\<close>, \<open>Go_Path\<close>, \<open>Go_Time\<close> (RFC 3339), \<open>Go_Base64\<close> (any alphabet; the interface
    \<open>base64_alphabet\<close>), \<open>Go_Json\<close> (scanner, parser, struct decoding with folded names, marshalling),
    \<open>Aes\<close>, \<open>Block_Modes\<close> (CBC over the interface \<open>block_cipher\<close>), \<open>Gcm\<close> (the interface \<open>aead\<close>),
    \<open>Hashes\<close> (SHA-256, HMAC, HKDF, MD5), \<open>Rsa\<close>; the \<open>flag\<close> package in \<open>App_Config\<close>, the literal
    patterns of \<open>http.ServeMux\<close> in \<open>Server\<close>.
  \<open>Json_Round\<close> and \<open>Json_Documents\<close> show that the parser reads what marshalling writes.

  Theory by theory (code; definitions; lemmas):
  \<^item> \<open>Prelude\<close>: results, \<open>wrap64\<close>, generic lemmas. \<open>Native_Local\<close>: the compiled-in mode.
  \<^item> \<open>Chat_Types\<close>, \<open>Convert\<close>, \<open>Convert_Props\<close>: \<open>convert.go\<close>, requests with their decoders and their
    conversion. No tool call or result is lost or renamed, results follow their calls, the cache
    marker lands on one part, and exactly the malformed documents are refused.
  \<^item> \<open>Sse\<close>, \<open>Upstream_Chunk\<close>: \<open>readSSE\<close> and the chunks. Frames written are frames read. The interface
    \<open>frame_consumer\<close>, extended by \<open>chunk_reader\<close>, is how every handler reads a body; its lemmas turn a
    handler into a fold over chunks and are used by \<open>Anthropic_Stream_Props\<close>, \<open>Anthropic_Collect\<close>
    and \<open>Openai_Props\<close>.
  \<^item> \<open>Anthropic_Stream\<close> with its \<open>_Props\<close>, \<open>Anthropic_Collect\<close>, \<open>Anthropic_Agree\<close>: the two answers to
    \<open>/v1/messages\<close>. Every event stream follows the protocol's grammar, its deltas are the
    upstream's in order, and streaming and collecting say the same.
  \<^item> \<open>Openai\<close>, \<open>Openai_Props\<close>: upstream bodies and chat completions; re-indexed tool calls stay apart,
    and a client that accumulates the stream gets the collected answer.
  \<^item> \<open>Responses\<close>, \<open>Responses_Stream\<close>, \<open>Responses_Props\<close>: the responses protocol. A checking automaton
    states the event protocol, and every stream passes it.
  \<^item> \<open>Model_Context\<close>, \<open>Model_Resolver\<close>, \<open>Model_Resolver_Props\<close>: windows, catalogue, resolver.
  \<^item> \<open>Local_Guard\<close>, \<open>Replies\<close>: the guard, the API key, the admission gate, sessions, error replies.
  \<^item> \<open>Protocol_Error\<close>, \<open>Protocol_Types\<close>, \<open>Protocol_Services\<close>: the errors, data and host of the
    protocol, the bundle of services and its \<open>Close\<close>.
  \<^item> \<open>Uuid\<close>, \<open>Body_Codec\<close>, \<open>Codec_Helpers\<close>, \<open>Credential\<close>, \<open>Model_Cache\<close>: the codecs, each with its
    round trip and its errors. \<open>Runtime_Fields\<close> with its \<open>_Props\<close>: the encrypted user information and
    what its receiver can read from it.
  \<^item> \<open>Infer\<close>, \<open>Native_Context\<close>: the signed request, and the life of a context against a two-state
    specification.
  \<^item> \<open>Auth_State\<close>, \<open>Auth_Store\<close>, \<open>Auth_Context\<close>, \<open>Auth_Refresh\<close>, \<open>Auth_Login\<close>: the manager of \<open>auth.go\<close>,
    its file, its context, the refresh, the logins. \<open>Auth_Invariants\<close> has the step relation of its
    operations (\<open>auth_step\<close>) and what every step keeps; \<open>Auth_Props\<close> the properties of all reachable
    states; \<open>Auth_Restart\<close> that the next process loads what this one saved.
  \<^item> \<open>Retry\<close>, \<open>Gateway\<close>: the retry loop over a given environment, and the same loop composed with the
    manager; the second refines the first. \<open>Upstream_Requests\<close>: loop, manager and native context
    together, every request sent can be checked by its receiver. \<open>Server\<close>, \<open>Server_Props\<close>: routing
    and the handlers end to end, who reaches the upstream, and what a failure tells a client.
  \<^item> \<open>App_Config\<close>, \<open>App_Run\<close>, \<open>App_Life\<close>, \<open>App_Life_Props\<close>: the command line, the sequential part of
    \<open>run\<close>, and its concurrent part as a step relation over the main goroutine, the ticker, the
    shutdown goroutine and the handlers; however they interleave, the run ends with everything
    closed once.
  \<^item> \<open>Oracle_Replay\<close>, \<open>Oracle_Json\<close>, \<open>Oracle_Policy\<close>, \<open>Oracle_Fixture\<close>, \<open>Oracle_Host\<close>, \<open>Oracle_Handles\<close>,
    \<open>Oracle_Imports\<close>, \<open>Oracle_Backend\<close>, \<open>Oracle_Verify\<close>, \<open>Oracle_Props\<close>: \<open>tools/wasm_oracle\<close>, the command that
    checks the recorded fixtures and replays them in the vendor's WebAssembly module. The module and
    its runtime are the parameter \<open>guest\<close>: between two calls of a host function a module is any
    computation on an unknown state (\<open>activity\<close>, an interaction tree). The replay answers exactly
    the expected questions; the handle table meets the contract \<open>handle_table\<close>; whatever the module
    does, everything it hands out is given back.
  Bounds and termination. Recursions are structural, or have a measure (JSON nesting is bounded by
  10000 as in the library). Two loops of the code may not end and are \<open>partial_function (option)\<close>: the polling of the
  device login, and the redrawing of a zero padding byte; for both a property or lemma shows that they return under
  an honest clock or entropy source. The retry loop runs over the list of its at most four
  attempts. \<open>run_can_end\<close> gives a path to the end in a number of steps bounded by the phases left and
  the active requests.

  Granularity. Every access of the code to shared state is under a mutex, an atomic or a channel; a
  manager operation is one step, because it holds the manager's mutex throughout.

  Not modelled, and why: the middleware that logs requests, the status recorder and the dumps of
  failed requests (they only write what others computed); the texts of two log lines of the
  catalogue; float rounding in \<open>ParseDuration\<close> and JSON numbers (a parameter, or kept as the literal); the
  memory model beneath the mutexes; the scripts under \<open>tools\<close>, \<open>scripts\<close> and \<open>tests\<close>, and the tests.
\<close>

end
